(* ===== verification/Lotl_Prelude.thy ===== *)
theory Lotl_Prelude
  imports Main "HOL-Library.Word" "HOL-Library.Multiset"
begin

text \<open>
  The prelude of the development: machine integers, the outcome type that makes every
  \<^verbatim>\<open>Err\<close>, \<^verbatim>\<open>?\<close> and panic of the Rust code a value, the sequencing combinators that
  stand for \<^verbatim>\<open>?\<close> and \<^verbatim>\<open>map_err\<close>, Rust's overflow-checked arithmetic, and the generic lemmas on
  keyed row lists and hash maps that all storage components share.
\<close>

section \<open>Machine integers and bytes\<close>

type_synonym u8 = "8 word"
type_synonym u32 = "32 word"
type_synonym u64 = "64 word"
type_synonym bytes = "u8 list"

section \<open>Outcomes\<close>

text \<open>
  A Rust computation returns \<open>Ok\<close>, returns \<open>Err\<close>, or panics. State is passed explicitly,
  so a method of type \<open>&mut self -> Result<T, E>\<close> is a function
  \<open>'s \<Rightarrow> ('e, 'a) outcome \<times> 's\<close>.
\<close>

datatype ('e, 'a) outcome = Ok 'a | Err 'e | Panic string

named_theorems outcome_simps \<open>evaluation of sequenced computations\<close>

fun and_then :: "('e, 'a) outcome \<times> 's \<Rightarrow> ('a \<Rightarrow> 's \<Rightarrow> ('e, 'b) outcome \<times> 's)
    \<Rightarrow> ('e, 'b) outcome \<times> 's" where
  "and_then (Ok a, s) k = k a s"
| "and_then (Err e, s) k = (Err e, s)"
| "and_then (Panic m, s) k = (Panic m, s)"

fun map_err :: "('e \<Rightarrow> 'f) \<Rightarrow> ('e, 'a) outcome \<times> 's \<Rightarrow> ('f, 'a) outcome \<times> 's" where
  "map_err f (Ok a, s) = (Ok a, s)"
| "map_err f (Err e, s) = (Err (f e), s)"
| "map_err f (Panic m, s) = (Panic m, s)"

text \<open>\<^verbatim>\<open>Result::ok\<close>: the error is dropped; a panic still unwinds.\<close>

fun ok_of :: "('e, 'a) outcome \<times> 's \<Rightarrow> ('f, 'a option) outcome \<times> 's" where
  "ok_of (Ok a, s) = (Ok (Some a), s)"
| "ok_of (Err e, s) = (Ok None, s)"
| "ok_of (Panic m, s) = (Panic m, s)"

text \<open>\<^verbatim>\<open>Result::unwrap\<close>: an error becomes a panic.\<close>

fun unwrap_o :: "string \<Rightarrow> ('e, 'a) outcome \<times> 's \<Rightarrow> ('f, 'a) outcome \<times> 's" where
  "unwrap_o m (Ok a, s) = (Ok a, s)"
| "unwrap_o m (Err e, s) = (Panic m, s)"
| "unwrap_o m (Panic m', s) = (Panic m', s)"

text \<open>\<^verbatim>\<open>Result::unwrap_or\<close>.\<close>

fun unwrap_or_o :: "'a \<Rightarrow> ('e, 'a) outcome \<times> 's \<Rightarrow> ('f, 'a) outcome \<times> 's" where
  "unwrap_or_o d (Ok a, s) = (Ok a, s)"
| "unwrap_or_o d (Err e, s) = (Ok d, s)"
| "unwrap_or_o d (Panic m, s) = (Panic m, s)"

definition is_ok :: "('e, 'a) outcome \<Rightarrow> bool" where
  "is_ok r = (case r of Ok _ \<Rightarrow> True | _ \<Rightarrow> False)"

lemma is_ok_simps [simp]: "is_ok (Ok a)" "\<not> is_ok (Err e)" "\<not> is_ok (Panic m)"
  by (simp_all add: is_ok_def)

lemma and_then_Ok_conv:
  "and_then r k = (Ok b, s'') \<longleftrightarrow> (\<exists>a s'. r = (Ok a, s') \<and> k a s' = (Ok b, s''))"
  by (cases r; cases "fst r") auto

lemma map_err_Ok_conv: "map_err f r = (Ok a, s) \<longleftrightarrow> r = (Ok a, s)"
  by (cases r; cases "fst r") auto

lemma and_then_assoc:
  "and_then (and_then r k) l = and_then r (\<lambda>a s. and_then (k a s) l)"
  by (cases r; cases "fst r") auto

text \<open>The same sequencing for computations that touch no state.\<close>

fun obind :: "('e, 'a) outcome \<Rightarrow> ('a \<Rightarrow> ('e, 'b) outcome) \<Rightarrow> ('e, 'b) outcome" where
  "obind (Ok a) k = k a"
| "obind (Err e) k = Err e"
| "obind (Panic m) k = Panic m"

fun omap_err :: "('e \<Rightarrow> 'f) \<Rightarrow> ('e, 'a) outcome \<Rightarrow> ('f, 'a) outcome" where
  "omap_err f (Ok a) = Ok a"
| "omap_err f (Err e) = Err (f e)"
| "omap_err f (Panic m) = Panic m"

lemma map_err_pure: "map_err f (r, s) = (omap_err f r, s)"
  by (cases r) simp_all

lemma obind_Ok_conv: "obind r k = Ok b \<longleftrightarrow> (\<exists>a. r = Ok a \<and> k a = Ok b)"
  by (cases r) simp_all

text \<open>Where a sequenced computation stops: at its first part, or in its continuation.\<close>

lemma and_then_cases:
  assumes "and_then x k = (r, s')"
  obtains (stops) r0 where "x = (r0, s')" "\<not> is_ok r0" "\<not> is_ok r"
  | (goes) a s1 where "x = (Ok a, s1)" "k a s1 = (r, s')"
proof (cases x)
  case (Pair r0 s0)
  with assms stops goes show ?thesis by (cases r0) auto
qed

lemma map_err_cases:
  assumes "map_err f x = (r, s')"
  obtains r0 where "x = (r0, s')" "r = omap_err f r0"
  using assms by (cases x) (auto simp: map_err_pure)

lemma is_ok_omap_err [simp]: "is_ok (omap_err f r) = is_ok r"
  by (cases r) simp_all

lemma is_ok_iff: "is_ok r \<longleftrightarrow> (\<exists>a. r = Ok a)"
  by (cases r) simp_all

lemma omap_err_Ok_conv [simp]: "omap_err f r = Ok a \<longleftrightarrow> r = Ok a" "Ok a = omap_err f r \<longleftrightarrow> r = Ok a"
  by (cases r; auto)+

lemma snd_map_err [simp]: "snd (map_err f r) = snd r"
  by (cases r; cases "fst r") auto

section \<open>Rust arithmetic\<close>

text \<open>
  The operators \<open>+\<close> and \<open>-\<close> on Rust integers panic on overflow when the crate is built with
  overflow checks (the default of the dev and test profiles) and wrap around otherwise (the
  default of the release profile). The flag \<open>oc\<close> says which build is meant.
\<close>

definition add_u32 :: "bool \<Rightarrow> u32 \<Rightarrow> u32 \<Rightarrow> ('e, u32) outcome" where
  "add_u32 oc a b =
     (if oc \<and> unat a + unat b \<ge> 2 ^ 32 then Panic ''attempt to add with overflow''
      else Ok (a + b))"

definition sub_u64 :: "bool \<Rightarrow> u64 \<Rightarrow> u64 \<Rightarrow> ('e, u64) outcome" where
  "sub_u64 oc a b =
     (if oc \<and> a < b then Panic ''attempt to subtract with overflow'' else Ok (a - b))"

lemma add_u32_fits: "unat a + unat b < 2 ^ 32 \<Longrightarrow> add_u32 oc a b = Ok (a + b)"
  by (simp add: add_u32_def)

lemma sub_u64_fits: "b \<le> a \<Longrightarrow> sub_u64 oc a b = Ok (a - b)"
  by (auto simp: sub_u64_def not_less)

lemma unat_add_fits: "unat (a :: u32) + unat b < 2 ^ 32 \<Longrightarrow> unat (a + b) = unat a + unat b"
  by (simp add: unat_word_ariths)

lemma unat_u32_fits: "n < 2 ^ 32 \<Longrightarrow> unat (word_of_nat n :: u32) = n"
  by (simp add: unat_of_nat take_bit_nat_eq_self)

lemma unat_sub_fits: "b \<le> (a :: u64) \<Longrightarrow> unat (a - b) = unat a - unat b"
  by (rule unat_sub)

section \<open>Keyed rows\<close>

text \<open>
  A table whose primary key is \<open>k\<close> is a list of rows with distinct keys. \<open>row_upsert\<close> is
  \<^verbatim>\<open>INSERT OR REPLACE\<close>, \<open>row_delete\<close> is \<^verbatim>\<open>DELETE ... WHERE key = x\<close>, \<open>row_update\<close> is
  \<^verbatim>\<open>UPDATE ... WHERE\<close>, and \<open>find_row\<close> reads the row with a key.
\<close>

named_theorems row_simps \<open>lookups, keys and sizes of tables after an operation\<close>

definition find_row :: "('r \<Rightarrow> 'k) \<Rightarrow> 'k \<Rightarrow> 'r list \<Rightarrow> 'r option" where
  "find_row k x rows = find (\<lambda>r. k r = x) rows"

definition row_upsert :: "('r \<Rightarrow> 'k) \<Rightarrow> 'r \<Rightarrow> 'r list \<Rightarrow> 'r list" where
  "row_upsert k r rows = filter (\<lambda>r'. k r' \<noteq> k r) rows @ [r]"

definition row_delete :: "('r \<Rightarrow> 'k) \<Rightarrow> 'k \<Rightarrow> 'r list \<Rightarrow> 'r list" where
  "row_delete k x rows = filter (\<lambda>r. k r \<noteq> x) rows"

definition row_update :: "('r \<Rightarrow> bool) \<Rightarrow> ('r \<Rightarrow> 'r) \<Rightarrow> 'r list \<Rightarrow> 'r list" where
  "row_update P f rows = map (\<lambda>r. if P r then f r else r) rows"

definition keys_distinct :: "('r \<Rightarrow> 'k) \<Rightarrow> 'r list \<Rightarrow> bool" where
  "keys_distinct k rows = distinct (map k rows)"

lemma find_row_Nil [simp]: "find_row k x [] = None"
  by (simp add: find_row_def)

lemma find_row_Cons: "find_row k x (r # rows) = (if k r = x then Some r else find_row k x rows)"
  by (simp add: find_row_def)

lemma find_row_append:
  "find_row k x (xs @ ys) = (case find_row k x xs of None \<Rightarrow> find_row k x ys | Some r \<Rightarrow> Some r)"
  by (induction xs) (auto simp: find_row_Cons)

lemma find_row_filter_other:
  "find_row k x (filter (\<lambda>r. k r \<noteq> y) rows) = (if x = y then None else find_row k x rows)"
  by (induction rows) (auto simp: find_row_Cons)

lemma find_row_key: "find_row k x rows = Some r \<Longrightarrow> k r = x \<and> r \<in> set rows"
  by (induction rows) (auto simp: find_row_Cons split: if_splits)

lemma find_row_None_iff: "find_row k x rows = None \<longleftrightarrow> x \<notin> k ` set rows"
  by (induction rows) (auto simp: find_row_Cons)

lemma find_row_in:
  "keys_distinct k rows \<Longrightarrow> r \<in> set rows \<Longrightarrow> find_row k (k r) rows = Some r"
  by (induction rows) (auto simp: find_row_Cons keys_distinct_def image_iff)

lemma find_row_Some_iff:
  "keys_distinct k rows \<Longrightarrow> find_row k x rows = Some r \<longleftrightarrow> r \<in> set rows \<and> k r = x"
  using find_row_key find_row_in by metis

lemma find_row_upsert [row_simps]:
  "find_row k x (row_upsert k r rows) = (if x = k r then Some r else find_row k x rows)"
  by (auto simp: row_upsert_def find_row_append find_row_filter_other find_row_Cons
      split: option.splits)

lemma find_row_delete [row_simps]:
  "find_row k x (row_delete k y rows) = (if x = y then None else find_row k x rows)"
  by (simp add: row_delete_def find_row_filter_other)

lemma find_row_update [row_simps]:
  assumes "\<And>r. k (f r) = k r"
  shows "find_row k x (row_update P f rows) =
    map_option (\<lambda>r. if P r then f r else r) (find_row k x rows)"
  by (induction rows) (auto simp: row_update_def find_row_Cons assms)

text \<open>An update of the rows with one key.\<close>

lemma row_update_find:
  assumes "\<And>r. k (f r) = k r"
  shows "find_row k x (row_update (\<lambda>r. k r = y) f rows) =
    (if x = y then map_option f (find_row k x rows) else find_row k x rows)"
  by (induction rows) (auto simp: row_update_def find_row_Cons assms)

lemma distinct_map_filter_key: "distinct (map k rows) \<Longrightarrow> distinct (map k (filter P rows))"
  by (induction rows) auto

lemma keys_distinct_Nil [simp]: "keys_distinct k []"
  by (simp add: keys_distinct_def)

lemma keys_distinct_filter: "keys_distinct k rows \<Longrightarrow> keys_distinct k (filter P rows)"
  by (simp add: keys_distinct_def distinct_map_filter_key)

lemma keys_distinct_upsert [row_simps, intro]:
  "keys_distinct k rows \<Longrightarrow> keys_distinct k (row_upsert k r rows)"
  by (auto simp: keys_distinct_def row_upsert_def distinct_map_filter_key)

lemma keys_distinct_delete [row_simps, intro]:
  "keys_distinct k rows \<Longrightarrow> keys_distinct k (row_delete k x rows)"
  by (simp add: keys_distinct_filter row_delete_def)

lemma map_key_update:
  "(\<And>r. k (f r) = k r) \<Longrightarrow> map k (row_update P f rows) = map k rows"
  by (induction rows) (auto simp: row_update_def)

lemma keys_distinct_update:
  "(\<And>r. k (f r) = k r) \<Longrightarrow> keys_distinct k rows \<Longrightarrow> keys_distinct k (row_update P f rows)"
  by (simp add: keys_distinct_def map_key_update)

text \<open>A table with two keys: what a change by one key does to a look-up by the other.\<close>

lemma find_by_other_key:
  assumes "keys_distinct k rows" "keys_distinct k' rows" "r \<in> set rows" "find_row k' x rows = Some q"
  shows "k q = k r \<longleftrightarrow> x = k' r"
  using assms find_row_key [OF assms(4)] find_row_in [of k rows] find_row_in [of k' rows]
  by (metis option.inject)

lemma update_by_other_key:
  assumes "keys_distinct k rows" "keys_distinct k' rows" "r \<in> set rows" "\<And>q. k' (f q) = k' q"
  shows "find_row k' x (row_update (\<lambda>q. k q = k r) f rows) =
    (if x = k' r then Some (f r) else find_row k' x rows)"
  using find_by_other_key [OF assms(1-3), of x] find_row_in [OF assms(2,3)]
  by (cases "find_row k' x rows") (auto simp: find_row_update assms(4))

lemma find_row_filter:
  assumes "keys_distinct k rows"
  shows "find_row k x (filter P rows) =
    (case find_row k x rows of Some q \<Rightarrow> if P q then Some q else None | None \<Rightarrow> None)"
  using assms
proof (induction rows)
  case (Cons a rows)
  then have "find_row k (k a) rows = None" by (simp add: keys_distinct_def find_row_None_iff)
  moreover from this have "find_row k (k a) (filter P rows) = None" by (auto simp: find_row_None_iff)
  ultimately show ?case using Cons by (auto simp: find_row_Cons keys_distinct_def)
qed simp

lemma delete_by_other_key:
  assumes "keys_distinct k rows" "keys_distinct k' rows" "r \<in> set rows"
  shows "find_row k' x (row_delete k (k r) rows) = (if x = k' r then None else find_row k' x rows)"
  using find_by_other_key [OF assms, of x] find_row_in [OF assms(2,3)]
  by (auto simp: row_delete_def find_row_filter [OF assms(2)] split: option.splits)

lemma keys_distinct_append_fresh:
  "keys_distinct k rows \<Longrightarrow> k r \<notin> k ` set rows \<Longrightarrow> keys_distinct k (rows @ [r])"
  by (auto simp: keys_distinct_def)

lemma set_upsert [row_simps]:
  "set (row_upsert k r rows) = insert r {r' \<in> set rows. k r' \<noteq> k r}"
  by (auto simp: row_upsert_def)

lemma set_delete [row_simps]: "set (row_delete k x rows) = {r \<in> set rows. k r \<noteq> x}"
  by (auto simp: row_delete_def)

lemma keys_upsert: "k ` set (row_upsert k r rows) = insert (k r) (k ` set rows)"
  by (auto simp: set_upsert)

lemma keys_delete: "k ` set (row_delete k x rows) = k ` set rows - {x}"
  by (auto simp: set_delete)

lemma length_keys: "keys_distinct k rows \<Longrightarrow> length rows = card (k ` set rows)"
  by (metis distinct_card keys_distinct_def length_map list.set_map)

section \<open>Hash maps\<close>

text \<open>
  A Rust \<^verbatim>\<open>HashMap\<close> is an association list with distinct keys; the row lemmas apply to it with
  \<open>fst\<close> as the key. The order of the list carries no meaning: where the code iterates over a
  map, the order is a parameter of the model.
\<close>

type_synonym ('k, 'v) hashmap = "('k \<times> 'v) list"

definition hm_get :: "('k, 'v) hashmap \<Rightarrow> 'k \<Rightarrow> 'v option" where
  "hm_get m k = map_option snd (find_row fst k m)"

definition hm_insert :: "'k \<Rightarrow> 'v \<Rightarrow> ('k, 'v) hashmap \<Rightarrow> ('k, 'v) hashmap" where
  "hm_insert k v m = row_upsert fst (k, v) m"

definition hm_remove :: "'k \<Rightarrow> ('k, 'v) hashmap \<Rightarrow> ('k, 'v) hashmap" where
  "hm_remove k m = row_delete fst k m"

lemma hm_get_Nil [simp]: "hm_get [] k = None"
  by (simp add: hm_get_def)

lemma hm_get_insert [row_simps]: "hm_get (hm_insert k v m) = (hm_get m)(k \<mapsto> v)"
  by (auto simp: hm_get_def hm_insert_def row_simps fun_eq_iff)

lemma hm_get_remove [row_simps]: "hm_get (hm_remove k m) = (hm_get m)(k := None)"
  by (auto simp: hm_get_def hm_remove_def row_simps fun_eq_iff)

lemma hm_distinct_insert: "keys_distinct fst m \<Longrightarrow> keys_distinct fst (hm_insert k v m)"
  by (simp add: hm_insert_def keys_distinct_upsert)

lemma hm_distinct_remove: "keys_distinct fst m \<Longrightarrow> keys_distinct fst (hm_remove k m)"
  by (simp add: hm_remove_def keys_distinct_delete)

lemma dom_hm_get: "dom (hm_get m) = fst ` set m"
  using find_row_None_iff [of fst _ m] by (auto simp: hm_get_def dom_def image_iff)

lemma hm_get_empty_iff [simp]: "hm_get m = Map.empty \<longleftrightarrow> m = []"
  using dom_hm_get [of m] by (metis dom_eq_empty_conv empty_set image_is_empty set_empty2)

lemma hm_get_inhabited [intro]: "m \<noteq> [] \<Longrightarrow> \<exists>x y. hm_get m x = Some y"
  by (metis hm_get_empty_iff not_None_eq)

lemma length_hashmap: "keys_distinct fst m \<Longrightarrow> length m = card (dom (hm_get m))"
  by (simp add: dom_hm_get length_keys)

lemma hm_get_Some_iff:
  "keys_distinct fst m \<Longrightarrow> hm_get m k = Some v \<longleftrightarrow> (k, v) \<in> set m"
  using find_row_Some_iff [of fst m k] by (auto simp: hm_get_def)

text \<open>
  Visiting the rows of a table or the entries of a map in the order a rank gives, which can be
  any order: no row is lost or doubled.
\<close>

definition visit :: "('k \<Rightarrow> nat) \<Rightarrow> ('r \<Rightarrow> 'k) \<Rightarrow> 'r list \<Rightarrow> 'r list" where
  "visit rank k rows = sort_key (\<lambda>r. rank (k r)) rows"

lemma mset_visit [simp]: "mset (visit rank k rows) = mset rows"
  by (simp add: visit_def)

lemma set_visit [simp]: "set (visit rank k rows) = set rows"
  by (simp add: visit_def)

lemma distinct_keys_visit:
  assumes "keys_distinct k rows"
  shows "distinct (map k (filter P (visit rank k rows)))"
proof -
  have "mset (map k (filter P (visit rank k rows))) = mset (map k (filter P rows))"
    by simp
  moreover have "distinct (map k (filter P rows))"
    using assms by (simp add: keys_distinct_def distinct_map_filter_key)
  ultimately show ?thesis by (metis mset_eq_imp_distinct_iff)
qed

section \<open>Maximum of a column\<close>

text \<open>\<^verbatim>\<open>SELECT MAX(id)\<close> and \<^verbatim>\<open>keys().max()\<close>: no value for no rows.\<close>

fun max_of :: "'a::linorder list \<Rightarrow> 'a option" where
  "max_of [] = None"
| "max_of (x # xs) = Some (fold max xs x)"

lemma max_of_eq: "max_of xs = (if xs = [] then None else Some (Max (set xs)))"
  by (cases xs) (simp_all add: Max.set_eq_fold [symmetric])

section \<open>Decimal numbers\<close>

text \<open>
  The \<open>Display\<close> of an unsigned integer, and the reading of a decimal text as a number that
  SQLite's numeric affinity does.
\<close>

definition digit_char :: "nat \<Rightarrow> char" where
  "digit_char d = char_of (48 + d)"

fun show_nat :: "nat \<Rightarrow> string" where
  "show_nat n = (if n < 10 then [digit_char n] else show_nat (n div 10) @ [digit_char (n mod 10)])"

declare show_nat.simps [simp del]

definition digit_val :: "char \<Rightarrow> nat option" where
  "digit_val c = (let n = of_char c in if 48 \<le> n \<and> n \<le> (57::nat) then Some (n - 48) else None)"

fun read_digits :: "nat \<Rightarrow> string \<Rightarrow> nat option" where
  "read_digits acc [] = Some acc"
| "read_digits acc (c # cs) =
     (case digit_val c of None \<Rightarrow> None | Some d \<Rightarrow> read_digits (10 * acc + d) cs)"

definition read_nat :: "string \<Rightarrow> nat option" where
  "read_nat cs = (if cs = [] then None else read_digits 0 cs)"

lemma digit_val_char: "d < 10 \<Longrightarrow> digit_val (digit_char d) = Some d"
  by (simp add: digit_val_def digit_char_def Let_def)

lemma show_nat_nonempty [simp]: "show_nat n \<noteq> []"
  by (subst show_nat.simps) simp

lemma read_digits_append:
  "read_digits acc (xs @ ys) =
     (case read_digits acc xs of None \<Rightarrow> None | Some a \<Rightarrow> read_digits a ys)"
  by (induction acc xs rule: read_digits.induct) (auto split: option.splits)

lemma read_digits_show: "read_digits 0 (show_nat n) = Some n"
proof (induction n rule: show_nat.induct)
  case (1 n)
  show ?case
  proof (cases "n < 10")
    case True
    then show ?thesis by (simp add: show_nat.simps [of n] digit_val_char)
  next
    case False
    with 1 have "read_digits 0 (show_nat (n div 10)) = Some (n div 10)" by simp
    with False show ?thesis
      by (simp add: show_nat.simps [of n] read_digits_append digit_val_char)
  qed
qed

lemma read_show_nat [simp]: "read_nat (show_nat n) = Some n"
  by (simp add: read_nat_def read_digits_show)

lemma show_nat_inject [simp]: "show_nat m = show_nat n \<longleftrightarrow> m = n"
  using read_show_nat by (metis option.inject)

lemma show_nat_chars: "c \<in> set (show_nat n) \<Longrightarrow> \<exists>d < 10. c = digit_char d"
proof (induction n rule: show_nat.induct)
  case (1 n)
  moreover have "n mod 10 < 10" by simp
  ultimately show ?case
    by (cases "n < 10") (auto simp: show_nat.simps [of n] simp del: mod_less_divisor)
qed

lemma colon_not_digit: "CHR '':'' \<notin> set (show_nat n)"
proof
  assume "CHR '':'' \<in> set (show_nat n)"
  then obtain d where d: "d < 10" "CHR '':'' = digit_char d" using show_nat_chars by blast
  from arg_cong [OF d(2), where f = digit_val] d(1) show False
    by (simp add: digit_val_char) (simp add: digit_val_def)
qed

section \<open>Strings as bytes\<close>

text \<open>A Rust string is the characters of its UTF-8 bytes; \<^verbatim>\<open>as_bytes\<close> reads them as numbers.\<close>

definition as_bytes :: "string \<Rightarrow> bytes" where
  "as_bytes cs = map (\<lambda>c. word_of_nat (of_char c)) cs"

definition bytes_text :: "bytes \<Rightarrow> string" where
  "bytes_text bs = map (\<lambda>b. char_of (unat b)) bs"

lemma bytes_text_as_bytes [simp]: "bytes_text (as_bytes cs) = cs"
  by (induction cs) (simp_all add: bytes_text_def as_bytes_def unat_of_nat take_bit_nat_eq_self)

lemma as_bytes_inject [simp]: "as_bytes a = as_bytes b \<longleftrightarrow> a = b"
  using bytes_text_as_bytes by metis

lemma bytes_text_append [simp]: "bytes_text (a @ b) = bytes_text a @ bytes_text b"
  by (simp add: bytes_text_def)

lemma length_as_bytes [simp]: "length (as_bytes cs) = length cs"
  by (simp add: as_bytes_def)

end
