(* ===== verification/Lotl_Types.thy ===== *)
theory Lotl_Types
  imports Lotl_Prelude
begin

text \<open>
  The data of \<^verbatim>\<open>src/src/types.rs\<close> and \<^verbatim>\<open>src/src/error.rs\<close>: configuration, contact, message and
  conversation records, the maintenance report, and the error types. Errors of third-party
  libraries appear as the values the code can observe: a \<^verbatim>\<open>rusqlite::Error\<close> distinguishes the
  cases the code matches on, and a message built with \<^verbatim>\<open>format!\<close> keeps its literal prefix and the
  error it displays.
\<close>

section \<open>Records of types.rs\<close>

record LotlConfig =
  db_path :: string
  fingerprint_salt :: string
  fingerprint_prefix :: string

definition default_config :: LotlConfig where
  "default_config = \<lparr>db_path = '''',
     fingerprint_salt = ''signal-identity-fingerprint'', fingerprint_prefix = ''''\<rparr>"

record ContactInfo =
  ci_fingerprint :: string
  ci_signal_identity_key :: bytes
  ci_user_alias :: "string option"
  ci_first_seen :: int
  ci_last_updated :: int

datatype MessageDirection = Sent | Received

record ConversationRecord =
  cr_id :: int
  cr_fingerprint :: string
  cr_last_message_timestamp :: int

record MaintenanceResult =
  pre_keys_generated :: u32
  signed_pre_key_rotated :: bool
  kyber_pre_key_rotated :: bool

section \<open>Errors\<close>

text \<open>
  \<open>SqliteFailure\<close> is any failure SQLite itself reports (I/O, busy, corrupt); the code never
  looks inside it.
\<close>

datatype sql_error =
    QueryReturnedNoRows
  | SqliteFailure string
  | NoSuchTable string
  | ConstraintViolation string
  | InvalidColumnType

datatype lotl_error =
    Storage msg
  | SignalProtocol signal_error
  | Database sql_error
  | Serialization string
  | Crypto msg
  | InvalidFingerprint msg
  | InvalidConfig msg
  | KeyNotFound msg
  | ContactNotFound string
  | SessionNotFound string
  | Io string
  | Utf8 string
  | HexDecode string
  | Base64Decode string
  | Json string
and signal_error =
    InvalidState string msg
  | InvalidPreKeyId
  | InvalidSignedPreKeyId
  | InvalidKyberPreKeyId
  | SignalLib string
and db_encryption_error =
    KeyStorage msg
and box_error =
    BoxSignal signal_error
  | BoxSqlite sql_error
  | BoxLotl lotl_error
  | BoxDbKey db_encryption_error
  | BoxTime
and msg =
    Text string
  | FmtSql string sql_error
  | FmtSignal string signal_error
  | FmtText string string
  | ToString box_error

section \<open>The clock\<close>

text \<open>
  \<^verbatim>\<open>SystemTime::now().duration_since(UNIX_EPOCH)\<close>: \<open>None\<close> when the clock reads a time before
  the epoch, else the milliseconds since it. The code reads it as \<^verbatim>\<open>as_millis() as u64\<close> or as
  \<^verbatim>\<open>as_secs() as i64\<close>; both conversions keep the low 64 bits, the second read as signed.
\<close>

type_synonym clock = "nat option"

definition millis_u64 :: "nat \<Rightarrow> u64" where
  "millis_u64 ms = word_of_nat ms"

definition secs_i64 :: "nat \<Rightarrow> int" where
  "secs_i64 ms = sint (word_of_nat (ms div 1000) :: u64)"

definition clock_millis :: "clock \<Rightarrow> (box_error, u64) outcome" where
  "clock_millis now = (case now of None \<Rightarrow> Err BoxTime | Some ms \<Rightarrow> Ok (millis_u64 ms))"

lemma millis_u64_fits: "ms < 2 ^ 64 \<Longrightarrow> unat (millis_u64 ms) = ms"
  by (simp add: millis_u64_def unat_of_nat take_bit_nat_eq_self)

lemma secs_i64_fits: "ms div 1000 < 2 ^ 63 \<Longrightarrow> secs_i64 ms = int (ms div 1000)"
proof -
  assume h: "ms div 1000 < 2 ^ 63"
  then have "int (ms div 1000) < 2 ^ 63" by (metis of_nat_less_iff of_nat_numeral of_nat_power)
  then show ?thesis
    by (simp add: secs_i64_def sint_uint uint_nat unat_of_nat take_bit_nat_eq_self
        signed_take_bit_int_eq_self_iff signed_take_bit_int_eq_self)
qed

end
