(* ===== verification/Storage_Trait.thy ===== *)
theory Storage_Trait
  imports Lotl_Types
begin

text \<open>
  The storage interfaces of \<^verbatim>\<open>src/src/storage_trait.rs\<close> together with the libsignal store traits
  they extend. A Rust trait is a record of operations over a state type (what a generic
  \<^verbatim>\<open>S: SignalStorageContainer\<close> gives the code), and the contract of the trait is a locale: the
  operations, the view of the state as a finite map, and the laws every backend promises.
  \<^verbatim>\<open>Memory_Storage\<close> and \<^verbatim>\<open>Signal_Storage\<close> interpret each locale; \<^verbatim>\<open>Key_Rotation\<close> and the
  session and identity lemmas below are their clients.
\<close>

section \<open>Interfaces\<close>

record ProtocolAddress =
  address_name :: string
  address_device_id :: u8

text \<open>\<^verbatim>\<open>u32::from(address.device_id())\<close>.\<close>

definition device_number :: "ProtocolAddress \<Rightarrow> nat" where
  "device_number a = unat (address_device_id a)"

datatype IdentityChange = NewOrUnchanged | ReplacedExisting

datatype Direction = Sending | Receiving

record ('s, 'sess) session_store =
  load_session :: "ProtocolAddress \<Rightarrow> 's \<Rightarrow> (signal_error, 'sess option) outcome \<times> 's"
  store_session :: "ProtocolAddress \<Rightarrow> 'sess \<Rightarrow> 's \<Rightarrow> (signal_error, unit) outcome \<times> 's"
  session_count :: "'s \<Rightarrow> (box_error, nat) outcome \<times> 's"
  clear_all_sessions :: "'s \<Rightarrow> (box_error, unit) outcome \<times> 's"
  delete_session :: "ProtocolAddress \<Rightarrow> 's \<Rightarrow> (box_error, unit) outcome \<times> 's"

record ('s, 'ikp, 'ik) identity_store =
  get_identity_key_pair :: "'s \<Rightarrow> (signal_error, 'ikp) outcome \<times> 's"
  get_local_registration_id :: "'s \<Rightarrow> (signal_error, u32) outcome \<times> 's"
  save_identity :: "ProtocolAddress \<Rightarrow> 'ik \<Rightarrow> 's \<Rightarrow> (signal_error, IdentityChange) outcome \<times> 's"
  is_trusted_identity :: "ProtocolAddress \<Rightarrow> 'ik \<Rightarrow> Direction \<Rightarrow> 's
    \<Rightarrow> (signal_error, bool) outcome \<times> 's"
  get_identity :: "ProtocolAddress \<Rightarrow> 's \<Rightarrow> (signal_error, 'ik option) outcome \<times> 's"
  identity_count :: "'s \<Rightarrow> (box_error, nat) outcome \<times> 's"
  set_local_identity_key_pair :: "'ikp \<Rightarrow> 's \<Rightarrow> (box_error, unit) outcome \<times> 's"
  set_local_registration_id :: "u32 \<Rightarrow> 's \<Rightarrow> (box_error, unit) outcome \<times> 's"
  get_peer_identity :: "ProtocolAddress \<Rightarrow> 's \<Rightarrow> (box_error, 'ik option) outcome \<times> 's"
  delete_identity :: "ProtocolAddress \<Rightarrow> 's \<Rightarrow> (box_error, unit) outcome \<times> 's"
  clear_all_identities :: "'s \<Rightarrow> (box_error, unit) outcome \<times> 's"
  clear_local_identity :: "'s \<Rightarrow> (box_error, unit) outcome \<times> 's"

record ('s, 'r) pre_key_store =
  get_pre_key :: "u32 \<Rightarrow> 's \<Rightarrow> (signal_error, 'r) outcome \<times> 's"
  save_pre_key :: "u32 \<Rightarrow> 'r \<Rightarrow> 's \<Rightarrow> (signal_error, unit) outcome \<times> 's"
  remove_pre_key :: "u32 \<Rightarrow> 's \<Rightarrow> (signal_error, unit) outcome \<times> 's"
  pre_key_count :: "'s \<Rightarrow> (box_error, nat) outcome \<times> 's"
  clear_all_pre_keys :: "'s \<Rightarrow> (box_error, unit) outcome \<times> 's"
  get_max_pre_key_id :: "'s \<Rightarrow> (box_error, u32 option) outcome \<times> 's"
  delete_pre_key :: "u32 \<Rightarrow> 's \<Rightarrow> (box_error, unit) outcome \<times> 's"

text \<open>
  \<^verbatim>\<open>SignedPreKeyStore + ExtendedSignedPreKeyStore\<close> and
  \<^verbatim>\<open>KyberPreKeyStore + ExtendedKyberPreKeyStore\<close> are the same interface, the second with
  \<^verbatim>\<open>mark_kyber_pre_key_used\<close> added.
\<close>

record ('s, 'r) rotating_store =
  get_key :: "u32 \<Rightarrow> 's \<Rightarrow> (signal_error, 'r) outcome \<times> 's"
  save_key :: "u32 \<Rightarrow> 'r \<Rightarrow> 's \<Rightarrow> (signal_error, unit) outcome \<times> 's"
  key_count :: "'s \<Rightarrow> (box_error, nat) outcome \<times> 's"
  clear_all_keys :: "'s \<Rightarrow> (box_error, unit) outcome \<times> 's"
  get_max_key_id :: "'s \<Rightarrow> (box_error, u32 option) outcome \<times> 's"
  delete_key :: "u32 \<Rightarrow> 's \<Rightarrow> (box_error, unit) outcome \<times> 's"
  get_keys_older_than :: "u64 \<Rightarrow> 's \<Rightarrow> (box_error, u32 list) outcome \<times> 's"

record ('s, 'r) kyber_store = "('s, 'r) rotating_store" +
  mark_key_used :: "u32 \<Rightarrow> 's \<Rightarrow> (signal_error, unit) outcome \<times> 's"

section \<open>Libsignal records\<close>

text \<open>
  The record types of libsignal are opaque to this crate: it calls these functions on them. The
  development takes them as parameters.
\<close>

record 'r blob_lib =
  serialize :: "'r \<Rightarrow> (signal_error, bytes) outcome"
  deserialize :: "bytes \<Rightarrow> (signal_error, 'r) outcome"

record 'r key_record_lib = "'r blob_lib" +
  record_id :: "'r \<Rightarrow> (signal_error, u32) outcome"
  record_timestamp :: "'r \<Rightarrow> (signal_error, u64) outcome"
  record_signature :: "'r \<Rightarrow> (signal_error, bytes) outcome"
  record_public_key :: "'r \<Rightarrow> (signal_error, bytes) outcome"

text \<open>A record the library serialises, and reads back as itself.\<close>

definition round_trips :: "('r, 'z) blob_lib_scheme \<Rightarrow> 'r \<Rightarrow> bool" where
  "round_trips L r \<longleftrightarrow>
     (case serialize L r of Ok b \<Rightarrow> (case deserialize L b of Ok r' \<Rightarrow> r' = r | _ \<Rightarrow> False) | _ \<Rightarrow> False)"

lemma round_tripsE:
  assumes "round_trips L r"
  obtains b where "serialize L r = Ok b" "deserialize L b = Ok r"
  using assms by (auto simp: round_trips_def split: outcome.splits)

section \<open>Contracts\<close>

subsection \<open>Sessions\<close>

locale sessions_contract =
  fixes load :: "ProtocolAddress \<Rightarrow> 's \<Rightarrow> (signal_error, 'sess option) outcome \<times> 's"
    and store :: "ProtocolAddress \<Rightarrow> 'sess \<Rightarrow> 's \<Rightarrow> (signal_error, unit) outcome \<times> 's"
    and count :: "'s \<Rightarrow> (box_error, nat) outcome \<times> 's"
    and clear :: "'s \<Rightarrow> (box_error, unit) outcome \<times> 's"
    and delete :: "ProtocolAddress \<Rightarrow> 's \<Rightarrow> (box_error, unit) outcome \<times> 's"
    and good :: "'s \<Rightarrow> bool"
    and view :: "'s \<Rightarrow> ProtocolAddress \<Rightarrow> 'sess option"
    and storable :: "'sess \<Rightarrow> bool"
  assumes load_view: "good s \<Longrightarrow> load a s = (Ok (view s a), s)"
    and store_view: "good s \<Longrightarrow> storable r \<Longrightarrow>
      \<exists>s'. store a r s = (Ok (), s') \<and> good s' \<and> view s' = (view s)(a \<mapsto> r)"
    and delete_view: "good s \<Longrightarrow>
      \<exists>s'. delete a s = (Ok (), s') \<and> good s' \<and> view s' = (view s)(a := None)"
    and clear_view: "good s \<Longrightarrow>
      \<exists>s'. clear s = (Ok (), s') \<and> good s' \<and> view s' = Map.empty"
    and count_view: "good s \<Longrightarrow>
      finite (dom (view s)) \<and> count s = (Ok (card (dom (view s))), s)"
begin

text \<open>Storing, then loading at any address: the new record there, the old ones elsewhere.\<close>

lemma load_after_store:
  assumes "good s" "storable r"
  shows "\<exists>s'. store a r s = (Ok (), s') \<and>
    load b s' = (Ok (if b = a then Some r else view s b), s')"
  using store_view [OF assms, of a] load_view by fastforce

lemma load_after_delete:
  assumes "good s"
  shows "\<exists>s'. delete a s = (Ok (), s') \<and>
    load b s' = (Ok (if b = a then None else view s b), s')"
  using delete_view [OF assms, of a] load_view by fastforce

lemma delete_after_store:
  assumes "good s" "storable r" "view s a = None"
  shows "\<exists>s' s''. store a r s = (Ok (), s') \<and> delete a s' = (Ok (), s'') \<and> view s'' = view s"
proof -
  from store_view [OF assms(1,2)] obtain s' where
    s': "store a r s = (Ok (), s')" "good s'" "view s' = (view s)(a \<mapsto> r)" by blast
  from delete_view [OF s'(2)] obtain s'' where
    "delete a s' = (Ok (), s'')" "view s'' = (view s')(a := None)" by blast
  with s' assms(3) show ?thesis by (auto simp: fun_eq_iff)
qed

lemma count_after_store:
  assumes "good s" "storable r"
  shows "\<exists>s'. store a r s = (Ok (), s') \<and>
    count s' = (Ok (if view s a = None then Suc (card (dom (view s))) else card (dom (view s))), s')"
proof -
  from store_view [OF assms] obtain s' where
    s': "store a r s = (Ok (), s')" "good s'" "view s' = (view s)(a \<mapsto> r)" by blast
  from count_view [OF assms(1)] have fin: "finite (dom (view s))" by simp
  from count_view [OF s'(2)] s'(3) have "count s' = (Ok (card (insert a (dom (view s)))), s')"
    by (simp add: insert_absorb)
  with s'(1) fin show ?thesis
    by (auto simp: card_insert_if insert_absorb domIff)
qed

end

subsection \<open>Peer identities: trust on first use\<close>

locale identities_contract =
  fixes save :: "ProtocolAddress \<Rightarrow> 'ik \<Rightarrow> 's \<Rightarrow> (signal_error, IdentityChange) outcome \<times> 's"
    and trusted :: "ProtocolAddress \<Rightarrow> 'ik \<Rightarrow> Direction \<Rightarrow> 's \<Rightarrow> (signal_error, bool) outcome \<times> 's"
    and get :: "ProtocolAddress \<Rightarrow> 's \<Rightarrow> (signal_error, 'ik option) outcome \<times> 's"
    and delete :: "ProtocolAddress \<Rightarrow> 's \<Rightarrow> (box_error, unit) outcome \<times> 's"
    and good :: "'s \<Rightarrow> bool"
    and view :: "'s \<Rightarrow> ProtocolAddress \<Rightarrow> 'ik option"
  assumes get_view: "good s \<Longrightarrow> get a s = (Ok (view s a), s)"
    and trusted_view: "good s \<Longrightarrow>
      trusted a k d s = (Ok (case view s a of None \<Rightarrow> True | Some k' \<Rightarrow> k' = k), s)"
    and save_view: "good s \<Longrightarrow>
      \<exists>s'. save a k s =
          (Ok (case view s a of
                 None \<Rightarrow> NewOrUnchanged
               | Some k' \<Rightarrow> if k' = k then NewOrUnchanged else ReplacedExisting), s') \<and>
        good s' \<and> view s' = (view s)(a \<mapsto> k)"
    and delete_identity_view: "good s \<Longrightarrow>
      \<exists>s'. delete a s = (Ok (), s') \<and> good s' \<and> view s' = (view s)(a := None)"
begin

lemma first_use_trusted: "good s \<Longrightarrow> view s a = None \<Longrightarrow> trusted a k d s = (Ok True, s)"
  by (simp add: trusted_view)

text \<open>After a key was saved for an address, exactly that key is trusted there.\<close>

lemma trusted_after_save:
  assumes "good s"
  shows "\<exists>s' ch. save a k s = (Ok ch, s') \<and> trusted a k' d s' = (Ok (k = k'), s') \<and>
    (ch = ReplacedExisting \<longleftrightarrow> fst (trusted a k d s) = Ok False)"
  using save_view [OF assms, of a k] trusted_view assms by (fastforce split: option.splits)

lemma trust_elsewhere_unchanged:
  assumes "good s" "b \<noteq> a"
  shows "\<exists>s' ch. save a k s = (Ok ch, s') \<and> fst (trusted b k' d s') = fst (trusted b k' d s)"
  using save_view [OF assms(1), of a k] trusted_view assms by fastforce

lemma trusted_after_delete:
  assumes "good s"
  shows "\<exists>s'. delete a s = (Ok (), s') \<and> trusted a k d s' = (Ok True, s')"
  using delete_identity_view [OF assms, of a] trusted_view by fastforce

end

subsection \<open>Keys numbered by an id\<close>

text \<open>
  What one-time, signed and Kyber pre-key stores have in common. \<open>rest\<close> is the part of the state
  that belongs to the other stores, which no operation here changes.
\<close>

locale numbered_keys =
  fixes get :: "u32 \<Rightarrow> 's \<Rightarrow> (signal_error, 'r) outcome \<times> 's"
    and save :: "u32 \<Rightarrow> 'r \<Rightarrow> 's \<Rightarrow> (signal_error, unit) outcome \<times> 's"
    and count :: "'s \<Rightarrow> (box_error, nat) outcome \<times> 's"
    and max_id :: "'s \<Rightarrow> (box_error, u32 option) outcome \<times> 's"
    and delete :: "u32 \<Rightarrow> 's \<Rightarrow> (box_error, unit) outcome \<times> 's"
    and clear :: "'s \<Rightarrow> (box_error, unit) outcome \<times> 's"
    and good :: "'s \<Rightarrow> bool"
    and view :: "'s \<Rightarrow> u32 \<Rightarrow> 'r option"
    and storable :: "u32 \<Rightarrow> 'r \<Rightarrow> bool"
    and rest :: "'s \<Rightarrow> 'w"
  assumes finite_view: "good s \<Longrightarrow> finite (dom (view s))"
    and get_present: "good s \<Longrightarrow> view s i = Some r \<Longrightarrow> get i s = (Ok r, s)"
    and get_absent: "good s \<Longrightarrow> view s i = None \<Longrightarrow> \<exists>e. get i s = (Err e, s)"
    and save_view: "good s \<Longrightarrow> storable i r \<Longrightarrow>
      \<exists>s'. save i r s = (Ok (), s') \<and> good s' \<and> view s' = (view s)(i \<mapsto> r) \<and> rest s' = rest s"
    and count_view: "good s \<Longrightarrow> count s = (Ok (card (dom (view s))), s)"
    and max_view: "good s \<Longrightarrow>
      max_id s = (Ok (if dom (view s) = {} then None else Some (Max (dom (view s)))), s)"
    and delete_view: "good s \<Longrightarrow>
      \<exists>s'. delete i s = (Ok (), s') \<and> good s' \<and> view s' = (view s)(i := None) \<and> rest s' = rest s"
    and clear_view: "good s \<Longrightarrow>
      \<exists>s'. clear s = (Ok (), s') \<and> good s' \<and> view s' = Map.empty \<and> rest s' = rest s"
begin

lemma max_id_in:
  assumes "good s" "max_id s = (Ok (Some m), s')"
  shows "m \<in> dom (view s) \<and> (\<forall>i \<in> dom (view s). i \<le> m)"
proof -
  from assms have ne: "dom (view s) \<noteq> {}" and m: "m = Max (dom (view s))"
    by (auto simp: max_view split: if_splits)
  from Max_in [OF finite_view [OF assms(1)] ne] Max_ge [OF finite_view [OF assms(1)]] m
  show ?thesis by blast
qed

lemma max_id_None: "good s \<Longrightarrow> max_id s = (Ok None, s') \<Longrightarrow> view s = Map.empty"
  by (auto simp: max_view split: if_splits)

lemma get_after_save:
  assumes "good s" "storable i r"
  shows "\<exists>s'. save i r s = (Ok (), s') \<and> get i s' = (Ok r, s')"
  using save_view [OF assms] get_present by fastforce

lemma count_positive: "good s \<Longrightarrow> count s = (Ok n, s') \<Longrightarrow> n = 0 \<longleftrightarrow> view s = Map.empty"
  by (auto simp: count_view finite_view)

end

locale rotating_keys =
  numbered_keys "get_key st" "save_key st" "key_count st" "get_max_key_id st" "delete_key st"
    "clear_all_keys st" good view storable rest
  for st :: "('s, 'r, 'z) rotating_store_scheme"
    and good :: "'s \<Rightarrow> bool"
    and view :: "'s \<Rightarrow> u32 \<Rightarrow> 'r option"
    and storable :: "u32 \<Rightarrow> 'r \<Rightarrow> bool"
    and rest :: "'s \<Rightarrow> 'w" +
  fixes expired :: "u64 \<Rightarrow> 'r \<Rightarrow> bool"
  assumes older_view: "good s \<Longrightarrow>
      \<exists>ids. get_keys_older_than st t s = (Ok ids, s) \<and> distinct ids \<and>
        set ids = {i. \<exists>r. view s i = Some r \<and> expired t r}"

text \<open>The Kyber store has one more operation, which only changes a flag of the row.\<close>

locale kyber_keys = rotating_keys st good view storable rest expired
  for st :: "('s, 'r, 'z) kyber_store_scheme"
    and good :: "'s \<Rightarrow> bool"
    and view :: "'s \<Rightarrow> u32 \<Rightarrow> 'r option"
    and storable :: "u32 \<Rightarrow> 'r \<Rightarrow> bool"
    and rest :: "'s \<Rightarrow> 'w"
    and expired :: "u64 \<Rightarrow> 'r \<Rightarrow> bool" +
  assumes mark_view: "good s \<Longrightarrow>
      \<exists>s'. mark_key_used st i s = (Ok (), s') \<and> good s' \<and> view s' = view s \<and> rest s' = rest s"

locale one_time_keys =
  numbered_keys "get_pre_key st" "save_pre_key st" "pre_key_count st" "get_max_pre_key_id st"
    "delete_pre_key st" "clear_all_pre_keys st" good view storable rest
  for st :: "('s, 'r) pre_key_store"
    and good :: "'s \<Rightarrow> bool"
    and view :: "'s \<Rightarrow> u32 \<Rightarrow> 'r option"
    and storable :: "u32 \<Rightarrow> 'r \<Rightarrow> bool"
    and rest :: "'s \<Rightarrow> 'w" +
  assumes remove_view: "good s \<Longrightarrow>
      \<exists>s'. remove_pre_key st i s = (Ok (), s') \<and> good s' \<and> view s' = (view s)(i := None) \<and>
        rest s' = rest s"

end
