(* ===== verification/Memory_Storage.thy ===== *)
theory Memory_Storage
  imports Storage_Trait
begin

text \<open>
  The in-memory backend of \<^verbatim>\<open>src/src/memory_storage.rs\<close>: five stores over hash maps, and the
  interpretation of every storage contract on them. \<^verbatim>\<open>HashMap\<close> iterates in no particular order,
  so the operations that iterate take a \<open>rank\<close> that fixes one; no theorem depends on it.
\<close>

section \<open>Address keys\<close>

definition address_key :: "ProtocolAddress \<Rightarrow> string" where
  "address_key a = address_name a @ '':'' @ show_nat (device_number a)"

lemma last_colon_split:
  assumes "xs @ x # ds = ys @ x # es" "x \<notin> set ds" "x \<notin> set es"
  shows "xs = ys \<and> ds = es"
proof -
  have tw: "takeWhile (\<lambda>c. c \<noteq> x) (rev (zs @ x # fs)) = rev fs" if "x \<notin> set fs" for zs fs
    using that takeWhile_append2 [of "rev fs" "\<lambda>c. c \<noteq> x" "x # rev zs"] by auto
  from assms have "rev ds = rev es" using tw by metis
  with assms(1) show ?thesis by simp
qed

lemma device_number_inject: "device_number a = device_number b \<longleftrightarrow> address_device_id a = address_device_id b"
  by (simp add: device_number_def word_unat_eq_iff)

lemma address_key_inject: "address_key a = address_key b \<longleftrightarrow> a = b"
proof
  assume "address_key a = address_key b"
  then have "address_name a @ CHR '':'' # show_nat (device_number a) =
      address_name b @ CHR '':'' # show_nat (device_number b)"
    by (simp add: address_key_def)
  from last_colon_split [OF this colon_not_digit colon_not_digit]
  have "address_name a = address_name b" "address_device_id a = address_device_id b"
    by (simp_all add: device_number_inject)
  then show "a = b" by (cases a; cases b) simp
qed simp

lemma inj_address_key: "inj address_key"
  by (simp add: inj_def address_key_inject)

section \<open>Session store\<close>

definition mem_load_session :: "ProtocolAddress \<Rightarrow> (string, 'sess) hashmap
    \<Rightarrow> (signal_error, 'sess option) outcome \<times> (string, 'sess) hashmap" where
  "mem_load_session a m = (let key = address_key a in (Ok (hm_get m key), m))"

definition mem_store_session :: "ProtocolAddress \<Rightarrow> 'sess \<Rightarrow> (string, 'sess) hashmap
    \<Rightarrow> (signal_error, unit) outcome \<times> (string, 'sess) hashmap" where
  "mem_store_session a r m = (let key = address_key a in (Ok (), hm_insert key r m))"

definition mem_session_count :: "(string, 'sess) hashmap
    \<Rightarrow> (box_error, nat) outcome \<times> (string, 'sess) hashmap" where
  "mem_session_count m = (Ok (length m), m)"

definition mem_clear_all_sessions :: "(string, 'sess) hashmap
    \<Rightarrow> (box_error, unit) outcome \<times> (string, 'sess) hashmap" where
  "mem_clear_all_sessions m = (Ok (), [])"

definition mem_delete_session :: "ProtocolAddress \<Rightarrow> (string, 'sess) hashmap
    \<Rightarrow> (box_error, unit) outcome \<times> (string, 'sess) hashmap" where
  "mem_delete_session a m = (let key = address_key a in (Ok (), hm_remove key m))"

section \<open>Identity store\<close>

record ('ikp, 'ik) MemoryIdentityStore =
  mi_identity_keys :: "(string, 'ik) hashmap"
  mi_local_identity_key_pair :: "'ikp option"
  mi_local_registration_id :: "u32 option"

definition mem_get_identity_key_pair :: "('ikp, 'ik) MemoryIdentityStore
    \<Rightarrow> (signal_error, 'ikp) outcome \<times> ('ikp, 'ik) MemoryIdentityStore" where
  "mem_get_identity_key_pair s =
     (case mi_local_identity_key_pair s of
        Some kp \<Rightarrow> (Ok kp, s)
      | None \<Rightarrow> (Err (InvalidState ''storage'' (Text ''Local identity key pair not set'')), s))"

definition mem_get_local_registration_id :: "('ikp, 'ik) MemoryIdentityStore
    \<Rightarrow> (signal_error, u32) outcome \<times> ('ikp, 'ik) MemoryIdentityStore" where
  "mem_get_local_registration_id s =
     (case mi_local_registration_id s of
        Some i \<Rightarrow> (Ok i, s)
      | None \<Rightarrow> (Err (InvalidState ''storage'' (Text ''Local registration ID not set'')), s))"

definition mem_get_identity :: "ProtocolAddress \<Rightarrow> ('ikp, 'ik) MemoryIdentityStore
    \<Rightarrow> (signal_error, 'ik option) outcome \<times> ('ikp, 'ik) MemoryIdentityStore" where
  "mem_get_identity a s = (let key = address_key a in (Ok (hm_get (mi_identity_keys s) key), s))"

text \<open>\<^verbatim>\<open>save_identity\<close> reads the old key with \<^verbatim>\<open>get_identity(..).await.ok().flatten()\<close>.\<close>

definition mem_save_identity :: "ProtocolAddress \<Rightarrow> 'ik \<Rightarrow> ('ikp, 'ik) MemoryIdentityStore
    \<Rightarrow> (signal_error, IdentityChange) outcome \<times> ('ikp, 'ik) MemoryIdentityStore" where
  "mem_save_identity a k s =
     and_then (ok_of (mem_get_identity a s)) (\<lambda>got s.
       let existing = Option.bind got id;
           key = address_key a;
           s' = s\<lparr>mi_identity_keys := hm_insert key k (mi_identity_keys s)\<rparr>
       in case existing of
            Some k' \<Rightarrow> if k' \<noteq> k then (Ok ReplacedExisting, s') else (Ok NewOrUnchanged, s')
          | None \<Rightarrow> (Ok NewOrUnchanged, s'))"

definition mem_is_trusted_identity :: "ProtocolAddress \<Rightarrow> 'ik \<Rightarrow> Direction
    \<Rightarrow> ('ikp, 'ik) MemoryIdentityStore
    \<Rightarrow> (signal_error, bool) outcome \<times> ('ikp, 'ik) MemoryIdentityStore" where
  "mem_is_trusted_identity a k d s =
     (let key = address_key a in
      case hm_get (mi_identity_keys s) key of
        Some k' \<Rightarrow> (Ok (k' = k), s)
      | None \<Rightarrow> (Ok True, s))"

definition mem_identity_count :: "('ikp, 'ik) MemoryIdentityStore
    \<Rightarrow> (box_error, nat) outcome \<times> ('ikp, 'ik) MemoryIdentityStore" where
  "mem_identity_count s = (Ok (length (mi_identity_keys s)), s)"

definition mem_set_local_identity_key_pair :: "'ikp \<Rightarrow> ('ikp, 'ik) MemoryIdentityStore
    \<Rightarrow> (box_error, unit) outcome \<times> ('ikp, 'ik) MemoryIdentityStore" where
  "mem_set_local_identity_key_pair kp s = (Ok (), s\<lparr>mi_local_identity_key_pair := Some kp\<rparr>)"

definition mem_set_local_registration_id :: "u32 \<Rightarrow> ('ikp, 'ik) MemoryIdentityStore
    \<Rightarrow> (box_error, unit) outcome \<times> ('ikp, 'ik) MemoryIdentityStore" where
  "mem_set_local_registration_id i s = (Ok (), s\<lparr>mi_local_registration_id := Some i\<rparr>)"

definition mem_get_peer_identity :: "ProtocolAddress \<Rightarrow> ('ikp, 'ik) MemoryIdentityStore
    \<Rightarrow> (box_error, 'ik option) outcome \<times> ('ikp, 'ik) MemoryIdentityStore" where
  "mem_get_peer_identity a s =
     (let key = address_key a in (Ok (hm_get (mi_identity_keys s) key), s))"

definition mem_delete_identity :: "ProtocolAddress \<Rightarrow> ('ikp, 'ik) MemoryIdentityStore
    \<Rightarrow> (box_error, unit) outcome \<times> ('ikp, 'ik) MemoryIdentityStore" where
  "mem_delete_identity a s =
     (let key = address_key a in
      (Ok (), s\<lparr>mi_identity_keys := hm_remove key (mi_identity_keys s)\<rparr>))"

definition mem_clear_all_identities :: "('ikp, 'ik) MemoryIdentityStore
    \<Rightarrow> (box_error, unit) outcome \<times> ('ikp, 'ik) MemoryIdentityStore" where
  "mem_clear_all_identities s = (Ok (), s\<lparr>mi_identity_keys := []\<rparr>)"

definition mem_clear_local_identity :: "('ikp, 'ik) MemoryIdentityStore
    \<Rightarrow> (box_error, unit) outcome \<times> ('ikp, 'ik) MemoryIdentityStore" where
  "mem_clear_local_identity s =
     (Ok (), s\<lparr>mi_local_identity_key_pair := None, mi_local_registration_id := None\<rparr>)"

section \<open>Pre-key store\<close>

text \<open>
  Only the key pair is kept; the record is rebuilt from the id it is asked for. \<open>pk_new\<close> is
  \<^verbatim>\<open>PreKeyRecord::new\<close> and \<open>pk_pair\<close> is \<^verbatim>\<open>PreKeyRecord::key_pair\<close>.
\<close>

record ('kp, 'pk) pre_key_lib =
  pk_new :: "u32 \<Rightarrow> 'kp \<Rightarrow> 'pk"
  pk_pair :: "'pk \<Rightarrow> (signal_error, 'kp) outcome"

definition mem_get_pre_key :: "('kp, 'pk) pre_key_lib \<Rightarrow> u32 \<Rightarrow> (u32, 'kp) hashmap
    \<Rightarrow> (signal_error, 'pk) outcome \<times> (u32, 'kp) hashmap" where
  "mem_get_pre_key P i m =
     (case hm_get m i of
        Some kp \<Rightarrow> (Ok (pk_new P i kp), m)
      | None \<Rightarrow> (Err InvalidPreKeyId, m))"

definition mem_save_pre_key :: "('kp, 'pk) pre_key_lib \<Rightarrow> u32 \<Rightarrow> 'pk \<Rightarrow> (u32, 'kp) hashmap
    \<Rightarrow> (signal_error, unit) outcome \<times> (u32, 'kp) hashmap" where
  "mem_save_pre_key P i r m =
     and_then (pk_pair P r, m) (\<lambda>kp m. (Ok (), hm_insert i kp m))"

definition mem_remove_pre_key :: "u32 \<Rightarrow> (u32, 'kp) hashmap
    \<Rightarrow> (signal_error, unit) outcome \<times> (u32, 'kp) hashmap" where
  "mem_remove_pre_key i m = (Ok (), hm_remove i m)"

definition mem_pre_key_count :: "(u32, 'kp) hashmap
    \<Rightarrow> (box_error, nat) outcome \<times> (u32, 'kp) hashmap" where
  "mem_pre_key_count m = (Ok (length m), m)"

definition mem_clear_all_pre_keys :: "(u32, 'kp) hashmap
    \<Rightarrow> (box_error, unit) outcome \<times> (u32, 'kp) hashmap" where
  "mem_clear_all_pre_keys m = (Ok (), [])"

definition mem_get_max_pre_key_id :: "(u32, 'kp) hashmap
    \<Rightarrow> (box_error, u32 option) outcome \<times> (u32, 'kp) hashmap" where
  "mem_get_max_pre_key_id m = (Ok (max_of (map fst m)), m)"

definition mem_delete_pre_key :: "u32 \<Rightarrow> (u32, 'kp) hashmap
    \<Rightarrow> (box_error, unit) outcome \<times> (u32, 'kp) hashmap" where
  "mem_delete_pre_key i m = (Ok (), hm_remove i m)"

section \<open>Signed pre-key store\<close>

definition mem_get_signed_pre_key :: "u32 \<Rightarrow> (u32, 'r) hashmap
    \<Rightarrow> (signal_error, 'r) outcome \<times> (u32, 'r) hashmap" where
  "mem_get_signed_pre_key i m =
     (case hm_get m i of Some r \<Rightarrow> (Ok r, m) | None \<Rightarrow> (Err InvalidSignedPreKeyId, m))"

definition mem_save_signed_pre_key :: "u32 \<Rightarrow> 'r \<Rightarrow> (u32, 'r) hashmap
    \<Rightarrow> (signal_error, unit) outcome \<times> (u32, 'r) hashmap" where
  "mem_save_signed_pre_key i r m = (Ok (), hm_insert i r m)"

definition mem_signed_pre_key_count :: "(u32, 'r) hashmap
    \<Rightarrow> (box_error, nat) outcome \<times> (u32, 'r) hashmap" where
  "mem_signed_pre_key_count m = (Ok (length m), m)"

definition mem_clear_all_signed_pre_keys :: "(u32, 'r) hashmap
    \<Rightarrow> (box_error, unit) outcome \<times> (u32, 'r) hashmap" where
  "mem_clear_all_signed_pre_keys m = (Ok (), [])"

definition mem_get_max_signed_pre_key_id :: "(u32, 'r) hashmap
    \<Rightarrow> (box_error, u32 option) outcome \<times> (u32, 'r) hashmap" where
  "mem_get_max_signed_pre_key_id m = (Ok (max_of (map fst m)), m)"

definition mem_delete_signed_pre_key :: "u32 \<Rightarrow> (u32, 'r) hashmap
    \<Rightarrow> (box_error, unit) outcome \<times> (u32, 'r) hashmap" where
  "mem_delete_signed_pre_key i m = (Ok (), hm_remove i m)"

text \<open>A record is expired when its timestamp reads and is before the cut-off.\<close>

definition expired_millis :: "('r, 'z) key_record_lib_scheme \<Rightarrow> u64 \<Rightarrow> 'r \<Rightarrow> bool" where
  "expired_millis L t r = (case record_timestamp L r of Ok ts \<Rightarrow> ts < t | _ \<Rightarrow> False)"

definition mem_get_signed_pre_keys_older_than :: "('r, 'z) key_record_lib_scheme \<Rightarrow> (u32 \<Rightarrow> nat)
    \<Rightarrow> u64 \<Rightarrow> (u32, 'r) hashmap \<Rightarrow> (box_error, u32 list) outcome \<times> (u32, 'r) hashmap" where
  "mem_get_signed_pre_keys_older_than L rank t m =
     (Ok (map fst (filter (\<lambda>(i, r). expired_millis L t r) (visit rank fst m))), m)"

section \<open>Kyber pre-key store\<close>

definition mem_get_kyber_pre_key :: "u32 \<Rightarrow> (u32, 'r) hashmap
    \<Rightarrow> (signal_error, 'r) outcome \<times> (u32, 'r) hashmap" where
  "mem_get_kyber_pre_key i m =
     (case hm_get m i of Some r \<Rightarrow> (Ok r, m) | None \<Rightarrow> (Err InvalidKyberPreKeyId, m))"

definition mem_save_kyber_pre_key :: "u32 \<Rightarrow> 'r \<Rightarrow> (u32, 'r) hashmap
    \<Rightarrow> (signal_error, unit) outcome \<times> (u32, 'r) hashmap" where
  "mem_save_kyber_pre_key i r m = (Ok (), hm_insert i r m)"

definition mem_mark_kyber_pre_key_used :: "u32 \<Rightarrow> (u32, 'r) hashmap
    \<Rightarrow> (signal_error, unit) outcome \<times> (u32, 'r) hashmap" where
  "mem_mark_kyber_pre_key_used i m = (Ok (), m)"

definition mem_kyber_pre_key_count :: "(u32, 'r) hashmap
    \<Rightarrow> (box_error, nat) outcome \<times> (u32, 'r) hashmap" where
  "mem_kyber_pre_key_count m = (Ok (length m), m)"

definition mem_clear_all_kyber_pre_keys :: "(u32, 'r) hashmap
    \<Rightarrow> (box_error, unit) outcome \<times> (u32, 'r) hashmap" where
  "mem_clear_all_kyber_pre_keys m = (Ok (), [])"

definition mem_get_max_kyber_pre_key_id :: "(u32, 'r) hashmap
    \<Rightarrow> (box_error, u32 option) outcome \<times> (u32, 'r) hashmap" where
  "mem_get_max_kyber_pre_key_id m = (Ok (max_of (map fst m)), m)"

definition mem_delete_kyber_pre_key :: "u32 \<Rightarrow> (u32, 'r) hashmap
    \<Rightarrow> (box_error, unit) outcome \<times> (u32, 'r) hashmap" where
  "mem_delete_kyber_pre_key i m = (Ok (), hm_remove i m)"

definition mem_get_kyber_pre_keys_older_than :: "('r, 'z) key_record_lib_scheme \<Rightarrow> (u32 \<Rightarrow> nat)
    \<Rightarrow> u64 \<Rightarrow> (u32, 'r) hashmap \<Rightarrow> (box_error, u32 list) outcome \<times> (u32, 'r) hashmap" where
  "mem_get_kyber_pre_keys_older_than L rank t m =
     (Ok (map fst (filter (\<lambda>(i, r). expired_millis L t r) (visit rank fst m))), m)"

section \<open>The container\<close>

record ('sess, 'ikp, 'ik, 'kp, 'spk, 'kpk) MemoryStorage =
  mem_sessions :: "(string, 'sess) hashmap"
  mem_identities :: "('ikp, 'ik) MemoryIdentityStore"
  mem_pre_keys :: "(u32, 'kp) hashmap"
  mem_signed_pre_keys :: "(u32, 'spk) hashmap"
  mem_kyber_pre_keys :: "(u32, 'kpk) hashmap"

text \<open>Each store starts empty.\<close>

definition mem_session_store_new :: "(string, 'sess) hashmap" where
  [simp]: "mem_session_store_new = []"

definition mem_identity_store_new :: "('ikp, 'ik) MemoryIdentityStore" where
  [simp]: "mem_identity_store_new = \<lparr>mi_identity_keys = [], mi_local_identity_key_pair = None,
     mi_local_registration_id = None\<rparr>"

definition mem_pre_key_store_new :: "(u32, 'kp) hashmap" where
  [simp]: "mem_pre_key_store_new = []"

definition mem_signed_pre_key_store_new :: "(u32, 'spk) hashmap" where
  [simp]: "mem_signed_pre_key_store_new = []"

definition mem_kyber_pre_key_store_new :: "(u32, 'kpk) hashmap" where
  [simp]: "mem_kyber_pre_key_store_new = []"

definition memory_storage_new :: "('sess, 'ikp, 'ik, 'kp, 'spk, 'kpk) MemoryStorage" where
  "memory_storage_new = \<lparr>mem_sessions = mem_session_store_new,
     mem_identities = mem_identity_store_new, mem_pre_keys = mem_pre_key_store_new,
     mem_signed_pre_keys = mem_signed_pre_key_store_new,
     mem_kyber_pre_keys = mem_kyber_pre_key_store_new\<rparr>"

text \<open>A method of one store, called through the container's accessor for it.\<close>

definition on_part :: "('S \<Rightarrow> 'p) \<Rightarrow> ('p \<Rightarrow> 'S \<Rightarrow> 'S) \<Rightarrow> ('p \<Rightarrow> ('e, 'a) outcome \<times> 'p) \<Rightarrow> 'S
    \<Rightarrow> ('e, 'a) outcome \<times> 'S" where
  "on_part get put f s = (case f (get s) of (r, p) \<Rightarrow> (r, put p s))"

abbreviation via_sessions where
  "via_sessions \<equiv> on_part mem_sessions (\<lambda>p s. s\<lparr>mem_sessions := p\<rparr>)"

abbreviation via_pre_keys where
  "via_pre_keys \<equiv> on_part mem_pre_keys (\<lambda>p s. s\<lparr>mem_pre_keys := p\<rparr>)"

abbreviation via_signed where
  "via_signed \<equiv> on_part mem_signed_pre_keys (\<lambda>p s. s\<lparr>mem_signed_pre_keys := p\<rparr>)"

abbreviation via_kyber where
  "via_kyber \<equiv> on_part mem_kyber_pre_keys (\<lambda>p s. s\<lparr>mem_kyber_pre_keys := p\<rparr>)"

abbreviation via_identities where
  "via_identities \<equiv> on_part mem_identities (\<lambda>p s. s\<lparr>mem_identities := p\<rparr>)"

definition mem_session_store :: "(('sess, 'ikp, 'ik, 'kp, 'spk, 'kpk) MemoryStorage, 'sess)
    session_store" where
  "mem_session_store =
     \<lparr>load_session = \<lambda>a. via_sessions (mem_load_session a),
       store_session = \<lambda>a r. via_sessions (mem_store_session a r),
       session_count = via_sessions mem_session_count,
       clear_all_sessions = via_sessions mem_clear_all_sessions,
       delete_session = \<lambda>a. via_sessions (mem_delete_session a)\<rparr>"

definition mem_pre_key_store :: "('kp, 'pk) pre_key_lib
    \<Rightarrow> (('sess, 'ikp, 'ik, 'kp, 'spk, 'kpk) MemoryStorage, 'pk) pre_key_store" where
  "mem_pre_key_store P =
     \<lparr>get_pre_key = \<lambda>i. via_pre_keys (mem_get_pre_key P i),
      save_pre_key = \<lambda>i r. via_pre_keys (mem_save_pre_key P i r),
      remove_pre_key = \<lambda>i. via_pre_keys (mem_remove_pre_key i),
      pre_key_count = via_pre_keys mem_pre_key_count,
      clear_all_pre_keys = via_pre_keys mem_clear_all_pre_keys,
      get_max_pre_key_id = via_pre_keys mem_get_max_pre_key_id,
      delete_pre_key = \<lambda>i. via_pre_keys (mem_delete_pre_key i)\<rparr>"

definition mem_signed_store :: "('spk, 'z) key_record_lib_scheme \<Rightarrow> (u32 \<Rightarrow> nat)
    \<Rightarrow> (('sess, 'ikp, 'ik, 'kp, 'spk, 'kpk) MemoryStorage, 'spk) rotating_store" where
  "mem_signed_store L rank =
     \<lparr>get_key = \<lambda>i. via_signed (mem_get_signed_pre_key i),
      save_key = \<lambda>i r. via_signed (mem_save_signed_pre_key i r),
      key_count = via_signed mem_signed_pre_key_count,
      clear_all_keys = via_signed mem_clear_all_signed_pre_keys,
      get_max_key_id = via_signed mem_get_max_signed_pre_key_id,
      delete_key = \<lambda>i. via_signed (mem_delete_signed_pre_key i),
      get_keys_older_than = \<lambda>t. via_signed (mem_get_signed_pre_keys_older_than L rank t)\<rparr>"

definition mem_kyber_store :: "('kpk, 'z) key_record_lib_scheme \<Rightarrow> (u32 \<Rightarrow> nat)
    \<Rightarrow> (('sess, 'ikp, 'ik, 'kp, 'spk, 'kpk) MemoryStorage, 'kpk) kyber_store" where
  "mem_kyber_store L rank =
     \<lparr>get_key = \<lambda>i. via_kyber (mem_get_kyber_pre_key i),
      save_key = \<lambda>i r. via_kyber (mem_save_kyber_pre_key i r),
      key_count = via_kyber mem_kyber_pre_key_count,
      clear_all_keys = via_kyber mem_clear_all_kyber_pre_keys,
      get_max_key_id = via_kyber mem_get_max_kyber_pre_key_id,
      delete_key = \<lambda>i. via_kyber (mem_delete_kyber_pre_key i),
      get_keys_older_than = \<lambda>t. via_kyber (mem_get_kyber_pre_keys_older_than L rank t),
      mark_key_used = \<lambda>i. via_kyber (mem_mark_kyber_pre_key_used i)\<rparr>"

definition mem_identity_store :: "(('sess, 'ikp, 'ik, 'kp, 'spk, 'kpk) MemoryStorage, 'ikp, 'ik)
    identity_store" where
  "mem_identity_store =
     \<lparr>get_identity_key_pair = via_identities mem_get_identity_key_pair,
      get_local_registration_id = via_identities mem_get_local_registration_id,
      save_identity = \<lambda>a k. via_identities (mem_save_identity a k),
      is_trusted_identity = \<lambda>a k d. via_identities (mem_is_trusted_identity a k d),
      get_identity = \<lambda>a. via_identities (mem_get_identity a),
      identity_count = via_identities mem_identity_count,
      set_local_identity_key_pair = \<lambda>kp. via_identities (mem_set_local_identity_key_pair kp),
      set_local_registration_id = \<lambda>i. via_identities (mem_set_local_registration_id i),
      get_peer_identity = \<lambda>a. via_identities (mem_get_peer_identity a),
      delete_identity = \<lambda>a. via_identities (mem_delete_identity a),
      clear_all_identities = via_identities mem_clear_all_identities,
      clear_local_identity = via_identities mem_clear_local_identity\<rparr>"

section \<open>The contracts hold\<close>

lemma on_part_eq: "f (get s) = (r, p) \<Longrightarrow> on_part get put f s = (r, put p s)"
  by (simp add: on_part_def)

text \<open>
  Representation invariants: hash map keys are distinct, and the string-keyed maps are keyed by
  addresses.
\<close>

definition addressed :: "(string, 'v) hashmap \<Rightarrow> bool" where
  "addressed m \<longleftrightarrow> keys_distinct fst m \<and> fst ` set m \<subseteq> range address_key"

definition view_at :: "(string, 'v) hashmap \<Rightarrow> ProtocolAddress \<Rightarrow> 'v option" where
  "view_at m a = hm_get m (address_key a)"

lemma addressed_Nil [simp]: "addressed []"
  by (simp add: addressed_def)

lemma addressed_insert: "addressed m \<Longrightarrow> addressed (hm_insert (address_key a) v m)"
  by (auto simp: addressed_def hm_distinct_insert) (auto simp: hm_insert_def set_upsert)

lemma addressed_remove: "addressed m \<Longrightarrow> addressed (hm_remove k m)"
  by (auto simp: addressed_def hm_distinct_remove) (auto simp: hm_remove_def set_delete)

lemma view_at_insert: "view_at (hm_insert (address_key a) v m) = (view_at m)(a \<mapsto> v)"
  by (auto simp: view_at_def row_simps address_key_inject fun_eq_iff)

lemma view_at_remove: "view_at (hm_remove (address_key a) m) = (view_at m)(a := None)"
  by (auto simp: view_at_def row_simps address_key_inject fun_eq_iff)

lemma view_at_Nil [simp]: "view_at [] = Map.empty"
  by (simp add: view_at_def fun_eq_iff)

lemma dom_view_at: "dom (view_at m) = address_key -` (fst ` set m)"
proof -
  have "dom (view_at m) = address_key -` dom (hm_get m)" by (auto simp: view_at_def)
  then show ?thesis by (simp add: dom_hm_get)
qed

lemma card_view_at:
  assumes "addressed m"
  shows "finite (dom (view_at m)) \<and> length m = card (dom (view_at m))"
  using assms card_vimage_inj [OF inj_address_key, of "fst ` set m"]
    finite_vimageI [OF _ inj_address_key, of "fst ` set m"]
  by (simp add: dom_view_at addressed_def length_keys)

definition mem_sessions_good :: "('sess, 'ikp, 'ik, 'kp, 'spk, 'kpk) MemoryStorage \<Rightarrow> bool" where
  "mem_sessions_good s \<longleftrightarrow> addressed (mem_sessions s)"

definition mem_identities_good :: "('sess, 'ikp, 'ik, 'kp, 'spk, 'kpk) MemoryStorage \<Rightarrow> bool" where
  "mem_identities_good s \<longleftrightarrow> addressed (mi_identity_keys (mem_identities s))"

lemmas mem_session_defs = mem_session_store_def on_part_def mem_load_session_def
  mem_store_session_def mem_session_count_def mem_clear_all_sessions_def mem_delete_session_def
  Let_def

lemmas mem_identity_defs = mem_identity_store_def on_part_def mem_get_identity_def
  mem_save_identity_def mem_is_trusted_identity_def mem_delete_identity_def Let_def

interpretation mem_sess: sessions_contract
  "load_session mem_session_store" "store_session mem_session_store"
  "session_count mem_session_store" "clear_all_sessions mem_session_store"
  "delete_session mem_session_store" mem_sessions_good "\<lambda>s. view_at (mem_sessions s)" "\<lambda>_. True"
  by unfold_locales
    (simp_all add: mem_session_defs mem_sessions_good_def addressed_insert addressed_remove
      view_at_insert view_at_remove card_view_at, simp add: view_at_def)

interpretation mem_ident: identities_contract
  "save_identity mem_identity_store" "is_trusted_identity mem_identity_store"
  "get_identity mem_identity_store" "delete_identity mem_identity_store" mem_identities_good
  "\<lambda>s. view_at (mi_identity_keys (mem_identities s))"
  by unfold_locales
    (auto simp: mem_identity_defs mem_identities_good_def addressed_insert addressed_remove
      view_at_insert view_at_remove view_at_def [symmetric] split: option.splits)

text \<open>The key stores: distinct ids, and for one-time keys a library that rebuilds records.\<close>

lemmas mem_pre_key_defs = mem_pre_key_store_def on_part_def mem_get_pre_key_def
  mem_save_pre_key_def mem_remove_pre_key_def mem_pre_key_count_def mem_clear_all_pre_keys_def
  mem_get_max_pre_key_id_def mem_delete_pre_key_def

lemmas mem_signed_defs = mem_signed_store_def on_part_def mem_get_signed_pre_key_def
  mem_save_signed_pre_key_def mem_signed_pre_key_count_def mem_clear_all_signed_pre_keys_def
  mem_get_max_signed_pre_key_id_def mem_delete_signed_pre_key_def
  mem_get_signed_pre_keys_older_than_def

lemmas mem_kyber_defs = mem_kyber_store_def on_part_def mem_get_kyber_pre_key_def
  mem_save_kyber_pre_key_def mem_kyber_pre_key_count_def mem_clear_all_kyber_pre_keys_def
  mem_get_max_kyber_pre_key_id_def mem_delete_kyber_pre_key_def
  mem_get_kyber_pre_keys_older_than_def mem_mark_kyber_pre_key_used_def

lemmas hm_store_simps = hm_distinct_insert hm_distinct_remove hm_get_insert hm_get_remove
  dom_hm_get length_keys max_of_eq

lemma set_older_ids:
  assumes "keys_distinct fst m"
  shows "set (map fst (filter (\<lambda>(i, r). P r) (visit rank fst m))) =
    {i. \<exists>r. hm_get m i = Some r \<and> P r}"
  using hm_get_Some_iff [OF assms] by force

definition mem_pre_keys_good :: "('sess, 'ikp, 'ik, 'kp, 'spk, 'kpk) MemoryStorage \<Rightarrow> bool" where
  "mem_pre_keys_good s \<longleftrightarrow> keys_distinct fst (mem_pre_keys s)"

definition mem_pre_keys_view :: "('kp, 'pk) pre_key_lib
    \<Rightarrow> ('sess, 'ikp, 'ik, 'kp, 'spk, 'kpk) MemoryStorage \<Rightarrow> u32 \<Rightarrow> 'pk option" where
  "mem_pre_keys_view P s i = map_option (pk_new P i) (hm_get (mem_pre_keys s) i)"

text \<open>A one-time pre-key record is stored faithfully when it is the record of its key pair.\<close>

definition pre_key_rebuilds :: "('kp, 'pk) pre_key_lib \<Rightarrow> u32 \<Rightarrow> 'pk \<Rightarrow> bool" where
  "pre_key_rebuilds P i r \<longleftrightarrow> (case pk_pair P r of Ok kp \<Rightarrow> pk_new P i kp = r | _ \<Rightarrow> False)"

definition mem_signed_good :: "('sess, 'ikp, 'ik, 'kp, 'spk, 'kpk) MemoryStorage \<Rightarrow> bool" where
  "mem_signed_good s \<longleftrightarrow> keys_distinct fst (mem_signed_pre_keys s)"

definition mem_kyber_good :: "('sess, 'ikp, 'ik, 'kp, 'spk, 'kpk) MemoryStorage \<Rightarrow> bool" where
  "mem_kyber_good s \<longleftrightarrow> keys_distinct fst (mem_kyber_pre_keys s)"

lemma dom_mem_pre_keys_view: "dom (mem_pre_keys_view P s) = fst ` set (mem_pre_keys s)"
  using dom_hm_get [of "mem_pre_keys s"] by (auto simp: mem_pre_keys_view_def dom_def)

lemma mem_save_pre_key_law:
  "mem_pre_keys_good s \<Longrightarrow> pre_key_rebuilds P i r \<Longrightarrow>
    \<exists>s'. save_pre_key (mem_pre_key_store P) i r s = (Ok (), s') \<and> mem_pre_keys_good s' \<and>
      mem_pre_keys_view P s' = (mem_pre_keys_view P s)(i \<mapsto> r) \<and>
      s'\<lparr>mem_pre_keys := []\<rparr> = s\<lparr>mem_pre_keys := []\<rparr>"
  by (auto simp: mem_pre_key_defs mem_pre_keys_good_def mem_pre_keys_view_def
      pre_key_rebuilds_def hm_distinct_insert hm_get_insert fun_eq_iff split: outcome.splits)

lemma mem_signed_older_law:
  "mem_signed_good s \<Longrightarrow>
    \<exists>ids. get_keys_older_than (mem_signed_store L rank) t s = (Ok ids, s) \<and> distinct ids \<and>
      set ids = {i. \<exists>r. hm_get (mem_signed_pre_keys s) i = Some r \<and> expired_millis L t r}"
  using set_older_ids [of "mem_signed_pre_keys s" "expired_millis L t" rank]
    distinct_keys_visit [of fst "mem_signed_pre_keys s"]
  by (simp add: mem_signed_defs mem_signed_good_def)

lemma mem_kyber_older_law:
  "mem_kyber_good s \<Longrightarrow>
    \<exists>ids. get_keys_older_than (mem_kyber_store L rank) t s = (Ok ids, s) \<and> distinct ids \<and>
      set ids = {i. \<exists>r. hm_get (mem_kyber_pre_keys s) i = Some r \<and> expired_millis L t r}"
  using set_older_ids [of "mem_kyber_pre_keys s" "expired_millis L t" rank]
    distinct_keys_visit [of fst "mem_kyber_pre_keys s"]
  by (simp add: mem_kyber_defs mem_kyber_good_def)

interpretation mem_one_time: one_time_keys "mem_pre_key_store P" mem_pre_keys_good
  "mem_pre_keys_view P" "pre_key_rebuilds P" "\<lambda>s. s\<lparr>mem_pre_keys := []\<rparr>"
  by unfold_locales (simp_all add: mem_save_pre_key_law,
      auto simp: mem_pre_key_defs mem_pre_keys_good_def dom_mem_pre_keys_view length_keys max_of_eq
        hm_distinct_remove hm_get_remove mem_pre_keys_view_def fun_eq_iff)

interpretation mem_signed: rotating_keys "mem_signed_store L rank" mem_signed_good
  "\<lambda>s. hm_get (mem_signed_pre_keys s)" "\<lambda>_ _. True" "\<lambda>s. s\<lparr>mem_signed_pre_keys := []\<rparr>"
  "expired_millis L"
  by unfold_locales (simp_all add: mem_signed_older_law,
      auto simp: mem_signed_defs mem_signed_good_def hm_store_simps)

interpretation mem_kyber: kyber_keys "mem_kyber_store L rank" mem_kyber_good
  "\<lambda>s. hm_get (mem_kyber_pre_keys s)" "\<lambda>_ _. True" "\<lambda>s. s\<lparr>mem_kyber_pre_keys := []\<rparr>"
  "expired_millis L"
  by unfold_locales (simp_all add: mem_kyber_older_law,
      auto simp: mem_kyber_defs mem_kyber_good_def hm_store_simps)

end
