(* ===== verification/Lotl_Database.thy ===== *)
theory Lotl_Database
  imports Lotl_Types
begin

text \<open>
  The SQLite database behind a \<^verbatim>\<open>Connection\<close>: one list of rows per table, with the columns the
  \<^verbatim>\<open>CREATE TABLE\<close> statements of the crate declare, \<open>None\<close> while the table does not exist. Each
  SQL statement of the code is translated from its text.

  SQLite may fail at every statement. A connection therefore carries a schedule of faults, one
  entry per statement reached (preparing, stepping or executing): \<open>Some\<close> fails that statement and
  leaves the tables unchanged, \<open>None\<close> lets it run, and the empty schedule never fails. The lock
  around the connection is the \<open>poisoned\<close> flag of the standard library's mutex.
\<close>

section \<open>Rows\<close>

record schema_info_row =
  si_version :: int
  si_updated_at :: int

record local_identity_row =
  li_id :: int
  li_registration_id :: u32
  li_private_key :: bytes
  li_public_key :: bytes
  li_created_at :: int
  li_updated_at :: int

record identity_key_row =
  ik_address :: string
  ik_device_id :: nat
  ik_public_key :: bytes
  ik_trust_level :: int
  ik_first_seen :: int
  ik_last_seen :: int
  ik_verified_at :: "int option"

record session_row =
  se_address :: string
  se_device_id :: nat
  se_session_data :: bytes
  se_created_at :: int
  se_updated_at :: int

record pre_key_row =
  pk_id :: u32
  pk_key_data :: bytes
  pk_created_at :: int
  pk_used_at :: "int option"

text \<open>\<^verbatim>\<open>signed_pre_keys\<close> and \<^verbatim>\<open>kyber_pre_keys\<close> have the same columns.\<close>

record rotating_key_row =
  rk_id :: u32
  rk_key_data :: bytes
  rk_signature :: bytes
  rk_created_at :: int
  rk_expires_at :: int
  rk_is_current :: bool

record contact_row =
  co_fingerprint :: string
  co_signal_identity_key :: bytes
  co_user_alias :: "string option"
  co_first_seen :: int
  co_last_updated :: int

record conversation_row =
  cv_id :: int
  cv_fingerprint :: string
  cv_last_message_timestamp :: int
  cv_unread_count :: int
  cv_archived :: bool

record message_row =
  ms_id :: int
  ms_conversation_id :: int
  ms_direction :: int
  ms_timestamp :: int
  ms_message_type :: int
  ms_content :: bytes
  ms_delivery_status :: int
  ms_was_prekey_message :: bool
  ms_session_established :: bool

record nostr_row =
  no_fingerprint :: string
  no_nostr_pubkey :: string
  no_derivation_context :: string

section \<open>The connection\<close>

text \<open>
  \<open>conversations_seq\<close> and \<open>messages_seq\<close> are SQLite's record of the largest row id an
  \<^verbatim>\<open>AUTOINCREMENT\<close> table ever used; \<open>foreign_keys\<close> says whether foreign keys are enforced on this
  connection (they are in the bundled build); \<open>unixepoch\<close> is \<^verbatim>\<open>strftime('%s','now')\<close>.
\<close>

record conn =
  schema_info :: "schema_info_row list option"
  local_identity :: "local_identity_row list option"
  identity_keys :: "identity_key_row list option"
  sessions :: "session_row list option"
  pre_keys :: "pre_key_row list option"
  signed_pre_keys :: "rotating_key_row list option"
  kyber_pre_keys :: "rotating_key_row list option"
  contacts :: "contact_row list option"
  conversations :: "conversation_row list option"
  messages :: "message_row list option"
  nostr_identities :: "nostr_row list option"
  conversations_seq :: int
  messages_seq :: int
  last_insert_rowid :: int
  foreign_keys :: bool
  unixepoch :: int
  faults :: "string option list"
  poisoned :: bool

definition empty_conn :: conn where
  "empty_conn = \<lparr>schema_info = None, local_identity = None, identity_keys = None,
     sessions = None, pre_keys = None, signed_pre_keys = None, kyber_pre_keys = None,
     contacts = None, conversations = None, messages = None, nostr_identities = None,
     conversations_seq = 0, messages_seq = 0, last_insert_rowid = 0, foreign_keys = True,
     unixepoch = 0, faults = [], poisoned = False\<rparr>"

text \<open>A connection on which no statement fails and whose mutex is not poisoned.\<close>

definition healthy :: "conn \<Rightarrow> bool" where
  "healthy c \<longleftrightarrow> faults c = [] \<and> \<not> poisoned c"

section \<open>Statements\<close>

named_theorems sql_simps \<open>evaluation of statements on a healthy connection\<close>

text \<open>\<^verbatim>\<open>lock().unwrap()\<close>, the locked region, and the poisoning of the mutex when it panics.\<close>

definition with_lock :: "(conn \<Rightarrow> ('e, 'a) outcome \<times> conn) \<Rightarrow> conn \<Rightarrow> ('e, 'a) outcome \<times> conn"
  where
  "with_lock f c =
     (if poisoned c then (Panic ''PoisonError'', c)
      else case f c of
             (Panic m, c') \<Rightarrow> (Panic m, c'\<lparr>poisoned := True\<rparr>)
           | (Ok a, c') \<Rightarrow> (Ok a, c')
           | (Err e, c') \<Rightarrow> (Err e, c'))"

definition statement :: "(conn \<Rightarrow> (sql_error, 'a) outcome \<times> conn) \<Rightarrow> conn
    \<Rightarrow> (sql_error, 'a) outcome \<times> conn" where
  "statement f c =
     (case faults c of
        [] \<Rightarrow> f c
      | None # fs \<Rightarrow> f (c\<lparr>faults := fs\<rparr>)
      | Some m # fs \<Rightarrow> (Err (SqliteFailure m), c\<lparr>faults := fs\<rparr>))"

definition on_table :: "string \<Rightarrow> (conn \<Rightarrow> 'r list option)
    \<Rightarrow> ('r list \<Rightarrow> conn \<Rightarrow> (sql_error, 'a) outcome \<times> conn)
    \<Rightarrow> conn \<Rightarrow> (sql_error, 'a) outcome \<times> conn" where
  "on_table name tbl f c =
     (case tbl c of None \<Rightarrow> (Err (NoSuchTable name), c) | Some rows \<Rightarrow> f rows c)"

text \<open>\<^verbatim>\<open>conn.prepare(...)\<close>: fails when SQLite does or when the table is missing.\<close>

definition prepare :: "string \<Rightarrow> (conn \<Rightarrow> 'r list option) \<Rightarrow> conn
    \<Rightarrow> (sql_error, unit) outcome \<times> conn" where
  "prepare name tbl = statement (on_table name tbl (\<lambda>_ c. (Ok (), c)))"

text \<open>\<^verbatim>\<open>query_row\<close> for a \<^verbatim>\<open>SELECT col FROM name WHERE P\<close>: the first row that matches.\<close>

definition query_row :: "string \<Rightarrow> (conn \<Rightarrow> 'r list option) \<Rightarrow> ('r \<Rightarrow> bool) \<Rightarrow> ('r \<Rightarrow> 'a) \<Rightarrow> conn
    \<Rightarrow> (sql_error, 'a) outcome \<times> conn" where
  "query_row name tbl P col = statement (on_table name tbl (\<lambda>rows c.
     case find P rows of
       None \<Rightarrow> (Err QueryReturnedNoRows, c)
     | Some r \<Rightarrow> (Ok (col r), c)))"

text \<open>A query whose result is computed from all rows (\<^verbatim>\<open>COUNT(*)\<close>, an ordered \<^verbatim>\<open>SELECT\<close>).\<close>

definition query_all :: "string \<Rightarrow> (conn \<Rightarrow> 'r list option) \<Rightarrow> ('r list \<Rightarrow> 'a) \<Rightarrow> conn
    \<Rightarrow> (sql_error, 'a) outcome \<times> conn" where
  "query_all name tbl f = statement (on_table name tbl (\<lambda>rows c. (Ok (f rows), c)))"

text \<open>\<^verbatim>\<open>SELECT MAX(col)\<close> read as a number: SQL's \<open>NULL\<close> for no rows is not a number.\<close>

definition query_max :: "string \<Rightarrow> (conn \<Rightarrow> 'r list option) \<Rightarrow> ('r \<Rightarrow> 'a::linorder) \<Rightarrow> conn
    \<Rightarrow> (sql_error, 'a) outcome \<times> conn" where
  "query_max name tbl col = statement (on_table name tbl (\<lambda>rows c.
     case max_of (map col rows) of
       None \<Rightarrow> (Err InvalidColumnType, c)
     | Some m \<Rightarrow> (Ok m, c)))"

text \<open>\<^verbatim>\<open>execute\<close> of a statement that rewrites one table; \<open>put\<close> stores the new rows.\<close>

definition execute :: "string \<Rightarrow> (conn \<Rightarrow> 'r list option) \<Rightarrow> ('r list \<Rightarrow> conn \<Rightarrow> conn)
    \<Rightarrow> ('r list \<Rightarrow> 'r list) \<Rightarrow> conn \<Rightarrow> (sql_error, unit) outcome \<times> conn" where
  "execute name tbl put f = statement (on_table name tbl (\<lambda>rows c. (Ok (), put (f rows) c)))"

text \<open>
  \<^verbatim>\<open>INSERT INTO\<close> a table whose rows must differ in \<open>key\<close>, and \<^verbatim>\<open>UPDATE ... WHERE P\<close>, which
  reports how many rows it changed.
\<close>

definition insert_unique :: "string \<Rightarrow> (conn \<Rightarrow> 'r list option) \<Rightarrow> ('r list \<Rightarrow> conn \<Rightarrow> conn)
    \<Rightarrow> ('r \<Rightarrow> 'k) \<Rightarrow> 'r \<Rightarrow> conn \<Rightarrow> (sql_error, unit) outcome \<times> conn" where
  "insert_unique name tbl put key r = statement (on_table name tbl (\<lambda>rows c.
     if list_ex (\<lambda>r'. key r' = key r) rows
     then (Err (ConstraintViolation ''UNIQUE constraint failed''), c)
     else (Ok (), put (rows @ [r]) c)))"

definition update_rows :: "string \<Rightarrow> (conn \<Rightarrow> 'r list option) \<Rightarrow> ('r list \<Rightarrow> conn \<Rightarrow> conn)
    \<Rightarrow> ('r \<Rightarrow> bool) \<Rightarrow> ('r \<Rightarrow> 'r) \<Rightarrow> conn \<Rightarrow> (sql_error, nat) outcome \<times> conn" where
  "update_rows name tbl put P f = statement (on_table name tbl (\<lambda>rows c.
     (Ok (length (filter P rows)), put (row_update P f rows) c)))"

definition fk_error :: sql_error where
  "fk_error = ConstraintViolation ''FOREIGN KEY constraint failed''"

text \<open>A pragma runs as a statement that touches no table.\<close>

definition pragma :: "conn \<Rightarrow> (sql_error, unit) outcome \<times> conn" where
  "pragma = statement (\<lambda>c. (Ok (), c))"

text \<open>\<^verbatim>\<open>CREATE TABLE IF NOT EXISTS\<close>, and \<^verbatim>\<open>CREATE INDEX IF NOT EXISTS\<close> (no visible effect).\<close>

definition create_table :: "(conn \<Rightarrow> 'r list option) \<Rightarrow> ('r list \<Rightarrow> conn \<Rightarrow> conn) \<Rightarrow> conn
    \<Rightarrow> (sql_error, unit) outcome \<times> conn" where
  "create_table tbl put = statement (\<lambda>c.
     case tbl c of None \<Rightarrow> (Ok (), put [] c) | Some _ \<Rightarrow> (Ok (), c))"

definition create_index :: "string \<Rightarrow> (conn \<Rightarrow> 'r list option) \<Rightarrow> conn
    \<Rightarrow> (sql_error, unit) outcome \<times> conn" where
  "create_index name tbl = prepare name tbl"

section \<open>Evaluation on a healthy connection\<close>

lemma healthyD [sql_simps]: "healthy c \<Longrightarrow> faults c = []" "healthy c \<Longrightarrow> \<not> poisoned c"
  by (simp_all add: healthy_def)

lemma with_lock_healthy:
  "healthy c \<Longrightarrow> f c = (Ok a, c') \<Longrightarrow> with_lock f c = (Ok a, c')"
  "healthy c \<Longrightarrow> f c = (Err e, c') \<Longrightarrow> with_lock f c = (Err e, c')"
  by (simp_all add: with_lock_def healthy_def)

lemma with_lock_unpoisoned [sql_simps]:
  "\<not> poisoned c \<Longrightarrow> with_lock f c =
     (case f c of (Panic m, c') \<Rightarrow> (Panic m, c'\<lparr>poisoned := True\<rparr>) | (Ok a, c') \<Rightarrow> (Ok a, c')
      | (Err e, c') \<Rightarrow> (Err e, c'))"
  by (simp add: with_lock_def)

lemma statement_healthy [sql_simps]: "faults c = [] \<Longrightarrow> statement f c = f c"
  by (simp add: statement_def)

lemma statement_fault [sql_simps]:
  "faults c = Some m # fs \<Longrightarrow> statement f c = (Err (SqliteFailure m), c\<lparr>faults := fs\<rparr>)"
  "faults c = None # fs \<Longrightarrow> statement f c = f (c\<lparr>faults := fs\<rparr>)"
  by (simp_all add: statement_def)

lemma prepare_healthy [sql_simps]:
  "faults c = [] \<Longrightarrow> tbl c = Some rows \<Longrightarrow> prepare name tbl c = (Ok (), c)"
  by (simp add: prepare_def statement_healthy on_table_def)

lemma query_row_healthy [sql_simps]:
  "faults c = [] \<Longrightarrow> tbl c = Some rows \<Longrightarrow> query_row name tbl P col c =
     (case find P rows of None \<Rightarrow> (Err QueryReturnedNoRows, c) | Some r \<Rightarrow> (Ok (col r), c))"
  by (simp add: query_row_def statement_healthy on_table_def)

lemma query_all_healthy [sql_simps]:
  "faults c = [] \<Longrightarrow> tbl c = Some rows \<Longrightarrow> query_all name tbl f c = (Ok (f rows), c)"
  by (simp add: query_all_def statement_healthy on_table_def)

lemma query_max_healthy [sql_simps]:
  "faults c = [] \<Longrightarrow> tbl c = Some rows \<Longrightarrow> query_max name tbl col c =
     (case max_of (map col rows) of None \<Rightarrow> (Err InvalidColumnType, c) | Some m \<Rightarrow> (Ok m, c))"
  by (simp add: query_max_def statement_healthy on_table_def)

lemma execute_healthy [sql_simps]:
  "faults c = [] \<Longrightarrow> tbl c = Some rows \<Longrightarrow>
     execute name tbl put f c = (Ok (), put (f rows) c)"
  by (simp add: execute_def statement_healthy on_table_def)

lemma insert_unique_healthy [sql_simps]:
  "faults c = [] \<Longrightarrow> tbl c = Some rows \<Longrightarrow> insert_unique name tbl put key r c =
     (if key r \<in> key ` set rows then (Err (ConstraintViolation ''UNIQUE constraint failed''), c)
      else (Ok (), put (rows @ [r]) c))"
  by (auto simp: insert_unique_def statement_healthy on_table_def list_ex_iff image_iff
      dest: sym)

lemma update_rows_healthy [sql_simps]:
  "faults c = [] \<Longrightarrow> tbl c = Some rows \<Longrightarrow> update_rows name tbl put P f c =
     (Ok (length (filter P rows)), put (row_update P f rows) c)"
  by (simp add: update_rows_def statement_healthy on_table_def)

lemma create_table_healthy [sql_simps]:
  "faults c = [] \<Longrightarrow> create_table tbl put c =
     (Ok (), case tbl c of None \<Rightarrow> put [] c | Some _ \<Rightarrow> c)"
  by (simp add: create_table_def statement_healthy split: option.splits)

lemma create_index_healthy [sql_simps]:
  "faults c = [] \<Longrightarrow> tbl c = Some rows \<Longrightarrow> create_index name tbl c = (Ok (), c)"
  by (simp add: create_index_def prepare_healthy)

text \<open>
  Every statement either reports an error and leaves the tables alone, or runs; the schedule of
  faults never grows.
\<close>

definition tables_of :: "conn \<Rightarrow> conn" where
  "tables_of c = c\<lparr>faults := [], poisoned := False\<rparr>"

lemma execute_Err_tables:
  "execute name tbl put f c = (Err e, c') \<Longrightarrow> tables_of c' = tables_of c"
  by (auto simp: execute_def statement_def on_table_def tables_of_def
      split: list.splits option.splits)

lemma query_row_tables: "tables_of (snd (query_row name tbl P col c)) = tables_of c"
  by (auto simp: query_row_def statement_def on_table_def tables_of_def
      split: list.splits option.splits)

lemma query_all_tables: "tables_of (snd (query_all name tbl f c)) = tables_of c"
  by (auto simp: query_all_def statement_def on_table_def tables_of_def
      split: list.splits option.splits)

lemma query_max_tables: "tables_of (snd (query_max name tbl col c)) = tables_of c"
  by (auto simp: query_max_def statement_def on_table_def tables_of_def
      split: list.splits option.splits)

lemma prepare_tables: "tables_of (snd (prepare name tbl c)) = tables_of c"
  by (auto simp: prepare_def statement_def on_table_def tables_of_def
      split: list.splits option.splits)

lemmas query_tables = query_row_tables query_all_tables query_max_tables prepare_tables

section \<open>Invariants along statements\<close>

text \<open>An invariant that does not look at the fault schedule, along statements and sequences.\<close>

definition fault_blind :: "(conn \<Rightarrow> bool) \<Rightarrow> bool" where
  "fault_blind I \<longleftrightarrow> (\<forall>c fs. I (c\<lparr>faults := fs\<rparr>) \<longleftrightarrow> I c)"

definition kept :: "('s \<Rightarrow> bool) \<Rightarrow> ('e, 'a) outcome \<times> 's \<Rightarrow> bool" where
  "kept I r \<longleftrightarrow> I (snd r)"

named_theorems kept_intros \<open>an operation keeps an invariant when its parts do\<close>

lemma kept_pair [simp]: "kept I (r, c) \<longleftrightarrow> I c"
  by (simp add: kept_def)

lemma kept_statement:
  "fault_blind I \<Longrightarrow> I c \<Longrightarrow> (\<And>c. I c \<Longrightarrow> kept I (f c)) \<Longrightarrow> kept I (statement f c)"
  by (auto simp: statement_def fault_blind_def kept_def split: list.splits option.splits)

lemma kept_on_table:
  "I c \<Longrightarrow> (\<And>rows. tbl c = Some rows \<Longrightarrow> kept I (f rows c)) \<Longrightarrow> kept I (on_table name tbl f c)"
  by (simp add: on_table_def split: option.splits)

lemma kept_and_then [kept_intros]:
  "kept I r \<Longrightarrow> (\<And>a s. r = (Ok a, s) \<Longrightarrow> I s \<Longrightarrow> kept I (k a s)) \<Longrightarrow> kept I (and_then r k)"
  by (cases r; cases "fst r") auto

lemma kept_map_err [kept_intros]: "kept I r \<Longrightarrow> kept I (map_err f r)"
  by (simp add: kept_def)

lemma kept_ok_of [kept_intros]: "kept I r \<Longrightarrow> kept I (ok_of r)"
  by (cases r; cases "fst r") auto

lemma kept_query_row [kept_intros]:
  "fault_blind I \<Longrightarrow> I c \<Longrightarrow> kept I (query_row name tbl P col c)"
  unfolding query_row_def by (intro kept_statement kept_on_table) (auto split: option.splits)

lemma kept_query_all [kept_intros]: "fault_blind I \<Longrightarrow> I c \<Longrightarrow> kept I (query_all name tbl f c)"
  unfolding query_all_def by (intro kept_statement kept_on_table) auto

lemma kept_prepare [kept_intros]: "fault_blind I \<Longrightarrow> I c \<Longrightarrow> kept I (prepare name tbl c)"
  unfolding prepare_def by (intro kept_statement kept_on_table) auto

lemma kept_create_index [kept_intros]:
  "fault_blind I \<Longrightarrow> I c \<Longrightarrow> kept I (create_index name tbl c)"
  unfolding create_index_def by (rule kept_prepare)

lemma kept_execute [kept_intros]:
  "fault_blind I \<Longrightarrow> I c \<Longrightarrow> (\<And>rows c. I c \<Longrightarrow> tbl c = Some rows \<Longrightarrow> I (put (f rows) c)) \<Longrightarrow>
    kept I (execute name tbl put f c)"
  unfolding execute_def by (intro kept_statement kept_on_table) auto

lemma kept_update_rows [kept_intros]:
  "fault_blind I \<Longrightarrow> I c \<Longrightarrow>
    (\<And>rows c. I c \<Longrightarrow> tbl c = Some rows \<Longrightarrow> I (put (row_update P f rows) c)) \<Longrightarrow>
    kept I (update_rows name tbl put P f c)"
  unfolding update_rows_def by (intro kept_statement kept_on_table) auto

lemma kept_insert_unique [kept_intros]:
  "fault_blind I \<Longrightarrow> I c \<Longrightarrow>
    (\<And>rows c. I c \<Longrightarrow> tbl c = Some rows \<Longrightarrow> I (put (rows @ [r]) c)) \<Longrightarrow>
    kept I (insert_unique name tbl put key r c)"
  unfolding insert_unique_def by (intro kept_statement kept_on_table) auto

lemma kept_create_table [kept_intros]:
  "fault_blind I \<Longrightarrow> I c \<Longrightarrow> (\<And>c. I c \<Longrightarrow> tbl c = None \<Longrightarrow> I (put [] c)) \<Longrightarrow>
    kept I (create_table tbl put c)"
  unfolding create_table_def by (intro kept_statement) (auto split: option.splits)

lemma kept_weaken: "kept J r \<Longrightarrow> (\<And>c. J c \<Longrightarrow> I c) \<Longrightarrow> kept I r"
  by (simp add: kept_def)

lemma keptD: "kept I r \<Longrightarrow> r = (x, c') \<Longrightarrow> I c'"
  by simp

end
