(* ===== verification/Signal_Storage.thy ===== *)
theory Signal_Storage
  imports Lotl_Database Storage_Trait
begin

text \<open>
  The SQLite backend of \<^verbatim>\<open>src/src/signal_storage.rs\<close>: the five stores over the tables of one
  connection, each method with its lock, its statements in order and its error mapping, and the
  storage object with its life cycle (created, initialised, closed). The contracts of
  \<^verbatim>\<open>Storage_Trait\<close> are interpreted on it in \<^verbatim>\<open>Signal_Storage_Laws\<close>.
\<close>

section \<open>Shared error mapping\<close>

abbreviation storage_sql :: "string \<Rightarrow> sql_error \<Rightarrow> signal_error" where
  "storage_sql prefix e \<equiv> InvalidState ''storage'' (FmtSql prefix e)"

abbreviation storage_sig :: "string \<Rightarrow> signal_error \<Rightarrow> signal_error" where
  "storage_sig prefix e \<equiv> InvalidState ''storage'' (FmtSignal prefix e)"

definition prepare_s :: "string \<Rightarrow> (conn \<Rightarrow> 'r list option) \<Rightarrow> conn
    \<Rightarrow> (signal_error, unit) outcome \<times> conn" where
  "prepare_s name tbl c = map_err (storage_sql ''Failed to prepare statement: '') (prepare name tbl c)"

text \<open>
  The \<^verbatim>\<open>match result\<close> every getter ends with: decode the blob, or report the missing row as
  \<open>absent\<close>, or wrap the database error.
\<close>

definition decode_row :: "string \<Rightarrow> (bytes \<Rightarrow> (signal_error, 'r) outcome) \<Rightarrow> ('r \<Rightarrow> 'a)
    \<Rightarrow> (signal_error, 'a) outcome \<Rightarrow> (sql_error, bytes) outcome \<times> conn
    \<Rightarrow> (signal_error, 'a) outcome \<times> conn" where
  "decode_row prefix dec wrap absent result =
     (case result of
        (Ok data, c) \<Rightarrow>
          and_then (map_err (storage_sig prefix) (dec data, c)) (\<lambda>r c. (Ok (wrap r), c))
      | (Err QueryReturnedNoRows, c) \<Rightarrow> (absent, c)
      | (Err e, c) \<Rightarrow> (Err (storage_sql ''Database error: '' e), c)
      | (Panic m, c) \<Rightarrow> (Panic m, c))"

text \<open>The \<^verbatim>\<open>COUNT(*)\<close> methods: a failed prepare panics, a failed step counts as zero.\<close>

definition count_rows :: "string \<Rightarrow> (conn \<Rightarrow> 'r list option) \<Rightarrow> conn
    \<Rightarrow> (box_error, nat) outcome \<times> conn" where
  "count_rows name tbl = with_lock (\<lambda>c.
     and_then (unwrap_o ''called `Result::unwrap()` on an `Err` value'' (prepare name tbl c)) (\<lambda>_ c.
       unwrap_or_o 0 (query_all name tbl length c)))"

text \<open>
  \<^verbatim>\<open>SELECT MAX(id)\<close>: a failed prepare is an error, but any failure of the query itself (no rows,
  or SQLite failing) is \<^verbatim>\<open>.ok()\<close>, that is \<open>None\<close>.
\<close>

definition max_row_id :: "string \<Rightarrow> (conn \<Rightarrow> 'r list option) \<Rightarrow> ('r \<Rightarrow> u32) \<Rightarrow> conn
    \<Rightarrow> (box_error, u32 option) outcome \<times> conn" where
  "max_row_id name tbl col = with_lock (\<lambda>c.
     and_then (map_err BoxSqlite (prepare name tbl c)) (\<lambda>_ c. ok_of (query_max name tbl col c)))"

text \<open>Comparing an \<^verbatim>\<open>INTEGER\<close> column with a text parameter reads the text as a number.\<close>

definition integer_eq_text :: "nat \<Rightarrow> string \<Rightarrow> bool" where
  "integer_eq_text n t \<longleftrightarrow> read_nat t = Some n"

section \<open>SqliteSessionStore\<close>

abbreviation "put_sessions \<equiv> \<lambda>rows c. c\<lparr>sessions := Some rows\<rparr>"

definition sqlite_session_create_tables :: "conn \<Rightarrow> (lotl_error, unit) outcome \<times> conn" where
  "sqlite_session_create_tables c = map_err Database (create_table sessions put_sessions c)"

definition session_matches :: "ProtocolAddress \<Rightarrow> session_row \<Rightarrow> bool" where
  "session_matches a r \<longleftrightarrow> se_address r = address_name a \<and>
     integer_eq_text (se_device_id r) (show_nat (device_number a))"

definition session_key :: "session_row \<Rightarrow> string \<times> nat" where
  "session_key r = (se_address r, se_device_id r)"

definition sqlite_load_session :: "('sess, 'z) blob_lib_scheme \<Rightarrow> ProtocolAddress \<Rightarrow> conn
    \<Rightarrow> (signal_error, 'sess option) outcome \<times> conn" where
  "sqlite_load_session L a = with_lock (\<lambda>c.
     and_then (prepare_s ''sessions'' sessions c) (\<lambda>_ c.
       decode_row ''Failed to deserialize session: '' (deserialize L) Some (Ok None)
         (query_row ''sessions'' sessions (session_matches a) se_session_data c)))"

definition sqlite_store_session :: "('sess, 'z) blob_lib_scheme \<Rightarrow> ProtocolAddress \<Rightarrow> 'sess \<Rightarrow> conn
    \<Rightarrow> (signal_error, unit) outcome \<times> conn" where
  "sqlite_store_session L a record = with_lock (\<lambda>c.
     and_then (map_err (storage_sig ''Failed to serialize session: '') (serialize L record, c))
       (\<lambda>serialized c.
         map_err (storage_sql ''Failed to store session: '')
           (execute ''sessions'' sessions put_sessions
              (row_upsert session_key
                 \<lparr>se_address = address_name a, se_device_id = device_number a,
                  se_session_data = serialized, se_created_at = unixepoch c,
                  se_updated_at = unixepoch c\<rparr>) c)))"

definition sqlite_session_count :: "conn \<Rightarrow> (box_error, nat) outcome \<times> conn" where
  "sqlite_session_count = count_rows ''sessions'' sessions"

definition sqlite_clear_all_sessions :: "conn \<Rightarrow> (box_error, unit) outcome \<times> conn" where
  "sqlite_clear_all_sessions = with_lock (\<lambda>c.
     map_err BoxSqlite (execute ''sessions'' sessions put_sessions (\<lambda>_. []) c))"

definition sqlite_delete_session :: "ProtocolAddress \<Rightarrow> conn \<Rightarrow> (box_error, unit) outcome \<times> conn"
  where
  "sqlite_delete_session a = with_lock (\<lambda>c.
     map_err BoxSqlite (execute ''sessions'' sessions put_sessions
       (filter (\<lambda>r. \<not> session_matches a r)) c))"

section \<open>SqliteIdentityStore\<close>

text \<open>
  What the store calls in libsignal: \<^verbatim>\<open>IdentityKeyPair::serialize\<close>, \<^verbatim>\<open>IdentityKeyPair::try_from\<close>,
  \<^verbatim>\<open>identity_key()\<close>, and \<^verbatim>\<open>IdentityKey\<close>'s \<^verbatim>\<open>serialize\<close>, \<^verbatim>\<open>try_from\<close> and \<^verbatim>\<open>decode\<close>.
\<close>

record ('ikp, 'ik) identity_lib =
  pair_serialize :: "'ikp \<Rightarrow> bytes"
  pair_try_from :: "bytes \<Rightarrow> (signal_error, 'ikp) outcome"
  pair_identity_key :: "'ikp \<Rightarrow> 'ik"
  ik_serialize :: "'ik \<Rightarrow> bytes"
  ik_try_from :: "bytes \<Rightarrow> (signal_error, 'ik) outcome"
  ik_decode :: "bytes \<Rightarrow> (signal_error, 'ik) outcome"

abbreviation "put_local_identity \<equiv> \<lambda>rows c. c\<lparr>local_identity := Some rows\<rparr>"
abbreviation "put_identity_keys \<equiv> \<lambda>rows c. c\<lparr>identity_keys := Some rows\<rparr>"

definition sqlite_identity_create_tables :: "conn \<Rightarrow> (lotl_error, unit) outcome \<times> conn" where
  "sqlite_identity_create_tables c =
     and_then (map_err Database (create_table local_identity put_local_identity c)) (\<lambda>_ c.
       map_err Database (create_table identity_keys put_identity_keys c))"

definition identity_matches :: "ProtocolAddress \<Rightarrow> identity_key_row \<Rightarrow> bool" where
  "identity_matches a r \<longleftrightarrow> ik_address r = address_name a \<and>
     integer_eq_text (ik_device_id r) (show_nat (device_number a))"

definition identity_row_key :: "identity_key_row \<Rightarrow> string \<times> nat" where
  "identity_row_key r = (ik_address r, ik_device_id r)"

definition sqlite_get_identity_key_pair :: "('ikp, 'ik, 'z) identity_lib_scheme \<Rightarrow> conn
    \<Rightarrow> (signal_error, 'ikp) outcome \<times> conn" where
  "sqlite_get_identity_key_pair I = with_lock (\<lambda>c.
     and_then (prepare_s ''local_identity'' local_identity c) (\<lambda>_ c.
       decode_row ''Failed to deserialize identity key pair: '' (pair_try_from I) id
         (Err (InvalidState ''storage'' (Text ''Local identity key pair not set'')))
         (query_row ''local_identity'' local_identity (\<lambda>r. li_id r = 1) li_private_key c)))"

definition sqlite_get_local_registration_id :: "conn \<Rightarrow> (signal_error, u32) outcome \<times> conn" where
  "sqlite_get_local_registration_id = with_lock (\<lambda>c.
     and_then (prepare_s ''local_identity'' local_identity c) (\<lambda>_ c.
       case query_row ''local_identity'' local_identity (\<lambda>r. li_id r = 1) li_registration_id c of
         (Ok registration_id, c) \<Rightarrow> (Ok registration_id, c)
       | (Err QueryReturnedNoRows, c) \<Rightarrow>
           (Err (InvalidState ''storage'' (Text ''Local registration ID not set'')), c)
       | (Err e, c) \<Rightarrow> (Err (storage_sql ''Database error: '' e), c)
       | (Panic m, c) \<Rightarrow> (Panic m, c)))"

definition sqlite_save_identity :: "('ikp, 'ik, 'z) identity_lib_scheme \<Rightarrow> ProtocolAddress \<Rightarrow> 'ik
    \<Rightarrow> conn \<Rightarrow> (signal_error, IdentityChange) outcome \<times> conn" where
  "sqlite_save_identity I a key = with_lock (\<lambda>c.
     let serialized_key = ik_serialize I key in
     and_then (prepare_s ''identity_keys'' identity_keys c) (\<lambda>_ c.
     and_then
       (case query_row ''identity_keys'' identity_keys (identity_matches a) ik_public_key c of
          (Ok existing_data, c) \<Rightarrow>
            (Ok (if existing_data = serialized_key then NewOrUnchanged else ReplacedExisting), c)
        | (Err QueryReturnedNoRows, c) \<Rightarrow> (Ok NewOrUnchanged, c)
        | (Err e, c) \<Rightarrow> (Err (storage_sql ''Database error: '' e), c)
        | (Panic m, c) \<Rightarrow> (Panic m, c)) (\<lambda>change_type c.
     and_then (map_err (storage_sql ''Failed to store identity: '')
       (execute ''identity_keys'' identity_keys put_identity_keys
          (row_upsert identity_row_key
             \<lparr>ik_address = address_name a, ik_device_id = device_number a,
              ik_public_key = serialized_key, ik_trust_level = 0,
              ik_first_seen = unixepoch c, ik_last_seen = unixepoch c,
              ik_verified_at = None\<rparr>) c)) (\<lambda>_ c.
     (Ok change_type, c)))))"

definition sqlite_get_identity :: "('ikp, 'ik, 'z) identity_lib_scheme \<Rightarrow> ProtocolAddress \<Rightarrow> conn
    \<Rightarrow> (signal_error, 'ik option) outcome \<times> conn" where
  "sqlite_get_identity I a = with_lock (\<lambda>c.
     and_then (prepare_s ''identity_keys'' identity_keys c) (\<lambda>_ c.
       decode_row ''Failed to deserialize identity key: '' (ik_try_from I) Some (Ok None)
         (query_row ''identity_keys'' identity_keys (identity_matches a) ik_public_key c)))"

definition sqlite_is_trusted_identity :: "('ikp, 'ik, 'z) identity_lib_scheme \<Rightarrow> ProtocolAddress
    \<Rightarrow> 'ik \<Rightarrow> Direction \<Rightarrow> conn \<Rightarrow> (signal_error, bool) outcome \<times> conn" where
  "sqlite_is_trusted_identity I a key d c =
     and_then (sqlite_get_identity I a c) (\<lambda>stored_identity c.
       case stored_identity of
         None \<Rightarrow> (Ok True, c)
       | Some stored_key \<Rightarrow> (Ok (stored_key = key), c))"

definition sqlite_identity_count :: "conn \<Rightarrow> (box_error, nat) outcome \<times> conn" where
  "sqlite_identity_count = count_rows ''identity_keys'' identity_keys"

definition sqlite_set_local_identity_key_pair :: "('ikp, 'ik, 'z) identity_lib_scheme \<Rightarrow> 'ikp
    \<Rightarrow> conn \<Rightarrow> (box_error, unit) outcome \<times> conn" where
  "sqlite_set_local_identity_key_pair I kp = with_lock (\<lambda>c.
     let serialized_keypair = pair_serialize I kp;
         public_key_bytes = ik_serialize I (pair_identity_key I kp) in
     map_err BoxSqlite (execute ''local_identity'' local_identity put_local_identity
       (\<lambda>rows. row_upsert li_id
          \<lparr>li_id = 1,
           li_registration_id =
             (case find_row li_id 1 rows of Some r \<Rightarrow> li_registration_id r | None \<Rightarrow> 0),
           li_private_key = serialized_keypair, li_public_key = public_key_bytes,
           li_created_at = unixepoch c, li_updated_at = unixepoch c\<rparr> rows) c))"

definition sqlite_set_local_registration_id :: "u32 \<Rightarrow> conn \<Rightarrow> (box_error, unit) outcome \<times> conn"
  where
  "sqlite_set_local_registration_id registration_id = with_lock (\<lambda>c.
     map_err BoxSqlite (execute ''local_identity'' local_identity put_local_identity
       (\<lambda>rows. row_upsert li_id
          \<lparr>li_id = 1, li_registration_id = registration_id,
           li_private_key =
             (case find_row li_id 1 rows of Some r \<Rightarrow> li_private_key r | None \<Rightarrow> []),
           li_public_key =
             (case find_row li_id 1 rows of Some r \<Rightarrow> li_public_key r | None \<Rightarrow> []),
           li_created_at = unixepoch c, li_updated_at = unixepoch c\<rparr> rows) c))"

definition sqlite_get_peer_identity :: "('ikp, 'ik, 'z) identity_lib_scheme \<Rightarrow> ProtocolAddress
    \<Rightarrow> conn \<Rightarrow> (box_error, 'ik option) outcome \<times> conn" where
  "sqlite_get_peer_identity I a = with_lock (\<lambda>c.
     and_then (map_err BoxSqlite (prepare ''identity_keys'' identity_keys c)) (\<lambda>_ c.
       case query_row ''identity_keys'' identity_keys (identity_matches a) ik_public_key c of
         (Ok key_bytes, c) \<Rightarrow>
           and_then (map_err BoxSignal (ik_decode I key_bytes, c)) (\<lambda>k c. (Ok (Some k), c))
       | (Err QueryReturnedNoRows, c) \<Rightarrow> (Ok None, c)
       | (Err e, c) \<Rightarrow> (Err (BoxSqlite e), c)
       | (Panic m, c) \<Rightarrow> (Panic m, c)))"

definition sqlite_delete_identity :: "ProtocolAddress \<Rightarrow> conn \<Rightarrow> (box_error, unit) outcome \<times> conn"
  where
  "sqlite_delete_identity a = with_lock (\<lambda>c.
     map_err BoxSqlite (execute ''identity_keys'' identity_keys put_identity_keys
       (filter (\<lambda>r. \<not> identity_matches a r)) c))"

definition sqlite_clear_all_identities :: "conn \<Rightarrow> (box_error, unit) outcome \<times> conn" where
  "sqlite_clear_all_identities = with_lock (\<lambda>c.
     map_err BoxSqlite (execute ''identity_keys'' identity_keys put_identity_keys (\<lambda>_. []) c))"

definition sqlite_clear_local_identity :: "conn \<Rightarrow> (box_error, unit) outcome \<times> conn" where
  "sqlite_clear_local_identity = with_lock (\<lambda>c.
     map_err BoxSqlite (execute ''local_identity'' local_identity put_local_identity (\<lambda>_. []) c))"

end
