(* ===== verification/Signal_Storage_Keys.thy ===== *)
theory Signal_Storage_Keys
  imports Signal_Storage
begin

text \<open>
  The key stores of \<^verbatim>\<open>src/src/signal_storage.rs\<close> (one-time, signed and Kyber pre-keys) and the
  \<^verbatim>\<open>SqliteStorage\<close> object: its accessors, initialisation and closing, and the operation records
  that make it a \<^verbatim>\<open>SignalStorageContainer\<close>.
\<close>

section \<open>SqlitePreKeyStore\<close>

abbreviation "put_pre_keys \<equiv> \<lambda>rows c. c\<lparr>pre_keys := Some rows\<rparr>"

definition sqlite_pre_key_create_tables :: "conn \<Rightarrow> (lotl_error, unit) outcome \<times> conn" where
  "sqlite_pre_key_create_tables c = map_err Database (create_table pre_keys put_pre_keys c)"

definition sqlite_get_pre_key :: "('pk, 'z) blob_lib_scheme \<Rightarrow> u32 \<Rightarrow> conn
    \<Rightarrow> (signal_error, 'pk) outcome \<times> conn" where
  "sqlite_get_pre_key L i = with_lock (\<lambda>c.
     and_then (prepare_s ''pre_keys'' pre_keys c) (\<lambda>_ c.
       decode_row ''Failed to deserialize pre key: '' (deserialize L) id (Err InvalidPreKeyId)
         (query_row ''pre_keys'' pre_keys (\<lambda>r. pk_id r = i) pk_key_data c)))"

definition sqlite_save_pre_key :: "('pk, 'z) blob_lib_scheme \<Rightarrow> u32 \<Rightarrow> 'pk \<Rightarrow> conn
    \<Rightarrow> (signal_error, unit) outcome \<times> conn" where
  "sqlite_save_pre_key L i record = with_lock (\<lambda>c.
     and_then (map_err (storage_sig ''Failed to serialize pre key: '') (serialize L record, c))
       (\<lambda>serialized c.
         map_err (storage_sql ''Failed to store pre key: '')
           (execute ''pre_keys'' pre_keys put_pre_keys
              (row_upsert pk_id
                 \<lparr>pk_id = i, pk_key_data = serialized, pk_created_at = unixepoch c,
                  pk_used_at = None\<rparr>) c)))"

definition sqlite_remove_pre_key :: "u32 \<Rightarrow> conn \<Rightarrow> (signal_error, unit) outcome \<times> conn" where
  "sqlite_remove_pre_key i = with_lock (\<lambda>c.
     map_err (storage_sql ''Failed to remove pre key: '')
       (execute ''pre_keys'' pre_keys put_pre_keys (row_delete pk_id i) c))"

definition sqlite_pre_key_count :: "conn \<Rightarrow> (box_error, nat) outcome \<times> conn" where
  "sqlite_pre_key_count = count_rows ''pre_keys'' pre_keys"

definition sqlite_clear_all_pre_keys :: "conn \<Rightarrow> (box_error, unit) outcome \<times> conn" where
  "sqlite_clear_all_pre_keys = with_lock (\<lambda>c.
     map_err BoxSqlite (execute ''pre_keys'' pre_keys put_pre_keys (\<lambda>_. []) c))"

definition sqlite_get_max_pre_key_id :: "conn \<Rightarrow> (box_error, u32 option) outcome \<times> conn" where
  "sqlite_get_max_pre_key_id = max_row_id ''pre_keys'' pre_keys pk_id"

definition sqlite_delete_pre_key :: "u32 \<Rightarrow> conn \<Rightarrow> (box_error, unit) outcome \<times> conn" where
  "sqlite_delete_pre_key i = with_lock (\<lambda>c.
     map_err BoxSqlite (execute ''pre_keys'' pre_keys put_pre_keys (row_delete pk_id i) c))"

section \<open>SqliteSignedPreKeyStore\<close>

text \<open>
  \<^verbatim>\<open>timestamp_millis / 1000\<close>, stored and compared \<^verbatim>\<open>as i64\<close>. The quotient is below \<open>2 ^ 55\<close>, so
  neither the conversion nor the 30 days added for \<^verbatim>\<open>expires_at\<close> can overflow.
\<close>

definition millis_to_secs :: "u64 \<Rightarrow> u64" where
  "millis_to_secs ts = ts div 1000"

definition secs_as_i64 :: "u64 \<Rightarrow> int" where
  "secs_as_i64 ts = sint (millis_to_secs ts)"

definition expires_at :: "u64 \<Rightarrow> int" where
  "expires_at ts = uint (millis_to_secs ts + 30 * 24 * 60 * 60)"

abbreviation "put_signed_pre_keys \<equiv> \<lambda>rows c. c\<lparr>signed_pre_keys := Some rows\<rparr>"

definition sqlite_signed_pre_key_create_tables :: "conn \<Rightarrow> (lotl_error, unit) outcome \<times> conn"
  where
  "sqlite_signed_pre_key_create_tables c =
     map_err Database (create_table signed_pre_keys put_signed_pre_keys c)"

definition sqlite_get_signed_pre_key :: "('r, 'z) blob_lib_scheme \<Rightarrow> u32 \<Rightarrow> conn
    \<Rightarrow> (signal_error, 'r) outcome \<times> conn" where
  "sqlite_get_signed_pre_key L i = with_lock (\<lambda>c.
     and_then (prepare_s ''signed_pre_keys'' signed_pre_keys c) (\<lambda>_ c.
       decode_row ''Failed to deserialize signed pre key: '' (deserialize L) id
         (Err InvalidSignedPreKeyId)
         (query_row ''signed_pre_keys'' signed_pre_keys (\<lambda>r. rk_id r = i) rk_key_data c)))"

definition sqlite_save_signed_pre_key :: "('r, 'z) key_record_lib_scheme \<Rightarrow> u32 \<Rightarrow> 'r \<Rightarrow> conn
    \<Rightarrow> (signal_error, unit) outcome \<times> conn" where
  "sqlite_save_signed_pre_key L i record = with_lock (\<lambda>c.
     and_then (map_err (storage_sig ''Failed to serialize signed pre key: '')
       (serialize L record, c)) (\<lambda>serialized c.
     and_then (map_err (storage_sig ''Failed to get record timestamp: '')
       (record_timestamp L record, c)) (\<lambda>ts c.
     and_then (map_err (storage_sig ''Failed to get signature: '')
       (record_signature L record, c)) (\<lambda>signature c.
     map_err (storage_sql ''Failed to store signed pre key: '')
       (execute ''signed_pre_keys'' signed_pre_keys put_signed_pre_keys
          (row_upsert rk_id
             \<lparr>rk_id = i, rk_key_data = serialized, rk_signature = signature,
              rk_created_at = secs_as_i64 ts, rk_expires_at = expires_at ts,
              rk_is_current = False\<rparr>) c)))))"

definition sqlite_signed_pre_key_count :: "conn \<Rightarrow> (box_error, nat) outcome \<times> conn" where
  "sqlite_signed_pre_key_count = count_rows ''signed_pre_keys'' signed_pre_keys"

definition sqlite_clear_all_signed_pre_keys :: "conn \<Rightarrow> (box_error, unit) outcome \<times> conn" where
  "sqlite_clear_all_signed_pre_keys = with_lock (\<lambda>c.
     map_err BoxSqlite
       (execute ''signed_pre_keys'' signed_pre_keys put_signed_pre_keys (\<lambda>_. []) c))"

definition sqlite_get_max_signed_pre_key_id :: "conn \<Rightarrow> (box_error, u32 option) outcome \<times> conn"
  where
  "sqlite_get_max_signed_pre_key_id = max_row_id ''signed_pre_keys'' signed_pre_keys rk_id"

definition sqlite_delete_signed_pre_key :: "u32 \<Rightarrow> conn \<Rightarrow> (box_error, unit) outcome \<times> conn"
  where
  "sqlite_delete_signed_pre_key i = with_lock (\<lambda>c.
     map_err BoxSqlite
       (execute ''signed_pre_keys'' signed_pre_keys put_signed_pre_keys (row_delete rk_id i) c))"

text \<open>A \<^verbatim>\<open>SELECT\<close> without \<^verbatim>\<open>ORDER BY\<close>: \<open>rank\<close> fixes the order in which rows come.\<close>

definition sqlite_get_signed_pre_keys_older_than :: "(u32 \<Rightarrow> nat) \<Rightarrow> u64 \<Rightarrow> conn
    \<Rightarrow> (box_error, u32 list) outcome \<times> conn" where
  "sqlite_get_signed_pre_keys_older_than rank timestamp_millis = with_lock (\<lambda>c.
     let timestamp_secs = secs_as_i64 timestamp_millis in
     and_then (map_err BoxSqlite (prepare ''signed_pre_keys'' signed_pre_keys c)) (\<lambda>_ c.
       map_err BoxSqlite (query_all ''signed_pre_keys'' signed_pre_keys
         (\<lambda>rows. map rk_id (filter (\<lambda>r. rk_created_at r < timestamp_secs) (visit rank rk_id rows)))
         c)))"

section \<open>SqliteKyberPreKeyStore\<close>

abbreviation "put_kyber_pre_keys \<equiv> \<lambda>rows c. c\<lparr>kyber_pre_keys := Some rows\<rparr>"

definition sqlite_kyber_pre_key_create_tables :: "conn \<Rightarrow> (lotl_error, unit) outcome \<times> conn"
  where
  "sqlite_kyber_pre_key_create_tables c =
     map_err Database (create_table kyber_pre_keys put_kyber_pre_keys c)"

definition sqlite_get_kyber_pre_key :: "('r, 'z) blob_lib_scheme \<Rightarrow> u32 \<Rightarrow> conn
    \<Rightarrow> (signal_error, 'r) outcome \<times> conn" where
  "sqlite_get_kyber_pre_key L i = with_lock (\<lambda>c.
     and_then (prepare_s ''kyber_pre_keys'' kyber_pre_keys c) (\<lambda>_ c.
       decode_row ''Failed to deserialize kyber pre key: '' (deserialize L) id
         (Err InvalidKyberPreKeyId)
         (query_row ''kyber_pre_keys'' kyber_pre_keys (\<lambda>r. rk_id r = i) rk_key_data c)))"

definition sqlite_save_kyber_pre_key :: "('r, 'z) key_record_lib_scheme \<Rightarrow> u32 \<Rightarrow> 'r \<Rightarrow> conn
    \<Rightarrow> (signal_error, unit) outcome \<times> conn" where
  "sqlite_save_kyber_pre_key L i record = with_lock (\<lambda>c.
     and_then (map_err (storage_sig ''Failed to serialize kyber pre key: '')
       (serialize L record, c)) (\<lambda>serialized c.
     and_then (map_err (storage_sig ''Failed to get timestamp: '')
       (record_timestamp L record, c)) (\<lambda>ts c.
     and_then (map_err (storage_sig ''Failed to get signature: '')
       (record_signature L record, c)) (\<lambda>signature c.
     map_err (storage_sql ''Failed to store kyber pre key: '')
       (execute ''kyber_pre_keys'' kyber_pre_keys put_kyber_pre_keys
          (row_upsert rk_id
             \<lparr>rk_id = i, rk_key_data = serialized, rk_signature = signature,
              rk_created_at = secs_as_i64 ts, rk_expires_at = expires_at ts,
              rk_is_current = False\<rparr>) c)))))"

definition sqlite_mark_kyber_pre_key_used :: "u32 \<Rightarrow> conn \<Rightarrow> (signal_error, unit) outcome \<times> conn"
  where
  "sqlite_mark_kyber_pre_key_used i = with_lock (\<lambda>c.
     map_err (storage_sql ''Failed to mark kyber pre key as used: '')
       (execute ''kyber_pre_keys'' kyber_pre_keys put_kyber_pre_keys
          (row_update (\<lambda>r. rk_id r = i) (\<lambda>r. r\<lparr>rk_is_current := False\<rparr>)) c))"

definition sqlite_kyber_pre_key_count :: "conn \<Rightarrow> (box_error, nat) outcome \<times> conn" where
  "sqlite_kyber_pre_key_count = count_rows ''kyber_pre_keys'' kyber_pre_keys"

definition sqlite_clear_all_kyber_pre_keys :: "conn \<Rightarrow> (box_error, unit) outcome \<times> conn" where
  "sqlite_clear_all_kyber_pre_keys = with_lock (\<lambda>c.
     map_err BoxSqlite
       (execute ''kyber_pre_keys'' kyber_pre_keys put_kyber_pre_keys (\<lambda>_. []) c))"

definition sqlite_get_max_kyber_pre_key_id :: "conn \<Rightarrow> (box_error, u32 option) outcome \<times> conn"
  where
  "sqlite_get_max_kyber_pre_key_id = max_row_id ''kyber_pre_keys'' kyber_pre_keys rk_id"

definition sqlite_delete_kyber_pre_key :: "u32 \<Rightarrow> conn \<Rightarrow> (box_error, unit) outcome \<times> conn" where
  "sqlite_delete_kyber_pre_key i = with_lock (\<lambda>c.
     map_err BoxSqlite
       (execute ''kyber_pre_keys'' kyber_pre_keys put_kyber_pre_keys (row_delete rk_id i) c))"

definition sqlite_get_kyber_pre_keys_older_than :: "(u32 \<Rightarrow> nat) \<Rightarrow> u64 \<Rightarrow> conn
    \<Rightarrow> (box_error, u32 list) outcome \<times> conn" where
  "sqlite_get_kyber_pre_keys_older_than rank timestamp_millis = with_lock (\<lambda>c.
     let timestamp_secs = secs_as_i64 timestamp_millis in
     and_then (map_err BoxSqlite (prepare ''kyber_pre_keys'' kyber_pre_keys c)) (\<lambda>_ c.
       map_err BoxSqlite (query_all ''kyber_pre_keys'' kyber_pre_keys
         (\<lambda>rows. map rk_id (filter (\<lambda>r. rk_created_at r < timestamp_secs) (visit rank rk_id rows)))
         c)))"

section \<open>SqliteStorage\<close>

text \<open>
  A store object holds nothing but the shared connection, so an \<^verbatim>\<open>Option<SqliteSessionStore>\<close> is
  a flag saying whether it is there.
\<close>

record sqlite_storage =
  st_connection :: conn
  st_session_store :: bool
  st_identity_store :: bool
  st_pre_key_store :: bool
  st_signed_pre_key_store :: bool
  st_kyber_pre_key_store :: bool
  st_is_closed :: bool

definition sqlite_storage_new :: "conn \<Rightarrow> sqlite_storage" where
  "sqlite_storage_new c = \<lparr>st_connection = c, st_session_store = False,
     st_identity_store = False, st_pre_key_store = False, st_signed_pre_key_store = False,
     st_kyber_pre_key_store = False, st_is_closed = False\<rparr>"

abbreviation "put_schema_info \<equiv> \<lambda>rows c. c\<lparr>schema_info := Some rows\<rparr>"

text \<open>
  \<^verbatim>\<open>INSERT OR IGNORE INTO schema_info (version) VALUES (1)\<close>: the table has neither a primary key
  nor a unique column, so no row conflicts and a row is always added.
\<close>

definition insert_schema_version :: "conn \<Rightarrow> (sql_error, unit) outcome \<times> conn" where
  "insert_schema_version c =
     execute ''schema_info'' schema_info put_schema_info
       (\<lambda>rows. rows @ [\<lparr>si_version = 1, si_updated_at = unixepoch c\<rparr>]) c"

definition sqlite_initialize_schema :: "sqlite_storage \<Rightarrow> (lotl_error, unit) outcome \<times> sqlite_storage"
  where
  "sqlite_initialize_schema s =
     (case with_lock (\<lambda>c.
        and_then (map_err Database (create_table schema_info put_schema_info c)) (\<lambda>_ c.
        and_then (map_err Database (insert_schema_version c)) (\<lambda>_ c.
        and_then (sqlite_identity_create_tables c) (\<lambda>_ c.
        and_then (sqlite_session_create_tables c) (\<lambda>_ c.
        and_then (sqlite_pre_key_create_tables c) (\<lambda>_ c.
        and_then (sqlite_signed_pre_key_create_tables c) (\<lambda>_ c.
          sqlite_kyber_pre_key_create_tables c))))))) (st_connection s) of
        (r, c) \<Rightarrow>
          and_then (r, s\<lparr>st_connection := c\<rparr>) (\<lambda>_ s.
            (Ok (), s\<lparr>st_session_store := True, st_identity_store := True,
               st_pre_key_store := True, st_signed_pre_key_store := True,
               st_kyber_pre_key_store := True\<rparr>)))"

definition sqlite_initialize :: "sqlite_storage \<Rightarrow> (box_error, unit) outcome \<times> sqlite_storage"
  where
  "sqlite_initialize s = map_err BoxLotl (sqlite_initialize_schema s)"

definition sqlite_storage_schema_version :: "sqlite_storage
    \<Rightarrow> (lotl_error, int) outcome \<times> sqlite_storage" where
  "sqlite_storage_schema_version s =
     (case with_lock (\<lambda>c.
        and_then (map_err Database (prepare ''schema_info'' schema_info c)) (\<lambda>_ c.
          map_err Database (query_row ''schema_info'' schema_info (\<lambda>_. True) si_version c)))
        (st_connection s) of
        (r, c) \<Rightarrow> (r, s\<lparr>st_connection := c\<rparr>))"

definition sqlite_close :: "sqlite_storage \<Rightarrow> (box_error, unit) outcome \<times> sqlite_storage" where
  "sqlite_close s =
     (if st_is_closed s then (Ok (), s)
      else
        (case with_lock (\<lambda>c.
           and_then (map_err BoxSqlite (pragma c)) (\<lambda>_ c.
             and_then (ok_of (pragma c)) (\<lambda>_ c. (Ok (), c)))) (st_connection s) of
           (r, c) \<Rightarrow>
             and_then (r, s\<lparr>st_connection := c\<rparr>) (\<lambda>_ s.
               (Ok (), s\<lparr>st_is_closed := True, st_session_store := False,
                  st_identity_store := False, st_pre_key_store := False,
                  st_signed_pre_key_store := False, st_kyber_pre_key_store := False\<rparr>))))"

text \<open>The accessors: panic when closed, panic when the store is not there.\<close>

definition access :: "(sqlite_storage \<Rightarrow> bool) \<Rightarrow> sqlite_storage \<Rightarrow> ('e, unit) outcome" where
  "access present s =
     (if st_is_closed s then Panic ''Storage has been closed''
      else if \<not> present s then Panic ''Storage not initialized''
      else Ok ())"

definition sqlite_session_accessor :: "sqlite_storage \<Rightarrow> ('e, unit) outcome" where
  "sqlite_session_accessor = access st_session_store"

definition sqlite_identity_accessor :: "sqlite_storage \<Rightarrow> ('e, unit) outcome" where
  "sqlite_identity_accessor = access st_identity_store"

definition sqlite_pre_key_accessor :: "sqlite_storage \<Rightarrow> ('e, unit) outcome" where
  "sqlite_pre_key_accessor = access st_pre_key_store"

definition sqlite_signed_pre_key_accessor :: "sqlite_storage \<Rightarrow> ('e, unit) outcome" where
  "sqlite_signed_pre_key_accessor = access st_signed_pre_key_store"

definition sqlite_kyber_pre_key_accessor :: "sqlite_storage \<Rightarrow> ('e, unit) outcome" where
  "sqlite_kyber_pre_key_accessor = access st_kyber_pre_key_store"

text \<open>A method of a store called through its accessor.\<close>

definition through :: "(sqlite_storage \<Rightarrow> ('e, unit) outcome)
    \<Rightarrow> (conn \<Rightarrow> ('e, 'a) outcome \<times> conn) \<Rightarrow> sqlite_storage \<Rightarrow> ('e, 'a) outcome \<times> sqlite_storage"
  where
  "through acc f s =
     and_then (acc s, s) (\<lambda>_ s.
       case f (st_connection s) of (r, c) \<Rightarrow> (r, s\<lparr>st_connection := c\<rparr>))"

section \<open>The container's operation records\<close>

definition sqlite_session_store :: "('sess, 'z) blob_lib_scheme
    \<Rightarrow> (sqlite_storage, 'sess) session_store" where
  "sqlite_session_store L =
     \<lparr>load_session = \<lambda>a. through sqlite_session_accessor (sqlite_load_session L a),
      store_session = \<lambda>a r. through sqlite_session_accessor (sqlite_store_session L a r),
      session_count = through sqlite_session_accessor sqlite_session_count,
      clear_all_sessions = through sqlite_session_accessor sqlite_clear_all_sessions,
      delete_session = \<lambda>a. through sqlite_session_accessor (sqlite_delete_session a)\<rparr>"

definition sqlite_identity_store :: "('ikp, 'ik, 'z) identity_lib_scheme
    \<Rightarrow> (sqlite_storage, 'ikp, 'ik) identity_store" where
  "sqlite_identity_store I =
     \<lparr>get_identity_key_pair = through sqlite_identity_accessor (sqlite_get_identity_key_pair I),
      get_local_registration_id =
        through sqlite_identity_accessor sqlite_get_local_registration_id,
      save_identity = \<lambda>a k. through sqlite_identity_accessor (sqlite_save_identity I a k),
      is_trusted_identity =
        \<lambda>a k d. through sqlite_identity_accessor (sqlite_is_trusted_identity I a k d),
      get_identity = \<lambda>a. through sqlite_identity_accessor (sqlite_get_identity I a),
      identity_count = through sqlite_identity_accessor sqlite_identity_count,
      set_local_identity_key_pair =
        \<lambda>kp. through sqlite_identity_accessor (sqlite_set_local_identity_key_pair I kp),
      set_local_registration_id =
        \<lambda>i. through sqlite_identity_accessor (sqlite_set_local_registration_id i),
      get_peer_identity = \<lambda>a. through sqlite_identity_accessor (sqlite_get_peer_identity I a),
      delete_identity = \<lambda>a. through sqlite_identity_accessor (sqlite_delete_identity a),
      clear_all_identities = through sqlite_identity_accessor sqlite_clear_all_identities,
      clear_local_identity = through sqlite_identity_accessor sqlite_clear_local_identity\<rparr>"

definition sqlite_pre_key_store :: "('pk, 'z) blob_lib_scheme
    \<Rightarrow> (sqlite_storage, 'pk) pre_key_store" where
  "sqlite_pre_key_store L =
     \<lparr>get_pre_key = \<lambda>i. through sqlite_pre_key_accessor (sqlite_get_pre_key L i),
      save_pre_key = \<lambda>i r. through sqlite_pre_key_accessor (sqlite_save_pre_key L i r),
      remove_pre_key = \<lambda>i. through sqlite_pre_key_accessor (sqlite_remove_pre_key i),
      pre_key_count = through sqlite_pre_key_accessor sqlite_pre_key_count,
      clear_all_pre_keys = through sqlite_pre_key_accessor sqlite_clear_all_pre_keys,
      get_max_pre_key_id = through sqlite_pre_key_accessor sqlite_get_max_pre_key_id,
      delete_pre_key = \<lambda>i. through sqlite_pre_key_accessor (sqlite_delete_pre_key i)\<rparr>"

definition sqlite_signed_store :: "('r, 'z) key_record_lib_scheme \<Rightarrow> (u32 \<Rightarrow> nat)
    \<Rightarrow> (sqlite_storage, 'r) rotating_store" where
  "sqlite_signed_store L rank =
     \<lparr>get_key = \<lambda>i. through sqlite_signed_pre_key_accessor (sqlite_get_signed_pre_key L i),
      save_key = \<lambda>i r. through sqlite_signed_pre_key_accessor (sqlite_save_signed_pre_key L i r),
      key_count = through sqlite_signed_pre_key_accessor sqlite_signed_pre_key_count,
      clear_all_keys = through sqlite_signed_pre_key_accessor sqlite_clear_all_signed_pre_keys,
      get_max_key_id = through sqlite_signed_pre_key_accessor sqlite_get_max_signed_pre_key_id,
      delete_key = \<lambda>i. through sqlite_signed_pre_key_accessor (sqlite_delete_signed_pre_key i),
      get_keys_older_than = \<lambda>t. through sqlite_signed_pre_key_accessor
        (sqlite_get_signed_pre_keys_older_than rank t)\<rparr>"

definition sqlite_kyber_store :: "('r, 'z) key_record_lib_scheme \<Rightarrow> (u32 \<Rightarrow> nat)
    \<Rightarrow> (sqlite_storage, 'r) kyber_store" where
  "sqlite_kyber_store L rank =
     \<lparr>get_key = \<lambda>i. through sqlite_kyber_pre_key_accessor (sqlite_get_kyber_pre_key L i),
      save_key = \<lambda>i r. through sqlite_kyber_pre_key_accessor (sqlite_save_kyber_pre_key L i r),
      key_count = through sqlite_kyber_pre_key_accessor sqlite_kyber_pre_key_count,
      clear_all_keys = through sqlite_kyber_pre_key_accessor sqlite_clear_all_kyber_pre_keys,
      get_max_key_id = through sqlite_kyber_pre_key_accessor sqlite_get_max_kyber_pre_key_id,
      delete_key = \<lambda>i. through sqlite_kyber_pre_key_accessor (sqlite_delete_kyber_pre_key i),
      get_keys_older_than = \<lambda>t. through sqlite_kyber_pre_key_accessor
        (sqlite_get_kyber_pre_keys_older_than rank t),
      mark_key_used = \<lambda>i. through sqlite_kyber_pre_key_accessor
        (sqlite_mark_kyber_pre_key_used i)\<rparr>"

end
