(* ===== verification/Signal_Storage_Laws.thy ===== *)
theory Signal_Storage_Laws
  imports Signal_Storage_Keys
begin

text \<open>
  The SQLite backend keeps the storage contracts: each store, read through its table, is a finite
  map from keys to decoded records, and on a healthy connection every method does to that map
  what \<^verbatim>\<open>Storage_Trait\<close> promises.
\<close>

section \<open>Tables of blobs as maps\<close>

definition decoded :: "(bytes \<Rightarrow> (signal_error, 'v) outcome) \<Rightarrow> bytes \<Rightarrow> 'v option" where
  "decoded dec b = (case dec b of Ok v \<Rightarrow> Some v | _ \<Rightarrow> None)"

definition blob_view :: "(bytes \<Rightarrow> (signal_error, 'v) outcome) \<Rightarrow> ('r \<Rightarrow> 'k) \<Rightarrow> ('r \<Rightarrow> bytes)
    \<Rightarrow> 'r list option \<Rightarrow> 'k \<Rightarrow> 'v option" where
  "blob_view dec key blob tbl x =
     (case tbl of None \<Rightarrow> None
      | Some rows \<Rightarrow> Option.bind (find_row key x rows) (\<lambda>r. decoded dec (blob r)))"

definition blobs_good :: "(bytes \<Rightarrow> (signal_error, 'v) outcome) \<Rightarrow> ('r \<Rightarrow> 'k) \<Rightarrow> ('r \<Rightarrow> bytes)
    \<Rightarrow> 'r list \<Rightarrow> bool" where
  "blobs_good dec key blob rows \<longleftrightarrow>
     keys_distinct key rows \<and> (\<forall>r \<in> set rows. decoded dec (blob r) \<noteq> None)"

lemma find_is_find_row: "find (\<lambda>r. key r = x) rows = find_row key x rows"
  by (simp add: find_row_def)

lemma blobs_good_Nil [simp]: "blobs_good dec key blob []"
  by (simp add: blobs_good_def)

lemma blobs_good_upsert:
  "blobs_good dec key blob rows \<Longrightarrow> decoded dec (blob r) \<noteq> None \<Longrightarrow>
    blobs_good dec key blob (row_upsert key r rows)"
  by (auto simp: blobs_good_def keys_distinct_upsert set_upsert)

lemma blobs_good_delete:
  "blobs_good dec key blob rows \<Longrightarrow> blobs_good dec key blob (row_delete key x rows)"
  by (auto simp: blobs_good_def keys_distinct_delete set_delete)

lemma blob_view_upsert:
  "decoded dec (blob r) = Some v \<Longrightarrow> blob_view dec key blob (Some (row_upsert key r rows)) =
    (blob_view dec key blob (Some rows))(key r \<mapsto> v)"
  by (auto simp: blob_view_def find_row_upsert fun_eq_iff)

lemma blob_view_delete:
  "blob_view dec key blob (Some (row_delete key x rows)) =
    (blob_view dec key blob (Some rows))(x := None)"
  by (auto simp: blob_view_def find_row_delete fun_eq_iff)

lemma blob_view_Nil [simp]: "blob_view dec key blob (Some []) = Map.empty"
  by (simp add: blob_view_def fun_eq_iff)

lemma blob_view_cases:
  assumes "blobs_good dec key blob rows"
  obtains (absent) "find_row key x rows = None" "blob_view dec key blob (Some rows) x = None"
  | (present) r v where "find_row key x rows = Some r" "r \<in> set rows" "key r = x"
      "dec (blob r) = Ok v" "blob_view dec key blob (Some rows) x = Some v"
proof (cases "find_row key x rows")
  case None
  then show ?thesis by (intro absent) (simp_all add: blob_view_def)
next
  case (Some r)
  from find_row_key [OF Some] assms have r: "key r = x" "r \<in> set rows" "decoded dec (blob r) \<noteq> None"
    by (auto simp: blobs_good_def)
  from r(3) obtain v where "dec (blob r) = Ok v" by (auto simp: decoded_def split: outcome.splits)
  with Some r show ?thesis
    by (intro present [of r v]) (simp_all add: blob_view_def decoded_def)
qed

lemma dom_blob_view:
  assumes "blobs_good dec key blob rows"
  shows "dom (blob_view dec key blob (Some rows)) = key ` set rows"
proof -
  have "x \<in> dom (blob_view dec key blob (Some rows)) \<longleftrightarrow> find_row key x rows \<noteq> None" for x
    by (rule blob_view_cases [OF assms, of x]) auto
  then show ?thesis by (auto simp: find_row_None_iff)
qed

lemma decode_row_view:
  assumes "blobs_good dec key blob rows" "faults c = []" "tbl c = Some rows"
  shows "decode_row prefix dec wrap absent (query_row name tbl (\<lambda>r. key r = x) blob c) =
    (case blob_view dec key blob (Some rows) x of
       None \<Rightarrow> (absent, c) | Some v \<Rightarrow> (Ok (wrap v), c))"
  by (rule blob_view_cases [OF assms(1), of x])
    (simp_all add: decode_row_def query_row_healthy assms(2,3) find_is_find_row)

section \<open>Generic methods on a healthy connection\<close>

lemma count_rows_healthy [sql_simps]:
  "healthy c \<Longrightarrow> tbl c = Some rows \<Longrightarrow> count_rows name tbl c = (Ok (length rows), c)"
  by (simp add: count_rows_def sql_simps)

lemma max_row_id_healthy [sql_simps]:
  "healthy c \<Longrightarrow> tbl c = Some rows \<Longrightarrow> max_row_id name tbl col c = (Ok (max_of (map col rows)), c)"
  by (simp add: max_row_id_def sql_simps split: option.splits)

lemma prepare_s_healthy [sql_simps]:
  "faults c = [] \<Longrightarrow> tbl c = Some rows \<Longrightarrow> prepare_s name tbl c = (Ok (), c)"
  by (simp add: prepare_s_def sql_simps)

lemma integer_eq_show [simp]: "integer_eq_text n (show_nat m) \<longleftrightarrow> n = m"
  by (auto simp: integer_eq_text_def)

section \<open>The storage object\<close>

definition ready :: "sqlite_storage \<Rightarrow> bool" where
  "ready s \<longleftrightarrow> \<not> st_is_closed s \<and> st_session_store s \<and> st_identity_store s \<and>
     st_pre_key_store s \<and> st_signed_pre_key_store s \<and> st_kyber_pre_key_store s \<and>
     healthy (st_connection s)"

lemmas accessor_defs = sqlite_session_accessor_def sqlite_identity_accessor_def
  sqlite_pre_key_accessor_def sqlite_signed_pre_key_accessor_def
  sqlite_kyber_pre_key_accessor_def access_def

lemma through_ready [sql_simps]:
  assumes "ready s"
  shows "through sqlite_session_accessor f s =
      (case f (st_connection s) of (r, c) \<Rightarrow> (r, s\<lparr>st_connection := c\<rparr>))"
    and "through sqlite_identity_accessor f s =
      (case f (st_connection s) of (r, c) \<Rightarrow> (r, s\<lparr>st_connection := c\<rparr>))"
    and "through sqlite_pre_key_accessor f s =
      (case f (st_connection s) of (r, c) \<Rightarrow> (r, s\<lparr>st_connection := c\<rparr>))"
    and "through sqlite_signed_pre_key_accessor f s =
      (case f (st_connection s) of (r, c) \<Rightarrow> (r, s\<lparr>st_connection := c\<rparr>))"
    and "through sqlite_kyber_pre_key_accessor f s =
      (case f (st_connection s) of (r, c) \<Rightarrow> (r, s\<lparr>st_connection := c\<rparr>))"
  using assms by (simp_all add: through_def accessor_defs ready_def)

lemma ready_healthy [sql_simps]:
  "ready s \<Longrightarrow> healthy (st_connection s)" "ready s \<Longrightarrow> faults (st_connection s) = []"
  "ready s \<Longrightarrow> \<not> poisoned (st_connection s)"
  by (simp_all add: ready_def healthy_def)

lemma ready_update:
  "ready s \<Longrightarrow> healthy c \<Longrightarrow> ready (s\<lparr>st_connection := c\<rparr>)"
  by (simp add: ready_def)

lemma healthy_put [simp]:
  "healthy (c\<lparr>sessions := x1\<rparr>) = healthy c" "healthy (c\<lparr>identity_keys := x2\<rparr>) = healthy c"
  "healthy (c\<lparr>pre_keys := x3\<rparr>) = healthy c" "healthy (c\<lparr>signed_pre_keys := x4\<rparr>) = healthy c"
  "healthy (c\<lparr>kyber_pre_keys := x5\<rparr>) = healthy c" "healthy (c\<lparr>local_identity := x6\<rparr>) = healthy c"
  by (simp_all add: healthy_def)

section \<open>Timestamps\<close>

lemma sint_small: "uint (x :: u64) < 2 ^ 63 \<Longrightarrow> sint x = uint x"
proof -
  assume h: "uint x < 2 ^ 63"
  have "- (2 ^ 63) \<le> (0 :: int)" by simp
  also have "0 \<le> uint x" by simp
  finally show ?thesis using h by (simp add: sint_uint signed_take_bit_int_eq_self)
qed

lemma uint_div_1000: "uint ((x :: u64) div 1000) = uint x div 1000"
  by (simp add: uint_div)

lemma uint_secs_bound: "uint (millis_to_secs ts) < 2 ^ 55"
proof -
  have "uint ts < 2 ^ 64" using uint_lt2p [of ts] by simp
  then show ?thesis by (simp add: millis_to_secs_def uint_div_1000)
qed

lemma secs_as_i64_uint: "secs_as_i64 ts = uint ts div 1000"
  using sint_small [of "millis_to_secs ts"] uint_secs_bound [of ts]
  by (simp add: secs_as_i64_def millis_to_secs_def uint_div_1000)

lemma secs_as_i64_less: "secs_as_i64 a < secs_as_i64 b \<longleftrightarrow> a div 1000 < b div 1000"
  by (simp add: secs_as_i64_uint word_less_def uint_div_1000)

text \<open>\<^verbatim>\<open>expires_at\<close> is 30 days after the creation second, without wrap-around.\<close>

lemma expires_at_eq: "expires_at ts = secs_as_i64 ts + 2592000"
proof -
  have "uint (millis_to_secs ts) + 2592000 < 2 ^ 64" using uint_secs_bound [of ts] by simp
  then have "uint (millis_to_secs ts + 2592000) = uint (millis_to_secs ts) + 2592000"
    by (simp add: uint_word_ariths)
  then show ?thesis
    by (simp add: expires_at_def secs_as_i64_uint millis_to_secs_def uint_div_1000)
qed

section \<open>Sessions\<close>

definition address_pair :: "ProtocolAddress \<Rightarrow> string \<times> nat" where
  "address_pair a = (address_name a, device_number a)"

lemma inj_address_pair: "inj address_pair"
  by (auto simp: inj_def address_pair_def device_number_def word_unat_eq_iff)

lemma address_pair_inject [simp]: "address_pair a = address_pair b \<longleftrightarrow> a = b"
  using inj_address_pair by (auto simp: inj_def)

lemma address_pair_range: "n < 256 \<Longrightarrow> (name, n) \<in> range address_pair"
  by (rule image_eqI [where x = "\<lparr>address_name = name, address_device_id = word_of_nat n\<rparr>"])
    (simp_all add: address_pair_def device_number_def unat_of_nat take_bit_nat_eq_self)

lemma device_number_bound: "device_number a < 256"
  using unsigned_less [of "address_device_id a", where 'a = nat] by (simp add: device_number_def)

lemma session_matches_key: "session_matches a = (\<lambda>r. session_key r = address_pair a)"
  by (auto simp: session_matches_def session_key_def address_pair_def fun_eq_iff)

definition sqlite_sessions_view :: "('sess, 'z) blob_lib_scheme \<Rightarrow> sqlite_storage
    \<Rightarrow> ProtocolAddress \<Rightarrow> 'sess option" where
  "sqlite_sessions_view L s a =
     blob_view (deserialize L) session_key se_session_data (sessions (st_connection s)) (address_pair a)"

definition sqlite_sessions_good :: "('sess, 'z) blob_lib_scheme \<Rightarrow> sqlite_storage \<Rightarrow> bool" where
  "sqlite_sessions_good L s \<longleftrightarrow> ready s \<and>
     (\<exists>rows. sessions (st_connection s) = Some rows \<and>
        blobs_good (deserialize L) session_key se_session_data rows \<and>
        (\<forall>r \<in> set rows. se_device_id r < 256))"

lemma sqlite_load_law:
  "sqlite_sessions_good L s \<Longrightarrow>
    load_session (sqlite_session_store L) a s = (Ok (sqlite_sessions_view L s a), s)"
  by (auto simp: sqlite_sessions_good_def sqlite_session_store_def sql_simps sqlite_load_session_def
      session_matches_key decode_row_view sqlite_sessions_view_def
      simp del: query_row_healthy split: option.splits)

lemma sqlite_store_law:
  assumes "sqlite_sessions_good L s" "round_trips L r"
  shows "\<exists>s'. store_session (sqlite_session_store L) a r s = (Ok (), s') \<and>
    sqlite_sessions_good L s' \<and>
    sqlite_sessions_view L s' = (sqlite_sessions_view L s)(a \<mapsto> r)"
proof -
  from assms(2) obtain b where b: "serialize L r = Ok b" "deserialize L b = Ok r"
    by (rule round_tripsE)
  from assms(1) obtain rows where rows: "ready s" "sessions (st_connection s) = Some rows"
    "blobs_good (deserialize L) session_key se_session_data rows"
    "\<forall>r \<in> set rows. se_device_id r < 256"
    by (auto simp: sqlite_sessions_good_def)
  define row where "row = \<lparr>se_address = address_name a, se_device_id = device_number a,
    se_session_data = b, se_created_at = unixepoch (st_connection s),
    se_updated_at = unixepoch (st_connection s)\<rparr>"
  have key: "session_key row = address_pair a" "decoded (deserialize L) (se_session_data row) = Some r"
    using b by (simp_all add: row_def session_key_def address_pair_def decoded_def)
  let ?s' = "s\<lparr>st_connection := (st_connection s)\<lparr>sessions := Some (row_upsert session_key row rows)\<rparr>\<rparr>"
  have "store_session (sqlite_session_store L) a r s = (Ok (), ?s')"
    using rows b by (simp add: sqlite_session_store_def sqlite_store_session_def sql_simps row_def)
  moreover have "sqlite_sessions_good L ?s'"
    using rows key device_number_bound [of a]
    by (auto simp: sqlite_sessions_good_def ready_update sql_simps set_upsert row_def
        intro!: blobs_good_upsert)
  moreover have "sqlite_sessions_view L ?s' = (sqlite_sessions_view L s)(a \<mapsto> r)"
    using rows
    by (auto simp: sqlite_sessions_view_def fun_eq_iff key(1)
        blob_view_upsert [where blob = se_session_data, OF key(2)])
  ultimately show ?thesis by blast
qed

lemma sqlite_delete_session_law:
  "sqlite_sessions_good L s \<Longrightarrow>
    \<exists>s'. delete_session (sqlite_session_store L) a s = (Ok (), s') \<and> sqlite_sessions_good L s' \<and>
      sqlite_sessions_view L s' = (sqlite_sessions_view L s)(a := None)"
  using blobs_good_delete
  by (auto simp: sqlite_sessions_good_def sqlite_session_store_def sqlite_delete_session_def
      sql_simps session_matches_key row_delete_def [symmetric] ready_update set_delete
      sqlite_sessions_view_def blob_view_delete fun_eq_iff)

lemma sqlite_clear_sessions_law:
  "sqlite_sessions_good L s \<Longrightarrow>
    \<exists>s'. clear_all_sessions (sqlite_session_store L) s = (Ok (), s') \<and> sqlite_sessions_good L s' \<and>
      sqlite_sessions_view L s' = Map.empty"
  by (auto simp: sqlite_sessions_good_def sqlite_session_store_def sqlite_clear_all_sessions_def
      sql_simps ready_update sqlite_sessions_view_def fun_eq_iff)

lemma sqlite_session_count_law:
  assumes "sqlite_sessions_good L s"
  shows "finite (dom (sqlite_sessions_view L s)) \<and>
    session_count (sqlite_session_store L) s = (Ok (card (dom (sqlite_sessions_view L s))), s)"
proof -
  from assms obtain rows where rows: "ready s" "sessions (st_connection s) = Some rows"
    "blobs_good (deserialize L) session_key se_session_data rows"
    "\<forall>r \<in> set rows. se_device_id r < 256"
    by (auto simp: sqlite_sessions_good_def)
  have dom: "dom (sqlite_sessions_view L s) = address_pair -` (session_key ` set rows)"
    using rows(2) by (auto simp: sqlite_sessions_view_def simp flip: dom_blob_view [OF rows(3)])
  moreover have "session_key ` set rows \<subseteq> range address_pair"
    using rows(4) address_pair_range by (auto simp: session_key_def)
  moreover have "length rows = card (session_key ` set rows)"
    using rows(3) by (simp add: blobs_good_def length_keys)
  ultimately show ?thesis
    using rows(1,2) card_vimage_inj [OF inj_address_pair, of "session_key ` set rows"]
      finite_vimageI [OF _ inj_address_pair, of "session_key ` set rows"]
    by (simp add: sqlite_session_store_def sqlite_session_count_def sql_simps)
qed

interpretation sqlite_sess: sessions_contract
  "load_session (sqlite_session_store L)" "store_session (sqlite_session_store L)"
  "session_count (sqlite_session_store L)" "clear_all_sessions (sqlite_session_store L)"
  "delete_session (sqlite_session_store L)" "sqlite_sessions_good L" "sqlite_sessions_view L"
  "round_trips L"
  by unfold_locales
    (rule sqlite_load_law sqlite_store_law sqlite_delete_session_law sqlite_clear_sessions_law
      sqlite_session_count_law; assumption)+

section \<open>Peer identities\<close>

text \<open>\<^verbatim>\<open>IdentityKey\<close> is read back from its serialisation, whichever of the two readers is used.\<close>

definition identity_keys_round_trip :: "('ikp, 'ik, 'z) identity_lib_scheme \<Rightarrow> bool" where
  "identity_keys_round_trip I \<longleftrightarrow>
     (\<forall>k. ik_try_from I (ik_serialize I k) = Ok k \<and> ik_decode I (ik_serialize I k) = Ok k)"

lemma identity_matches_key: "identity_matches a = (\<lambda>r. identity_row_key r = address_pair a)"
  by (auto simp: identity_matches_def identity_row_key_def address_pair_def fun_eq_iff)

definition sqlite_identities_view :: "('ikp, 'ik, 'z) identity_lib_scheme \<Rightarrow> sqlite_storage
    \<Rightarrow> ProtocolAddress \<Rightarrow> 'ik option" where
  "sqlite_identities_view I s a =
     blob_view (ik_try_from I) identity_row_key ik_public_key (identity_keys (st_connection s))
       (address_pair a)"

definition sqlite_identities_good :: "('ikp, 'ik, 'z) identity_lib_scheme \<Rightarrow> sqlite_storage \<Rightarrow> bool"
  where
  "sqlite_identities_good I s \<longleftrightarrow> ready s \<and> identity_keys_round_trip I \<and>
     (\<exists>rows. identity_keys (st_connection s) = Some rows \<and>
        keys_distinct identity_row_key rows \<and>
        (\<forall>r \<in> set rows. \<exists>k. ik_public_key r = ik_serialize I k))"

lemma identities_blobs_good:
  "identity_keys_round_trip I \<Longrightarrow> keys_distinct identity_row_key rows \<Longrightarrow>
    \<forall>r \<in> set rows. \<exists>k. ik_public_key r = ik_serialize I k \<Longrightarrow>
    blobs_good (ik_try_from I) identity_row_key ik_public_key rows"
  by (fastforce simp: blobs_good_def decoded_def identity_keys_round_trip_def)

lemma sqlite_identities_goodE:
  assumes "sqlite_identities_good I s"
  obtains rows where "ready s" "identity_keys (st_connection s) = Some rows"
    "blobs_good (ik_try_from I) identity_row_key ik_public_key rows"
  using assms identities_blobs_good by (auto simp: sqlite_identities_good_def)

lemma sqlite_get_identity_law:
  "sqlite_identities_good I s \<Longrightarrow>
    get_identity (sqlite_identity_store I) a s = (Ok (sqlite_identities_view I s a), s)"
  by (erule sqlite_identities_goodE)
    (auto simp: sqlite_identity_store_def sql_simps sqlite_get_identity_def identity_matches_key
      decode_row_view sqlite_identities_view_def simp del: query_row_healthy split: option.splits)

lemma sqlite_trusted_law:
  "sqlite_identities_good I s \<Longrightarrow>
    is_trusted_identity (sqlite_identity_store I) a k d s =
      (Ok (case sqlite_identities_view I s a of None \<Rightarrow> True | Some k' \<Rightarrow> k' = k), s)"
  by (erule sqlite_identities_goodE)
    (auto simp: sqlite_identity_store_def sql_simps sqlite_is_trusted_identity_def
      sqlite_get_identity_def identity_matches_key decode_row_view sqlite_identities_view_def
      simp del: query_row_healthy split: option.splits)

text \<open>Comparing the stored bytes is comparing keys.\<close>

lemma identity_change:
  assumes "identity_keys_round_trip I" "identity_keys (st_connection s) = Some rows"
    "keys_distinct identity_row_key rows" "\<forall>r \<in> set rows. \<exists>k. ik_public_key r = ik_serialize I k"
  shows "(case find_row identity_row_key (address_pair a) rows of
        None \<Rightarrow> NewOrUnchanged
      | Some r \<Rightarrow> if ik_public_key r = ik_serialize I k then NewOrUnchanged else ReplacedExisting) =
      (case sqlite_identities_view I s a of
        None \<Rightarrow> NewOrUnchanged
      | Some k' \<Rightarrow> if k' = k then NewOrUnchanged else ReplacedExisting)"
proof (rule blob_view_cases [OF identities_blobs_good [OF assms(1,3,4)], of "address_pair a"], goal_cases)
  case 1
  then show ?case by (simp add: sqlite_identities_view_def assms(2))
next
  case present: (2 r v)
  have rt: "ik_try_from I (ik_serialize I j) = Ok j" for j
    using assms(1) by (simp add: identity_keys_round_trip_def)
  from present(2) assms(4) obtain j where "ik_public_key r = ik_serialize I j" by blast
  with present rt show ?case
    by (simp add: sqlite_identities_view_def assms(2)) (metis outcome.inject(1))
qed

lemma sqlite_save_identity_law:
  assumes "sqlite_identities_good I s"
  shows "\<exists>s'. save_identity (sqlite_identity_store I) a k s =
      (Ok (case sqlite_identities_view I s a of
             None \<Rightarrow> NewOrUnchanged
           | Some k' \<Rightarrow> if k' = k then NewOrUnchanged else ReplacedExisting), s') \<and>
    sqlite_identities_good I s' \<and>
    sqlite_identities_view I s' = (sqlite_identities_view I s)(a \<mapsto> k)"
proof -
  from assms obtain rows where rows: "ready s" "identity_keys_round_trip I"
    "identity_keys (st_connection s) = Some rows" "keys_distinct identity_row_key rows"
    "\<forall>r \<in> set rows. \<exists>k. ik_public_key r = ik_serialize I k"
    by (auto simp: sqlite_identities_good_def)
  define row where "row = \<lparr>ik_address = address_name a, ik_device_id = device_number a,
    ik_public_key = ik_serialize I k, ik_trust_level = 0,
    ik_first_seen = unixepoch (st_connection s), ik_last_seen = unixepoch (st_connection s),
    ik_verified_at = None\<rparr>"
  have rt: "ik_try_from I (ik_serialize I j) = Ok j" for j
    using rows(2) by (simp add: identity_keys_round_trip_def)
  have key: "identity_row_key row = address_pair a"
    "decoded (ik_try_from I) (ik_public_key row) = Some k"
    using rt by (simp_all add: row_def identity_row_key_def address_pair_def decoded_def)
  let ?c = "(st_connection s)\<lparr>identity_keys := Some (row_upsert identity_row_key row rows)\<rparr>"
  let ?s' = "s\<lparr>st_connection := ?c\<rparr>"
  have "save_identity (sqlite_identity_store I) a k s =
      (Ok (case find_row identity_row_key (address_pair a) rows of
             None \<Rightarrow> NewOrUnchanged
           | Some r \<Rightarrow> if ik_public_key r = ik_serialize I k then NewOrUnchanged
               else ReplacedExisting), ?s')"
    using rows(1,3)
    by (auto simp: sqlite_identity_store_def sqlite_save_identity_def sql_simps Let_def
        identity_matches_key find_is_find_row row_def split: option.splits)
  moreover have "sqlite_identities_good I ?s'"
    using rows by (auto simp: sqlite_identities_good_def ready_update sql_simps set_upsert row_def)
  moreover have "sqlite_identities_view I ?s' = (sqlite_identities_view I s)(a \<mapsto> k)"
    using rows(3) by (auto simp: sqlite_identities_view_def fun_eq_iff key(1)
        blob_view_upsert [where blob = ik_public_key, OF key(2)])
  ultimately show ?thesis unfolding identity_change [OF rows(2-5)] by blast
qed

lemma sqlite_delete_identity_law:
  "sqlite_identities_good I s \<Longrightarrow>
    \<exists>s'. delete_identity (sqlite_identity_store I) a s = (Ok (), s') \<and>
      sqlite_identities_good I s' \<and>
      sqlite_identities_view I s' = (sqlite_identities_view I s)(a := None)"
  by (auto simp: sqlite_identities_good_def sqlite_identity_store_def sqlite_delete_identity_def
      sql_simps identity_matches_key row_delete_def [symmetric] ready_update set_delete
      sqlite_identities_view_def blob_view_delete keys_distinct_delete fun_eq_iff)

interpretation sqlite_ident: identities_contract
  "save_identity (sqlite_identity_store I)" "is_trusted_identity (sqlite_identity_store I)"
  "get_identity (sqlite_identity_store I)" "delete_identity (sqlite_identity_store I)"
  "sqlite_identities_good I" "sqlite_identities_view I"
  by unfold_locales
    (rule sqlite_get_identity_law sqlite_trusted_law sqlite_save_identity_law
      sqlite_delete_identity_law; assumption)+

section \<open>One-time pre-keys\<close>

definition sqlite_pre_keys_view :: "('pk, 'z) blob_lib_scheme \<Rightarrow> sqlite_storage \<Rightarrow> u32 \<Rightarrow> 'pk option"
  where
  "sqlite_pre_keys_view L s = blob_view (deserialize L) pk_id pk_key_data (pre_keys (st_connection s))"

definition sqlite_pre_keys_good :: "('pk, 'z) blob_lib_scheme \<Rightarrow> sqlite_storage \<Rightarrow> bool" where
  "sqlite_pre_keys_good L s \<longleftrightarrow> ready s \<and>
     (\<exists>rows. pre_keys (st_connection s) = Some rows \<and>
        blobs_good (deserialize L) pk_id pk_key_data rows)"

definition without_pre_keys :: "sqlite_storage \<Rightarrow> sqlite_storage" where
  "without_pre_keys s = s\<lparr>st_connection := (st_connection s)\<lparr>pre_keys := None\<rparr>\<rparr>"

lemma sqlite_get_pre_key_law:
  "sqlite_pre_keys_good L s \<Longrightarrow> get_pre_key (sqlite_pre_key_store L) i s =
    ((case sqlite_pre_keys_view L s i of None \<Rightarrow> Err InvalidPreKeyId | Some r \<Rightarrow> Ok r), s)"
  by (auto simp: sqlite_pre_keys_good_def sqlite_pre_key_store_def sql_simps
      sqlite_get_pre_key_def decode_row_view sqlite_pre_keys_view_def
      simp del: query_row_healthy split: option.splits)

lemma sqlite_save_pre_key_law:
  assumes "sqlite_pre_keys_good L s" "round_trips L r"
  shows "\<exists>s'. save_pre_key (sqlite_pre_key_store L) i r s = (Ok (), s') \<and>
    sqlite_pre_keys_good L s' \<and>
    sqlite_pre_keys_view L s' = (sqlite_pre_keys_view L s)(i \<mapsto> r) \<and>
    without_pre_keys s' = without_pre_keys s"
proof -
  from assms(2) obtain b where b: "serialize L r = Ok b" "deserialize L b = Ok r"
    by (rule round_tripsE)
  then have "decoded (deserialize L) b = Some r" by (simp add: decoded_def)
  with assms(1) b show ?thesis
    by (auto simp: sqlite_pre_keys_good_def sqlite_pre_key_store_def sqlite_save_pre_key_def
        sql_simps ready_update without_pre_keys_def sqlite_pre_keys_view_def blob_view_upsert
        intro!: blobs_good_upsert)
qed

lemma sqlite_delete_pre_key_law:
  "sqlite_pre_keys_good L s \<Longrightarrow>
    \<exists>s'. delete_pre_key (sqlite_pre_key_store L) i s = (Ok (), s') \<and> sqlite_pre_keys_good L s' \<and>
      sqlite_pre_keys_view L s' = (sqlite_pre_keys_view L s)(i := None) \<and>
      without_pre_keys s' = without_pre_keys s"
  by (auto simp: sqlite_pre_keys_good_def sqlite_pre_key_store_def sqlite_delete_pre_key_def
      sql_simps ready_update without_pre_keys_def sqlite_pre_keys_view_def blob_view_delete
      intro: blobs_good_delete)

lemma sqlite_remove_pre_key_law:
  "sqlite_pre_keys_good L s \<Longrightarrow>
    \<exists>s'. remove_pre_key (sqlite_pre_key_store L) i s = (Ok (), s') \<and> sqlite_pre_keys_good L s' \<and>
      sqlite_pre_keys_view L s' = (sqlite_pre_keys_view L s)(i := None) \<and>
      without_pre_keys s' = without_pre_keys s"
  by (auto simp: sqlite_pre_keys_good_def sqlite_pre_key_store_def sqlite_remove_pre_key_def
      sql_simps ready_update without_pre_keys_def sqlite_pre_keys_view_def blob_view_delete
      intro: blobs_good_delete)

lemma sqlite_clear_pre_keys_law:
  "sqlite_pre_keys_good L s \<Longrightarrow>
    \<exists>s'. clear_all_pre_keys (sqlite_pre_key_store L) s = (Ok (), s') \<and> sqlite_pre_keys_good L s' \<and>
      sqlite_pre_keys_view L s' = Map.empty \<and> without_pre_keys s' = without_pre_keys s"
  by (auto simp: sqlite_pre_keys_good_def sqlite_pre_key_store_def sqlite_clear_all_pre_keys_def
      sql_simps ready_update without_pre_keys_def sqlite_pre_keys_view_def)

lemma sqlite_pre_keys_dom:
  assumes "sqlite_pre_keys_good L s"
  obtains rows where "ready s" "pre_keys (st_connection s) = Some rows"
    "dom (sqlite_pre_keys_view L s) = pk_id ` set rows" "length rows = card (pk_id ` set rows)"
  using assms by (auto simp: sqlite_pre_keys_good_def sqlite_pre_keys_view_def dom_blob_view
      blobs_good_def length_keys)

lemma sqlite_pre_key_count_law:
  "sqlite_pre_keys_good L s \<Longrightarrow> finite (dom (sqlite_pre_keys_view L s)) \<and>
    pre_key_count (sqlite_pre_key_store L) s = (Ok (card (dom (sqlite_pre_keys_view L s))), s)"
  by (erule sqlite_pre_keys_dom)
    (simp add: sqlite_pre_keys_good_def sqlite_pre_key_store_def sqlite_pre_key_count_def sql_simps)

lemma sqlite_max_pre_key_law:
  "sqlite_pre_keys_good L s \<Longrightarrow> get_max_pre_key_id (sqlite_pre_key_store L) s =
    (Ok (if dom (sqlite_pre_keys_view L s) = {} then None
         else Some (Max (dom (sqlite_pre_keys_view L s)))), s)"
  by (erule sqlite_pre_keys_dom)
    (simp add: sqlite_pre_keys_good_def sqlite_pre_key_store_def sqlite_get_max_pre_key_id_def
      sql_simps max_of_eq del: dom_eq_empty_conv)

interpretation sqlite_one_time: one_time_keys "sqlite_pre_key_store L" "sqlite_pre_keys_good L"
  "sqlite_pre_keys_view L" "\<lambda>_. round_trips L" without_pre_keys
  by unfold_locales
    (simp_all add: sqlite_get_pre_key_law sqlite_save_pre_key_law sqlite_delete_pre_key_law
      sqlite_remove_pre_key_law sqlite_clear_pre_keys_law sqlite_pre_key_count_law sqlite_max_pre_key_law
      del: dom_eq_empty_conv)

section \<open>Signed and Kyber pre-keys\<close>

text \<open>
  The rows of both tables carry the creation second of the record they hold, which is what the
  expiry query compares.
\<close>

definition rotating_good :: "('r, 'z) key_record_lib_scheme \<Rightarrow> rotating_key_row list \<Rightarrow> bool" where
  "rotating_good L rows \<longleftrightarrow> blobs_good (deserialize L) rk_id rk_key_data rows \<and>
     (\<forall>r \<in> set rows. \<exists>x ts. deserialize L (rk_key_data r) = Ok x \<and> record_timestamp L x = Ok ts \<and>
        rk_created_at r = secs_as_i64 ts)"

definition expired_secs :: "('r, 'z) key_record_lib_scheme \<Rightarrow> u64 \<Rightarrow> 'r \<Rightarrow> bool" where
  "expired_secs L t r =
     (case record_timestamp L r of Ok ts \<Rightarrow> ts div 1000 < t div 1000 | _ \<Rightarrow> False)"

text \<open>A record the table can hold: it round-trips, and its timestamp and signature can be read.\<close>

definition rotating_storable :: "('r, 'z) key_record_lib_scheme \<Rightarrow> 'r \<Rightarrow> bool" where
  "rotating_storable L r \<longleftrightarrow> round_trips L r \<and> is_ok (record_timestamp L r) \<and>
     is_ok (record_signature L r)"

lemma is_okE: "is_ok r \<Longrightarrow> (\<And>a. r = Ok a \<Longrightarrow> P) \<Longrightarrow> P"
  by (cases r) auto

lemma rotating_storableE:
  assumes "rotating_storable L r"
  obtains b ts sig where "serialize L r = Ok b" "deserialize L b = Ok r"
    "record_timestamp L r = Ok ts" "record_signature L r = Ok sig"
  using assms by (auto simp: rotating_storable_def elim!: round_tripsE is_okE)

lemma rotating_good_Nil [simp]: "rotating_good L []"
  by (simp add: rotating_good_def)

lemma rotating_good_upsert:
  "rotating_good L rows \<Longrightarrow> deserialize L (rk_key_data row) = Ok r \<Longrightarrow>
    record_timestamp L r = Ok ts \<Longrightarrow> rk_created_at row = secs_as_i64 ts \<Longrightarrow>
    rotating_good L (row_upsert rk_id row rows)"
  by (auto simp: rotating_good_def set_upsert decoded_def intro!: blobs_good_upsert)

lemma rotating_good_delete:
  "rotating_good L rows \<Longrightarrow> rotating_good L (row_delete rk_id i rows)"
  by (auto simp: rotating_good_def set_delete blobs_good_delete)

lemma rotating_dom:
  "rotating_good L rows \<Longrightarrow>
    dom (blob_view (deserialize L) rk_id rk_key_data (Some rows)) = rk_id ` set rows \<and>
    length rows = card (rk_id ` set rows)"
  by (simp add: rotating_good_def dom_blob_view blobs_good_def length_keys)

lemma rotating_older:
  fixes rank :: "u32 \<Rightarrow> nat" and t :: u64
  assumes "rotating_good L rows"
  defines "ids \<equiv> map rk_id (filter (\<lambda>r. rk_created_at r < secs_as_i64 t) (visit rank rk_id rows))"
  shows "distinct ids"
    and "set ids = {i. \<exists>r. blob_view (deserialize L) rk_id rk_key_data (Some rows) i = Some r \<and>
      expired_secs L t r}"
proof -
  from assms(1) have good: "blobs_good (deserialize L) rk_id rk_key_data rows"
    by (simp add: rotating_good_def)
  then show "distinct ids"
    unfolding ids_def by (intro distinct_keys_visit) (simp add: blobs_good_def)
  have row: "blob_view (deserialize L) rk_id rk_key_data (Some rows) (rk_id r) = Some x \<and>
      (expired_secs L t x \<longleftrightarrow> rk_created_at r < secs_as_i64 t)"
    if "r \<in> set rows" "deserialize L (rk_key_data r) = Ok x" for r x
  proof -
    from that(1) good have "find_row rk_id (rk_id r) rows = Some r"
      by (simp add: find_row_in blobs_good_def)
    moreover from assms(1) that obtain ts where "record_timestamp L x = Ok ts"
      "rk_created_at r = secs_as_i64 ts" by (fastforce simp: rotating_good_def)
    ultimately show ?thesis
      using that(2) by (simp add: blob_view_def decoded_def expired_secs_def secs_as_i64_less)
  qed
  have dec: "\<exists>x. deserialize L (rk_key_data r) = Ok x" if "r \<in> set rows" for r
    using assms(1) that by (fastforce simp: rotating_good_def)
  have stored: "\<exists>r \<in> set rows. rk_id r = i \<and> deserialize L (rk_key_data r) = Ok x"
    if "blob_view (deserialize L) rk_id rk_key_data (Some rows) i = Some x" for i x
    by (rule blob_view_cases [OF good, of i]) (use that in auto)
  show "set ids = {i. \<exists>r. blob_view (deserialize L) rk_id rk_key_data (Some rows) i = Some r \<and>
      expired_secs L t r}" (is "_ = ?R")
  proof (intro set_eqI iffI)
    fix i
    assume "i \<in> set ids"
    then obtain r where "r \<in> set rows" "rk_id r = i" "rk_created_at r < secs_as_i64 t"
      by (auto simp: ids_def)
    with row dec show "i \<in> ?R" by blast
  next
    fix i
    assume "i \<in> ?R"
    with stored row show "i \<in> set ids" by (fastforce simp: ids_def)
  qed
qed

definition sqlite_signed_view :: "('r, 'z) key_record_lib_scheme \<Rightarrow> sqlite_storage \<Rightarrow> u32 \<Rightarrow> 'r option"
  where
  "sqlite_signed_view L s =
     blob_view (deserialize L) rk_id rk_key_data (signed_pre_keys (st_connection s))"

definition sqlite_signed_good :: "('r, 'z) key_record_lib_scheme \<Rightarrow> sqlite_storage \<Rightarrow> bool" where
  "sqlite_signed_good L s \<longleftrightarrow> ready s \<and>
     (\<exists>rows. signed_pre_keys (st_connection s) = Some rows \<and> rotating_good L rows)"

definition without_signed :: "sqlite_storage \<Rightarrow> sqlite_storage" where
  "without_signed s = s\<lparr>st_connection := (st_connection s)\<lparr>signed_pre_keys := None\<rparr>\<rparr>"

definition sqlite_kyber_view :: "('r, 'z) key_record_lib_scheme \<Rightarrow> sqlite_storage \<Rightarrow> u32 \<Rightarrow> 'r option"
  where
  "sqlite_kyber_view L s =
     blob_view (deserialize L) rk_id rk_key_data (kyber_pre_keys (st_connection s))"

definition sqlite_kyber_good :: "('r, 'z) key_record_lib_scheme \<Rightarrow> sqlite_storage \<Rightarrow> bool" where
  "sqlite_kyber_good L s \<longleftrightarrow> ready s \<and>
     (\<exists>rows. kyber_pre_keys (st_connection s) = Some rows \<and> rotating_good L rows)"

definition without_kyber :: "sqlite_storage \<Rightarrow> sqlite_storage" where
  "without_kyber s = s\<lparr>st_connection := (st_connection s)\<lparr>kyber_pre_keys := None\<rparr>\<rparr>"

lemma sqlite_signed_goodE:
  assumes "sqlite_signed_good L s"
  obtains rows where "ready s" "signed_pre_keys (st_connection s) = Some rows"
    "rotating_good L rows" "blobs_good (deserialize L) rk_id rk_key_data rows"
  using assms by (auto simp: sqlite_signed_good_def rotating_good_def)

lemma sqlite_kyber_goodE:
  assumes "sqlite_kyber_good L s"
  obtains rows where "ready s" "kyber_pre_keys (st_connection s) = Some rows"
    "rotating_good L rows" "blobs_good (deserialize L) rk_id rk_key_data rows"
  using assms by (auto simp: sqlite_kyber_good_def rotating_good_def)

lemmas sqlite_signed_defs = sqlite_signed_store_def sqlite_signed_view_def without_signed_def
  sqlite_save_signed_pre_key_def sqlite_signed_pre_key_count_def sqlite_get_signed_pre_key_def
  sqlite_get_max_signed_pre_key_id_def sqlite_delete_signed_pre_key_def
  sqlite_get_signed_pre_keys_older_than_def sqlite_clear_all_signed_pre_keys_def

lemmas sqlite_kyber_defs = sqlite_kyber_store_def sqlite_kyber_view_def without_kyber_def
  sqlite_save_kyber_pre_key_def sqlite_kyber_pre_key_count_def sqlite_get_kyber_pre_key_def
  sqlite_get_max_kyber_pre_key_id_def sqlite_delete_kyber_pre_key_def
  sqlite_get_kyber_pre_keys_older_than_def sqlite_clear_all_kyber_pre_keys_def
  sqlite_mark_kyber_pre_key_used_def

lemma sqlite_get_signed_law:
  "sqlite_signed_good L s \<Longrightarrow> get_key (sqlite_signed_store L rank) i s =
    ((case sqlite_signed_view L s i of None \<Rightarrow> Err InvalidSignedPreKeyId | Some r \<Rightarrow> Ok r), s)"
  by (erule sqlite_signed_goodE)
    (auto simp: sqlite_signed_defs sql_simps decode_row_view simp del: query_row_healthy
      split: option.splits)

lemma sqlite_get_kyber_law:
  "sqlite_kyber_good L s \<Longrightarrow> get_key (sqlite_kyber_store L rank) i s =
    ((case sqlite_kyber_view L s i of None \<Rightarrow> Err InvalidKyberPreKeyId | Some r \<Rightarrow> Ok r), s)"
  by (erule sqlite_kyber_goodE)
    (auto simp: sqlite_kyber_defs sql_simps decode_row_view simp del: query_row_healthy
      split: option.splits)

lemma sqlite_save_signed_law:
  assumes "sqlite_signed_good L s" "rotating_storable L r"
  shows "\<exists>s'. save_key (sqlite_signed_store L rank) i r s = (Ok (), s') \<and>
    sqlite_signed_good L s' \<and> sqlite_signed_view L s' = (sqlite_signed_view L s)(i \<mapsto> r) \<and>
    without_signed s' = without_signed s"
  using assms
  by (auto elim!: rotating_storableE sqlite_signed_goodE
      simp: sqlite_signed_defs sql_simps blob_view_upsert decoded_def,
    auto simp: sqlite_signed_good_def ready_update sql_simps intro: rotating_good_upsert)

lemma sqlite_save_kyber_law:
  assumes "sqlite_kyber_good L s" "rotating_storable L r"
  shows "\<exists>s'. save_key (sqlite_kyber_store L rank) i r s = (Ok (), s') \<and>
    sqlite_kyber_good L s' \<and> sqlite_kyber_view L s' = (sqlite_kyber_view L s)(i \<mapsto> r) \<and>
    without_kyber s' = without_kyber s"
  using assms
  by (auto elim!: rotating_storableE sqlite_kyber_goodE
      simp: sqlite_kyber_defs sql_simps blob_view_upsert decoded_def,
    auto simp: sqlite_kyber_good_def ready_update sql_simps intro: rotating_good_upsert)

lemma sqlite_delete_signed_law:
  "sqlite_signed_good L s \<Longrightarrow>
    \<exists>s'. delete_key (sqlite_signed_store L rank) i s = (Ok (), s') \<and> sqlite_signed_good L s' \<and>
      sqlite_signed_view L s' = (sqlite_signed_view L s)(i := None) \<and>
      without_signed s' = without_signed s"
  by (auto simp: sqlite_signed_good_def sqlite_signed_defs sql_simps ready_update blob_view_delete
      rotating_good_delete)

lemma sqlite_delete_kyber_law:
  "sqlite_kyber_good L s \<Longrightarrow>
    \<exists>s'. delete_key (sqlite_kyber_store L rank) i s = (Ok (), s') \<and> sqlite_kyber_good L s' \<and>
      sqlite_kyber_view L s' = (sqlite_kyber_view L s)(i := None) \<and>
      without_kyber s' = without_kyber s"
  by (auto simp: sqlite_kyber_good_def sqlite_kyber_defs sql_simps ready_update blob_view_delete
      rotating_good_delete)

lemma sqlite_clear_signed_law:
  "sqlite_signed_good L s \<Longrightarrow>
    \<exists>s'. clear_all_keys (sqlite_signed_store L rank) s = (Ok (), s') \<and> sqlite_signed_good L s' \<and>
      sqlite_signed_view L s' = Map.empty \<and> without_signed s' = without_signed s"
  by (auto simp: sqlite_signed_good_def sqlite_signed_defs sql_simps ready_update rotating_good_def)

lemma sqlite_clear_kyber_law:
  "sqlite_kyber_good L s \<Longrightarrow>
    \<exists>s'. clear_all_keys (sqlite_kyber_store L rank) s = (Ok (), s') \<and> sqlite_kyber_good L s' \<and>
      sqlite_kyber_view L s' = Map.empty \<and> without_kyber s' = without_kyber s"
  by (auto simp: sqlite_kyber_good_def sqlite_kyber_defs sql_simps ready_update rotating_good_def)

text \<open>Marking changes neither a blob nor a creation time.\<close>

lemma rotating_good_mark:
  assumes "rotating_good L rows"
  shows "rotating_good L (row_update P (\<lambda>r. r\<lparr>rk_is_current := b\<rparr>) rows)"
proof -
  have "keys_distinct rk_id (row_update P (\<lambda>r. r\<lparr>rk_is_current := b\<rparr>) rows)"
    using assms by (intro keys_distinct_update) (auto simp: rotating_good_def blobs_good_def)
  moreover have "\<exists>q \<in> set rows. rk_key_data r = rk_key_data q \<and> rk_created_at r = rk_created_at q"
    if "r \<in> set (row_update P (\<lambda>r. r\<lparr>rk_is_current := b\<rparr>) rows)" for r
    using that by (auto simp: row_update_def)
  ultimately show ?thesis
    using assms by (fastforce simp: rotating_good_def blobs_good_def)
qed

lemma blob_view_mark:
  "blob_view dec rk_id rk_key_data (Some (row_update P (\<lambda>r. r\<lparr>rk_is_current := b\<rparr>) rows)) =
    blob_view dec rk_id rk_key_data (Some rows)"
proof -
  have "find_row rk_id x (row_update P (\<lambda>r. r\<lparr>rk_is_current := b\<rparr>) rows) =
      map_option (\<lambda>r. if P r then r\<lparr>rk_is_current := b\<rparr> else r) (find_row rk_id x rows)" for x
    by (simp add: find_row_update)
  then show ?thesis by (auto simp: blob_view_def fun_eq_iff split: option.split bind_splits)
qed

lemma sqlite_mark_kyber_law:
  "sqlite_kyber_good L s \<Longrightarrow>
    \<exists>s'. mark_key_used (sqlite_kyber_store L rank) i s = (Ok (), s') \<and> sqlite_kyber_good L s' \<and>
      sqlite_kyber_view L s' = sqlite_kyber_view L s \<and> without_kyber s' = without_kyber s"
  by (auto simp: sqlite_kyber_good_def sqlite_kyber_defs sql_simps ready_update rotating_good_mark
      blob_view_mark)

lemma sqlite_signed_count_max_law:
  assumes "sqlite_signed_good L s"
  defines "D \<equiv> dom (sqlite_signed_view L s)"
  shows "finite D" "key_count (sqlite_signed_store L rank) s = (Ok (card D), s)"
    "get_max_key_id (sqlite_signed_store L rank) s = (Ok (if D = {} then None else Some (Max D)), s)"
proof -
  obtain rows where rows: "ready s" "signed_pre_keys (st_connection s) = Some rows"
    "rotating_good L rows"
    using assms(1) by (rule sqlite_signed_goodE)
  then have D: "D = rk_id ` set rows" "length rows = card D" "D = {} \<longleftrightarrow> rows = []"
    by (simp_all add: D_def sqlite_signed_view_def rotating_dom del: dom_eq_empty_conv)
  then show "finite D" "key_count (sqlite_signed_store L rank) s = (Ok (card D), s)"
    "get_max_key_id (sqlite_signed_store L rank) s = (Ok (if D = {} then None else Some (Max D)), s)"
    using rows by (simp_all add: sqlite_signed_defs sql_simps max_of_eq)
qed

lemma sqlite_kyber_count_max_law:
  assumes "sqlite_kyber_good L s"
  defines "D \<equiv> dom (sqlite_kyber_view L s)"
  shows "finite D" "key_count (sqlite_kyber_store L rank) s = (Ok (card D), s)"
    "get_max_key_id (sqlite_kyber_store L rank) s = (Ok (if D = {} then None else Some (Max D)), s)"
proof -
  obtain rows where rows: "ready s" "kyber_pre_keys (st_connection s) = Some rows"
    "rotating_good L rows"
    using assms(1) by (rule sqlite_kyber_goodE)
  then have D: "D = rk_id ` set rows" "length rows = card D" "D = {} \<longleftrightarrow> rows = []"
    by (simp_all add: D_def sqlite_kyber_view_def rotating_dom del: dom_eq_empty_conv)
  then show "finite D" "key_count (sqlite_kyber_store L rank) s = (Ok (card D), s)"
    "get_max_key_id (sqlite_kyber_store L rank) s = (Ok (if D = {} then None else Some (Max D)), s)"
    using rows by (simp_all add: sqlite_kyber_defs sql_simps max_of_eq)
qed

lemma sqlite_signed_older_law:
  "sqlite_signed_good L s \<Longrightarrow>
    \<exists>ids. get_keys_older_than (sqlite_signed_store L rank) t s = (Ok ids, s) \<and> distinct ids \<and>
      set ids = {i. \<exists>r. sqlite_signed_view L s i = Some r \<and> expired_secs L t r}"
  by (erule sqlite_signed_goodE)
    (simp add: sqlite_signed_defs sql_simps Let_def rotating_older del: set_map set_filter)

lemma sqlite_kyber_older_law:
  "sqlite_kyber_good L s \<Longrightarrow>
    \<exists>ids. get_keys_older_than (sqlite_kyber_store L rank) t s = (Ok ids, s) \<and> distinct ids \<and>
      set ids = {i. \<exists>r. sqlite_kyber_view L s i = Some r \<and> expired_secs L t r}"
  by (erule sqlite_kyber_goodE)
    (simp add: sqlite_kyber_defs sql_simps Let_def rotating_older del: set_map set_filter)

interpretation sqlite_signed: rotating_keys "sqlite_signed_store L rank" "sqlite_signed_good L"
  "sqlite_signed_view L" "\<lambda>_. rotating_storable L" without_signed "expired_secs L"
  by unfold_locales
    (simp_all add: sqlite_get_signed_law sqlite_save_signed_law sqlite_delete_signed_law
      sqlite_signed_count_max_law sqlite_signed_older_law sqlite_clear_signed_law del: dom_eq_empty_conv)

interpretation sqlite_kyber: kyber_keys "sqlite_kyber_store L rank" "sqlite_kyber_good L"
  "sqlite_kyber_view L" "\<lambda>_. rotating_storable L" without_kyber "expired_secs L"
  by unfold_locales
    (simp_all add: sqlite_get_kyber_law sqlite_save_kyber_law sqlite_delete_kyber_law
      sqlite_kyber_count_max_law sqlite_kyber_older_law sqlite_clear_kyber_law
      sqlite_mark_kyber_law del: dom_eq_empty_conv)

end
