(* ===== verification/Key_Rotation.thy ===== *)
theory Key_Rotation
  imports Memory_Storage Signal_Storage_Laws
begin

text \<open>
  Key generation (\<^verbatim>\<open>src/src/keys.rs\<close>) and key rotation (\<^verbatim>\<open>src/src/key_rotation.rs\<close>), written
  against the storage traits as the code is: every function takes the operation record of a store.
  A reading of the system clock is an argument, as is the material the random number generator
  delivers. The properties are proved once inside the contracts of \<^verbatim>\<open>Storage_Trait\<close> and reach
  both backends through their interpretations.
\<close>

section \<open>Key generation\<close>

text \<open>
  What the code calls in libsignal to make a key record: signing with the private key of an
  identity, serialising a public key, and the record's constructor.
\<close>

record ('ikp, 'kp, 'r) key_maker =
  calculate_signature :: "'ikp \<Rightarrow> bytes \<Rightarrow> (signal_error, bytes) outcome"
  public_serialize :: "'kp \<Rightarrow> bytes"
  record_new :: "u32 \<Rightarrow> u64 \<Rightarrow> 'kp \<Rightarrow> bytes \<Rightarrow> 'r"

definition generate_identity_key_pair :: "'ikp \<Rightarrow> (box_error, 'ikp) outcome" where
  "generate_identity_key_pair fresh = Ok fresh"

text \<open>\<open>gen i\<close> is the key pair the generator yields in iteration \<open>i\<close>.\<close>

fun generate_loop :: "bool \<Rightarrow> (nat \<Rightarrow> 'kp) \<Rightarrow> u32 \<Rightarrow> nat list \<Rightarrow> (u32 \<times> 'kp) list
    \<Rightarrow> (box_error, (u32 \<times> 'kp) list) outcome" where
  "generate_loop oc gen start_id [] generated = Ok generated"
| "generate_loop oc gen start_id (i # is) generated =
     obind (add_u32 oc start_id (word_of_nat i)) (\<lambda>key_id.
       generate_loop oc gen start_id is (generated @ [(key_id, gen i)]))"

definition generate_pre_keys :: "bool \<Rightarrow> (nat \<Rightarrow> 'kp) \<Rightarrow> u32 \<Rightarrow> u32
    \<Rightarrow> (box_error, (u32 \<times> 'kp) list) outcome" where
  "generate_pre_keys oc gen start_id n = generate_loop oc gen start_id [0..<unat n] []"

definition generate_signed_pre_key :: "('ikp, 'kp, 'r) key_maker \<Rightarrow> clock \<Rightarrow> 'kp \<Rightarrow> 'ikp \<Rightarrow> u32
    \<Rightarrow> (box_error, 'r) outcome" where
  "generate_signed_pre_key K now key_pair identity_key_pair signed_pre_key_id =
     obind (clock_millis now) (\<lambda>timestamp.
     obind (omap_err BoxSignal
       (calculate_signature K identity_key_pair (public_serialize K key_pair))) (\<lambda>signature.
     Ok (record_new K signed_pre_key_id timestamp key_pair signature)))"

section \<open>Constants\<close>

definition MIN_PRE_KEY_COUNT :: nat where "MIN_PRE_KEY_COUNT = 50"
definition REPLENISH_COUNT :: u32 where "REPLENISH_COUNT = 100"
definition ROTATION_INTERVAL_SECS :: u64 where "ROTATION_INTERVAL_SECS = 7 * 24 * 60 * 60"
definition GRACE_PERIOD_SECS :: u64 where "GRACE_PERIOD_SECS = 7 * 24 * 60 * 60"

section \<open>Signed pre-keys\<close>

definition rotate_signed_pre_key :: "('s, 'r, 'z) rotating_store_scheme
    \<Rightarrow> ('r, 'y) key_record_lib_scheme \<Rightarrow> ('ikp, 'kp, 'r) key_maker \<Rightarrow> bool \<Rightarrow> clock \<Rightarrow> 'kp
    \<Rightarrow> 'ikp \<Rightarrow> 's \<Rightarrow> (box_error, unit) outcome \<times> 's" where
  "rotate_signed_pre_key st L K oc now key_pair identity_key_pair s =
     and_then (get_max_key_id st s) (\<lambda>max_id s.
     let current_max_id = (case max_id of Some i \<Rightarrow> i | None \<Rightarrow> 0) in
     and_then (add_u32 oc current_max_id 1, s) (\<lambda>new_id s.
     and_then (generate_signed_pre_key K now key_pair identity_key_pair new_id, s)
       (\<lambda>new_signed_pre_key s.
     and_then (map_err BoxSignal (record_id L new_signed_pre_key, s)) (\<lambda>i s.
     and_then (map_err BoxSignal (save_key st i new_signed_pre_key s)) (\<lambda>_ s.
     (Ok (), s))))))"

definition signed_pre_key_needs_rotation :: "('s, 'r, 'z) rotating_store_scheme
    \<Rightarrow> ('r, 'y) key_record_lib_scheme \<Rightarrow> bool \<Rightarrow> clock \<Rightarrow> 's
    \<Rightarrow> (box_error, bool) outcome \<times> 's" where
  "signed_pre_key_needs_rotation st L oc now s =
     and_then (get_max_key_id st s) (\<lambda>max_id s.
       case max_id of
         None \<Rightarrow> (Ok True, s)
       | Some i \<Rightarrow>
           and_then (map_err BoxSignal (get_key st i s)) (\<lambda>current_key s.
           and_then (map_err BoxSignal (record_timestamp L current_key, s)) (\<lambda>key_timestamp s.
           and_then (clock_millis now, s) (\<lambda>now s.
           and_then (sub_u64 oc now key_timestamp, s) (\<lambda>age s.
           let key_age_secs = age div 1000 in
           (Ok (ROTATION_INTERVAL_SECS < key_age_secs), s))))))"

text \<open>The deletion loop: the count is read again before every deletion.\<close>

fun cleanup_loop :: "('s, 'r, 'z) rotating_store_scheme \<Rightarrow> u32 list \<Rightarrow> 's
    \<Rightarrow> (box_error, unit) outcome \<times> 's" where
  "cleanup_loop st [] s = (Ok (), s)"
| "cleanup_loop st (i # ids) s =
     and_then (key_count st s) (\<lambda>n s.
       if 1 < n then and_then (delete_key st i s) (\<lambda>_ s. cleanup_loop st ids s)
       else cleanup_loop st ids s)"

definition cleanup_expired_signed_pre_keys :: "('s, 'r, 'z) rotating_store_scheme \<Rightarrow> bool \<Rightarrow> clock
    \<Rightarrow> 's \<Rightarrow> (box_error, unit) outcome \<times> 's" where
  "cleanup_expired_signed_pre_keys st oc now s =
     and_then (clock_millis now, s) (\<lambda>now s.
     and_then (sub_u64 oc now (GRACE_PERIOD_SECS * 1000), s) (\<lambda>cutoff s.
     and_then (get_keys_older_than st cutoff s) (\<lambda>expired_ids s.
     and_then (key_count st s) (\<lambda>current_count s.
     if current_count \<le> 1 then (Ok (), s) else cleanup_loop st expired_ids s))))"

section \<open>One-time pre-keys\<close>

fun save_pre_keys_loop :: "('s, 'pk) pre_key_store \<Rightarrow> (u32 \<Rightarrow> 'kp \<Rightarrow> 'pk) \<Rightarrow> (u32 \<times> 'kp) list \<Rightarrow> 's
    \<Rightarrow> (box_error, unit) outcome \<times> 's" where
  "save_pre_keys_loop st new [] s = (Ok (), s)"
| "save_pre_keys_loop st new ((key_id, key_pair) # rest) s =
     and_then (map_err BoxSignal (save_pre_key st key_id (new key_id key_pair) s)) (\<lambda>_ s.
       save_pre_keys_loop st new rest s)"

definition replenish_pre_keys :: "('s, 'pk) pre_key_store \<Rightarrow> (u32 \<Rightarrow> 'kp \<Rightarrow> 'pk) \<Rightarrow> bool
    \<Rightarrow> (nat \<Rightarrow> 'kp) \<Rightarrow> 's \<Rightarrow> (box_error, unit) outcome \<times> 's" where
  "replenish_pre_keys st new oc gen s =
     and_then (get_max_pre_key_id st s) (\<lambda>max_id s.
     and_then (case max_id of Some i \<Rightarrow> add_u32 oc i 1 | None \<Rightarrow> Ok 1, s) (\<lambda>next_id s.
     and_then (generate_pre_keys oc gen next_id REPLENISH_COUNT, s) (\<lambda>new_pre_keys s.
     save_pre_keys_loop st new new_pre_keys s)))"

definition consume_pre_key :: "('s, 'pk) pre_key_store \<Rightarrow> (u32 \<Rightarrow> 'kp \<Rightarrow> 'pk) \<Rightarrow> bool
    \<Rightarrow> (nat \<Rightarrow> 'kp) \<Rightarrow> u32 \<Rightarrow> 's \<Rightarrow> (box_error, unit) outcome \<times> 's" where
  "consume_pre_key st new oc gen pre_key_id s =
     and_then (delete_pre_key st pre_key_id s) (\<lambda>_ s.
     and_then (pre_key_count st s) (\<lambda>current_count s.
     if current_count < MIN_PRE_KEY_COUNT then replenish_pre_keys st new oc gen s
     else (Ok (), s)))"

section \<open>Kyber pre-keys\<close>

text \<open>
  The signature is computed before the clock is read, and the id \<open>current_max_id + 1\<close> before it
  too; the record is saved under that id, not under the one read back from the record.
\<close>

definition rotate_kyber_pre_key :: "('s, 'r, 'z) rotating_store_scheme
    \<Rightarrow> ('ikp, 'kp, 'r) key_maker \<Rightarrow> bool \<Rightarrow> clock \<Rightarrow> 'kp \<Rightarrow> 'ikp \<Rightarrow> 's
    \<Rightarrow> (box_error, unit) outcome \<times> 's" where
  "rotate_kyber_pre_key st K oc now kyber_keypair identity_key_pair s =
     and_then (get_max_key_id st s) (\<lambda>max_id s.
     let current_max_id = (case max_id of Some i \<Rightarrow> i | None \<Rightarrow> 0) in
     and_then (map_err BoxSignal (calculate_signature K identity_key_pair
       (public_serialize K kyber_keypair), s)) (\<lambda>kyber_signature s.
     and_then (add_u32 oc current_max_id 1, s) (\<lambda>new_id s.
     and_then (clock_millis now, s) (\<lambda>timestamp s.
     let kyber_record = record_new K new_id timestamp kyber_keypair kyber_signature in
     and_then (add_u32 oc current_max_id 1, s) (\<lambda>new_id s.
     and_then (map_err BoxSignal (save_key st new_id kyber_record s)) (\<lambda>_ s.
     (Ok (), s)))))))"

definition kyber_pre_key_needs_rotation :: "('s, 'r, 'z) rotating_store_scheme
    \<Rightarrow> ('r, 'y) key_record_lib_scheme \<Rightarrow> bool \<Rightarrow> clock \<Rightarrow> 's
    \<Rightarrow> (box_error, bool) outcome \<times> 's" where
  "kyber_pre_key_needs_rotation st L oc now s =
     and_then (get_max_key_id st s) (\<lambda>max_id s.
       case max_id of
         None \<Rightarrow> (Ok True, s)
       | Some i \<Rightarrow>
           and_then (map_err BoxSignal (get_key st i s)) (\<lambda>current_key s.
           and_then (map_err BoxSignal (record_timestamp L current_key, s)) (\<lambda>key_timestamp s.
           and_then (clock_millis now, s) (\<lambda>now s.
           and_then (sub_u64 oc now key_timestamp, s) (\<lambda>age s.
           let key_age_secs = age div 1000 in
           (Ok (ROTATION_INTERVAL_SECS < key_age_secs), s))))))"

definition cleanup_expired_kyber_pre_keys :: "('s, 'r, 'z) rotating_store_scheme \<Rightarrow> bool \<Rightarrow> clock
    \<Rightarrow> 's \<Rightarrow> (box_error, unit) outcome \<times> 's" where
  "cleanup_expired_kyber_pre_keys st oc now s =
     and_then (clock_millis now, s) (\<lambda>now s.
     and_then (sub_u64 oc now (GRACE_PERIOD_SECS * 1000), s) (\<lambda>cutoff s.
     and_then (get_keys_older_than st cutoff s) (\<lambda>expired_ids s.
     and_then (key_count st s) (\<lambda>current_count s.
     if current_count \<le> 1 then (Ok (), s) else cleanup_loop st expired_ids s))))"

section \<open>The library\<close>

text \<open>
  What the code relies on in libsignal's records: the constructor's arguments are read back.
\<close>

definition key_maker_lawful :: "('ikp, 'kp, 'r) key_maker \<Rightarrow> ('r, 'z) key_record_lib_scheme \<Rightarrow> bool"
  where
  "key_maker_lawful K L \<longleftrightarrow> (\<forall>i t kp sig. let r = record_new K i t kp sig in
     record_id L r = Ok i \<and> record_timestamp L r = Ok t \<and> record_signature L r = Ok sig \<and>
     round_trips L r)"

lemma lawful_record:
  assumes "key_maker_lawful K L"
  shows "record_id L (record_new K i t kp sig) = Ok i"
    and "record_timestamp L (record_new K i t kp sig) = Ok t"
    and "rotating_storable L (record_new K i t kp sig)"
  using assms by (simp_all add: key_maker_lawful_def rotating_storable_def Let_def)

end
