(* ===== verification/Storage_Ops.thy ===== *)
theory Storage_Ops
  imports Memory_Storage Signal_Storage_Keys
begin

text \<open>
  \<^verbatim>\<open>ExtendedStorageOps\<close> on both backends: establishing a session, encrypting and decrypting. The
  protocol itself is libsignal's; the three calls are parameters that receive the stores'
  operations, as the library receives the trait objects, and may fail or panic in them. The clock
  and the random numbers the calls take are part of the parameter.
\<close>

section \<open>The protocol library\<close>

record ('s, 'sess, 'ikp, 'ik, 'pk, 'spk, 'kyr, 'pkb, 'ct) protocol_lib =
  process_prekey_bundle_lib :: "ProtocolAddress \<Rightarrow> ('s, 'sess) session_store
    \<Rightarrow> ('s, 'ikp, 'ik) identity_store \<Rightarrow> 'pkb \<Rightarrow> 's \<Rightarrow> (signal_error, unit) outcome \<times> 's"
  message_encrypt :: "bytes \<Rightarrow> ProtocolAddress \<Rightarrow> ('s, 'sess) session_store
    \<Rightarrow> ('s, 'ikp, 'ik) identity_store \<Rightarrow> 's \<Rightarrow> (signal_error, 'ct) outcome \<times> 's"
  message_decrypt :: "'ct \<Rightarrow> ProtocolAddress \<Rightarrow> ('s, 'sess) session_store
    \<Rightarrow> ('s, 'ikp, 'ik) identity_store \<Rightarrow> ('s, 'pk) pre_key_store \<Rightarrow> ('s, 'spk) rotating_store
    \<Rightarrow> ('s, 'kyr) kyber_store \<Rightarrow> 's \<Rightarrow> (signal_error, bytes) outcome \<times> 's"

section \<open>Memory\<close>

definition mem_establish_session_from_bundle where
  "mem_establish_session_from_bundle P address bundle s =
     and_then (map_err BoxSignal (process_prekey_bundle_lib P address mem_session_store
       mem_identity_store bundle s)) (\<lambda>_ s. (Ok (), s))"

definition mem_encrypt_message where
  "mem_encrypt_message P remote_address plaintext s =
     message_encrypt P plaintext remote_address mem_session_store mem_identity_store s"

definition mem_decrypt_message where
  "mem_decrypt_message P K L L' rank remote_address ciphertext s =
     message_decrypt P ciphertext remote_address mem_session_store mem_identity_store
       (mem_pre_key_store K) (mem_signed_store L rank) (mem_kyber_store L' rank) s"

text \<open>\<^verbatim>\<open>initialize\<close>, \<^verbatim>\<open>close\<close> and \<^verbatim>\<open>storage_type\<close> of the memory container.\<close>

definition mem_initialize :: "('sess, 'ikp, 'ik, 'kp, 'spk, 'kpk) MemoryStorage
    \<Rightarrow> (box_error, unit) outcome \<times> ('sess, 'ikp, 'ik, 'kp, 'spk, 'kpk) MemoryStorage" where
  "mem_initialize s = (Ok (), s)"

definition mem_close :: "('sess, 'ikp, 'ik, 'kp, 'spk, 'kpk) MemoryStorage
    \<Rightarrow> (box_error, unit) outcome \<times> ('sess, 'ikp, 'ik, 'kp, 'spk, 'kpk) MemoryStorage" where
  "mem_close s = (Ok (), s)"

definition mem_storage_type :: string where
  "mem_storage_type = ''memory''"

section \<open>SQLite\<close>

definition sqlite_storage_type :: string where
  "sqlite_storage_type = ''sqlite''"

definition sqlite_is_closed :: "sqlite_storage \<Rightarrow> bool" where
  "sqlite_is_closed s = st_is_closed s"

text \<open>The store objects themselves: each locks the connection, none checks whether the storage is closed.\<close>

definition conn_session_store :: "('sess, 'z) blob_lib_scheme \<Rightarrow> (conn, 'sess) session_store" where
  "conn_session_store L =
     \<lparr>load_session = sqlite_load_session L, store_session = sqlite_store_session L,
      session_count = sqlite_session_count, clear_all_sessions = sqlite_clear_all_sessions,
      delete_session = sqlite_delete_session\<rparr>"

definition conn_identity_store :: "('ikp, 'ik, 'z) identity_lib_scheme
    \<Rightarrow> (conn, 'ikp, 'ik) identity_store" where
  "conn_identity_store I =
     \<lparr>get_identity_key_pair = sqlite_get_identity_key_pair I,
      get_local_registration_id = sqlite_get_local_registration_id,
      save_identity = sqlite_save_identity I, is_trusted_identity = sqlite_is_trusted_identity I,
      get_identity = sqlite_get_identity I, identity_count = sqlite_identity_count,
      set_local_identity_key_pair = sqlite_set_local_identity_key_pair I,
      set_local_registration_id = sqlite_set_local_registration_id,
      get_peer_identity = sqlite_get_peer_identity I, delete_identity = sqlite_delete_identity,
      clear_all_identities = sqlite_clear_all_identities,
      clear_local_identity = sqlite_clear_local_identity\<rparr>"

definition conn_pre_key_store :: "('pk, 'z) blob_lib_scheme \<Rightarrow> (conn, 'pk) pre_key_store" where
  "conn_pre_key_store L =
     \<lparr>get_pre_key = sqlite_get_pre_key L, save_pre_key = sqlite_save_pre_key L,
      remove_pre_key = sqlite_remove_pre_key, pre_key_count = sqlite_pre_key_count,
      clear_all_pre_keys = sqlite_clear_all_pre_keys,
      get_max_pre_key_id = sqlite_get_max_pre_key_id, delete_pre_key = sqlite_delete_pre_key\<rparr>"

definition conn_signed_store :: "('r, 'z) key_record_lib_scheme \<Rightarrow> (u32 \<Rightarrow> nat)
    \<Rightarrow> (conn, 'r) rotating_store" where
  "conn_signed_store L rank =
     \<lparr>get_key = sqlite_get_signed_pre_key L, save_key = sqlite_save_signed_pre_key L,
      key_count = sqlite_signed_pre_key_count, clear_all_keys = sqlite_clear_all_signed_pre_keys,
      get_max_key_id = sqlite_get_max_signed_pre_key_id, delete_key = sqlite_delete_signed_pre_key,
      get_keys_older_than = sqlite_get_signed_pre_keys_older_than rank\<rparr>"

definition conn_kyber_store :: "('r, 'z) key_record_lib_scheme \<Rightarrow> (u32 \<Rightarrow> nat)
    \<Rightarrow> (conn, 'r) kyber_store" where
  "conn_kyber_store L rank =
     \<lparr>get_key = sqlite_get_kyber_pre_key L, save_key = sqlite_save_kyber_pre_key L,
      key_count = sqlite_kyber_pre_key_count, clear_all_keys = sqlite_clear_all_kyber_pre_keys,
      get_max_key_id = sqlite_get_max_kyber_pre_key_id, delete_key = sqlite_delete_kyber_pre_key,
      get_keys_older_than = sqlite_get_kyber_pre_keys_older_than rank,
      mark_key_used = sqlite_mark_kyber_pre_key_used\<rparr>"

text \<open>\<^verbatim>\<open>self.x_store.as_mut().expect("Storage not initialized")\<close> for each store, in argument order.\<close>

fun expect_stores :: "bool list \<Rightarrow> ('e, unit) outcome" where
  "expect_stores [] = Ok ()"
| "expect_stores (present # rest) =
     (if present then expect_stores rest else Panic ''Storage not initialized'')"

definition with_stores :: "bool list \<Rightarrow> (conn \<Rightarrow> ('e, 'a) outcome \<times> conn) \<Rightarrow> sqlite_storage
    \<Rightarrow> ('e, 'a) outcome \<times> sqlite_storage" where
  "with_stores present f s =
     and_then (expect_stores present, s) (\<lambda>_ s.
       case f (st_connection s) of (r, c) \<Rightarrow> (r, s\<lparr>st_connection := c\<rparr>))"

definition sqlite_establish_session_from_bundle where
  "sqlite_establish_session_from_bundle P L I address bundle s =
     and_then (map_err BoxSignal (with_stores [st_session_store s, st_identity_store s]
       (process_prekey_bundle_lib P address (conn_session_store L) (conn_identity_store I) bundle) s))
       (\<lambda>_ s. (Ok (), s))"

definition sqlite_encrypt_message where
  "sqlite_encrypt_message P L I remote_address plaintext s =
     with_stores [st_session_store s, st_identity_store s]
       (message_encrypt P plaintext remote_address (conn_session_store L) (conn_identity_store I)) s"

definition sqlite_decrypt_message where
  "sqlite_decrypt_message P L I PL SL KL rank remote_address ciphertext s =
     with_stores [st_session_store s, st_identity_store s, st_pre_key_store s,
         st_signed_pre_key_store s, st_kyber_pre_key_store s]
       (message_decrypt P ciphertext remote_address (conn_session_store L) (conn_identity_store I)
          (conn_pre_key_store PL) (conn_signed_store SL rank) (conn_kyber_store KL rank)) s"

end
