(* ===== verification/Sample_Library.thy ===== *)
theory Sample_Library
  imports Key_Rotation Storage_Ops
begin

text \<open>
  A concrete stand-in for the parts of libsignal the models take as parameters. It shows that the
  laws assumed of the library can hold, and the examples of the development are evaluated on it.
  A key record is its id, timestamp and signature; its serialisation writes both numbers in
  decimal, each followed by a colon, then the signature.
\<close>

type_synonym sample_record = "u32 \<times> u64 \<times> bytes"

definition sample_encode :: "sample_record \<Rightarrow> bytes" where
  "sample_encode = (\<lambda>(i, t, sig).
     as_bytes (show_nat (unat i) @ '':'') @ as_bytes (show_nat (unat t) @ '':'') @ sig)"

definition field_text :: "bytes \<Rightarrow> string" where
  "field_text b = takeWhile (\<lambda>c. c \<noteq> CHR '':'') (bytes_text b)"

definition after_field :: "bytes \<Rightarrow> bytes" where
  "after_field b = drop (Suc (length (field_text b))) b"

definition sample_decode :: "bytes \<Rightarrow> (signal_error, sample_record) outcome" where
  "sample_decode b =
     (case (read_nat (field_text b), read_nat (field_text (after_field b))) of
        (Some i, Some t) \<Rightarrow>
          (if i < 2 ^ 32 \<and> t < 2 ^ 64
           then Ok (word_of_nat i, word_of_nat t, after_field (after_field b))
           else Err (SignalLib ''number out of range''))
      | _ \<Rightarrow> Err (SignalLib ''not a record''))"

lemma field_read:
  "field_text (as_bytes (show_nat n @ '':'') @ rest) = show_nat n"
  "after_field (as_bytes (show_nat n @ '':'') @ rest) = rest"
proof -
  show *: "field_text (as_bytes (show_nat n @ '':'') @ rest) = show_nat n"
    using colon_not_digit [of n] by (simp add: field_text_def)
        (subst takeWhile_append2, auto)
  show "after_field (as_bytes (show_nat n @ '':'') @ rest) = rest"
    unfolding after_field_def * by simp
qed

lemma sample_decode_encode [simp]: "sample_decode (sample_encode r) = Ok r"
proof -
  obtain i t sig where r: "r = (i, t, sig)" by (cases r)
  have "unat i < 2 ^ 32" "unat t < 2 ^ 64"
    using unsigned_less [of i, where 'a = nat] unsigned_less [of t, where 'a = nat] by simp_all
  then show ?thesis by (simp add: r sample_decode_def sample_encode_def field_read)
qed

definition sample_records :: "sample_record key_record_lib" where
  "sample_records = \<lparr>serialize = \<lambda>r. Ok (sample_encode r), deserialize = sample_decode,
     record_id = \<lambda>(i, t, sig). Ok i, record_timestamp = \<lambda>(i, t, sig). Ok t,
     record_signature = \<lambda>(i, t, sig). Ok sig, record_public_key = \<lambda>(i, t, sig). Ok sig\<rparr>"

definition sample_maker :: "(bytes, bytes, sample_record) key_maker" where
  "sample_maker = \<lparr>calculate_signature = \<lambda>kp b. Ok (kp @ b), public_serialize = id,
     record_new = \<lambda>i t kp sig. (i, t, sig)\<rparr>"

lemma sample_lawful [simp]: "key_maker_lawful sample_maker sample_records"
  by (simp add: key_maker_lawful_def sample_maker_def sample_records_def round_trips_def)

lemma sample_maker_simps [simp]:
  "calculate_signature sample_maker kp b = Ok (kp @ b)" "public_serialize sample_maker = id"
  "record_new sample_maker i t kp sig = (i, t, sig)"
  "record_timestamp sample_records (i, t, sig) = Ok t"
  by (simp_all add: sample_maker_def sample_records_def)

text \<open>One-time pre-keys: a key pair and its id, with timestamp 0.\<close>

definition sample_new :: "u32 \<Rightarrow> bytes \<Rightarrow> sample_record" where
  "sample_new i kp = (i, 0, kp)"

definition sample_pre_keys :: "(bytes, sample_record) pre_key_lib" where
  "sample_pre_keys = \<lparr>pk_new = sample_new, pk_pair = \<lambda>(i, t, kp). Ok kp\<rparr>"

lemma sample_records_round_trip [simp]: "round_trips sample_records r"
  by (simp add: sample_records_def round_trips_def)

lemma sample_rebuilds [simp]: "pre_key_rebuilds sample_pre_keys i (sample_new i kp)"
  by (simp add: pre_key_rebuilds_def sample_pre_keys_def sample_new_def)

text \<open>Sessions and identities are their own serialisations.\<close>

definition sample_sessions :: "bytes blob_lib" where
  "sample_sessions = \<lparr>serialize = Ok, deserialize = Ok\<rparr>"

definition sample_identities :: "(bytes, bytes) identity_lib" where
  "sample_identities = \<lparr>pair_serialize = id, pair_try_from = Ok, pair_identity_key = tl,
     ik_serialize = id, ik_try_from = Ok, ik_decode = Ok\<rparr>"

lemma sample_sessions_round_trip [simp]: "round_trips sample_sessions r"
  by (simp add: sample_sessions_def round_trips_def)

lemma sample_identities_round_trip [simp]: "identity_keys_round_trip sample_identities"
  by (simp add: identity_keys_round_trip_def sample_identities_def)

text \<open>A protocol whose sessions are keys put in front of the plaintext.\<close>

definition sample_protocol :: "('s, bytes, bytes, bytes, sample_record, sample_record, sample_record,
    bytes, bytes) protocol_lib" where
  "sample_protocol =
     \<lparr>process_prekey_bundle_lib = \<lambda>a st ids bundle s.
        and_then (save_identity ids a bundle s) (\<lambda>_ s. store_session st a bundle s),
      message_encrypt = \<lambda>plaintext a st ids s. and_then (load_session st a s) (\<lambda>r s.
        case r of None \<Rightarrow> (Err (SignalLib ''session not found''), s) | Some k \<Rightarrow> (Ok (k @ plaintext), s)),
      message_decrypt = \<lambda>ct a st ids pres signeds kybers s. and_then (load_session st a s) (\<lambda>r s.
        case r of None \<Rightarrow> (Err (SignalLib ''session not found''), s)
        | Some k \<Rightarrow> (Ok (drop (length k) ct), s))\<rparr>"

text \<open>A freshly initialised storage.\<close>

definition sample_storage :: sqlite_storage where
  "sample_storage = snd (sqlite_initialize (sqlite_storage_new empty_conn))"

lemma sample_storage_eq:
  "sample_storage =
     \<lparr>st_connection = empty_conn\<lparr>schema_info := Some [\<lparr>si_version = 1, si_updated_at = 0\<rparr>],
        local_identity := Some [], identity_keys := Some [], sessions := Some [],
        pre_keys := Some [], signed_pre_keys := Some [], kyber_pre_keys := Some []\<rparr>,
      st_session_store = True, st_identity_store = True, st_pre_key_store = True,
      st_signed_pre_key_store = True, st_kyber_pre_key_store = True, st_is_closed = False\<rparr>"
  by (simp add: sample_storage_def sqlite_initialize_def sqlite_initialize_schema_def
      sqlite_storage_new_def with_lock_def create_table_def insert_schema_version_def execute_def
      statement_def on_table_def sqlite_identity_create_tables_def sqlite_session_create_tables_def
      sqlite_pre_key_create_tables_def sqlite_signed_pre_key_create_tables_def
      sqlite_kyber_pre_key_create_tables_def empty_conn_def)

lemma sample_good [simp]:
  "sqlite_sessions_good sample_sessions sample_storage"
  "sqlite_identities_good sample_identities sample_storage"
  "sqlite_pre_keys_good sample_records sample_storage"
  "sqlite_signed_good sample_records sample_storage"
  "sqlite_kyber_good sample_records sample_storage"
  by (simp_all add: sample_storage_eq sqlite_sessions_good_def sqlite_identities_good_def
      sqlite_pre_keys_good_def sqlite_signed_good_def sqlite_kyber_good_def ready_def healthy_def
      empty_conn_def)

lemma sample_views [simp]:
  "sqlite_sessions_view sample_sessions sample_storage = Map.empty"
  "sqlite_identities_view sample_identities sample_storage = Map.empty"
  "sqlite_pre_keys_view sample_records sample_storage = Map.empty"
  "sqlite_signed_view sample_records sample_storage = Map.empty"
  "sqlite_kyber_view sample_records sample_storage = Map.empty"
  by (simp_all add: sample_storage_eq sqlite_sessions_view_def sqlite_identities_view_def
      sqlite_pre_keys_view_def sqlite_signed_view_def sqlite_kyber_view_def fun_eq_iff)

text \<open>A storage that holds given signed pre-keys.\<close>

definition sample_signed :: "sample_record list \<Rightarrow> sqlite_storage" where
  "sample_signed rs = fold (\<lambda>r s. snd (save_key (sqlite_signed_store sample_records unat) (fst r) r s))
     rs sample_storage"

lemma sample_storable [simp]: "rotating_storable sample_records r"
  by (cases r) (simp add: rotating_storable_def sample_records_def round_trips_def)

lemma sample_signed_good:
  "sqlite_signed_good sample_records (sample_signed rs) \<and>
    sqlite_signed_view sample_records (sample_signed rs) = map_of (rev (map (\<lambda>r. (fst r, r)) rs))"
proof (induction rs rule: rev_induct)
  case (snoc r rs)
  then show ?case
    using sqlite_save_signed_law [of sample_records "sample_signed rs" r unat "fst r"]
    by (auto simp: sample_signed_def)
qed (simp add: sample_signed_def)

end
