(* ===== verification/Key_Rotation_Laws.thy ===== *)
theory Key_Rotation_Laws
  imports Sample_Library
begin

text \<open>
  What rotation, clean-up and replenishment do to a store that keeps its contract, proved once in
  the contracts of \<^verbatim>\<open>Storage_Trait\<close>, and stated for the SQLite and memory backends.
\<close>

section \<open>Key ids\<close>

text \<open>The id the next key gets, and the room left below the largest \<^verbatim>\<open>u32\<close>.\<close>

definition next_key_id :: "(u32 \<Rightarrow> 'r option) \<Rightarrow> u32" where
  "next_key_id v = (if dom v = {} then 1 else Max (dom v) + 1)"

definition ids_left :: "nat \<Rightarrow> (u32 \<Rightarrow> 'r option) \<Rightarrow> bool" where
  "ids_left n v \<longleftrightarrow> (\<forall>i \<in> dom v. unat i + n < 2 ^ 32)"

lemma ids_left_mono: "ids_left n v \<Longrightarrow> m \<le> n \<Longrightarrow> ids_left m v"
  unfolding ids_left_def by (meson add_left_mono le_less_trans)

lemma no_ids [simp]: "ids_left n Map.empty" "next_key_id Map.empty = 1"
  by (simp_all add: ids_left_def next_key_id_def)

lemma unat_run:
  "unat (start_id :: u32) + i < 2 ^ 32 \<Longrightarrow> unat (start_id + word_of_nat i) = unat start_id + i"
  by (subst unat_add_fits) (simp_all add: unat_of_nat take_bit_nat_eq_self)

lemma unat_next_key_id:
  assumes "finite (dom v)" "ids_left 1 v"
  shows "unat (next_key_id v) = (if dom v = {} then 1 else unat (Max (dom v)) + 1)"
proof (cases "dom v = {}")
  case False
  then have "Max (dom v) \<in> dom v" using assms(1) by (rule Max_in [rotated])
  with assms(2) False show ?thesis by (simp add: next_key_id_def ids_left_def unat_add_fits)
qed (simp add: next_key_id_def)

lemma below_next_key_id:
  assumes "finite (dom v)" "ids_left 1 v" "i \<in> dom v"
  shows "i < next_key_id v"
proof -
  from Max_ge [OF assms(1,3)] have "unat i \<le> unat (Max (dom v))" by (simp add: word_le_nat_alt)
  with unat_next_key_id [OF assms(1,2)] assms(3) show ?thesis by (auto simp: word_less_nat_alt)
qed

lemma next_key_id_fresh: "finite (dom v) \<Longrightarrow> ids_left 1 v \<Longrightarrow> v (next_key_id v) = None"
  using below_next_key_id [of v "next_key_id v"] by auto

lemma next_key_id_room:
  assumes "finite (dom v)" "ids_left n v" "0 < n" "n < 2 ^ 32"
  shows "unat (next_key_id v) + n \<le> 2 ^ 32"
proof (cases "dom v = {}")
  case False
  then have "Max (dom v) \<in> dom v" using assms(1) by (rule Max_in [rotated])
  with assms(2) have "unat (Max (dom v)) + n < 2 ^ 32" by (simp add: ids_left_def)
  with False unat_next_key_id [OF assms(1) ids_left_mono [OF assms(2)]] assms(3) show ?thesis
    by simp
qed (use assms(4) in \<open>simp add: next_key_id_def\<close>)

lemma next_id_choice:
  assumes "finite (dom v)" "ids_left 1 v"
  shows "add_u32 oc (case (if dom v = {} then None else Some (Max (dom v))) of
      Some i \<Rightarrow> i | None \<Rightarrow> 0) 1 = Ok (next_key_id v)"
    and "(case (if dom v = {} then None else Some (Max (dom v))) of
      Some i \<Rightarrow> add_u32 oc i 1 | None \<Rightarrow> Ok 1) = Ok (next_key_id v)"
proof -
  have "dom v \<noteq> {} \<longrightarrow> add_u32 oc (Max (dom v)) 1 = Ok (Max (dom v) + 1)"
    using assms Max_in [OF assms(1)] by (auto intro!: add_u32_fits simp: ids_left_def)
  then show "add_u32 oc (case (if dom v = {} then None else Some (Max (dom v))) of
      Some i \<Rightarrow> i | None \<Rightarrow> 0) 1 = Ok (next_key_id v)"
    and "(case (if dom v = {} then None else Some (Max (dom v))) of
      Some i \<Rightarrow> add_u32 oc i 1 | None \<Rightarrow> Ok 1) = Ok (next_key_id v)"
    by (simp_all add: next_key_id_def add_u32_fits)
qed

section \<open>The batch of new pre-keys\<close>

lemma generate_loop_fits:
  "\<forall>i \<in> set is. unat start_id + i < 2 ^ 32 \<Longrightarrow>
    generate_loop oc gen start_id is acc =
      Ok (acc @ map (\<lambda>i. (start_id + word_of_nat i, gen i)) is)"
  by (induction "is" arbitrary: acc)
    (simp_all add: add_u32_fits unat_of_nat take_bit_nat_eq_self)

lemma generate_pre_keys_fits:
  "unat start_id + unat n \<le> 2 ^ 32 \<Longrightarrow> generate_pre_keys oc gen start_id n =
    Ok (map (\<lambda>i. (start_id + word_of_nat i, gen i)) [0..<unat n])"
  by (simp add: generate_pre_keys_def generate_loop_fits)

lemma generate_loop_wraps:
  "generate_loop False gen start_id is acc =
    Ok (acc @ map (\<lambda>i. (start_id + word_of_nat i, gen i)) is)"
  by (induction "is" arbitrary: acc) (simp_all add: add_u32_def)

lemma generate_loop_overflow:
  "\<exists>i \<in> set is. i < 2 ^ 32 \<and> 2 ^ 32 \<le> unat start_id + i \<Longrightarrow>
    generate_loop True gen start_id is acc = Panic ''attempt to add with overflow''"
proof (induction "is" arbitrary: acc)
  case (Cons j js)
  show ?case
  proof (cases "2 ^ 32 \<le> unat start_id + unat (word_of_nat j :: u32)")
    case False
    with Cons.prems have "\<exists>i \<in> set js. i < 2 ^ 32 \<and> 2 ^ 32 \<le> unat start_id + i"
      by (auto simp: unat_of_nat take_bit_nat_eq_self)
    with False Cons.IH show ?thesis by (simp add: add_u32_def)
  qed (simp add: add_u32_def)
qed simp

text \<open>A run of ids as a map.\<close>

lemma map_of_run:
  assumes "unat (start_id :: u32) + n \<le> 2 ^ 32"
  shows "map_of (map (\<lambda>i. (start_id + word_of_nat i, gen i)) [0..<n]) j =
    (if unat start_id \<le> unat j \<and> unat j < unat start_id + n
     then Some (gen (unat j - unat start_id)) else None)"
  using assms
proof (induction n)
  case (Suc n)
  then have run: "unat (start_id + word_of_nat n) = unat start_id + n"
    by (intro unat_run) simp
  then have "start_id + word_of_nat n = j \<longleftrightarrow> unat j = unat start_id + n"
    by (auto simp: word_unat_eq_iff)
  with Suc run show ?case by (auto simp: map_add_def split: option.splits)
qed simp

lemma fold_updates:
  "distinct (map fst xs) \<Longrightarrow> fold (\<lambda>(i, x) m. m(i \<mapsto> f i x)) xs m j =
    (case map_of xs j of Some x \<Rightarrow> Some (f j x) | None \<Rightarrow> m j)"
  by (induction xs arbitrary: m) (auto split: option.splits simp: map_of_eq_None_iff [symmetric])

lemma distinct_run:
  "unat (start_id :: u32) + n \<le> 2 ^ 32 \<Longrightarrow>
    distinct (map fst (map (\<lambda>i. (start_id + word_of_nat i, gen i)) [0..<n]))"
  by (auto simp: distinct_map inj_on_def word_unat_eq_iff unat_run)

text \<open>The store after replenishment: \<open>n\<close> new keys from the next id on, and every old key.\<close>

definition with_run :: "(u32 \<Rightarrow> 'kp \<Rightarrow> 'r) \<Rightarrow> (nat \<Rightarrow> 'kp) \<Rightarrow> u32 \<Rightarrow> nat \<Rightarrow> (u32 \<Rightarrow> 'r option)
    \<Rightarrow> u32 \<Rightarrow> 'r option" where
  "with_run new gen start_id n v j =
     (if unat start_id \<le> unat j \<and> unat j < unat start_id + n
      then Some (new j (gen (unat j - unat start_id))) else v j)"

lemma fold_run:
  assumes "unat start_id + n \<le> 2 ^ 32"
  shows "fold (\<lambda>(i, x) m. m(i \<mapsto> new i x))
    (map (\<lambda>i. (start_id + word_of_nat i, gen i)) [0..<n]) v = with_run new gen start_id n v"
  using fold_updates [OF distinct_run [OF assms, of gen], of new v] map_of_run [OF assms, of gen]
  by (simp add: fun_eq_iff with_run_def)


lemma dom_with_run:
  "dom (with_run new gen start_id n v) =
    dom v \<union> {j. unat start_id \<le> unat j \<and> unat j < unat start_id + n}"
  by (auto simp: with_run_def split: if_splits)

lemma run_ids:
  assumes "unat (start_id :: u32) + n \<le> 2 ^ 32"
  shows "{j :: u32. unat start_id \<le> unat j \<and> unat j < unat start_id + n} =
      (\<lambda>i. start_id + word_of_nat i) ` {0..<n}"
proof (intro set_eqI iffI)
  fix j :: u32
  assume j: "j \<in> {j. unat start_id \<le> unat j \<and> unat j < unat start_id + n}"
  with assms have "unat (start_id + word_of_nat (unat j - unat start_id)) = unat j"
    by (subst unat_run) auto
  then have "j = start_id + word_of_nat (unat j - unat start_id)" by (simp add: word_unat_eq_iff)
  then show "j \<in> (\<lambda>i. start_id + word_of_nat i) ` {0..<n}" using j by (intro image_eqI [where x = "unat j - unat start_id"]) auto
qed (use assms in \<open>auto simp: unat_run\<close>)

lemma card_run_ids:
  assumes "unat (start_id :: u32) + n \<le> 2 ^ 32"
  shows "card {j :: u32. unat start_id \<le> unat j \<and> unat j < unat start_id + n} = n"
proof -
  have "inj_on (\<lambda>i. start_id + word_of_nat i) {0..<n}"
    using assms by (auto simp: inj_on_def word_unat_eq_iff unat_run)
  with run_ids [OF assms] show ?thesis by (simp add: card_image)
qed

text \<open>New ids lie above all old ones, so no key is overwritten and the store grows by \<open>n\<close>.\<close>

lemma with_run_keeps:
  assumes "finite (dom v)" "ids_left 1 v" "v i = Some r"
  shows "with_run new gen (next_key_id v) n v i = Some r"
  using below_next_key_id [OF assms(1,2) domI, OF assms(3)] assms(3)
  by (auto simp: with_run_def word_less_nat_alt)

lemma card_with_run:
  assumes "finite (dom v)" "ids_left n v" "0 < n" "n < 2 ^ 32"
  shows "card (dom (with_run new gen (next_key_id v) n v)) = card (dom v) + n"
proof -
  have "dom v \<inter> {j. unat (next_key_id v) \<le> unat j \<and> unat j < unat (next_key_id v) + n} = {}"
    using below_next_key_id [OF assms(1) ids_left_mono [OF assms(2)]] assms(3)
    by (fastforce simp: word_less_nat_alt)
  moreover have "finite {j. unat (next_key_id v) \<le> unat j \<and> unat j < unat (next_key_id v) + n}"
    by (rule finite_subset [OF subset_UNIV]) simp
  ultimately show ?thesis
    using card_run_ids [OF next_key_id_room [OF assms]] assms(1)
    by (simp add: dom_with_run card_Un_disjoint)
qed

section \<open>Replenishment and consumption\<close>

context one_time_keys
begin

lemma save_loop:
  assumes "good s" "\<forall>i k. storable i (new i k)"
  shows "\<exists>s'. save_pre_keys_loop st new xs s = (Ok (), s') \<and> good s' \<and> rest s' = rest s \<and>
    view s' = fold (\<lambda>(i, x) m. m(i \<mapsto> new i x)) xs (view s)"
  using assms
proof (induction xs arbitrary: s)
  case (Cons x xs)
  obtain i k where x: "x = (i, k)" by fastforce
  from save_view [OF Cons.prems(1), of i "new i k"] Cons.prems(2) obtain s1 where
    "save_pre_key st i (new i k) s = (Ok (), s1)" "good s1"
    "view s1 = (view s)(i \<mapsto> new i k)" "rest s1 = rest s" by blast
  with Cons.IH [of s1] Cons.prems(2) x show ?case by auto
qed simp

lemma replenish:
  assumes "good s" "ids_left 100 (view s)" "\<forall>i k. storable i (new i k)"
  shows "\<exists>s'. replenish_pre_keys st new oc gen s = (Ok (), s') \<and> good s' \<and> rest s' = rest s \<and>
    view s' = with_run new gen (next_key_id (view s)) 100 (view s)"
proof -
  note fin = finite_view [OF assms(1)]
  let ?next = "next_key_id (view s)"
  from next_key_id_room [OF fin assms(2)] have room: "unat ?next + 100 \<le> 2 ^ 32" by simp
  let ?run = "map (\<lambda>i. (?next + word_of_nat i, gen i)) [0..<100]"
  from room have "generate_pre_keys oc gen ?next 100 = Ok ?run"
    using generate_pre_keys_fits [of ?next 100] by simp
  with save_loop [OF assms(1,3), of ?run, unfolded fold_run [OF room, of new gen]]
  show ?thesis
    by (simp add: replenish_pre_keys_def max_view [OF assms(1)] REPLENISH_COUNT_def
        next_id_choice(2) [OF fin ids_left_mono [OF assms(2)]]
        del: dom_eq_empty_conv)
qed

lemma consume_keeps:
  assumes "good s" "50 \<le> card (dom (view s) - {i})"
  shows "\<exists>s'. consume_pre_key st new oc gen i s = (Ok (), s') \<and> good s' \<and> rest s' = rest s \<and>
    view s' = (view s)(i := None)"
  using delete_view [OF assms(1), of i] count_view assms(2)
  by (fastforce simp: consume_pre_key_def MIN_PRE_KEY_COUNT_def)

lemma consume_replenishes:
  assumes "good s" "card (dom (view s) - {i}) < 50" "ids_left 100 (view s)"
    "\<forall>i k. storable i (new i k)"
  defines "v \<equiv> (view s)(i := None)"
  shows "\<exists>s'. consume_pre_key st new oc gen i s = (Ok (), s') \<and> good s' \<and> rest s' = rest s \<and>
    view s' = with_run new gen (next_key_id v) 100 v"
proof -
  from delete_view [OF assms(1), of i] obtain s1 where s1: "delete_pre_key st i s = (Ok (), s1)"
    "good s1" "view s1 = v" "rest s1 = rest s" unfolding v_def by blast
  have "ids_left 100 (view s1)" using assms(3) s1(3) by (auto simp: ids_left_def v_def)
  from replenish [OF s1(2) this assms(4)] s1 assms(2) show ?thesis
    by (simp add: consume_pre_key_def MIN_PRE_KEY_COUNT_def count_view v_def)
qed

end

section \<open>Rotation and clean-up\<close>

text \<open>The signed and Kyber variants of the age check and the clean-up are one function.\<close>

lemma kyber_needs_rotation_eq: "kyber_pre_key_needs_rotation = signed_pre_key_needs_rotation"
  by (simp add: fun_eq_iff kyber_pre_key_needs_rotation_def signed_pre_key_needs_rotation_def)

lemma kyber_cleanup_eq: "cleanup_expired_kyber_pre_keys = cleanup_expired_signed_pre_keys"
  by (simp add: fun_eq_iff cleanup_expired_kyber_pre_keys_def cleanup_expired_signed_pre_keys_def)

text \<open>
  What clean-up leaves of a store: a part of it that holds every key that is not expired, that is
  not empty unless the store was, and that holds an expired key only as its last one.
\<close>

definition cleaned :: "('r \<Rightarrow> bool) \<Rightarrow> (u32 \<Rightarrow> 'r option) \<Rightarrow> (u32 \<Rightarrow> 'r option) \<Rightarrow> bool" where
  "cleaned old v v' \<longleftrightarrow> v' \<subseteq>\<^sub>m v \<and>
     (\<forall>i r. v i = Some r \<and> \<not> old r \<longrightarrow> v' i = Some r) \<and>
     (v \<noteq> Map.empty \<longrightarrow> v' \<noteq> Map.empty) \<and>
     (\<forall>i r. v' i = Some r \<and> old r \<longrightarrow> dom v' = {i})"

lemma map_le_delete: "m \<subseteq>\<^sub>m v(i := None) \<Longrightarrow> m i = None \<and> m \<subseteq>\<^sub>m v"
  by (auto simp: map_le_def dom_def) (metis option.distinct(1))

lemma map_le_same: "m \<subseteq>\<^sub>m v \<Longrightarrow> v i = Some r \<Longrightarrow> i \<in> dom m \<Longrightarrow> m i = Some r"
  by (simp add: map_le_def)

lemma map_le_Some: "m \<subseteq>\<^sub>m v \<Longrightarrow> m i = Some r \<Longrightarrow> v i = Some r"
  by (metis domI map_le_def)

lemma cleaned_drops:
  assumes "cleaned old v v'" "v j = Some new" "\<not> old new" "v i = Some r" "old r"
  shows "v' i = None"
proof (cases "v' i")
  case (Some q)
  with assms(1,4) have "q = r" by (auto simp: cleaned_def dest: map_le_Some)
  with Some assms(1,2,3,5) have "dom v' = {i}" "v' j = Some new" unfolding cleaned_def by blast+
  then have "j = i" by blast
  with assms(2-5) show ?thesis by simp
qed

context rotating_keys
begin

lemma rotate_signed:
  fixes ms :: nat
  assumes "good s" "ids_left 1 (view s)" "key_maker_lawful K L"
    "\<forall>i r. rotating_storable L r \<longrightarrow> storable i r"
    "calculate_signature K ikp (public_serialize K kp) = Ok sig"
  defines "r \<equiv> record_new K (next_key_id (view s)) (millis_u64 ms) kp sig"
  shows "\<exists>s'. rotate_signed_pre_key st L K oc (Some ms) kp ikp s = (Ok (), s') \<and> good s' \<and>
    rest s' = rest s \<and> view s' = (view s)(next_key_id (view s) \<mapsto> r)"
  using save_view [OF assms(1), of "next_key_id (view s)" r] assms(3-5)
  by (auto simp: rotate_signed_pre_key_def max_view [OF assms(1)] Let_def clock_millis_def
      next_id_choice(1) [OF finite_view [OF assms(1)] assms(2)] generate_signed_pre_key_def
      lawful_record r_def simp del: dom_eq_empty_conv)

lemma rotate_kyber:
  fixes ms :: nat
  assumes "good s" "ids_left 1 (view s)" "key_maker_lawful K L"
    "\<forall>i r. rotating_storable L r \<longrightarrow> storable i r"
    "calculate_signature K ikp (public_serialize K kp) = Ok sig"
  defines "r \<equiv> record_new K (next_key_id (view s)) (millis_u64 ms) kp sig"
  shows "\<exists>s'. rotate_kyber_pre_key st K oc (Some ms) kp ikp s = (Ok (), s') \<and> good s' \<and>
    rest s' = rest s \<and> view s' = (view s)(next_key_id (view s) \<mapsto> r)"
  using save_view [OF assms(1), of "next_key_id (view s)" r] assms(3-5)
  by (auto simp: rotate_kyber_pre_key_def max_view [OF assms(1)] Let_def clock_millis_def
      next_id_choice(1) [OF finite_view [OF assms(1)] assms(2)]
      lawful_record r_def simp del: dom_eq_empty_conv)

lemma rotate_overflow:
  assumes "good s" "view s (- 1) = Some r"
  shows "rotate_signed_pre_key st L K True now kp ikp s =
    (Panic ''attempt to add with overflow'', s)"
proof -
  have "Max (dom (view s)) = - 1"
    using assms(2) by (intro Max_eqI finite_view [OF assms(1)]) auto
  moreover have "dom (view s) \<noteq> {}" using assms(2) by blast
  ultimately have "get_max_key_id st s = (Ok (Some (- 1)), s)"
    using max_view [OF assms(1)] by (simp del: dom_eq_empty_conv)
  moreover have "2 ^ 32 \<le> unat (- 1 :: u32) + unat (1 :: u32)"
    by (simp add: unsigned_minus_1_eq_mask mask_eq_exp_minus_1)
  ultimately show ?thesis by (simp add: rotate_signed_pre_key_def Let_def add_u32_def)
qed

lemma needs_rotation_empty:
  "good s \<Longrightarrow> view s = Map.empty \<Longrightarrow> signed_pre_key_needs_rotation st L oc now s = (Ok True, s)"
  by (simp add: signed_pre_key_needs_rotation_def max_view)

lemma needs_rotation:
  assumes "good s" "view s (Max (dom (view s))) = Some r" "record_timestamp L r = Ok ts"
    "ts \<le> millis_u64 ms"
  shows "signed_pre_key_needs_rotation st L oc (Some ms) s =
    (Ok (604800 < (unat (millis_u64 ms) - unat ts) div 1000), s)"
proof -
  have "dom (view s) \<noteq> {}" using assms(2) by blast
  then have "get_max_key_id st s = (Ok (Some (Max (dom (view s)))), s)"
    by (simp add: max_view assms(1) del: dom_eq_empty_conv)
  moreover have "unat ((millis_u64 ms - ts) div 1000) = (unat (millis_u64 ms) - unat ts) div 1000"
    using assms(4) by (simp add: unat_div unat_sub)
  ultimately show ?thesis
    using assms(1-3) by (simp add: signed_pre_key_needs_rotation_def get_present clock_millis_def
        sub_u64_fits [OF assms(4)] ROTATION_INTERVAL_SECS_def word_less_nat_alt Let_def)
qed

lemma needs_rotation_clock_behind:
  assumes "good s" "view s (Max (dom (view s))) = Some r" "record_timestamp L r = Ok ts"
    "millis_u64 ms < ts"
  shows "signed_pre_key_needs_rotation st L True (Some ms) s =
      (Panic ''attempt to subtract with overflow'', s)"
    and "signed_pre_key_needs_rotation st L False (Some ms) s =
      (Ok (604800 < unat ((millis_u64 ms - ts) div 1000)), s)"
proof -
  have "dom (view s) \<noteq> {}" using assms(2) by blast
  then have "get_max_key_id st s = (Ok (Some (Max (dom (view s)))), s)"
    by (simp add: max_view assms(1) del: dom_eq_empty_conv)
  then show "signed_pre_key_needs_rotation st L True (Some ms) s =
      (Panic ''attempt to subtract with overflow'', s)"
    and "signed_pre_key_needs_rotation st L False (Some ms) s =
      (Ok (604800 < unat ((millis_u64 ms - ts) div 1000)), s)"
    using assms by (simp_all add: signed_pre_key_needs_rotation_def get_present clock_millis_def
        sub_u64_def ROTATION_INTERVAL_SECS_def word_less_nat_alt Let_def)
qed

lemma cleanup_loop:
  assumes "good s" "distinct ids" "set ids \<subseteq> dom (view s)"
  shows "\<exists>s'. cleanup_loop st ids s = (Ok (), s') \<and> good s' \<and> rest s' = rest s \<and>
    view s' \<subseteq>\<^sub>m view s \<and> dom (view s) - set ids \<subseteq> dom (view s') \<and>
    (view s \<noteq> Map.empty \<longrightarrow> view s' \<noteq> Map.empty) \<and>
    (\<forall>i \<in> set ids. i \<in> dom (view s') \<longrightarrow> dom (view s') = {i})"
  using assms
proof (induction ids arbitrary: s)
  case (Cons i ids)
  show ?case
  proof (cases "1 < card (dom (view s))")
    case True
    obtain s1 where s1: "delete_key st i s = (Ok (), s1)" "good s1" "view s1 = (view s)(i := None)"
      "rest s1 = rest s" using delete_view [OF Cons.prems(1), of i] by blast
    have "set ids \<subseteq> dom (view s1)" using Cons.prems(2,3) s1(3) by auto
    from Cons.IH [OF s1(2) _ this] Cons.prems(2) obtain s' where s': "cleanup_loop st ids s1 = (Ok (), s')"
      "good s'" "rest s' = rest s1" "view s' \<subseteq>\<^sub>m view s1" "dom (view s1) - set ids \<subseteq> dom (view s')"
      "view s1 \<noteq> Map.empty \<longrightarrow> view s' \<noteq> Map.empty"
      "\<forall>i \<in> set ids. i \<in> dom (view s') \<longrightarrow> dom (view s') = {i}" by auto
    have "card (dom (view s) - {i}) \<noteq> 0" using True by (simp add: card_Diff_singleton_if)
    then have "dom (view s1) \<noteq> {}" using s1(3) by auto
    then have "view s1 \<noteq> Map.empty" by simp
    moreover have "view s' i = None" "view s' \<subseteq>\<^sub>m view s"
      using map_le_delete [OF s'(4) [unfolded s1(3)]] by simp_all
    moreover have "dom (view s) - set (i # ids) \<subseteq> dom (view s')"
      using s'(5) s1(3) by auto
    moreover have "cleanup_loop st (i # ids) s = (Ok (), s')"
      using s'(1) s1(1) True by (simp add: count_view Cons.prems(1))
    ultimately show ?thesis using s'(2,3,6,7) s1(4) by (intro exI [of _ s']) (simp add: domIff)
  next
    case False
    have "i \<in> dom (view s)" using Cons.prems by simp
    with False finite_view [OF Cons.prems(1)] have one: "dom (view s) = {i}"
      by (auto simp: card_le_Suc0_iff_eq not_less)
    then have "ids = []" using Cons.prems(2,3) by (cases ids) auto
    with False one Cons.prems show ?thesis by (auto simp: count_view)
  qed
qed auto

lemma cleanup:
  assumes "good s" "unat (GRACE_PERIOD_SECS * 1000) \<le> ms" "ms < 2 ^ 64"
  defines "cutoff \<equiv> millis_u64 ms - GRACE_PERIOD_SECS * 1000"
  shows "\<exists>s'. cleanup_expired_signed_pre_keys st oc (Some ms) s = (Ok (), s') \<and> good s' \<and>
    rest s' = rest s \<and> cleaned (expired cutoff) (view s) (view s')"
proof -
  have le: "GRACE_PERIOD_SECS * 1000 \<le> millis_u64 ms"
    using assms(2,3) by (simp add: word_le_nat_alt millis_u64_fits)
  obtain ids where ids: "get_keys_older_than st cutoff s = (Ok ids, s)" "distinct ids"
    "set ids = {i. \<exists>r. view s i = Some r \<and> expired cutoff r}" using older_view [OF assms(1)] by blast
  have run: "cleanup_expired_signed_pre_keys st oc (Some ms) s =
      (if card (dom (view s)) \<le> 1 then (Ok (), s) else cleanup_loop st ids s)"
    using ids(1) assms(1) le
    by (simp add: cleanup_expired_signed_pre_keys_def clock_millis_def sub_u64_fits cutoff_def count_view)
  show ?thesis
  proof (cases "card (dom (view s)) \<le> 1")
    case True
    then have "dom (view s) = {i}" if "view s i = Some r" for i r
      using that finite_view [OF assms(1)] by (auto simp: card_le_Suc0_iff_eq dom_def)
    then have "cleaned (expired cutoff) (view s) (view s)" by (simp add: cleaned_def)
    with True run assms(1) show ?thesis by (intro exI [of _ s]) simp
  next
    case False
    have "set ids \<subseteq> dom (view s)" using ids(3) by auto
    from cleanup_loop [OF assms(1) ids(2) this] obtain s' where s': "cleanup_loop st ids s = (Ok (), s')"
      "good s'" "rest s' = rest s" "view s' \<subseteq>\<^sub>m view s" "dom (view s) - set ids \<subseteq> dom (view s')"
      "view s \<noteq> Map.empty \<longrightarrow> view s' \<noteq> Map.empty"
      "\<forall>i \<in> set ids. i \<in> dom (view s') \<longrightarrow> dom (view s') = {i}" by blast
    have "view s' i = Some r" if "view s i = Some r" "\<not> expired cutoff r" for i r
    proof -
      have "i \<in> dom (view s')" using s'(5) that ids(3) by auto
      with map_le_same [OF s'(4) that(1)] show ?thesis .
    qed
    moreover have "dom (view s') = {i}" if "view s' i = Some r" "expired cutoff r" for i r
    proof -
      have "view s i = Some r" using map_le_Some [OF s'(4) that(1)] .
      then have "i \<in> set ids" using ids(3) that(2) by blast
      with s'(7) that(1) show ?thesis by blast
    qed
    ultimately have "cleaned (expired cutoff) (view s) (view s')"
      using s'(4,6) by (simp add: cleaned_def)
    with s'(1-3) run False show ?thesis by (intro exI [of _ s']) simp
  qed
qed

end

context rotating_keys
begin

text \<open>A rotation followed by a clean-up at the same time: expired keys are gone, the new one stays.\<close>

lemma rotate_then_cleanup:
  fixes ms :: nat
  assumes "good s" "ids_left 1 (view s)" "key_maker_lawful K L"
    "\<forall>i r. rotating_storable L r \<longrightarrow> storable i r"
    "calculate_signature K ikp (public_serialize K kp) = Ok sig"
    "unat (GRACE_PERIOD_SECS * 1000) \<le> ms" "ms < 2 ^ 64"
  defines "cutoff \<equiv> millis_u64 ms - GRACE_PERIOD_SECS * 1000"
    and "r \<equiv> record_new K (next_key_id (view s)) (millis_u64 ms) kp sig"
  assumes "\<not> expired cutoff r" "view s i = Some old" "expired cutoff old"
  shows "\<exists>s1 s2. rotate_signed_pre_key st L K oc (Some ms) kp ikp s = (Ok (), s1) \<and>
    cleanup_expired_signed_pre_keys st oc (Some ms) s1 = (Ok (), s2) \<and>
    view s2 i = None \<and> view s2 (next_key_id (view s)) = Some r"
proof -
  let ?n = "next_key_id (view s)"
  obtain s1 where s1: "rotate_signed_pre_key st L K oc (Some ms) kp ikp s = (Ok (), s1)" "good s1"
    "view s1 = (view s)(?n \<mapsto> r)" using rotate_signed [OF assms(1-5)] unfolding r_def by blast
  obtain s2 where s2: "cleanup_expired_signed_pre_keys st oc (Some ms) s1 = (Ok (), s2)"
    "cleaned (expired cutoff) (view s1) (view s2)"
    using cleanup [OF s1(2) assms(6,7)] unfolding cutoff_def by blast
  have "i < ?n" using assms(1,2,11) by (intro below_next_key_id finite_view) auto
  then have old: "view s1 i = Some old" "i \<noteq> ?n" using s1(3) assms(11) by auto
  have new: "view s2 ?n = Some r" using s2(2) s1(3) assms(10) by (simp add: cleaned_def)
  have "view s2 i = None"
    using cleaned_drops [OF s2(2), of ?n r i old] s1(3) assms(10,12) old by simp
  with s1(1) s2(1) new show ?thesis by blast
qed

end

section \<open>Properties of the SQLite backend\<close>

lemma storable_rotating: "\<forall>i r. rotating_storable L r \<longrightarrow> rotating_storable L r"
  by simp

text \<open>
  Rotating the signed pre-key stores exactly one new record, made from the current time and
  signed with the identity, under an id no key had and larger than all; every other key, and the
  rest of the storage, is as before.
\<close>

theorem rotate_signed_adds_key:
  assumes "sqlite_signed_good L s" "ids_left 1 (sqlite_signed_view L s)" "key_maker_lawful K L"
    "calculate_signature K ikp (public_serialize K kp) = Ok sig"
  shows "\<exists>s'. rotate_signed_pre_key (sqlite_signed_store L rank) L K oc (Some ms) kp ikp s =
      (Ok (), s') \<and> sqlite_signed_good L s' \<and> without_signed s' = without_signed s \<and>
    (\<forall>i \<in> dom (sqlite_signed_view L s). i < next_key_id (sqlite_signed_view L s)) \<and>
    sqlite_signed_view L s' = (sqlite_signed_view L s)
      (next_key_id (sqlite_signed_view L s) \<mapsto>
         record_new K (next_key_id (sqlite_signed_view L s)) (millis_u64 ms) kp sig)"
  using sqlite_signed.rotate_signed [OF assms(1-3) storable_rotating assms(4)]
    below_next_key_id [OF sqlite_signed.finite_view [OF assms(1)] assms(2)]
  by blast

theorem rotate_signed_adds_key_witness:
  "\<exists>s'. rotate_signed_pre_key (sqlite_signed_store sample_records unat) sample_records sample_maker
      True (Some 5000) [7] [9] sample_storage = (Ok (), s') \<and>
    sqlite_signed_view sample_records s' = [1 \<mapsto> (1, 5000, [9, 7])]"
  using rotate_signed_adds_key [of sample_records sample_storage sample_maker "[9]" "[7]" "[9, 7]"
      unat True 5000]
  by (auto simp: millis_u64_def)

text \<open>
  Rotating the Kyber pre-key has the same effect on the Kyber table: one new record under a
  fresh, largest id, everything else unchanged.
\<close>

theorem rotate_kyber_adds_key:
  assumes "sqlite_kyber_good L s" "ids_left 1 (sqlite_kyber_view L s)" "key_maker_lawful K L"
    "calculate_signature K ikp (public_serialize K kp) = Ok sig"
  shows "\<exists>s'. rotate_kyber_pre_key (sqlite_kyber_store L rank) K oc (Some ms) kp ikp s =
      (Ok (), s') \<and> sqlite_kyber_good L s' \<and> without_kyber s' = without_kyber s \<and>
    (\<forall>i \<in> dom (sqlite_kyber_view L s). i < next_key_id (sqlite_kyber_view L s)) \<and>
    sqlite_kyber_view L s' = (sqlite_kyber_view L s)
      (next_key_id (sqlite_kyber_view L s) \<mapsto>
         record_new K (next_key_id (sqlite_kyber_view L s)) (millis_u64 ms) kp sig)"
  using sqlite_kyber.rotate_kyber [OF assms(1-3) storable_rotating assms(4)]
    below_next_key_id [OF sqlite_kyber.finite_view [OF assms(1)] assms(2)]
  by blast

theorem rotate_kyber_adds_key_witness:
  "\<exists>s'. rotate_kyber_pre_key (sqlite_kyber_store sample_records unat) sample_maker
      True (Some 5000) [7] [9] sample_storage = (Ok (), s') \<and>
    sqlite_kyber_view sample_records s' = [1 \<mapsto> (1, 5000, [9, 7])]"
  using rotate_kyber_adds_key [of sample_records sample_storage sample_maker "[9]" "[7]" "[9, 7]"
      unat True 5000]
  by (auto simp: millis_u64_def)

text \<open>
  The current signed pre-key, the one with the largest id, is due for rotation exactly when
  more than seven days of whole seconds have passed since its timestamp; the check changes nothing.
\<close>

theorem signed_rotation_due:
  assumes "sqlite_signed_good L s"
    "sqlite_signed_view L s (Max (dom (sqlite_signed_view L s))) = Some r"
    "record_timestamp L r = Ok ts" "ts \<le> millis_u64 ms"
  shows "signed_pre_key_needs_rotation (sqlite_signed_store L rank) L oc (Some ms) s =
    (Ok (604800 < (unat (millis_u64 ms) - unat ts) div 1000), s)"
  using assms by (rule sqlite_signed.needs_rotation)

theorem signed_rotation_due_witness:
  "signed_pre_key_needs_rotation (sqlite_signed_store sample_records unat) sample_records True
      (Some 604802000) (sample_signed [(1, 900, []), (2, 1000, [])]) =
    (Ok True, sample_signed [(1, 900, []), (2, 1000, [])])"
proof -
  let ?s = "sample_signed [(1, 900, []), (2, 1000, [])]"
  have v: "sqlite_signed_view sample_records ?s = [1 \<mapsto> (1, 900, []), 2 \<mapsto> (2, 1000, [])]"
    using sample_signed_good [of "[(1, 900, []), (2, 1000, [])]"] by (auto simp: fun_eq_iff)
  then have m: "Max (dom (sqlite_signed_view sample_records ?s)) = 2"
    by (simp add: max_def word_le_nat_alt)
  show ?thesis
    using signed_rotation_due [of sample_records ?s "(2, 1000, [])" 1000 604802000 unat True]
      sample_signed_good [of "[(1, 900, []), (2, 1000, [])]"]
    by (simp add: m v millis_u64_def)
qed

text \<open>
  C40: When the clock reads earlier than the current key's timestamp, the age check panics in a
  build with overflow checks; without them the age wraps around and, unless the key lies
  centuries ahead, the check reports that rotation is due.
\<close>

theorem signed_rotation_clock_behind:
  assumes "sqlite_signed_good L s"
    "sqlite_signed_view L s (Max (dom (sqlite_signed_view L s))) = Some r"
    "record_timestamp L r = Ok ts" "millis_u64 ms < ts" "unat ts < 2 ^ 63"
  shows "signed_pre_key_needs_rotation (sqlite_signed_store L rank) L True (Some ms) s =
      (Panic ''attempt to subtract with overflow'', s) \<and>
    signed_pre_key_needs_rotation (sqlite_signed_store L rank) L False (Some ms) s = (Ok True, s)"
proof -
  have "unat (millis_u64 ms - ts) = unat (millis_u64 ms) + 2 ^ 64 - unat ts"
    using assms(4) by (simp add: unat_sub_if' word_less_nat_alt)
  then have "604800 < unat ((millis_u64 ms - ts) div 1000)" using assms(5) by (simp add: unat_div)
  with sqlite_signed.needs_rotation_clock_behind [OF assms(1-4)] show ?thesis by simp
qed

theorem signed_rotation_clock_behind_witness:
  "fst (signed_pre_key_needs_rotation (sqlite_signed_store sample_records unat) sample_records False
      (Some 900) (sample_signed [(1, 1000, [])])) = Ok True"
  using signed_rotation_clock_behind [of sample_records "sample_signed [(1, 1000, [])]"
      "(1, 1000, [])" 1000 900 unat] sample_signed_good [of "[(1, 1000, [])]"]
  by (simp add: millis_u64_def word_less_nat_alt)

text \<open>
  C13: Clean-up deletes expired signed pre-keys and nothing else: every key that is not expired
  stays, a store that held a key still holds one, and an expired key can only remain as the last
  one. The other tables are untouched.
\<close>

theorem signed_cleanup_safe:
  assumes "sqlite_signed_good L s" "604800000 \<le> ms" "ms < 2 ^ 64"
  shows "\<exists>s'. cleanup_expired_signed_pre_keys (sqlite_signed_store L rank) oc (Some ms) s =
      (Ok (), s') \<and> without_signed s' = without_signed s \<and>
    cleaned (expired_secs L (millis_u64 ms - 604800000))
      (sqlite_signed_view L s) (sqlite_signed_view L s')"
  using sqlite_signed.cleanup [OF assms(1) _ assms(3)] assms(2)
  by (fastforce simp: GRACE_PERIOD_SECS_def)

theorem signed_cleanup_safe_witness:
  "\<exists>s'. cleanup_expired_signed_pre_keys (sqlite_signed_store sample_records unat) True
      (Some 604900000) (sample_signed [(1, 900, []), (2, 100000, [])]) = (Ok (), s') \<and>
    sqlite_signed_view sample_records s' 2 = Some (2, 100000, [])"
proof -
  let ?s = "sample_signed [(1, 900, []), (2, 100000, [])]"
  have v: "sqlite_signed_view sample_records ?s 2 = Some (2, 100000, [])"
    using sample_signed_good [of "[(1, 900, []), (2, 100000, [])]"] by simp
  have "\<not> expired_secs sample_records (millis_u64 604900000 - 604800000) (2, 100000, [])"
    by (simp add: expired_secs_def millis_u64_def)
  with v show ?thesis
    using signed_cleanup_safe [of sample_records ?s 604900000 unat True]
      sample_signed_good [of "[(1, 900, []), (2, 100000, [])]"]
    by (auto simp: cleaned_def)
qed

text \<open>
  The same clean-up guarantee for Kyber pre-keys in the memory backend, whatever order the
  hash map yields the expired ids in.
\<close>

theorem mem_kyber_cleanup_safe:
  assumes "mem_kyber_good s" "604800000 \<le> ms" "ms < 2 ^ 64"
  shows "\<exists>s'. cleanup_expired_kyber_pre_keys (mem_kyber_store L rank) oc (Some ms) s = (Ok (), s') \<and>
    s'\<lparr>mem_kyber_pre_keys := []\<rparr> = s\<lparr>mem_kyber_pre_keys := []\<rparr> \<and>
    cleaned (expired_millis L (millis_u64 ms - 604800000))
      (hm_get (mem_kyber_pre_keys s)) (hm_get (mem_kyber_pre_keys s'))"
  using mem_kyber.cleanup [OF assms(1) _ assms(3)] assms(2)
  by (fastforce simp: GRACE_PERIOD_SECS_def kyber_cleanup_eq)

theorem mem_kyber_cleanup_safe_witness:
  "\<exists>s' :: (unit, unit, unit, unit, unit, sample_record) MemoryStorage.
    cleanup_expired_kyber_pre_keys (mem_kyber_store sample_records unat) True (Some 604900000)
      (memory_storage_new\<lparr>mem_kyber_pre_keys := [(3, (3, 0, [])), (1, (1, 0, []))]\<rparr>) = (Ok (), s') \<and>
    mem_kyber_pre_keys s' \<noteq> []"
  using mem_kyber_cleanup_safe [of "memory_storage_new\<lparr>mem_kyber_pre_keys :=
      [(3, (3, 0, [])), (1, (1, 0, []))]\<rparr>" 604900000 sample_records unat True]
  by (fastforce simp: mem_kyber_good_def keys_distinct_def cleaned_def)

text \<open>
  A signed pre-key that is replaced because its age passed seven days gets no grace period:
  rotation followed by clean-up at the same time deletes it at once and keeps the new key.
\<close>

theorem rotated_key_deleted_at_once:
  assumes "sqlite_signed_good L s" "ids_left 1 (sqlite_signed_view L s)" "key_maker_lawful K L"
    "calculate_signature K ikp (public_serialize K kp) = Ok sig" "604800000 \<le> ms" "ms < 2 ^ 64"
    "sqlite_signed_view L s i = Some old" "record_timestamp L old = Ok ts" "unat ts \<le> ms"
    "604800 < (ms - unat ts) div 1000"
  shows "\<exists>s1 s2.
    rotate_signed_pre_key (sqlite_signed_store L rank) L K oc (Some ms) kp ikp s = (Ok (), s1) \<and>
    cleanup_expired_signed_pre_keys (sqlite_signed_store L rank) oc (Some ms) s1 = (Ok (), s2) \<and>
    sqlite_signed_view L s2 i = None \<and>
    sqlite_signed_view L s2 (next_key_id (sqlite_signed_view L s)) =
      Some (record_new K (next_key_id (sqlite_signed_view L s)) (millis_u64 ms) kp sig)"
proof -
  let ?cut = "millis_u64 ms - GRACE_PERIOD_SECS * 1000"
  have "604800000 \<le> millis_u64 ms"
    using assms(5,6) by (simp add: word_le_nat_alt millis_u64_fits)
  then have cut: "unat ?cut = ms - 604800000"
    using assms(6) by (simp add: GRACE_PERIOD_SECS_def unat_sub millis_u64_fits)
  have "expired_secs L ?cut old"
    using assms(8-10) cut by (simp add: expired_secs_def word_less_nat_alt unat_div)
  moreover have "\<not> expired_secs L ?cut
      (record_new K (next_key_id (sqlite_signed_view L s)) (millis_u64 ms) kp sig)"
    using cut assms(6) div_le_mono [of "ms - 604800000" ms 1000]
    by (simp add: expired_secs_def lawful_record(2) [OF assms(3)] word_less_nat_alt unat_div
        millis_u64_fits)
  ultimately show ?thesis
    using sqlite_signed.rotate_then_cleanup [OF assms(1-3) storable_rotating assms(4) _ assms(6)
        _ assms(7), of rank oc] assms(5)
    by (simp add: GRACE_PERIOD_SECS_def)
qed

theorem rotated_key_deleted_at_once_witness:
  "\<exists>s1 s2. rotate_signed_pre_key (sqlite_signed_store sample_records unat) sample_records
      sample_maker True (Some 700000000) [7] [9] (sample_signed [(1, 900, [])]) = (Ok (), s1) \<and>
    cleanup_expired_signed_pre_keys (sqlite_signed_store sample_records unat) True
      (Some 700000000) s1 = (Ok (), s2) \<and>
    sqlite_signed_view sample_records s2 1 = None"
  using rotated_key_deleted_at_once [of sample_records "sample_signed [(1, 900, [])]" sample_maker
      "[9]" "[7]" "[9, 7]" 700000000 1 "(1, 900, [])" 900 unat True]
    sample_signed_good [of "[(1, 900, [])]"]
  by (auto simp: ids_left_def)

text \<open>
  Rotating when the id space is used up (a key with the largest \<^verbatim>\<open>u32\<close> as id) panics in a
  build with overflow checks, and nothing is stored.
\<close>

theorem rotate_signed_overflow:
  assumes "sqlite_signed_good L s" "sqlite_signed_view L s (- 1) = Some r"
  shows "rotate_signed_pre_key (sqlite_signed_store L rank) L K True now kp ikp s =
    (Panic ''attempt to add with overflow'', s)"
  using assms by (rule sqlite_signed.rotate_overflow)

theorem rotate_signed_overflow_witness:
  "rotate_signed_pre_key (sqlite_signed_store sample_records unat) sample_records sample_maker True
      (Some 5) [7] [9] (sample_signed [(- 1, 900, [])]) =
    (Panic ''attempt to add with overflow'', sample_signed [(- 1, 900, [])])"
  using rotate_signed_overflow [of sample_records "sample_signed [(- 1, 900, [])]"
      "(- 1, 900, [])" unat sample_maker "Some 5" "[7]" "[9]"]
    sample_signed_good [of "[(- 1, 900, [])]"]
  by simp

text \<open>
  C22: Replenishing stores exactly 100 new one-time pre-keys, the records of the generated key
  pairs under the 100 ids after the largest one (from 1 on in an empty store); no key is
  overwritten and no other table changes.
\<close>

theorem replenish_adds_100:
  assumes "sqlite_pre_keys_good L s" "ids_left 100 (sqlite_pre_keys_view L s)"
    "\<forall>i k. round_trips L (new i k)"
  shows "\<exists>s'. replenish_pre_keys (sqlite_pre_key_store L) new oc gen s = (Ok (), s') \<and>
    sqlite_pre_keys_good L s' \<and> without_pre_keys s' = without_pre_keys s \<and>
    sqlite_pre_keys_view L s \<subseteq>\<^sub>m sqlite_pre_keys_view L s' \<and>
    sqlite_pre_keys_view L s' = with_run new gen (next_key_id (sqlite_pre_keys_view L s)) 100
      (sqlite_pre_keys_view L s) \<and>
    card (dom (sqlite_pre_keys_view L s')) = card (dom (sqlite_pre_keys_view L s)) + 100"
proof -
  note fin = sqlite_one_time.finite_view [OF assms(1)]
  have "sqlite_pre_keys_view L s \<subseteq>\<^sub>m with_run new gen (next_key_id (sqlite_pre_keys_view L s)) 100
      (sqlite_pre_keys_view L s)"
    by (auto simp: map_le_def with_run_keeps [OF fin ids_left_mono [OF assms(2)]])
  with sqlite_one_time.replenish [OF assms(1,2), of new oc gen] assms(3)
    card_with_run [OF fin assms(2), of new gen]
  show ?thesis by auto
qed

theorem replenish_adds_100_witness:
  "\<exists>s'. replenish_pre_keys (sqlite_pre_key_store sample_records) sample_new True
      (\<lambda>i. [word_of_nat i]) sample_storage = (Ok (), s') \<and>
    sqlite_pre_keys_view sample_records s' 1 = Some (1, 0, [0]) \<and>
    sqlite_pre_keys_view sample_records s' 100 = Some (100, 0, [99]) \<and>
    sqlite_pre_keys_view sample_records s' 101 = None \<and>
    card (dom (sqlite_pre_keys_view sample_records s')) = 100"
  using replenish_adds_100 [of sample_records sample_storage sample_new True "\<lambda>i. [word_of_nat i]"]
  by (auto simp: with_run_def sample_new_def)

text \<open>
  C33: Consuming a one-time pre-key deletes it, and the store never falls below 50 keys: when
  fewer remain, 100 new ones are added after the largest remaining id.
\<close>

theorem consume_keeps_stock:
  fixes i :: u32
  assumes "sqlite_pre_keys_good L s" "ids_left 100 (sqlite_pre_keys_view L s)"
    "\<forall>i k. round_trips L (new i k)"
  defines "v \<equiv> (sqlite_pre_keys_view L s)(i := None)"
  shows "\<exists>s'. consume_pre_key (sqlite_pre_key_store L) new oc gen i s = (Ok (), s') \<and>
    without_pre_keys s' = without_pre_keys s \<and>
    sqlite_pre_keys_view L s' =
      (if card (dom v) < 50 then with_run new gen (next_key_id v) 100 v else v) \<and>
    50 \<le> card (dom (sqlite_pre_keys_view L s'))"
proof -
  have dom: "dom v = dom (sqlite_pre_keys_view L s) - {i}" by (auto simp: v_def)
  have fin: "finite (dom v)" using sqlite_one_time.finite_view [OF assms(1)] dom by simp
  have left: "ids_left 100 v" using assms(2) by (auto simp: ids_left_def v_def)
  show ?thesis
  proof (cases "card (dom v) < 50")
    case True
    with sqlite_one_time.consume_replenishes [OF assms(1) _ assms(2), of i new oc gen] assms(3)
      card_with_run [OF fin left, of new gen]
    show ?thesis by (auto simp: dom [symmetric] v_def [symmetric] simp del: dom_fun_upd)
  next
    case False
    with sqlite_one_time.consume_keeps [OF assms(1), of i new oc gen] show ?thesis
      by (auto simp: dom [symmetric] v_def [symmetric] simp del: dom_fun_upd)
  qed
qed

theorem consume_keeps_stock_witness:
  "\<exists>s'. consume_pre_key (sqlite_pre_key_store sample_records) sample_new True
      (\<lambda>i. [word_of_nat i]) 7 sample_storage = (Ok (), s') \<and>
    sqlite_pre_keys_view sample_records s' 1 = Some (1, 0, [0]) \<and>
    50 \<le> card (dom (sqlite_pre_keys_view sample_records s'))"
  using consume_keeps_stock [of sample_records sample_storage sample_new True
      "\<lambda>i. [word_of_nat i]" 7]
  by (auto simp: with_run_def sample_new_def)

text \<open>
  Ids of consumed keys come back: when the key with the largest id is consumed, its
  predecessor is still there, and fewer than 50 keys remain, the first newly generated key gets
  the id just consumed.
\<close>

theorem consumed_id_reused:
  assumes "sqlite_pre_keys_good L s" "ids_left 100 (sqlite_pre_keys_view L s)"
    "\<forall>i k. round_trips L (new i k)" "i = Max (dom (sqlite_pre_keys_view L s))"
    "j \<in> dom (sqlite_pre_keys_view L s)" "unat i = unat j + 1"
    "card (dom (sqlite_pre_keys_view L s) - {i}) < 50"
  shows "\<exists>s'. consume_pre_key (sqlite_pre_key_store L) new oc gen i s = (Ok (), s') \<and>
    sqlite_pre_keys_view L s' i = Some (new i (gen 0))"
proof -
  note fin = sqlite_one_time.finite_view [OF assms(1)]
  define v where "v = (sqlite_pre_keys_view L s)(i := None)"
  have "j \<noteq> i" using assms(6) by auto
  then have dom: "dom v = dom (sqlite_pre_keys_view L s) - {i}" "j \<in> dom v"
    using assms(5) by (auto simp: v_def)
  have "k \<le> j" if "k \<in> dom v" for k
    using Max_ge [OF fin, of k] that assms(4,6) dom(1)
    by (auto simp: word_le_nat_alt word_unat_eq_iff)
  then have "Max (dom v) = j" using dom fin by (intro Max_eqI) auto
  moreover have "ids_left 100 v" using assms(2) by (auto simp: ids_left_def v_def)
  ultimately have "unat (next_key_id v) = unat i"
    using unat_next_key_id [of v] ids_left_mono [of 100 v 1] dom fin assms(6) by auto
  with sqlite_one_time.consume_replenishes [OF assms(1,7,2), of new oc gen] assms(3)
  show ?thesis by (auto simp: v_def [symmetric] with_run_def)
qed

definition sample_one_time :: "u32 list \<Rightarrow> sqlite_storage" where
  "sample_one_time is =
     fold (\<lambda>i s. snd (save_pre_key (sqlite_pre_key_store sample_records) i (sample_new i []) s)) is
       sample_storage"

lemma sample_one_time_good:
  "sqlite_pre_keys_good sample_records (sample_one_time is) \<and>
    sqlite_pre_keys_view sample_records (sample_one_time is) =
      (\<lambda>i. if i \<in> set is then Some (sample_new i []) else None)"
proof (induction "is" rule: rev_induct)
  case (snoc i "is")
  then show ?case
    using sqlite_save_pre_key_law [of sample_records "sample_one_time is" "sample_new i []" i]
    by (auto simp: sample_one_time_def fun_eq_iff)
qed (simp add: sample_one_time_def)

theorem consumed_id_reused_witness:
  "\<exists>s'. consume_pre_key (sqlite_pre_key_store sample_records) sample_new True
      (\<lambda>i. [word_of_nat i]) 8 (sample_one_time [7, 8]) = (Ok (), s') \<and>
    sqlite_pre_keys_view sample_records s' 8 = Some (8, 0, [0])"
proof -
  have dom: "dom (sqlite_pre_keys_view sample_records (sample_one_time [7, 8])) = {7, 8}"
    by (auto simp: sample_one_time_good split: if_splits)
  have "card ({7, 8 :: u32} - {8}) < 50" "Max {7, 8 :: u32} = 8"
    by (simp_all add: max_def word_le_nat_alt)
  moreover have "ids_left 100 (sqlite_pre_keys_view sample_records (sample_one_time [7, 8]))"
    unfolding ids_left_def dom by simp
  ultimately show ?thesis
    using consumed_id_reused [of sample_records "sample_one_time [7, 8]" sample_new 8 7 True
        "\<lambda>i. [word_of_nat i]"] sample_one_time_good [of "[7, 8]"]
    unfolding dom by (simp add: sample_new_def)
qed

end
