(* ===== verification/Contact_Manager.thy ===== *)
theory Contact_Manager
  imports Lotl_Database
begin

text \<open>
  Contacts and fingerprints (\<^verbatim>\<open>src/src/contact_manager.rs\<close>) over the \<^verbatim>\<open>contacts\<close> table, which maps
  a fingerprint to the contact's key, alias and the two timestamps. The functions run on a
  connection the caller has locked.
\<close>

section \<open>Operations\<close>

text \<open>SHA-256 and the hexadecimal encoding come from crates; they are parameters.\<close>

record digest_lib =
  sha256 :: "bytes \<Rightarrow> bytes"
  hex_encode :: "bytes \<Rightarrow> string"

definition generate_fingerprint :: "('z) digest_lib_scheme \<Rightarrow> bytes \<Rightarrow> string \<Rightarrow> string \<Rightarrow> string"
  where
  "generate_fingerprint D identity_key salt prefix =
     prefix @ hex_encode D (sha256 D (identity_key @ as_bytes salt))"

abbreviation "put_contacts \<equiv> \<lambda>rows c. c\<lparr>contacts := Some rows\<rparr>"

definition init_contacts_table :: "conn \<Rightarrow> (lotl_error, unit) outcome \<times> conn" where
  "init_contacts_table c =
     and_then (map_err Database (create_table contacts put_contacts c)) (\<lambda>_ c.
     and_then (map_err Database (create_index ''contacts'' contacts c)) (\<lambda>_ c.
     (Ok (), c)))"

definition time_error :: lotl_error where
  "time_error = Crypto (FmtText ''System time error: '' ''second time provided was later than self'')"

definition now_secs :: "clock \<Rightarrow> (lotl_error, int) outcome" where
  "now_secs now = (case now of None \<Rightarrow> Err time_error | Some ms \<Rightarrow> Ok (secs_i64 ms))"

definition add_contact :: "('z) digest_lib_scheme \<Rightarrow> clock \<Rightarrow> bytes \<Rightarrow> string option \<Rightarrow> string
    \<Rightarrow> string \<Rightarrow> conn \<Rightarrow> (lotl_error, string) outcome \<times> conn" where
  "add_contact D now identity_key alias salt prefix c =
     (let fingerprint = generate_fingerprint D identity_key salt prefix in
      and_then (now_secs now, c) (\<lambda>now c.
      and_then (ok_of (query_row ''contacts'' contacts (\<lambda>r. co_fingerprint r = fingerprint)
        co_first_seen c)) (\<lambda>existing c.
      and_then
        (case existing of
           Some _ \<Rightarrow>
             and_then (map_err Database (update_rows ''contacts'' contacts put_contacts
               (\<lambda>r. co_fingerprint r = fingerprint)
               (\<lambda>r. r\<lparr>co_signal_identity_key := identity_key, co_user_alias := alias,
                  co_last_updated := now\<rparr>) c)) (\<lambda>_ c. (Ok (), c))
         | None \<Rightarrow>
             map_err Database (insert_unique ''contacts'' contacts put_contacts co_fingerprint
               \<lparr>co_fingerprint = fingerprint, co_signal_identity_key = identity_key,
                co_user_alias = alias, co_first_seen = now, co_last_updated = now\<rparr> c)) (\<lambda>_ c.
      (Ok fingerprint, c)))))"

definition contact_of_row :: "contact_row \<Rightarrow> ContactInfo" where
  "contact_of_row r = \<lparr>ci_fingerprint = co_fingerprint r,
     ci_signal_identity_key = co_signal_identity_key r, ci_user_alias = co_user_alias r,
     ci_first_seen = co_first_seen r, ci_last_updated = co_last_updated r\<rparr>"

definition lookup_contact :: "string \<Rightarrow> conn \<Rightarrow> (lotl_error, ContactInfo option) outcome \<times> conn"
  where
  "lookup_contact fingerprint c =
     (case query_row ''contacts'' contacts (\<lambda>r. co_fingerprint r = fingerprint) contact_of_row c of
        (Ok contact, c) \<Rightarrow> (Ok (Some contact), c)
      | (Err QueryReturnedNoRows, c) \<Rightarrow> (Ok None, c)
      | (Err e, c) \<Rightarrow> (Err (Database e), c)
      | (Panic m, c) \<Rightarrow> (Panic m, c))"

text \<open>
  \<^verbatim>\<open>ORDER BY last_updated DESC\<close>: rows with the same timestamp come in an order SQLite chooses,
  which \<open>rank\<close> fixes.
\<close>

definition list_contacts :: "(string \<Rightarrow> nat) \<Rightarrow> conn
    \<Rightarrow> (lotl_error, ContactInfo list) outcome \<times> conn" where
  "list_contacts rank c =
     and_then (map_err Database (prepare ''contacts'' contacts c)) (\<lambda>_ c.
       map_err Database (query_all ''contacts'' contacts
         (\<lambda>rows. map contact_of_row
            (sort_key (\<lambda>r. - co_last_updated r) (visit rank co_fingerprint rows))) c))"

definition update_contact_alias :: "clock \<Rightarrow> string \<Rightarrow> string option \<Rightarrow> conn
    \<Rightarrow> (lotl_error, unit) outcome \<times> conn" where
  "update_contact_alias now fingerprint alias c =
     and_then (now_secs now, c) (\<lambda>now c.
     and_then (map_err Database (update_rows ''contacts'' contacts put_contacts
       (\<lambda>r. co_fingerprint r = fingerprint)
       (\<lambda>r. r\<lparr>co_user_alias := alias, co_last_updated := now\<rparr>) c)) (\<lambda>rows_affected c.
     if rows_affected = 0 then (Err (ContactNotFound fingerprint), c) else (Ok (), c)))"

section \<open>The table as a map\<close>

definition contacts_view :: "conn \<Rightarrow> string \<Rightarrow> ContactInfo option" where
  "contacts_view c fp =
     (case contacts c of None \<Rightarrow> None
      | Some rows \<Rightarrow> map_option contact_of_row (find_row co_fingerprint fp rows))"

definition contacts_good :: "conn \<Rightarrow> bool" where
  "contacts_good c \<longleftrightarrow> healthy c \<and>
     (\<exists>rows. contacts c = Some rows \<and> keys_distinct co_fingerprint rows)"

definition without_contacts :: "conn \<Rightarrow> conn" where
  "without_contacts c = c\<lparr>contacts := None\<rparr>"

lemma contacts_goodE:
  assumes "contacts_good c"
  obtains rows where "healthy c" "contacts c = Some rows" "keys_distinct co_fingerprint rows"
  using assms by (auto simp: contacts_good_def)

lemma healthy_put_contacts [simp]: "healthy (c\<lparr>contacts := x\<rparr>) = healthy c"
  by (simp add: healthy_def)

lemma contact_of_row_fields [simp]:
  "ci_fingerprint (contact_of_row r) = co_fingerprint r"
  "ci_last_updated (contact_of_row r) = co_last_updated r"
  by (simp_all add: contact_of_row_def)

lemma find_contact: "find (\<lambda>r. co_fingerprint r = fp) rows = find_row co_fingerprint fp rows"
  by (simp add: find_row_def)

lemma lookup_good:
  "contacts_good c \<Longrightarrow> lookup_contact fp c = (Ok (contacts_view c fp), c)"
  by (erule contacts_goodE)
    (simp add: lookup_contact_def sql_simps find_contact contacts_view_def split: option.splits)

text \<open>What adding a contact leaves at its fingerprint.\<close>

definition added :: "string \<Rightarrow> bytes \<Rightarrow> string option \<Rightarrow> int \<Rightarrow> ContactInfo option \<Rightarrow> ContactInfo" where
  "added fp key alias now old = \<lparr>ci_fingerprint = fp, ci_signal_identity_key = key,
     ci_user_alias = alias,
     ci_first_seen = (case old of None \<Rightarrow> now | Some i \<Rightarrow> ci_first_seen i), ci_last_updated = now\<rparr>"

lemma add_contact_good:
  assumes "contacts_good c" "fp = generate_fingerprint D key salt prefix"
  shows "\<exists>c'. add_contact D (Some ms) key alias salt prefix c = (Ok fp, c') \<and> contacts_good c' \<and>
    without_contacts c' = without_contacts c \<and>
    contacts_view c' = (contacts_view c)(fp \<mapsto> added fp key alias (secs_i64 ms) (contacts_view c fp))"
proof -
  from assms(1) obtain rows where rows: "healthy c" "contacts c = Some rows"
    "keys_distinct co_fingerprint rows" by (rule contacts_goodE)
  show ?thesis
  proof (cases "find_row co_fingerprint fp rows")
    case None
    then have "fp \<notin> co_fingerprint ` set rows" by (simp add: find_row_None_iff)
    with rows None show ?thesis unfolding assms(2)
      by (simp add: add_contact_def now_secs_def sql_simps find_contact contacts_good_def
          keys_distinct_append_fresh without_contacts_def contacts_view_def added_def
          contact_of_row_def find_row_append find_row_Cons fun_eq_iff Let_def split: option.splits)
  next
    case (Some r)
    with rows find_row_key [OF Some] show ?thesis unfolding assms(2)
      by (auto simp: add_contact_def now_secs_def sql_simps find_contact contacts_good_def
          keys_distinct_update without_contacts_def contacts_view_def added_def
          contact_of_row_def row_update_find fun_eq_iff Let_def)
  qed
qed

lemma row_update_none: "\<forall>r \<in> set rows. \<not> P r \<Longrightarrow> row_update P f rows = rows"
  by (simp add: row_update_def map_idI)

lemma filter_key_empty: "filter (\<lambda>r. k r = x) rows = [] \<longleftrightarrow> find_row k x rows = None"
  by (auto simp: filter_empty_conv find_row_None_iff)

lemma contact_in_view:
  assumes "keys_distinct co_fingerprint rows" "contacts c = Some rows"
  shows "contacts_view c (ci_fingerprint i) = Some i \<longleftrightarrow> i \<in> contact_of_row ` set rows"
  using assms find_row_key by (fastforce simp: contacts_view_def find_row_in)

section \<open>Properties\<close>

text \<open>A concrete digest for the examples.\<close>

definition sample_digest :: digest_lib where
  "sample_digest = \<lparr>sha256 = id, hex_encode = bytes_text\<rparr>"

definition sample_contact :: contact_row where
  "sample_contact = \<lparr>co_fingerprint = ''Ps'', co_signal_identity_key = [],
     co_user_alias = Some ''alice'', co_first_seen = 3, co_last_updated = 3\<rparr>"

definition sample_contacts :: conn where
  "sample_contacts = empty_conn\<lparr>contacts := Some [sample_contact]\<rparr>"

lemma sample_contacts_good [simp]: "contacts_good sample_contacts"
  by (simp add: contacts_good_def sample_contacts_def empty_conn_def healthy_def keys_distinct_def)

text \<open>
  C32: What adding a contact does, whether it is new or known: it is stored under the fingerprint of
  its key, and a look-up then returns the key and alias just given, the current second as last update,
  and as first-seen time the current second if it is new and the time it had if it is known. Every
  other look-up is as before and so is every other table. The alias given always replaces the one
  stored: a known contact added again with no alias loses its alias, and this is not what the doc
  comment of \<^verbatim>\<open>add_contact\<close> says, where the alias is only updated if provided.
\<close>

theorem add_contact_lookup:
  assumes "contacts_good c" "fp = generate_fingerprint D key salt prefix"
  shows "\<exists>old c'. lookup_contact fp c = (Ok old, c) \<and>
    add_contact D (Some ms) key alias salt prefix c = (Ok fp, c') \<and>
    lookup_contact fp c' = (Ok (Some \<lparr>ci_fingerprint = fp, ci_signal_identity_key = key,
      ci_user_alias = alias,
      ci_first_seen = (case old of None \<Rightarrow> secs_i64 ms | Some contact \<Rightarrow> ci_first_seen contact),
      ci_last_updated = secs_i64 ms\<rparr>), c') \<and>
    (\<forall>other. other \<noteq> fp \<longrightarrow> fst (lookup_contact other c') = fst (lookup_contact other c)) \<and>
    without_contacts c' = without_contacts c"
  using add_contact_good [OF assms, of ms "alias"] assms(1)
  by (auto simp: lookup_good added_def)

theorem add_contact_lookup_witness:
  "\<exists>c'. fst (lookup_contact ''Ps'' sample_contacts) = Ok (Some (contact_of_row sample_contact)) \<and>
    add_contact sample_digest (Some 9000) [] None ''s'' ''P'' sample_contacts = (Ok ''Ps'', c') \<and>
    lookup_contact ''Ps'' c' = (Ok (Some \<lparr>ci_fingerprint = ''Ps'', ci_signal_identity_key = [],
      ci_user_alias = None, ci_first_seen = 3, ci_last_updated = 9\<rparr>), c')"
proof -
  have fp: "''Ps'' = generate_fingerprint sample_digest [] ''s'' ''P''"
    by (simp add: generate_fingerprint_def sample_digest_def)
  have "lookup_contact ''Ps'' sample_contacts = (Ok (Some (contact_of_row sample_contact)), sample_contacts)"
    by (simp add: lookup_good [OF sample_contacts_good]) (simp add: contacts_view_def
        sample_contacts_def sample_contact_def find_row_Cons)
  moreover have "secs_i64 9000 = 9" by (simp add: secs_i64_fits)
  ultimately show ?thesis
    using add_contact_lookup [OF sample_contacts_good fp, of 9000 None]
    by (auto simp: contact_of_row_def sample_contact_def)
qed

text \<open>
  When the read that looks for an existing contact fails, a contact already in the table is
  not overwritten: the insert that follows reports the uniqueness violation and the table is
  unchanged.
\<close>

theorem add_contact_failed_read:
  assumes "contacts c = Some rows" "faults c = [Some m]"
    "generate_fingerprint D key salt prefix \<in> co_fingerprint ` set rows"
  shows "add_contact D (Some ms) key alias salt prefix c =
    (Err (Database (ConstraintViolation ''UNIQUE constraint failed'')), c\<lparr>faults := []\<rparr>)"
  using assms
  by (simp add: add_contact_def now_secs_def query_row_def statement_fault insert_unique_healthy
      Let_def)

theorem add_contact_failed_read_witness:
  "fst (add_contact sample_digest (Some 9000) [] None ''s'' ''P''
      (sample_contacts\<lparr>faults := [Some ''disk I/O error'']\<rparr>)) =
    Err (Database (ConstraintViolation ''UNIQUE constraint failed''))"
  using add_contact_failed_read [of "sample_contacts\<lparr>faults := [Some ''disk I/O error'']\<rparr>"
      "[sample_contact]" "''disk I/O error''" sample_digest "[]" "''s''" "''P''" 9000 None]
  by (simp add: sample_contacts_def sample_contact_def generate_fingerprint_def sample_digest_def)

text \<open>
  The listing holds every contact exactly once, most recently updated first, whatever order
  ties come in.
\<close>

theorem list_contacts_complete:
  assumes "contacts_good c"
  shows "\<exists>cs. list_contacts rank c = (Ok cs, c) \<and>
    sorted_wrt (\<lambda>a b. ci_last_updated b \<le> ci_last_updated a) cs \<and>
    distinct (map ci_fingerprint cs) \<and>
    (\<forall>i. i \<in> set cs \<longleftrightarrow> contacts_view c (ci_fingerprint i) = Some i)"
proof -
  from assms obtain rows where rows: "healthy c" "contacts c = Some rows"
    "keys_distinct co_fingerprint rows" by (rule contacts_goodE)
  define rs where "rs = sort_key (\<lambda>r. - co_last_updated r) (visit rank co_fingerprint rows)"
  have "list_contacts rank c = (Ok (map contact_of_row rs), c)"
    using rows by (simp add: list_contacts_def sql_simps rs_def)
  moreover have "sorted (map (\<lambda>r. - co_last_updated r) rs)" by (simp add: rs_def)
  then have "sorted_wrt (\<lambda>a b. ci_last_updated b \<le> ci_last_updated a) (map contact_of_row rs)"
    by (simp add: sorted_map sorted_wrt_map)
  moreover have "mset rs = mset rows" by (simp add: rs_def)
  then have "distinct (map co_fingerprint rs)"
    using rows(3) unfolding keys_distinct_def by (metis mset_eq_imp_distinct_iff mset_map)
  then have "distinct (map ci_fingerprint (map contact_of_row rs))" by (simp add: comp_def)
  ultimately show ?thesis
    by (auto simp: rs_def contact_in_view [OF rows(3,2)] simp del: map_map)
qed

theorem list_contacts_complete_witness:
  "\<exists>cs. list_contacts (\<lambda>_. 0) sample_contacts = (Ok cs, sample_contacts) \<and>
    contact_of_row sample_contact \<in> set cs"
  using list_contacts_complete [OF sample_contacts_good, of "\<lambda>_. 0"]
  by (auto simp: contacts_view_def sample_contacts_def find_row_Cons)

text \<open>
  Changing an alias succeeds exactly when the contact exists; it sets the alias and the
  update time and keeps the key and the first-seen time. For an unknown fingerprint it reports
  \<^verbatim>\<open>ContactNotFound\<close> and changes nothing.
\<close>

theorem update_alias_functional:
  assumes "contacts_good c"
  shows "case contacts_view c fp of
      None \<Rightarrow> update_contact_alias (Some ms) fp alias c = (Err (ContactNotFound fp), c)
    | Some i \<Rightarrow> \<exists>c'. update_contact_alias (Some ms) fp alias c = (Ok (), c') \<and>
        contacts_good c' \<and> contacts_view c' = (contacts_view c)
          (fp \<mapsto> i\<lparr>ci_user_alias := alias, ci_last_updated := secs_i64 ms\<rparr>)"
proof -
  from assms obtain rows where rows: "healthy c" "contacts c = Some rows"
    "keys_distinct co_fingerprint rows" by (rule contacts_goodE)
  show ?thesis
  proof (cases "find_row co_fingerprint fp rows")
    case None
    then have "\<forall>r \<in> set rows. co_fingerprint r \<noteq> fp" by (auto simp: find_row_None_iff)
    with rows None show ?thesis
      by (auto simp: update_contact_alias_def now_secs_def sql_simps contacts_view_def
          row_update_none filter_key_empty)
  next
    case (Some r)
    with rows find_row_key [OF Some] show ?thesis
      by (auto simp: update_contact_alias_def now_secs_def sql_simps contacts_view_def
          filter_key_empty contacts_good_def keys_distinct_update row_update_find
          contact_of_row_def fun_eq_iff)
  qed
qed

theorem update_alias_functional_witness:
  "update_contact_alias (Some 9000) ''nobody'' None sample_contacts =
    (Err (ContactNotFound ''nobody''), sample_contacts)"
  using update_alias_functional [OF sample_contacts_good, of 9000 "''nobody''" None]
  by (simp add: contacts_view_def sample_contacts_def sample_contact_def find_row_Cons)

end
