(* ===== verification/Message_History.thy ===== *)
theory Message_History
  imports Contact_Manager
begin

text \<open>
  Message history (\<^verbatim>\<open>src/src/message_history.rs\<close>) over the \<^verbatim>\<open>conversations\<close> and \<^verbatim>\<open>messages\<close>
  tables: conversations are keyed by the contact's fingerprint, messages belong to a conversation,
  and both take ids from an \<^verbatim>\<open>AUTOINCREMENT\<close> counter. Foreign keys are checked when the
  connection enforces them. The functions run on a connection the caller has locked.
\<close>

section \<open>Data\<close>

datatype MessageType = TextMessage | BundleAnnouncement | System

definition message_type_from :: "int \<Rightarrow> MessageType" where
  "message_type_from v =
     (if v = 0 then TextMessage else if v = 1 then BundleAnnouncement else if v = 2 then System
      else TextMessage)"

fun message_type_as_i64 :: "MessageType \<Rightarrow> int" where
  "message_type_as_i64 TextMessage = 0"
| "message_type_as_i64 BundleAnnouncement = 1"
| "message_type_as_i64 System = 2"

datatype DeliveryStatus = Pending | SentToTransport | Delivered | Failed

definition delivery_status_from :: "int \<Rightarrow> DeliveryStatus" where
  "delivery_status_from v =
     (if v = 0 then Pending else if v = 1 then SentToTransport else if v = 2 then Delivered
      else if v = 3 then Failed else Pending)"

fun delivery_status_as_i64 :: "DeliveryStatus \<Rightarrow> int" where
  "delivery_status_as_i64 Pending = 0"
| "delivery_status_as_i64 SentToTransport = 1"
| "delivery_status_as_i64 Delivered = 2"
| "delivery_status_as_i64 Failed = 3"

record StoredMessage =
  sm_id :: int
  sm_conversation_id :: int
  sm_fingerprint :: string
  sm_direction :: MessageDirection
  sm_timestamp :: int
  sm_message_type :: MessageType
  sm_plaintext :: bytes
  sm_delivery_status :: DeliveryStatus
  sm_was_prekey_message :: bool
  sm_session_established :: bool

record ExtendedConversationRecord =
  ec_id :: int
  ec_fingerprint :: string
  ec_last_message_timestamp :: int
  ec_unread_count :: u32
  ec_archived :: bool

abbreviation "put_conversations \<equiv> \<lambda>rows c. c\<lparr>conversations := Some rows\<rparr>"
abbreviation "put_messages \<equiv> \<lambda>rows c. c\<lparr>messages := Some rows\<rparr>"

definition show_i64 :: "int \<Rightarrow> string" where
  "show_i64 n = (if n < 0 then ''-'' @ show_nat (nat (- n)) else show_nat (nat n))"

section \<open>Tables\<close>

definition init_message_history_tables :: "conn \<Rightarrow> (lotl_error, unit) outcome \<times> conn" where
  "init_message_history_tables c =
     and_then (map_err Database (create_table conversations put_conversations c)) (\<lambda>_ c.
     and_then (map_err Database (create_index ''conversations'' conversations c)) (\<lambda>_ c.
     and_then (map_err Database (create_index ''conversations'' conversations c)) (\<lambda>_ c.
     and_then (map_err Database (create_table messages put_messages c)) (\<lambda>_ c.
     and_then (map_err Database (create_index ''messages'' messages c)) (\<lambda>_ c.
     and_then (map_err Database (create_index ''messages'' messages c)) (\<lambda>_ c.
     (Ok (), c)))))))"

text \<open>
  The two inserts. The id is one more than the largest the table ever had; SQLite reports a full
  database when there is none left. A foreign key is checked against the parent table.
\<close>

definition id_limit :: int where "id_limit = 2 ^ 63 - 1"

definition insert_conversation :: "string \<Rightarrow> conn \<Rightarrow> (sql_error, unit) outcome \<times> conn" where
  "insert_conversation fp = statement (on_table ''conversations'' conversations (\<lambda>rows c.
     if foreign_keys c \<and> contacts c = None then (Err (NoSuchTable ''main.contacts''), c)
     else if id_limit \<le> conversations_seq c
       then (Err (SqliteFailure ''database or disk is full''), c)
     else if list_ex (\<lambda>r. cv_fingerprint r = fp) rows
       then (Err (ConstraintViolation ''UNIQUE constraint failed''), c)
     else if foreign_keys c \<and> \<not> list_ex (\<lambda>r. co_fingerprint r = fp) (the (contacts c))
       then (Err fk_error, c)
     else (Ok (), c\<lparr>conversations := Some (rows @
         [\<lparr>cv_id = conversations_seq c + 1, cv_fingerprint = fp, cv_last_message_timestamp = 0,
           cv_unread_count = 0, cv_archived = False\<rparr>]),
       conversations_seq := conversations_seq c + 1,
       last_insert_rowid := conversations_seq c + 1\<rparr>)))"

text \<open>The row is given without its id; \<^verbatim>\<open>messages.id\<close> is filled in by SQLite.\<close>

definition insert_message :: "message_row \<Rightarrow> conn \<Rightarrow> (sql_error, unit) outcome \<times> conn" where
  "insert_message m = statement (on_table ''messages'' messages (\<lambda>rows c.
     if foreign_keys c \<and> conversations c = None then (Err (NoSuchTable ''main.conversations''), c)
     else if id_limit \<le> messages_seq c then (Err (SqliteFailure ''database or disk is full''), c)
     else if foreign_keys c \<and>
         \<not> list_ex (\<lambda>r. cv_id r = ms_conversation_id m) (the (conversations c))
       then (Err fk_error, c)
     else (Ok (), c\<lparr>messages := Some (rows @ [m\<lparr>ms_id := messages_seq c + 1\<rparr>]),
       messages_seq := messages_seq c + 1, last_insert_rowid := messages_seq c + 1\<rparr>)))"

section \<open>Operations\<close>

abbreviation conversation_id_of :: "string \<Rightarrow> conn \<Rightarrow> (sql_error, int) outcome \<times> conn" where
  "conversation_id_of fp \<equiv>
     query_row ''conversations'' conversations (\<lambda>r. cv_fingerprint r = fp) cv_id"

definition get_or_create_conversation :: "string \<Rightarrow> conn \<Rightarrow> (lotl_error, int) outcome \<times> conn"
  where
  "get_or_create_conversation fingerprint c =
     (case conversation_id_of fingerprint c of
        (Ok i, c) \<Rightarrow> (Ok i, c)
      | (Err QueryReturnedNoRows, c) \<Rightarrow>
          and_then (map_err Database (insert_conversation fingerprint c)) (\<lambda>_ c.
            (Ok (last_insert_rowid c), c))
      | (Err e, c) \<Rightarrow> (Err (Database e), c)
      | (Panic m, c) \<Rightarrow> (Panic m, c))"

definition update_conversation :: "int \<Rightarrow> int \<Rightarrow> bool \<Rightarrow> conn \<Rightarrow> (lotl_error, unit) outcome \<times> conn"
  where
  "update_conversation conversation_id timestamp increment_unread c =
     and_then (map_err Database (update_rows ''conversations'' conversations put_conversations
       (\<lambda>r. cv_id r = conversation_id)
       (if increment_unread
        then (\<lambda>r. r\<lparr>cv_last_message_timestamp := timestamp,
                    cv_unread_count := cv_unread_count r + 1\<rparr>)
        else (\<lambda>r. r\<lparr>cv_last_message_timestamp := timestamp\<rparr>)) c)) (\<lambda>_ c. (Ok (), c))"

definition store_incoming_message :: "string \<Rightarrow> int \<Rightarrow> bytes \<Rightarrow> bool \<Rightarrow> bool \<Rightarrow> conn
    \<Rightarrow> (lotl_error, int) outcome \<times> conn" where
  "store_incoming_message fingerprint timestamp plaintext was_prekey_message session_established c =
     and_then (get_or_create_conversation fingerprint c) (\<lambda>conversation_id c.
     and_then (map_err Database (insert_message
       \<lparr>ms_id = 0, ms_conversation_id = conversation_id, ms_direction = 0,
        ms_timestamp = timestamp, ms_message_type = message_type_as_i64 TextMessage,
        ms_content = plaintext, ms_delivery_status = 0,
        ms_was_prekey_message = was_prekey_message,
        ms_session_established = session_established\<rparr> c)) (\<lambda>_ c.
     let message_id = last_insert_rowid c in
     and_then (update_conversation conversation_id timestamp True c) (\<lambda>_ c.
     (Ok message_id, c))))"

definition store_outgoing_message :: "string \<Rightarrow> int \<Rightarrow> bytes \<Rightarrow> conn
    \<Rightarrow> (lotl_error, int) outcome \<times> conn" where
  "store_outgoing_message fingerprint timestamp plaintext c =
     and_then (get_or_create_conversation fingerprint c) (\<lambda>conversation_id c.
     and_then (map_err Database (insert_message
       \<lparr>ms_id = 0, ms_conversation_id = conversation_id, ms_direction = 1,
        ms_timestamp = timestamp, ms_message_type = message_type_as_i64 TextMessage,
        ms_content = plaintext, ms_delivery_status = delivery_status_as_i64 Pending,
        ms_was_prekey_message = False, ms_session_established = False\<rparr> c)) (\<lambda>_ c.
     let message_id = last_insert_rowid c in
     and_then (update_conversation conversation_id timestamp False c) (\<lambda>_ c.
     (Ok message_id, c))))"

definition update_delivery_status :: "int \<Rightarrow> DeliveryStatus \<Rightarrow> conn
    \<Rightarrow> (lotl_error, unit) outcome \<times> conn" where
  "update_delivery_status message_id status c =
     and_then (map_err Database (update_rows ''messages'' messages put_messages
       (\<lambda>m. ms_id m = message_id)
       (\<lambda>m. m\<lparr>ms_delivery_status := delivery_status_as_i64 status\<rparr>) c)) (\<lambda>_ c. (Ok (), c))"

definition message_of_row :: "int \<Rightarrow> string \<Rightarrow> message_row \<Rightarrow> StoredMessage" where
  "message_of_row conversation_id fingerprint m =
     \<lparr>sm_id = ms_id m, sm_conversation_id = conversation_id, sm_fingerprint = fingerprint,
      sm_direction = (if ms_direction m = 0 then Received else Sent),
      sm_timestamp = ms_timestamp m, sm_message_type = message_type_from (ms_message_type m),
      sm_plaintext = ms_content m,
      sm_delivery_status = delivery_status_from (ms_delivery_status m),
      sm_was_prekey_message = ms_was_prekey_message m,
      sm_session_established = ms_session_established m\<rparr>"

text \<open>The join of a message with its conversation: no row when either is missing.\<close>

definition select_message :: "int \<Rightarrow> conn \<Rightarrow> (sql_error, StoredMessage) outcome \<times> conn" where
  "select_message message_id = statement (on_table ''messages'' messages (\<lambda>ms.
     on_table ''conversations'' conversations (\<lambda>cs c.
       case find (\<lambda>m. ms_id m = message_id) ms of
         None \<Rightarrow> (Err QueryReturnedNoRows, c)
       | Some m \<Rightarrow>
           (case find (\<lambda>r. cv_id r = ms_conversation_id m) cs of
              None \<Rightarrow> (Err QueryReturnedNoRows, c)
            | Some r \<Rightarrow> (Ok (message_of_row (ms_conversation_id m) (cv_fingerprint r) m), c)))))"

definition get_message :: "int \<Rightarrow> conn \<Rightarrow> (lotl_error, StoredMessage) outcome \<times> conn" where
  "get_message message_id c =
     (case select_message message_id c of
        (Ok m, c) \<Rightarrow> (Ok m, c)
      | (Err QueryReturnedNoRows, c) \<Rightarrow>
          (Err (Storage (FmtText ''Message not found: '' (show_i64 message_id))), c)
      | (Err e, c) \<Rightarrow> (Err (Database e), c)
      | (Panic m, c) \<Rightarrow> (Panic m, c))"

text \<open>Rows with equal timestamps come in an order SQLite chooses, which \<open>rank\<close> fixes.\<close>

definition newest_first :: "(int \<Rightarrow> nat) \<Rightarrow> int \<Rightarrow> message_row list \<Rightarrow> message_row list" where
  "newest_first rank conversation_id ms =
     sort_key (\<lambda>m. - ms_timestamp m)
       (filter (\<lambda>m. ms_conversation_id m = conversation_id) (visit rank ms_id ms))"

definition get_conversation_messages :: "(int \<Rightarrow> nat) \<Rightarrow> string \<Rightarrow> u32 \<Rightarrow> u32 \<Rightarrow> conn
    \<Rightarrow> (lotl_error, StoredMessage list) outcome \<times> conn" where
  "get_conversation_messages rank fingerprint limit offset c =
     (case conversation_id_of fingerprint c of
        (Ok conversation_id, c) \<Rightarrow>
          and_then (map_err Database (prepare ''messages'' messages c)) (\<lambda>_ c.
            map_err Database (query_all ''messages'' messages (\<lambda>ms.
              map (message_of_row conversation_id fingerprint)
                (take (unat limit) (drop (unat offset) (newest_first rank conversation_id ms)))) c))
      | (Err QueryReturnedNoRows, c) \<Rightarrow> (Ok [], c)
      | (Err e, c) \<Rightarrow> (Err (Database e), c)
      | (Panic m, c) \<Rightarrow> (Panic m, c))"

definition conversation_of_row :: "conversation_row \<Rightarrow> ExtendedConversationRecord" where
  "conversation_of_row r = \<lparr>ec_id = cv_id r, ec_fingerprint = cv_fingerprint r,
     ec_last_message_timestamp = cv_last_message_timestamp r,
     ec_unread_count = word_of_int (cv_unread_count r), ec_archived = cv_archived r\<rparr>"

definition get_conversations :: "(int \<Rightarrow> nat) \<Rightarrow> bool \<Rightarrow> conn
    \<Rightarrow> (lotl_error, ExtendedConversationRecord list) outcome \<times> conn" where
  "get_conversations rank include_archived c =
     and_then (map_err Database (prepare ''conversations'' conversations c)) (\<lambda>_ c.
       map_err Database (query_all ''conversations'' conversations (\<lambda>rows.
         map conversation_of_row (sort_key (\<lambda>r. - cv_last_message_timestamp r)
           (filter (\<lambda>r. include_archived \<or> \<not> cv_archived r) (visit rank cv_id rows)))) c))"

definition list_conversations :: "(int \<Rightarrow> nat) \<Rightarrow> bool \<Rightarrow> conn
    \<Rightarrow> (lotl_error, ConversationRecord list) outcome \<times> conn" where
  "list_conversations rank include_archived c =
     and_then (get_conversations rank include_archived c) (\<lambda>extended c.
       (Ok (map (\<lambda>e. \<lparr>cr_id = ec_id e, cr_fingerprint = ec_fingerprint e,
          cr_last_message_timestamp = ec_last_message_timestamp e\<rparr>) extended), c))"

definition get_unread_count :: "string \<Rightarrow> conn \<Rightarrow> (lotl_error, u32) outcome \<times> conn" where
  "get_unread_count fingerprint c =
     (case query_row ''conversations'' conversations (\<lambda>r. cv_fingerprint r = fingerprint)
        cv_unread_count c of
        (Ok n, c) \<Rightarrow> (Ok (word_of_int n), c)
      | (Err QueryReturnedNoRows, c) \<Rightarrow> (Ok 0, c)
      | (Err e, c) \<Rightarrow> (Err (Database e), c)
      | (Panic m, c) \<Rightarrow> (Panic m, c))"

definition mark_conversation_read :: "string \<Rightarrow> conn \<Rightarrow> (lotl_error, unit) outcome \<times> conn" where
  "mark_conversation_read fingerprint c =
     and_then (map_err Database (update_rows ''conversations'' conversations put_conversations
       (\<lambda>r. cv_fingerprint r = fingerprint) (\<lambda>r. r\<lparr>cv_unread_count := 0\<rparr>) c)) (\<lambda>_ c. (Ok (), c))"

definition later_incoming :: "int \<Rightarrow> int \<Rightarrow> message_row list \<Rightarrow> nat" where
  "later_incoming conversation_id up_to_timestamp ms =
     length (filter (\<lambda>m. ms_conversation_id m = conversation_id \<and> ms_direction m = 0 \<and>
       up_to_timestamp < ms_timestamp m) ms)"

definition mark_conversation_read_up_to :: "string \<Rightarrow> int \<Rightarrow> conn
    \<Rightarrow> (lotl_error, unit) outcome \<times> conn" where
  "mark_conversation_read_up_to fingerprint up_to_timestamp c =
     and_then (map_err Database (conversation_id_of fingerprint c)) (\<lambda>conversation_id c.
     and_then (map_err Database (query_all ''messages'' messages
       (later_incoming conversation_id up_to_timestamp) c)) (\<lambda>unread_count c.
     and_then (map_err Database (update_rows ''conversations'' conversations put_conversations
       (\<lambda>r. cv_id r = conversation_id) (\<lambda>r. r\<lparr>cv_unread_count := int unread_count\<rparr>) c)) (\<lambda>_ c.
     (Ok (), c))))"

definition delete_message :: "int \<Rightarrow> conn \<Rightarrow> (lotl_error, unit) outcome \<times> conn" where
  "delete_message message_id c =
     and_then (map_err Database (execute ''messages'' messages put_messages
       (row_delete ms_id message_id) c)) (\<lambda>_ c. (Ok (), c))"

text \<open>Deleting a conversation cascades to its messages when foreign keys are enforced.\<close>

definition delete_conversation_row :: "int \<Rightarrow> conn \<Rightarrow> (sql_error, unit) outcome \<times> conn" where
  "delete_conversation_row i = statement (on_table ''conversations'' conversations (\<lambda>rows c.
     (Ok (), c\<lparr>conversations := Some (row_delete cv_id i rows),
        messages := (if foreign_keys c
                     then map_option (filter (\<lambda>m. ms_conversation_id m \<noteq> i)) (messages c)
                     else messages c)\<rparr>)))"

text \<open>A failing look-up is treated like a missing conversation.\<close>

definition delete_conversation :: "string \<Rightarrow> conn \<Rightarrow> (lotl_error, unit) outcome \<times> conn" where
  "delete_conversation fingerprint c =
     (case conversation_id_of fingerprint c of
        (Ok i, c) \<Rightarrow>
          and_then (map_err Database (execute ''messages'' messages put_messages
            (filter (\<lambda>m. ms_conversation_id m \<noteq> i)) c)) (\<lambda>_ c.
          and_then (map_err Database (delete_conversation_row i c)) (\<lambda>_ c.
          (Ok (), c)))
      | (Err e, c) \<Rightarrow> (Ok (), c)
      | (Panic m, c) \<Rightarrow> (Panic m, c))"

definition archive_conversation :: "string \<Rightarrow> bool \<Rightarrow> conn \<Rightarrow> (lotl_error, unit) outcome \<times> conn"
  where
  "archive_conversation fingerprint archived c =
     and_then (map_err Database (update_rows ''conversations'' conversations put_conversations
       (\<lambda>r. cv_fingerprint r = fingerprint) (\<lambda>r. r\<lparr>cv_archived := archived\<rparr>) c)) (\<lambda>_ c. (Ok (), c))"

end
