(* ===== verification/Message_History_Laws.thy ===== *)
theory Message_History_Laws
  imports Message_History
begin

text \<open>
  Correctness of the message history: an invariant of the tables that every operation keeps, on
  its error paths too, and what each operation does on a healthy connection.
\<close>

section \<open>The invariant\<close>

definition conversation_rows :: "conn \<Rightarrow> conversation_row list" where
  "conversation_rows c = (case conversations c of None \<Rightarrow> [] | Some rows \<Rightarrow> rows)"

definition message_rows :: "conn \<Rightarrow> message_row list" where
  "message_rows c = (case messages c of None \<Rightarrow> [] | Some rows \<Rightarrow> rows)"

definition contact_rows :: "conn \<Rightarrow> contact_row list" where
  "contact_rows c = (case contacts c of None \<Rightarrow> [] | Some rows \<Rightarrow> rows)"

text \<open>
  Ids and fingerprints are unique, ids lie between 1 and the counter, every message belongs to a
  conversation, unread counts are not negative, and enforced foreign keys hold. \<open>n\<close> is a bound the
  message counter has passed.
\<close>

definition history_inv :: "int \<Rightarrow> conn \<Rightarrow> bool" where
  "history_inv n c \<longleftrightarrow>
     keys_distinct cv_id (conversation_rows c) \<and>
     keys_distinct cv_fingerprint (conversation_rows c) \<and>
     keys_distinct ms_id (message_rows c) \<and>
     (\<forall>r \<in> set (conversation_rows c).
        0 < cv_id r \<and> cv_id r \<le> conversations_seq c \<and> 0 \<le> cv_unread_count r) \<and>
     (\<forall>m \<in> set (message_rows c).
        0 < ms_id m \<and> ms_id m \<le> messages_seq c \<and>
        ms_conversation_id m \<in> cv_id ` set (conversation_rows c)) \<and>
     0 \<le> conversations_seq c \<and> 0 \<le> n \<and> n \<le> messages_seq c \<and>
     (foreign_keys c \<longrightarrow>
        cv_fingerprint ` set (conversation_rows c) \<subseteq> co_fingerprint ` set (contact_rows c))"

lemmas rows_defs = conversation_rows_def message_rows_def contact_rows_def

lemma rows_simps [simp]:
  "conversation_rows (c\<lparr>contacts := x\<rparr>) = conversation_rows c"
  "message_rows (c\<lparr>contacts := x\<rparr>) = message_rows c"
  "contact_rows (c\<lparr>contacts := Some ks\<rparr>) = ks"
  "conversation_rows (c\<lparr>faults := fs\<rparr>) = conversation_rows c"
  by (simp_all add: rows_defs)

lemma history_inv_other [simp]:
  "history_inv n (c\<lparr>faults := fs\<rparr>) = history_inv n c"
  "history_inv n (c\<lparr>unixepoch := t\<rparr>) = history_inv n c"
  by (simp_all add: history_inv_def rows_defs)

lemma history_fault_blind [simp]: "fault_blind (history_inv n)"
  by (simp add: fault_blind_def)

section \<open>Every operation keeps the invariant\<close>

text \<open>Changing rows without touching ids, fingerprints or owners.\<close>

lemma history_update_conversations:
  assumes "history_inv n c" "conversations c = Some rows"
    "\<And>r. cv_id (f r) = cv_id r \<and> cv_fingerprint (f r) = cv_fingerprint r \<and>
      (0 \<le> cv_unread_count r \<longrightarrow> 0 \<le> cv_unread_count (f r))"
  shows "history_inv n (c\<lparr>conversations := Some (row_update P f rows)\<rparr>)"
proof -
  have keys: "map cv_id (row_update P f rows) = map cv_id rows"
    "map cv_fingerprint (row_update P f rows) = map cv_fingerprint rows"
    using assms(3) by (simp_all add: map_key_update)
  then have "cv_id ` set (row_update P f rows) = cv_id ` set rows"
    "cv_fingerprint ` set (row_update P f rows) = cv_fingerprint ` set rows"
    by (metis list.set_map)+
  moreover have "0 < cv_id r \<and> cv_id r \<le> conversations_seq c \<and> 0 \<le> cv_unread_count r"
    if r: "r \<in> set (row_update P f rows)" for r
  proof -
    from r obtain q where "q \<in> set rows" "r = (if P q then f q else q)"
      by (auto simp: row_update_def)
    with assms show ?thesis by (simp add: history_inv_def rows_defs)
  qed
  ultimately show ?thesis
    using assms(1,2) keys by (simp add: history_inv_def rows_defs keys_distinct_def)
qed

lemma history_update_messages:
  assumes "history_inv n c" "messages c = Some rows"
    "\<And>m. ms_id (f m) = ms_id m \<and> ms_conversation_id (f m) = ms_conversation_id m"
  shows "history_inv n (c\<lparr>messages := Some (row_update P f rows)\<rparr>)"
proof -
  have keys: "map ms_id (row_update P f rows) = map ms_id rows"
    using assms(3) by (simp add: map_key_update)
  moreover have "0 < ms_id m \<and> ms_id m \<le> messages_seq c \<and>
      ms_conversation_id m \<in> cv_id ` set (conversation_rows c)"
    if m: "m \<in> set (row_update P f rows)" for m
  proof -
    from m obtain q where "q \<in> set rows" "m = (if P q then f q else q)"
      by (auto simp: row_update_def)
    with assms show ?thesis by (simp add: history_inv_def message_rows_def)
  qed
  ultimately show ?thesis
    using assms(1,2) by (simp add: history_inv_def rows_defs keys_distinct_def)
qed

lemma history_filter_messages:
  "history_inv n c \<Longrightarrow> messages c = Some rows \<Longrightarrow>
    history_inv n (c\<lparr>messages := Some (filter P rows)\<rparr>)"
  by (auto simp: history_inv_def rows_defs keys_distinct_filter)

lemma history_contacts:
  "history_inv n c \<Longrightarrow> co_fingerprint ` set (contact_rows c) \<subseteq> co_fingerprint ` set rows \<Longrightarrow>
    history_inv n (c\<lparr>contacts := Some rows\<rparr>)"
  by (simp add: history_inv_def) (meson order_trans)

lemma history_tables [simp]:
  "conversations c = None \<Longrightarrow> history_inv n (c\<lparr>conversations := Some []\<rparr>) = history_inv n c"
  "messages c = None \<Longrightarrow> history_inv n (c\<lparr>messages := Some []\<rparr>) = history_inv n c"
  "contacts c = None \<Longrightarrow> history_inv n (c\<lparr>contacts := Some []\<rparr>) = history_inv n c"
  by (simp_all add: history_inv_def rows_defs)

lemma init_keeps [kept_intros]:
  "history_inv n c \<Longrightarrow> kept (history_inv n) (init_message_history_tables c)"
  unfolding init_message_history_tables_def by (intro kept_intros) simp_all

lemma init_contacts_keeps [kept_intros]:
  "history_inv n c \<Longrightarrow> kept (history_inv n) (init_contacts_table c)"
  unfolding init_contacts_table_def by (intro kept_intros) simp_all

lemma insert_conversation_keeps [kept_intros]:
  assumes "history_inv n c"
  shows "kept (history_inv n) (insert_conversation fp c)"
  unfolding insert_conversation_def
proof (intro kept_statement kept_on_table assms history_fault_blind)
  fix c rows
  assume inv: "history_inv n c" and rows: "conversations c = Some rows"
  have fresh: "conversations_seq c + 1 \<notin> cv_id ` set rows"
    using inv rows by (fastforce simp: history_inv_def rows_defs)
  show "kept (history_inv n)
    (if foreign_keys c \<and> contacts c = None then (Err (NoSuchTable ''main.contacts''), c)
     else if id_limit \<le> conversations_seq c
       then (Err (SqliteFailure ''database or disk is full''), c)
     else if list_ex (\<lambda>r. cv_fingerprint r = fp) rows
       then (Err (ConstraintViolation ''UNIQUE constraint failed''), c)
     else if foreign_keys c \<and> \<not> list_ex (\<lambda>r. co_fingerprint r = fp) (the (contacts c))
       then (Err fk_error, c)
     else (Ok (), c\<lparr>conversations := Some (rows @
         [\<lparr>cv_id = conversations_seq c + 1, cv_fingerprint = fp, cv_last_message_timestamp = 0,
           cv_unread_count = 0, cv_archived = False\<rparr>]),
       conversations_seq := conversations_seq c + 1,
       last_insert_rowid := conversations_seq c + 1\<rparr>))"
    using inv rows fresh
    by (auto simp: history_inv_def rows_defs keys_distinct_def list_ex_iff image_iff)
qed

text \<open>A message may be inserted for a conversation that is there.\<close>

definition has_conversation :: "int \<Rightarrow> conn \<Rightarrow> bool" where
  "has_conversation i c \<longleftrightarrow> i \<in> cv_id ` set (conversation_rows c)"

lemma insert_message_keeps:
  assumes "history_inv n c" "has_conversation (ms_conversation_id m) c"
  shows "kept (history_inv n) (insert_message m c)"
proof -
  let ?J = "\<lambda>c. history_inv n c \<and> has_conversation (ms_conversation_id m) c"
  have "kept ?J (insert_message m c)"
    unfolding insert_message_def
  proof (intro kept_statement kept_on_table)
    fix c rows
    assume inv: "?J c" and rows: "messages c = Some rows"
    have fresh: "messages_seq c + 1 \<notin> ms_id ` set rows"
      using inv rows by (fastforce simp: history_inv_def rows_defs)
    show "kept ?J
      (if foreign_keys c \<and> conversations c = None
         then (Err (NoSuchTable ''main.conversations''), c)
       else if id_limit \<le> messages_seq c
         then (Err (SqliteFailure ''database or disk is full''), c)
       else if foreign_keys c \<and>
           \<not> list_ex (\<lambda>r. cv_id r = ms_conversation_id m) (the (conversations c))
         then (Err fk_error, c)
       else (Ok (), c\<lparr>messages := Some (rows @ [m\<lparr>ms_id := messages_seq c + 1\<rparr>]),
         messages_seq := messages_seq c + 1, last_insert_rowid := messages_seq c + 1\<rparr>))"
      using inv rows fresh
      by (auto simp: history_inv_def has_conversation_def conversation_rows_def message_rows_def
          contact_rows_def keys_distinct_def)
  qed (use assms in \<open>simp_all add: fault_blind_def has_conversation_def\<close>)
  then show ?thesis by (rule kept_weaken) simp
qed

lemma conversation_id_found:
  assumes "conversation_id_of fp c = (Ok i, c')"
  shows "has_conversation i c'"
  using assms
  by (auto simp: query_row_def statement_def on_table_def has_conversation_def
      conversation_rows_def find_Some_iff split: list.splits option.splits)

lemma insert_conversation_Ok:
  assumes "insert_conversation fp c = (Ok (), c')"
  shows "has_conversation (last_insert_rowid c') c'"
  using assms
  by (auto simp: insert_conversation_def statement_def on_table_def has_conversation_def
      conversation_rows_def image_iff split: list.splits option.splits if_splits)

lemma get_or_create_keeps [kept_intros]:
  assumes "history_inv n c"
  shows "kept (history_inv n) (get_or_create_conversation fp c)"
proof -
  have "kept (history_inv n) (conversation_id_of fp c)"
    using assms by (intro kept_intros) simp_all
  then show ?thesis
    unfolding get_or_create_conversation_def
    by (auto split: prod.split outcome.split sql_error.split intro!: kept_intros)
qed

lemma get_or_create_Ok:
  assumes "get_or_create_conversation fp c = (Ok i, c')"
  shows "has_conversation i c'"
  using assms insert_conversation_Ok conversation_id_found
  by (fastforce simp: get_or_create_conversation_def and_then_Ok_conv map_err_Ok_conv
      split: prod.splits outcome.splits sql_error.splits)

lemma update_conversation_keeps [kept_intros]:
  "history_inv n c \<Longrightarrow> kept (history_inv n) (update_conversation i t inc c)"
  unfolding update_conversation_def
  by (intro kept_intros) (auto intro!: history_update_conversations)

lemma store_incoming_keeps [kept_intros]:
  "history_inv n c \<Longrightarrow> kept (history_inv n) (store_incoming_message fp t p w e c)"
  unfolding store_incoming_message_def Let_def
  by (intro kept_intros insert_message_keeps) (auto dest: get_or_create_Ok)

lemma store_outgoing_keeps [kept_intros]:
  "history_inv n c \<Longrightarrow> kept (history_inv n) (store_outgoing_message fp t p c)"
  unfolding store_outgoing_message_def Let_def
  by (intro kept_intros insert_message_keeps) (auto dest: get_or_create_Ok)

lemma delivery_keeps [kept_intros]:
  "history_inv n c \<Longrightarrow> kept (history_inv n) (update_delivery_status i st c)"
  unfolding update_delivery_status_def
  by (intro kept_intros) (auto intro!: history_update_messages)

lemma mark_read_keeps [kept_intros]:
  "history_inv n c \<Longrightarrow> kept (history_inv n) (mark_conversation_read fp c)"
  unfolding mark_conversation_read_def
  by (intro kept_intros) (auto intro!: history_update_conversations)

lemma mark_read_up_to_keeps [kept_intros]:
  "history_inv n c \<Longrightarrow> kept (history_inv n) (mark_conversation_read_up_to fp t c)"
  unfolding mark_conversation_read_up_to_def
  by (intro kept_intros) (auto intro!: history_update_conversations)

lemma delete_message_keeps [kept_intros]:
  "history_inv n c \<Longrightarrow> kept (history_inv n) (delete_message i c)"
  unfolding delete_message_def row_delete_def
  by (intro kept_intros) (auto intro!: history_filter_messages)

lemma archive_keeps [kept_intros]:
  "history_inv n c \<Longrightarrow> kept (history_inv n) (archive_conversation fp b c)"
  unfolding archive_conversation_def
  by (intro kept_intros) (auto intro!: history_update_conversations)

text \<open>Deleting a conversation: its messages first, so the row that goes has none left.\<close>

definition no_messages_of :: "int \<Rightarrow> conn \<Rightarrow> bool" where
  "no_messages_of i c \<longleftrightarrow> (\<forall>m \<in> set (message_rows c). ms_conversation_id m \<noteq> i)"

lemma delete_messages_of_Ok:
  assumes "execute ''messages'' messages put_messages
    (filter (\<lambda>m. ms_conversation_id m \<noteq> i)) c = (Ok (), c')"
  shows "no_messages_of i c'"
  using assms
  by (auto simp: execute_def statement_def on_table_def no_messages_of_def message_rows_def
      split: list.splits option.splits)

lemma delete_conversation_row_keeps:
  assumes "history_inv n c" "no_messages_of i c"
  shows "kept (history_inv n) (delete_conversation_row i c)"
proof -
  let ?J = "\<lambda>c. history_inv n c \<and> no_messages_of i c"
  have "kept ?J (delete_conversation_row i c)"
    unfolding delete_conversation_row_def
  proof (intro kept_statement kept_on_table)
    fix c rows
    assume inv: "?J c" and rows: "conversations c = Some rows"
    define c' where "c' = c\<lparr>conversations := Some (row_delete cv_id i rows),
        messages := (if foreign_keys c
                     then map_option (filter (\<lambda>m. ms_conversation_id m \<noteq> i)) (messages c)
                     else messages c)\<rparr>"
    have "filter (\<lambda>m. ms_conversation_id m \<noteq> i) (message_rows c) = message_rows c"
      using inv by (simp add: no_messages_of_def)
    then have msgs: "message_rows c' = message_rows c"
      by (auto simp: c'_def message_rows_def split: option.splits)
    moreover have "conversation_rows c' = row_delete cv_id i (conversation_rows c)"
      "contact_rows c' = contact_rows c" "conversations_seq c' = conversations_seq c"
      "messages_seq c' = messages_seq c" "foreign_keys c' = foreign_keys c"
      using rows by (simp_all add: c'_def conversation_rows_def contact_rows_def)
    moreover have "keys_distinct cv_fingerprint (row_delete cv_id i (conversation_rows c))"
      using inv by (simp add: history_inv_def row_delete_def keys_distinct_filter)
    moreover have "\<forall>m \<in> set (message_rows c).
        ms_conversation_id m \<in> cv_id ` set (row_delete cv_id i (conversation_rows c))"
      using inv by (simp add: keys_delete history_inv_def no_messages_of_def)
    moreover have "foreign_keys c \<longrightarrow>
        cv_fingerprint ` set (row_delete cv_id i (conversation_rows c)) \<subseteq>
        co_fingerprint ` set (contact_rows c)"
      using inv by (auto simp: set_delete history_inv_def)
    moreover have "\<forall>r \<in> set (row_delete cv_id i (conversation_rows c)).
        0 < cv_id r \<and> cv_id r \<le> conversations_seq c \<and> 0 \<le> cv_unread_count r"
      using inv by (auto simp: set_delete history_inv_def)
    ultimately have "?J c'"
      using inv by (simp add: history_inv_def no_messages_of_def keys_distinct_delete)
    then show "kept ?J (Ok (), c')" by simp
  qed (use assms in \<open>auto simp: fault_blind_def no_messages_of_def message_rows_def\<close>)
  then show ?thesis by (rule kept_weaken) simp
qed

lemma delete_conversation_keeps [kept_intros]:
  assumes "history_inv n c"
  shows "kept (history_inv n) (delete_conversation fp c)"
proof -
  have del: "kept (history_inv n) (and_then (map_err Database (execute ''messages'' messages
      put_messages (filter (\<lambda>m. ms_conversation_id m \<noteq> i)) c)) (\<lambda>_ c.
      and_then (map_err Database (delete_conversation_row i c)) (\<lambda>_ c. (Ok (), c))))"
    if "history_inv n c" for i c
    using that
    by (intro kept_intros delete_conversation_row_keeps)
      (auto simp: map_err_Ok_conv intro: history_filter_messages delete_messages_of_Ok)
  have "kept (history_inv n) (conversation_id_of fp c)"
    using assms by (intro kept_intros) simp_all
  then show ?thesis
    unfolding delete_conversation_def by (auto split: prod.split outcome.split intro!: del)
qed

lemma history_update_contacts:
  assumes "history_inv n c" "contacts c = Some rows" "\<And>r. co_fingerprint (f r) = co_fingerprint r"
  shows "history_inv n (c\<lparr>contacts := Some (row_update P f rows)\<rparr>)"
proof (rule history_contacts [OF assms(1)])
  have "map co_fingerprint (row_update P f rows) = map co_fingerprint rows"
    using assms(3) by (rule map_key_update)
  then have "co_fingerprint ` set (row_update P f rows) = co_fingerprint ` set rows"
    by (metis list.set_map)
  then show "co_fingerprint ` set (contact_rows c) \<subseteq> co_fingerprint ` set (row_update P f rows)"
    using assms(2) by (simp add: contact_rows_def)
qed

lemma history_append_contact:
  "history_inv n c \<Longrightarrow> contacts c = Some rows \<Longrightarrow>
    history_inv n (c\<lparr>contacts := Some (rows @ [r])\<rparr>)"
  by (rule history_contacts) (auto simp: contact_rows_def)

lemma add_contact_keeps [kept_intros]:
  "history_inv n c \<Longrightarrow> kept (history_inv n) (add_contact D now key al salt prefix c)"
  unfolding add_contact_def Let_def
  by (intro kept_intros) (auto split: option.split
      intro!: kept_intros history_update_contacts history_append_contact)

lemma update_alias_keeps [kept_intros]:
  "history_inv n c \<Longrightarrow> kept (history_inv n) (update_contact_alias now fp al c)"
  unfolding update_contact_alias_def
  by (intro kept_intros) (auto intro!: history_update_contacts)

section \<open>Histories\<close>

text \<open>
  One step: any operation on contacts or messages, whatever it returns, or the environment moving
  the clock or letting some of the next statements fail.
\<close>

inductive history_step :: "conn \<Rightarrow> conn \<Rightarrow> bool" where
  init_contacts: "init_contacts_table c = (r, c') \<Longrightarrow> history_step c c'"
| init_history: "init_message_history_tables c = (r, c') \<Longrightarrow> history_step c c'"
| add: "add_contact (D :: digest_lib) now key al salt prefix c = (r, c') \<Longrightarrow> history_step c c'"
| set_alias: "update_contact_alias now fp al c = (r, c') \<Longrightarrow> history_step c c'"
| incoming: "store_incoming_message fp t p w e c = (r, c') \<Longrightarrow> history_step c c'"
| outgoing: "store_outgoing_message fp t p c = (r, c') \<Longrightarrow> history_step c c'"
| delivery: "update_delivery_status i st c = (r, c') \<Longrightarrow> history_step c c'"
| mark_read: "mark_conversation_read fp c = (r, c') \<Longrightarrow> history_step c c'"
| mark_read_up_to: "mark_conversation_read_up_to fp t c = (r, c') \<Longrightarrow> history_step c c'"
| drop_message: "delete_message i c = (r, c') \<Longrightarrow> history_step c c'"
| drop_conversation: "delete_conversation fp c = (r, c') \<Longrightarrow> history_step c c'"
| archive: "archive_conversation fp b c = (r, c') \<Longrightarrow> history_step c c'"
| environment: "history_step c (c\<lparr>faults := fs, unixepoch := t\<rparr>)"

inductive_cases history_stepE: "history_step c c'"

lemma step_keeps: "history_step c c' \<Longrightarrow> history_inv n c \<Longrightarrow> history_inv n c'"
  by (induction rule: history_step.induct) (auto elim: keptD [rotated] intro: kept_intros)

lemma steps_keep: "history_step\<^sup>*\<^sup>* c c' \<Longrightarrow> history_inv n c \<Longrightarrow> history_inv n c'"
  by (induction rule: rtranclp_induct) (auto intro: step_keeps)

section \<open>Behaviour on a healthy connection\<close>

definition conversation_of :: "conn \<Rightarrow> string \<Rightarrow> conversation_row option" where
  "conversation_of c fp = find_row cv_fingerprint fp (conversation_rows c)"

text \<open>The message with an id, as \<^verbatim>\<open>get_message\<close> shows it.\<close>

definition message_view :: "conn \<Rightarrow> int \<Rightarrow> StoredMessage option" where
  "message_view c i = Option.bind (find_row ms_id i (message_rows c)) (\<lambda>m.
     map_option (\<lambda>r. message_of_row (ms_conversation_id m) (cv_fingerprint r) m)
       (find_row cv_id (ms_conversation_id m) (conversation_rows c)))"

definition unread :: "conn \<Rightarrow> string \<Rightarrow> int" where
  "unread c fp = (case conversation_of c fp of None \<Rightarrow> 0 | Some r \<Rightarrow> cv_unread_count r)"

text \<open>Ready for messages: healthy, both tables there, the invariant holds.\<close>

definition history_ready :: "conn \<Rightarrow> bool" where
  "history_ready c \<longleftrightarrow> healthy c \<and> conversations c \<noteq> None \<and> messages c \<noteq> None \<and> history_inv 0 c"

text \<open>Ids are left, and an enforced foreign key finds the contact.\<close>

definition can_write :: "conn \<Rightarrow> string \<Rightarrow> bool" where
  "can_write c fp \<longleftrightarrow> conversations_seq c < id_limit \<and> messages_seq c < id_limit \<and>
     (foreign_keys c \<longrightarrow> contacts c \<noteq> None \<and> fp \<in> co_fingerprint ` set (contact_rows c))"

lemma history_readyE:
  assumes "history_ready c"
  obtains cs ms where "healthy c" "faults c = []" "conversations c = Some cs" "messages c = Some ms"
    "conversation_rows c = cs" "message_rows c = ms" "history_inv 0 c"
    "keys_distinct cv_id cs" "keys_distinct cv_fingerprint cs" "keys_distinct ms_id ms"
  using assms by (auto simp: history_ready_def history_inv_def healthy_def rows_defs)

lemma find_rows:
  "find (\<lambda>r. cv_fingerprint r = fp) cs = find_row cv_fingerprint fp cs"
  "find (\<lambda>r. cv_id r = i) cs = find_row cv_id i cs"
  "find (\<lambda>m. ms_id m = j) ms = find_row ms_id j ms"
  by (simp_all add: find_row_def)

lemma get_message_view:
  "history_ready c \<Longrightarrow> get_message i c =
    ((case message_view c i of
        None \<Rightarrow> Err (Storage (FmtText ''Message not found: '' (show_i64 i)))
      | Some m \<Rightarrow> Ok m), c)"
  by (erule history_readyE)
    (simp add: get_message_def select_message_def statement_healthy on_table_def find_rows
      message_view_def split: option.splits)

lemma get_unread_view:
  "history_ready c \<Longrightarrow> get_unread_count fp c = (Ok (word_of_int (unread c fp)), c)"
  by (erule history_readyE)
    (simp add: get_unread_count_def query_row_healthy find_rows unread_def conversation_of_def
      split: option.splits)

text \<open>Finding or creating the conversation of a contact.\<close>

lemma conversation_of_append:
  "conversation_rows c' = conversation_rows c @ [r] \<Longrightarrow>
    find_row cv_fingerprint (cv_fingerprint r) (conversation_rows c) = None \<Longrightarrow>
    conversation_of c' x = (if x = cv_fingerprint r then Some r else conversation_of c x)"
  by (auto simp: conversation_of_def find_row_append find_row_Cons split: option.splits)

lemma get_or_create_ready:
  assumes "history_ready c" "can_write c fp"
  obtains r c' where "get_or_create_conversation fp c = (Ok (cv_id r), c')"
    "history_ready c'" "conversation_of c' fp = Some r" "cv_unread_count r = unread c fp"
    "\<And>q. q \<noteq> fp \<Longrightarrow> conversation_of c' q = conversation_of c q"
    "\<And>i q. find_row cv_id i (conversation_rows c) = Some q \<Longrightarrow>
      find_row cv_id i (conversation_rows c') = Some q"
    "messages c' = messages c" "messages_seq c' = messages_seq c"
proof -
  obtain cs ms where c: "healthy c" "faults c = []" "conversations c = Some cs"
    "messages c = Some ms" "conversation_rows c = cs" using assms(1) by (rule history_readyE)
  have keep: "history_inv 0 c'" if "get_or_create_conversation fp c = (Ok i, c')" for i c'
    using get_or_create_keeps [of 0 c fp] that assms(1) by (simp add: history_ready_def)
  show ?thesis
  proof (cases "find_row cv_fingerprint fp cs")
    case (Some r)
    then have "get_or_create_conversation fp c = (Ok (cv_id r), c)"
      using c by (simp add: get_or_create_conversation_def query_row_healthy find_rows)
    with Some c assms(1) show ?thesis
      by (intro that [of r c]) (simp_all add: conversation_of_def unread_def)
  next
    case None
    define r where "r = \<lparr>cv_id = conversations_seq c + 1, cv_fingerprint = fp,
      cv_last_message_timestamp = 0, cv_unread_count = 0, cv_archived = False\<rparr>"
    define c' where "c' = c\<lparr>conversations := Some (cs @ [r]),
      conversations_seq := conversations_seq c + 1, last_insert_rowid := conversations_seq c + 1\<rparr>"
    have absent: "\<not> list_ex (\<lambda>r. cv_fingerprint r = fp) cs"
      using None by (auto simp: find_row_None_iff list_ex_iff)
    have run: "get_or_create_conversation fp c = (Ok (cv_id r), c')"
      using c None assms(2) absent
      by (auto simp: get_or_create_conversation_def query_row_healthy find_rows
          insert_conversation_def statement_healthy on_table_def can_write_def contact_rows_def
          list_ex_iff c'_def r_def)
    have rows: "conversation_rows c' = cs @ [r]" by (simp add: c'_def conversation_rows_def)
    have conv: "conversation_of c' x = (if x = fp then Some r else conversation_of c x)" for x
      using conversation_of_append [of c' c r x] None c(5) by (simp add: rows r_def)
    have u: "unread c fp = 0" using None c(5) by (simp add: unread_def conversation_of_def)
    show ?thesis
    proof (rule that [of r c'])
      show "history_ready c'"
        using keep [OF run] c by (simp add: history_ready_def c'_def healthy_def)
      show "find_row cv_id i (conversation_rows c') = Some q"
        if "find_row cv_id i (conversation_rows c) = Some q" for i q
        using that c(5) by (simp add: rows find_row_append)
    qed (simp_all add: run conv u, simp_all add: r_def c'_def)
  qed
qed

text \<open>Both ways of storing a message are one sequence of three steps.\<close>

definition store_message :: "string \<Rightarrow> int \<Rightarrow> (int \<Rightarrow> message_row) \<Rightarrow> bool \<Rightarrow> conn
    \<Rightarrow> (lotl_error, int) outcome \<times> conn" where
  "store_message fp t row inc c =
     and_then (get_or_create_conversation fp c) (\<lambda>k c.
     and_then (map_err Database (insert_message (row k) c)) (\<lambda>_ c.
     let i = last_insert_rowid c in
     and_then (update_conversation k t inc c) (\<lambda>_ c. (Ok i, c))))"

definition incoming_row :: "int \<Rightarrow> bytes \<Rightarrow> bool \<Rightarrow> bool \<Rightarrow> int \<Rightarrow> message_row" where
  "incoming_row t p w e k = \<lparr>ms_id = 0, ms_conversation_id = k, ms_direction = 0,
     ms_timestamp = t, ms_message_type = 0, ms_content = p, ms_delivery_status = 0,
     ms_was_prekey_message = w, ms_session_established = e\<rparr>"

definition outgoing_row :: "int \<Rightarrow> bytes \<Rightarrow> int \<Rightarrow> message_row" where
  "outgoing_row t p k = \<lparr>ms_id = 0, ms_conversation_id = k, ms_direction = 1,
     ms_timestamp = t, ms_message_type = 0, ms_content = p, ms_delivery_status = 0,
     ms_was_prekey_message = False, ms_session_established = False\<rparr>"

lemma store_is_store_message:
  "store_incoming_message fp t p w e = store_message fp t (incoming_row t p w e) True"
  "store_outgoing_message fp t p = store_message fp t (outgoing_row t p) False"
  by (simp_all add: fun_eq_iff store_incoming_message_def store_outgoing_message_def
      store_message_def incoming_row_def outgoing_row_def)

lemma row_owner [simp]:
  "ms_conversation_id (incoming_row t p w e k) = k" "ms_conversation_id (outgoing_row t p k) = k"
  by (simp_all add: incoming_row_def outgoing_row_def)

lemma message_of_stored [simp]:
  "message_of_row k fp ((incoming_row t p w e k)\<lparr>ms_id := i\<rparr>) =
    \<lparr>sm_id = i, sm_conversation_id = k, sm_fingerprint = fp, sm_direction = Received,
     sm_timestamp = t, sm_message_type = TextMessage, sm_plaintext = p,
     sm_delivery_status = Pending, sm_was_prekey_message = w, sm_session_established = e\<rparr>"
  "message_of_row k fp ((outgoing_row t p k)\<lparr>ms_id := i\<rparr>) =
    \<lparr>sm_id = i, sm_conversation_id = k, sm_fingerprint = fp, sm_direction = Sent,
     sm_timestamp = t, sm_message_type = TextMessage, sm_plaintext = p,
     sm_delivery_status = Pending, sm_was_prekey_message = False,
     sm_session_established = False\<rparr>"
  by (simp_all add: message_of_row_def incoming_row_def outgoing_row_def message_type_from_def
      delivery_status_from_def)

lemma store_message_keeps:
  assumes "history_inv n c" "\<And>k. ms_conversation_id (row k) = k"
  shows "kept (history_inv n) (store_message fp t row inc c)"
  unfolding store_message_def Let_def
  by (intro kept_intros insert_message_keeps) (use assms in \<open>auto dest: get_or_create_Ok\<close>)

text \<open>The view of a message through the contact its conversation belongs to.\<close>

definition owner_of :: "conn \<Rightarrow> int \<Rightarrow> string option" where
  "owner_of c k = map_option cv_fingerprint (find_row cv_id k (conversation_rows c))"

lemma message_view_owner:
  "message_view c i = Option.bind (find_row ms_id i (message_rows c)) (\<lambda>m.
     map_option (\<lambda>fp. message_of_row (ms_conversation_id m) fp m) (owner_of c (ms_conversation_id m)))"
  by (simp add: message_view_def owner_of_def option.map_comp comp_def)

lemma message_owned:
  assumes "history_ready c" "find_row ms_id i (message_rows c) = Some m"
  obtains r where "find_row cv_id (ms_conversation_id m) (conversation_rows c) = Some r"
proof -
  have "ms_conversation_id m \<in> cv_id ` set (conversation_rows c)"
    using assms(1) find_row_key [OF assms(2)] by (auto simp: history_ready_def history_inv_def)
  then show ?thesis using that find_row_None_iff by (metis not_Some_eq)
qed

lemma message_view_kept:
  assumes "history_ready c" "message_rows c' = message_rows c"
    "\<And>i q. find_row cv_id i (conversation_rows c) = Some q \<Longrightarrow>
      find_row cv_id i (conversation_rows c') = Some q"
  shows "message_view c' j = message_view c j"
proof (cases "find_row ms_id j (message_rows c)")
  case (Some m)
  with assms(1) obtain r where r: "find_row cv_id (ms_conversation_id m) (conversation_rows c) = Some r"
    by (rule message_owned)
  with Some assms(2) assms(3) [OF r] show ?thesis by (simp add: message_view_def)
qed (simp add: message_view_def assms(2))

text \<open>Writing a message into a conversation that is there.\<close>

lemma append_message_ready:
  assumes "history_ready c" "conversation_of c fp = Some r" "messages_seq c < id_limit"
    "ms_conversation_id m = cv_id r"
  shows "\<exists>i c'. and_then (map_err Database (insert_message m c)) (\<lambda>_ c.
      let i = last_insert_rowid c in
      and_then (update_conversation (cv_id r) t inc c) (\<lambda>_ c. (Ok i, c))) = (Ok i, c') \<and>
    healthy c' \<and> conversations c' \<noteq> None \<and> messages c' \<noteq> None \<and>
    message_view c' i = Some (message_of_row (cv_id r) fp (m\<lparr>ms_id := i\<rparr>)) \<and>
    (\<forall>j. j \<noteq> i \<longrightarrow> message_view c' j = message_view c j) \<and>
    (\<forall>q. unread c' q = unread c q + (if q = fp \<and> inc then 1 else 0))"
proof -
  obtain cs ms where c: "healthy c" "faults c = []" "conversations c = Some cs" "messages c = Some ms"
    "conversation_rows c = cs" "message_rows c = ms" "history_inv 0 c" "keys_distinct cv_id cs"
    "keys_distinct cv_fingerprint cs" using assms(1) by (rule history_readyE)
  let ?i = "messages_seq c + 1"
  have r: "r \<in> set cs" "cv_fingerprint r = fp" "find_row cv_fingerprint fp cs = Some r"
    using find_row_key [OF assms(2) [unfolded conversation_of_def c(5)]] assms(2) c(5)
    by (simp_all add: conversation_of_def)
  define f :: "conversation_row \<Rightarrow> conversation_row" where "f = (if inc
        then (\<lambda>r. r\<lparr>cv_last_message_timestamp := t, cv_unread_count := cv_unread_count r + 1\<rparr>)
        else (\<lambda>r. r\<lparr>cv_last_message_timestamp := t\<rparr>))"
  have f: "cv_id (f q) = cv_id q" "cv_fingerprint (f q) = cv_fingerprint q"
    "cv_unread_count (f q) = cv_unread_count q + (if inc then 1 else 0)" for q
    by (simp_all add: f_def)
  define c' where "c' = c\<lparr>messages := Some (ms @ [m\<lparr>ms_id := ?i\<rparr>]), messages_seq := ?i,
    last_insert_rowid := ?i, conversations := Some (row_update (\<lambda>q. cv_id q = cv_id r) f cs)\<rparr>"
  have rows: "message_rows c' = ms @ [m\<lparr>ms_id := ?i\<rparr>]"
    "conversation_rows c' = row_update (\<lambda>q. cv_id q = cv_id r) f cs" by (simp_all add: c'_def rows_defs)
  have run: "and_then (map_err Database (insert_message m c)) (\<lambda>_ c. let i = last_insert_rowid c in
      and_then (update_conversation (cv_id r) t inc c) (\<lambda>_ c. (Ok i, c))) = (Ok ?i, c')"
    using c(2-4) assms(3,4) r(1)
    by (auto simp: insert_message_def statement_healthy on_table_def list_ex_iff
        update_conversation_def update_rows_healthy c'_def f_def Let_def)
  have owner: "owner_of c' k = owner_of c k" for k
    by (simp add: owner_of_def rows c(5) row_update_find f option.map_comp comp_def)
  have new: "find_row ms_id ?i ms = None" using c(7) by (fastforce simp: history_inv_def c(6) find_row_None_iff)
  have "owner_of c (cv_id r) = Some fp" using find_row_in [OF c(8) r(1)] r(2) c(5) by (simp add: owner_of_def)
  then have "message_view c' ?i = Some (message_of_row (cv_id r) fp (m\<lparr>ms_id := ?i\<rparr>))"
    by (simp add: message_view_owner rows find_row_append find_row_Cons new owner assms(4))
  moreover have "message_view c' j = message_view c j" if "j \<noteq> ?i" for j
    using that by (simp add: message_view_owner rows c(6) find_row_append find_row_Cons owner split: option.split)
  moreover have "unread c' q = unread c q + (if q = fp \<and> inc then 1 else 0)" for q
    using update_by_other_key [of cv_id cs cv_fingerprint r f q, OF c(8,9) r(1) f(2)] r(2,3) f(3) [of r]
    by (simp add: unread_def conversation_of_def rows c(5))
  moreover have "healthy c'" "conversations c' \<noteq> None" "messages c' \<noteq> None"
    using c(1) by (simp_all add: c'_def healthy_def)
  ultimately show ?thesis using run by blast
qed

lemma store_message_ready:
  assumes "history_ready c" "can_write c fp" "\<And>k. ms_conversation_id (row k) = k"
  shows "\<exists>k i c'. store_message fp t row inc c = (Ok i, c') \<and> history_ready c' \<and>
    message_view c' i = Some (message_of_row k fp ((row k)\<lparr>ms_id := i\<rparr>)) \<and>
    (\<forall>j. j \<noteq> i \<longrightarrow> message_view c' j = message_view c j) \<and>
    (\<forall>q. unread c' q = unread c q + (if q = fp \<and> inc then 1 else 0))"
proof -
  obtain r c1 where goc: "get_or_create_conversation fp c = (Ok (cv_id r), c1)"
    "history_ready c1" "conversation_of c1 fp = Some r" "cv_unread_count r = unread c fp"
    "\<And>q. q \<noteq> fp \<Longrightarrow> conversation_of c1 q = conversation_of c q"
    "\<And>i q. find_row cv_id i (conversation_rows c) = Some q \<Longrightarrow>
      find_row cv_id i (conversation_rows c1) = Some q"
    "messages c1 = messages c" "messages_seq c1 = messages_seq c"
    using get_or_create_ready [OF assms(1,2)] by blast
  have view: "message_view c1 j = message_view c j" for j
    by (rule message_view_kept [OF assms(1) _ goc(6)]) (simp_all add: message_rows_def goc(7))
  have counts: "unread c1 q = unread c q" for q
    using goc(3-5) by (cases "q = fp") (simp_all add: unread_def)
  have "messages_seq c1 < id_limit" using assms(2) goc(8) by (simp add: can_write_def)
  from append_message_ready [OF goc(2,3) this assms(3), of t inc] obtain i c' where
    run: "store_message fp t row inc c = (Ok i, c')" and
    c': "healthy c'" "conversations c' \<noteq> None" "messages c' \<noteq> None"
    "message_view c' i = Some (message_of_row (cv_id r) fp ((row (cv_id r))\<lparr>ms_id := i\<rparr>))"
    "\<forall>j. j \<noteq> i \<longrightarrow> message_view c' j = message_view c j"
    "\<forall>q. unread c' q = unread c q + (if q = fp \<and> inc then 1 else 0)"
    unfolding view counts by (auto simp: store_message_def goc(1))
  have "history_inv 0 c'"
    using store_message_keeps [of 0 c row fp t inc] run assms(1,3) by (simp add: history_ready_def)
  with run c' show ?thesis by (auto simp: history_ready_def)
qed

section \<open>Properties\<close>

text \<open>
  C5: From an empty database, after any sequence of operations on contacts and messages, whatever
  they returned and whichever statements failed in between: ids and fingerprints are unique, every
  message belongs to a conversation, unread counts are not negative, and with foreign keys on every
  conversation belongs to a contact.
\<close>

theorem history_invariant:
  assumes "history_step\<^sup>*\<^sup>* (empty_conn\<lparr>foreign_keys := b\<rparr>) c"
  shows "history_inv 0 c"
proof (rule steps_keep [OF assms])
  show "history_inv 0 (empty_conn\<lparr>foreign_keys := b\<rparr>)"
    by (simp add: history_inv_def rows_defs empty_conn_def)
qed

lemmas store_step = history_step.incoming [OF prod.collapse [symmetric]]
lemmas init_step = history_step.init_history [OF prod.collapse [symmetric]]

theorem history_invariant_witness:
  "history_inv 0 (snd (store_incoming_message ''bob'' 5 [1] False False
    (snd (init_message_history_tables (empty_conn\<lparr>foreign_keys := False\<rparr>)))))"
  by (rule history_invariant [where b = False])
    (rule rtranclp.rtrancl_into_rtrancl, rule r_into_rtranclp, rule init_step, rule store_step)

lemma insert_message_Ok:
  "insert_message m c = (Ok (), c') \<Longrightarrow>
    messages_seq c' = messages_seq c + 1 \<and> last_insert_rowid c' = messages_seq c'"
  by (auto simp: insert_message_def statement_def on_table_def
      split: list.splits option.splits if_splits)

text \<open>An id returned is beyond the counter before and covered by the counter after.\<close>

lemma store_message_id:
  assumes "store_message fp t row inc c = (Ok i, c')" "history_inv n c"
    "\<And>k. ms_conversation_id (row k) = k"
  shows "n < i \<and> history_inv i c'"
proof -
  from assms(1) obtain k c1 c2 where
    goc: "get_or_create_conversation fp c = (Ok k, c1)" and
    ins: "insert_message (row k) c1 = (Ok (), c2)" and
    upd: "update_conversation k t inc c2 = (Ok (), c')" "i = last_insert_rowid c2"
    by (auto simp: store_message_def and_then_Ok_conv map_err_Ok_conv Let_def)
  have c1: "history_inv n c1" using get_or_create_keeps [OF assms(2), of fp] goc by simp
  then have "history_inv n c2"
    using insert_message_keeps [of n c1 "row k"] get_or_create_Ok [OF goc] ins assms(3) by simp
  moreover have "messages_seq c2 = messages_seq c1 + 1" "i = messages_seq c2"
    using insert_message_Ok [OF ins] upd(2) by simp_all
  ultimately have "n < i" "history_inv i c2" using c1 by (auto simp: history_inv_def)
  with update_conversation_keeps [of i c2 k t inc] upd(1) show ?thesis by simp
qed

text \<open>
  Message ids are never reused: an incoming message stored after another one, with any
  operations (deletions included) in between, has a larger id.
\<close>

theorem message_ids_increase:
  assumes "history_inv n c" "store_incoming_message fp t p w e c = (Ok i, c1)"
    "history_step\<^sup>*\<^sup>* c1 c2" "store_incoming_message fp' t' p' w' e' c2 = (Ok j, c3)"
  shows "i < j"
  using store_message_id [OF assms(2) [unfolded store_is_store_message] assms(1)]
    store_message_id [OF assms(4) [unfolded store_is_store_message]] steps_keep [OF assms(3)]
  by simp

definition sample_history :: conn where
  "sample_history = sample_contacts\<lparr>conversations := Some [], messages := Some []\<rparr>"

lemma sample_history_ready [simp]: "history_ready sample_history" "can_write sample_history ''Ps''"
  by (simp_all add: sample_history_def sample_contacts_def sample_contact_def history_ready_def
      can_write_def history_inv_def rows_defs empty_conn_def healthy_def id_limit_def)

lemmas store_eval = store_incoming_message_def store_outgoing_message_def
  get_or_create_conversation_def insert_conversation_def insert_message_def
  update_conversation_def sql_simps on_table_def row_update_def id_limit_def

theorem message_ids_increase_witness:
  "(1 :: int) < 2 \<and>
    fst (store_incoming_message ''Ps'' 5 [1] False False sample_history) = Ok 1 \<and>
    fst (store_incoming_message ''Ps'' 6 [2] False False
      (snd (delete_message 1 (snd (store_incoming_message ''Ps'' 5 [1] False False sample_history)))))
      = Ok 2"
proof -
  let ?r = "store_incoming_message ''Ps'' 5 [1] False False sample_history"
  let ?d = "delete_message 1 (snd ?r)"
  let ?q = "store_incoming_message ''Ps'' 6 [2] False False (snd ?d)"
  have r: "fst ?r = Ok 1" and q: "fst ?q = Ok 2"
    by (simp_all add: store_eval delete_message_def sample_history_def sample_contacts_def
        sample_contact_def empty_conn_def row_delete_def)
  have "history_step\<^sup>*\<^sup>* (snd ?r) (snd ?d)"
    by (rule r_into_rtranclp, rule history_step.drop_message) (rule prod.collapse [symmetric])
  moreover have "history_inv 0 sample_history"
    using sample_history_ready by (simp add: history_ready_def)
  moreover have "?r = (Ok 1, snd ?r)" "?q = (Ok 2, snd ?q)" using r q by (metis prod.collapse)+
  ultimately have "(1 :: int) < 2" using message_ids_increase by blast
  with r q show ?thesis by simp
qed

text \<open>
  C21: A stored incoming message is read back exactly as it came, as a received text message of
  that contact; the contact's unread count grows by one; every other message and unread count is
  as before.
\<close>

theorem incoming_message_stored:
  assumes "history_ready c" "can_write c fp"
  shows "\<exists>k i c'. store_incoming_message fp t p w e c = (Ok i, c') \<and>
    get_message i c' = (Ok \<lparr>sm_id = i, sm_conversation_id = k, sm_fingerprint = fp,
      sm_direction = Received, sm_timestamp = t, sm_message_type = TextMessage, sm_plaintext = p,
      sm_delivery_status = Pending, sm_was_prekey_message = w, sm_session_established = e\<rparr>, c') \<and>
    (\<forall>j. j \<noteq> i \<longrightarrow> fst (get_message j c') = fst (get_message j c)) \<and>
    (\<forall>q. get_unread_count q c' =
      (Ok (word_of_int (unread c q + (if q = fp then 1 else 0))), c'))"
  using store_message_ready [OF assms row_owner(1) [of t p w e], of t True]
  unfolding store_is_store_message
  by (auto simp: get_message_view [OF assms(1)] get_message_view get_unread_view)

theorem incoming_message_stored_witness:
  "\<exists>i c'. store_incoming_message ''Ps'' 5 [1, 2] True False sample_history = (Ok i, c') \<and>
    get_unread_count ''Ps'' c' = (Ok 1, c')"
proof -
  have "unread sample_history ''Ps'' = 0"
    by (simp add: unread_def conversation_of_def sample_history_def conversation_rows_def)
  with incoming_message_stored [OF sample_history_ready, of 5 "[1, 2]" True False] show ?thesis
    by fastforce
qed

text \<open>
  A stored outgoing message is read back as a pending sent message; no unread count and no
  other message changes.
\<close>

theorem outgoing_message_stored:
  assumes "history_ready c" "can_write c fp"
  shows "\<exists>k i c'. store_outgoing_message fp t p c = (Ok i, c') \<and>
    get_message i c' = (Ok \<lparr>sm_id = i, sm_conversation_id = k, sm_fingerprint = fp,
      sm_direction = Sent, sm_timestamp = t, sm_message_type = TextMessage, sm_plaintext = p,
      sm_delivery_status = Pending, sm_was_prekey_message = False,
      sm_session_established = False\<rparr>, c') \<and>
    (\<forall>j. j \<noteq> i \<longrightarrow> fst (get_message j c') = fst (get_message j c)) \<and>
    (\<forall>q. fst (get_unread_count q c') = fst (get_unread_count q c))"
  using store_message_ready [OF assms row_owner(2) [of t p], of t False]
  unfolding store_is_store_message
  by (auto simp: get_message_view [OF assms(1)] get_unread_view [OF assms(1)] get_message_view
      get_unread_view)

theorem outgoing_message_stored_witness:
  "\<exists>i c'. store_outgoing_message ''Ps'' 5 [1, 2] sample_history = (Ok i, c') \<and>
    fst (get_unread_count ''Ps'' c') = Ok 0"
proof -
  have "conversation_rows sample_history = []"
    by (simp add: sample_history_def conversation_rows_def)
  then have "fst (get_unread_count ''Ps'' sample_history) = Ok 0"
    by (simp add: get_unread_view unread_def conversation_of_def)
  with outgoing_message_stored [OF sample_history_ready, of 5 "[1, 2]"] show ?thesis by fastforce
qed

text \<open>
  With foreign keys enforced, a message from someone who is not a contact is refused with the
  foreign key error and nothing is stored.
\<close>

theorem unknown_contact_refused:
  assumes "history_ready c" "foreign_keys c" "contacts c = Some ks"
    "fp \<notin> co_fingerprint ` set ks" "conversations_seq c < id_limit"
  shows "store_incoming_message fp t p w e c = (Err (Database fk_error), c)"
proof -
  obtain cs where c: "faults c = []" "conversations c = Some cs" "conversation_rows c = cs"
    "history_inv 0 c" using assms(1) by (rule history_readyE)
  have "fp \<notin> cv_fingerprint ` set cs"
    using c(3,4) assms(2-4) by (auto simp: history_inv_def contact_rows_def)
  then have "find_row cv_fingerprint fp cs = None" "\<not> list_ex (\<lambda>r. cv_fingerprint r = fp) cs"
    by (auto simp: find_row_None_iff list_ex_iff)
  moreover have "\<not> list_ex (\<lambda>r. co_fingerprint r = fp) ks"
    using assms(4) by (auto simp: list_ex_iff)
  ultimately show ?thesis
    using c(1,2) assms(2,3,5)
    by (simp add: store_incoming_message_def get_or_create_conversation_def query_row_healthy
        find_rows insert_conversation_def statement_healthy on_table_def)
qed

theorem unknown_contact_refused_witness:
  "store_incoming_message ''eve'' 5 [1] False False sample_history =
    (Err (Database fk_error), sample_history)"
  by (rule unknown_contact_refused [OF sample_history_ready(1), of "[sample_contact]"])
    (simp_all add: sample_history_def sample_contacts_def sample_contact_def empty_conn_def
      id_limit_def)

text \<open>
  C31: Paging through a conversation: the pages of any size, one after the other, are exactly the
  contact's messages, newest first, none lost or repeated.
\<close>

lemma pages_concat: "0 < n \<Longrightarrow> length xs \<le> k * n \<Longrightarrow>
    concat (map (\<lambda>i. take n (drop (i * n) xs)) [0..<k]) = xs"
proof (induction k arbitrary: xs)
  case (Suc k)
  have "[0..<Suc k] = 0 # map Suc [0..<k]" by (simp only: upt_conv_Cons map_Suc_upt zero_less_Suc)
  then have "concat (map (\<lambda>i. take n (drop (i * n) xs)) [0..<Suc k]) =
      take n xs @ concat (map (\<lambda>i. take n (drop (i * n) (drop n xs))) [0..<k])"
    by (simp add: comp_def add.commute)
  also have "\<dots> = xs" using Suc.IH [of "drop n xs"] Suc.prems by simp
  finally show ?case .
qed simp

theorem pages_are_the_conversation:
  assumes "history_ready c" "conversation_of c fp = Some r" "0 < limit"
    "length (newest_first rank (cv_id r) (message_rows c)) \<le> k * unat limit"
    "k * unat limit < 2 ^ 32"
  defines "page \<equiv> \<lambda>i. get_conversation_messages rank fp limit (word_of_nat (i * unat limit)) c"
  shows "concat (map (\<lambda>i. case page i of (Ok ms, _) \<Rightarrow> ms | _ \<Rightarrow> []) [0..<k]) =
      map (message_of_row (cv_id r) fp) (newest_first rank (cv_id r) (message_rows c)) \<and>
    sorted_wrt (\<lambda>a b. ms_timestamp b \<le> ms_timestamp a)
      (newest_first rank (cv_id r) (message_rows c)) \<and>
    mset (newest_first rank (cv_id r) (message_rows c)) =
      filter_mset (\<lambda>m. ms_conversation_id m = cv_id r) (mset (message_rows c))"
proof -
  obtain cs ms where c: "faults c = []" "conversations c = Some cs" "messages c = Some ms"
    "conversation_rows c = cs" "message_rows c = ms" using assms(1) by (rule history_readyE)
  let ?xs = "newest_first rank (cv_id r) ms" and ?n = "unat limit"
  have pos: "0 < ?n" using assms(3) by (simp add: word_less_nat_alt)
  have page: "page i = (Ok (map (message_of_row (cv_id r) fp) (take ?n (drop (i * ?n) ?xs))), c)"
    if "i < k" for i
  proof -
    have "i * ?n < 2 ^ 32" using that assms(5) by (meson le_less_trans less_imp_le mult_le_mono1)
    then have "unat (word_of_nat (i * ?n) :: u32) = i * ?n"
      by (rule unat_u32_fits)
    then show ?thesis
      using c assms(2) by (simp add: page_def get_conversation_messages_def sql_simps find_rows
          conversation_of_def del: of_nat_mult)
  qed
  have "concat (map (\<lambda>i. case page i of (Ok ms, _) \<Rightarrow> ms | _ \<Rightarrow> []) [0..<k]) =
      concat (map (\<lambda>i. map (message_of_row (cv_id r) fp) (take ?n (drop (i * ?n) ?xs))) [0..<k])"
    by (intro arg_cong [where f = concat] map_cong) (auto simp: page)
  also have "\<dots> = map (message_of_row (cv_id r) fp)
      (concat (map (\<lambda>i. take ?n (drop (i * ?n) ?xs)) [0..<k]))"
    by (simp add: map_concat comp_def)
  also have "\<dots> = map (message_of_row (cv_id r) fp) ?xs"
    using pages_concat [OF pos, of ?xs k] assms(4) c(5) by simp
  finally have "concat (map (\<lambda>i. case page i of (Ok ms, _) \<Rightarrow> ms | _ \<Rightarrow> []) [0..<k]) =
      map (message_of_row (cv_id r) fp) ?xs" .
  moreover have "sorted (map (\<lambda>m. - ms_timestamp m) ?xs)" by (simp add: newest_first_def)
  then have "sorted_wrt (\<lambda>a b. ms_timestamp b \<le> ms_timestamp a) ?xs"
    by (simp add: sorted_map)
  moreover have "mset ?xs = filter_mset (\<lambda>m. ms_conversation_id m = cv_id r) (mset ms)"
    by (simp add: newest_first_def)
  ultimately show ?thesis by (simp add: c(5))
qed

definition sample_two :: conn where
  "sample_two = sample_contacts\<lparr>
     conversations := Some [\<lparr>cv_id = 1, cv_fingerprint = ''Ps'', cv_last_message_timestamp = 9,
       cv_unread_count = 0, cv_archived = False\<rparr>],
     messages := Some [(incoming_row 7 [1] False False 1)\<lparr>ms_id := 1\<rparr>,
       (incoming_row 9 [2] False False 1)\<lparr>ms_id := 2\<rparr>],
     conversations_seq := 1, messages_seq := 2\<rparr>"

lemma sample_two_ready [simp]: "history_ready sample_two"
  by (simp add: sample_two_def sample_contacts_def sample_contact_def history_ready_def
      history_inv_def rows_defs empty_conn_def healthy_def keys_distinct_def incoming_row_def)

lemma sample_two_rows [simp]:
  "conversation_of sample_two ''Ps'' = Some \<lparr>cv_id = 1, cv_fingerprint = ''Ps'',
     cv_last_message_timestamp = 9, cv_unread_count = 0, cv_archived = False\<rparr>"
  "message_rows sample_two = [(incoming_row 7 [1] False False 1)\<lparr>ms_id := 1\<rparr>,
     (incoming_row 9 [2] False False 1)\<lparr>ms_id := 2\<rparr>]"
  by (simp_all add: sample_two_def conversation_of_def rows_defs find_row_Cons)

theorem pages_are_the_conversation_witness:
  "map sm_plaintext (concat (map (\<lambda>i. case get_conversation_messages nat ''Ps'' 1 (word_of_nat i)
      sample_two of (Ok ms, _) \<Rightarrow> ms | _ \<Rightarrow> []) [0..<2])) = [[2], [1]]"
proof -
  have nf: "newest_first nat 1 (message_rows sample_two) =
      [(incoming_row 9 [2] False False 1)\<lparr>ms_id := 2\<rparr>,
       (incoming_row 7 [1] False False 1)\<lparr>ms_id := 1\<rparr>]"
    by (simp add: newest_first_def visit_def incoming_row_def)
  have "concat (map (\<lambda>i. case get_conversation_messages nat ''Ps'' 1 (word_of_nat (i * unat (1 :: u32)))
      sample_two of (Ok ms, _) \<Rightarrow> ms | _ \<Rightarrow> []) [0..<2]) =
      map (message_of_row 1 ''Ps'') (newest_first nat 1 (message_rows sample_two))"
    using pages_are_the_conversation [OF sample_two_ready sample_two_rows(1), of 1 nat 2] nf by simp
  then show ?thesis unfolding nf by simp
qed

text \<open>What updating the conversation of one contact does to the unread counts.\<close>

lemma update_one_conversation:
  assumes "history_ready c" "conversation_of c fp = Some r"
    "\<And>q. cv_id (f q) = cv_id q \<and> cv_fingerprint (f q) = cv_fingerprint q \<and> 0 \<le> cv_unread_count (f q)"
  defines "c' \<equiv> c\<lparr>conversations :=
    Some (row_update (\<lambda>q. cv_id q = cv_id r) f (conversation_rows c))\<rparr>"
  shows "history_ready c'" "conversation_of c' fp = Some (f r)"
    "q \<noteq> fp \<Longrightarrow> conversation_of c' q = conversation_of c q" "message_rows c' = message_rows c"
proof -
  obtain cs ms where c: "healthy c" "conversations c = Some cs" "messages c = Some ms"
    "conversation_rows c = cs" "history_inv 0 c" "keys_distinct cv_id cs"
    using assms(1) by (rule history_readyE)
  have "history_inv 0 c'"
    unfolding c'_def c(4) using history_update_conversations [OF c(5,2)] assms(3) by simp
  then show "history_ready c'" using c by (simp add: history_ready_def c'_def healthy_def)
  show "message_rows c' = message_rows c" by (simp add: c'_def message_rows_def)
  have r: "r \<in> set cs" "cv_fingerprint r = fp"
    using find_row_key [OF assms(2) [unfolded conversation_of_def c(4)]] by simp_all
  have r': "find_row cv_id (cv_id r) cs = Some r" using c(6) r(1) by (rule find_row_in)
  have upd: "conversation_of c' x =
      map_option (\<lambda>q. if cv_id q = cv_id r then f q else q) (find_row cv_fingerprint x cs)" for x
    using find_row_update [of cv_fingerprint f x "\<lambda>q. cv_id q = cv_id r" cs] assms(3)
    by (simp add: conversation_of_def conversation_rows_def c'_def c(2))
  show "conversation_of c' fp = Some (f r)"
    using upd [of fp] assms(2) by (simp add: conversation_of_def c(4))
  show "conversation_of c' q = conversation_of c q" if "q \<noteq> fp"
  proof (cases "find_row cv_fingerprint q cs")
    case (Some s)
    have "cv_id s \<noteq> cv_id r"
    proof
      assume same_id: "cv_id s = cv_id r"
      have "s \<in> set cs" "cv_fingerprint s = q" using find_row_key [OF Some] by simp_all
      from find_row_in [OF c(6) this(1)] r' have "Some s = Some r"
        unfolding same_id by (rule trans [OF sym])
      with \<open>cv_fingerprint s = q\<close> r(2) that show False by simp
    qed
    with upd [of q] Some show ?thesis by (simp add: conversation_of_def c(4))
  next
    case None
    with upd [of q] show ?thesis by (simp add: conversation_of_def c(4))
  qed
qed

lemma mark_up_to_ready:
  assumes "history_ready c" "conversation_of c fp = Some r"
  shows "mark_conversation_read_up_to fp t c = (Ok (), c\<lparr>conversations :=
    Some (row_update (\<lambda>q. cv_id q = cv_id r)
      (\<lambda>q. q\<lparr>cv_unread_count := int (later_incoming (cv_id r) t (message_rows c))\<rparr>)
      (conversation_rows c))\<rparr>)"
proof -
  obtain cs ms where c: "faults c = []" "conversations c = Some cs" "messages c = Some ms"
    "conversation_rows c = cs" "message_rows c = ms" using assms(1) by (rule history_readyE)
  have "find_row cv_fingerprint fp cs = Some r"
    using assms(2) unfolding conversation_of_def c(4) .
  then show ?thesis unfolding c(4,5)
    by (simp add: mark_conversation_read_up_to_def query_row_healthy query_all_healthy
        update_rows_healthy find_rows c(1-3))
qed

text \<open>
  C34: Marking a conversation read up to a time sets its unread count to the number of received
  messages after that time; no other conversation and no message changes.
\<close>

theorem mark_read_up_to_counts_later:
  assumes "history_ready c" "conversation_of c fp = Some r"
  shows "\<exists>c'. mark_conversation_read_up_to fp t c = (Ok (), c') \<and>
    get_unread_count fp c' =
      (Ok (word_of_nat (later_incoming (cv_id r) t (message_rows c))), c') \<and>
    (\<forall>q. q \<noteq> fp \<longrightarrow> conversation_of c' q = conversation_of c q) \<and>
    message_rows c' = message_rows c"
  using update_one_conversation [OF assms, of
      "\<lambda>q. q\<lparr>cv_unread_count := int (later_incoming (cv_id r) t (message_rows c))\<rparr>"]
    mark_up_to_ready [OF assms, of t]
  by (simp add: get_unread_view unread_def)

theorem mark_read_up_to_counts_later_witness:
  "\<exists>c'. mark_conversation_read_up_to ''Ps'' 7 sample_two = (Ok (), c') \<and>
    get_unread_count ''Ps'' c' = (Ok 1, c')"
  using mark_read_up_to_counts_later [OF sample_two_ready sample_two_rows(1), of 7]
  by (auto simp: later_incoming_def incoming_row_def)

text \<open>
  Marking read can raise the unread count: for a conversation with nothing unread, marking it
  read up to a time before a received message makes it unread again.
\<close>

theorem mark_read_up_to_can_raise:
  assumes "history_ready c" "conversation_of c fp = Some r" "unread c fp = 0"
    "m \<in> set (message_rows c)" "ms_conversation_id m = cv_id r" "ms_direction m = 0"
    "t < ms_timestamp m"
  shows "\<exists>c'. mark_conversation_read_up_to fp t c = (Ok (), c') \<and> unread c fp < unread c' fp"
proof -
  have "later_incoming (cv_id r) t (message_rows c) \<noteq> 0"
    using assms(4-7) by (auto simp: later_incoming_def filter_empty_conv)
  with update_one_conversation(2) [OF assms(1,2), of
      "\<lambda>q. q\<lparr>cv_unread_count := int (later_incoming (cv_id r) t (message_rows c))\<rparr>"]
    mark_up_to_ready [OF assms(1,2), of t] assms(3)
  show ?thesis by (simp add: unread_def)
qed

theorem mark_read_up_to_can_raise_witness:
  "\<exists>c'. mark_conversation_read_up_to ''Ps'' 7 sample_two = (Ok (), c') \<and>
    unread sample_two ''Ps'' < unread c' ''Ps''"
  by (rule mark_read_up_to_can_raise [OF sample_two_ready sample_two_rows(1),
        of "(incoming_row 9 [2] False False 1)\<lparr>ms_id := 2\<rparr>"])
    (simp_all add: unread_def incoming_row_def)

text \<open>
  C35: Deleting a conversation removes it and every message in it; other conversations and the
  messages in them stay, and later reads of a deleted message report that it is not found.
\<close>

theorem delete_conversation_complete:
  assumes "history_ready c" "conversation_of c fp = Some r"
  shows "\<exists>c'. delete_conversation fp c = (Ok (), c') \<and> conversation_of c' fp = None \<and>
    (\<forall>q. q \<noteq> fp \<longrightarrow> conversation_of c' q = conversation_of c q) \<and>
    message_rows c' = filter (\<lambda>m. ms_conversation_id m \<noteq> cv_id r) (message_rows c) \<and>
    (\<forall>m \<in> set (message_rows c). ms_conversation_id m = cv_id r \<longrightarrow>
      fst (get_message (ms_id m) c') =
        Err (Storage (FmtText ''Message not found: '' (show_i64 (ms_id m)))))"
proof -
  obtain cs ms where c: "healthy c" "faults c = []" "conversations c = Some cs"
    "messages c = Some ms" "conversation_rows c = cs" "message_rows c = ms"
    "keys_distinct cv_id cs" "keys_distinct cv_fingerprint cs" "keys_distinct ms_id ms"
    using assms(1) by (rule history_readyE)
  have r: "find_row cv_fingerprint fp cs = Some r"
    using assms(2) unfolding conversation_of_def c(5) .
  have rs: "r \<in> set cs" "cv_fingerprint r = fp" using find_row_key [OF r] by simp_all
  let ?ms = "filter (\<lambda>m. ms_conversation_id m \<noteq> cv_id r) ms"
  let ?c = "c\<lparr>messages := Some ?ms, conversations := Some (row_delete cv_id (cv_id r) cs)\<rparr>"
  have run: "delete_conversation fp c = (Ok (), ?c)"
    using c(2-4) r by (simp add: delete_conversation_def query_row_healthy execute_healthy
        find_rows delete_conversation_row_def statement_healthy on_table_def)
  have rows: "conversation_rows ?c = row_delete cv_id (cv_id r) cs" "message_rows ?c = ?ms"
    by (simp_all add: rows_defs)
  have ready: "history_ready ?c"
    using delete_conversation_keeps [of 0 c fp] run c(1) assms(1)
    by (simp add: history_ready_def healthy_def)
  have conv: "conversation_of ?c q = (if q = fp then None else conversation_of c q)" for q
    unfolding conversation_of_def rows c(5) delete_by_other_key [OF c(7,8) rs(1)] rs(2) ..
  have gone: "find_row ms_id (ms_id m) ?ms = None" if "m \<in> set ms" "ms_conversation_id m = cv_id r" for m
    using that find_row_in [OF c(9) that(1)] by (simp add: find_row_filter [OF c(9)])
  show ?thesis
  proof (intro exI [of _ ?c] conjI ballI impI allI)
    fix m
    assume "m \<in> set (message_rows c)" "ms_conversation_id m = cv_id r"
    with gone [of m] show "fst (get_message (ms_id m) ?c) =
        Err (Storage (FmtText ''Message not found: '' (show_i64 (ms_id m))))"
      unfolding get_message_view [OF ready] message_view_def rows by (simp add: c(6))
  qed (simp_all add: run conv rows c(6))
qed

theorem delete_conversation_complete_witness:
  "\<exists>c'. delete_conversation ''Ps'' sample_two = (Ok (), c') \<and> message_rows c' = []"
  using delete_conversation_complete [OF sample_two_ready sample_two_rows(1)]
  by (auto simp: incoming_row_def)

text \<open>
  Updating a delivery status changes that field of that message and nothing else.
\<close>

theorem delivery_status_updated:
  assumes "history_ready c" "message_view c i = Some m"
  shows "\<exists>c'. update_delivery_status i st c = (Ok (), c') \<and>
    get_message i c' = (Ok (m\<lparr>sm_delivery_status := st\<rparr>), c') \<and>
    (\<forall>j. j \<noteq> i \<longrightarrow> message_view c' j = message_view c j)"
proof -
  obtain cs ms where c: "healthy c" "faults c = []" "conversations c = Some cs"
    "messages c = Some ms" "conversation_rows c = cs" "message_rows c = ms"
    using assms(1) by (rule history_readyE)
  let ?f = "\<lambda>m. m\<lparr>ms_delivery_status := delivery_status_as_i64 st\<rparr>"
  let ?c = "c\<lparr>messages := Some (row_update (\<lambda>m. ms_id m = i) ?f ms)\<rparr>"
  have run: "update_delivery_status i st c = (Ok (), ?c)"
    using c(2,4) by (simp add: update_delivery_status_def update_rows_healthy)
  have ready: "history_ready ?c"
    using delivery_keeps [of 0 c i st] run c(1,3) assms(1)
    by (simp add: history_ready_def healthy_def)
  have from_as: "delivery_status_from (delivery_status_as_i64 st) = st"
    by (cases st) (simp_all add: delivery_status_from_def)
  have rows: "conversation_rows ?c = cs"
    "message_rows ?c = row_update (\<lambda>m. ms_id m = i) ?f ms"
    using c(3) by (simp_all add: rows_defs)
  have find: "find_row ms_id j (row_update (\<lambda>m. ms_id m = i) ?f ms) =
      (if j = i then map_option ?f (find_row ms_id j ms) else find_row ms_id j ms)" for j
    by (rule row_update_find) simp
  have "message_view ?c j = (if j = i then Some (m\<lparr>sm_delivery_status := st\<rparr>)
      else message_view c j)" for j
    using assms(2) unfolding message_view_def rows find c(5,6)
    by (cases "find_row ms_id j ms")
      (auto simp: message_of_row_def from_as bind_eq_Some_conv split: option.splits)
  with run ready show ?thesis by (intro exI [of _ ?c]) (simp add: get_message_view)
qed

theorem delivery_status_updated_witness:
  "\<exists>c'. update_delivery_status 2 Delivered sample_two = (Ok (), c') \<and>
    (\<exists>m. get_message 2 c' = (Ok m, c') \<and> sm_delivery_status m = Delivered \<and> sm_plaintext m = [2])"
proof -
  have "message_view sample_two 2 = Some (message_of_row 1 ''Ps''
      ((incoming_row 9 [2] False False 1)\<lparr>ms_id := 2\<rparr>))"
    by (simp add: message_view_def sample_two_def rows_defs find_row_Cons incoming_row_def)
  from delivery_status_updated [OF sample_two_ready this, of Delivered] show ?thesis by auto
qed

end
