(* ===== verification/Nostr_Integration.thy ===== *)
theory Nostr_Integration
  imports Contact_Manager
begin

text \<open>
  The Nostr integration (\<^verbatim>\<open>src/src/integrations/nostr/\<close>): deriving a key pair from the identity
  key, and the table that links a contact's fingerprint to a Nostr public key, which holds every
  fingerprint and every public key at most once.
\<close>

section \<open>Types and key derivation\<close>

record NostrConfig =
  derivation_context :: string
  bundle_tag :: string

definition default_nostr_config :: NostrConfig where
  "default_nostr_config = \<lparr>derivation_context = ''lotl_nostr_derivation'',
     bundle_tag = ''lotl_prekey_bundle_v1''\<rparr>"

record ('sk, 'pk) NostrKeys =
  secret_key :: 'sk
  public_key :: 'pk

text \<open>
  HKDF-SHA256 with no salt (\<open>hkdf_expand key info\<close>, 32 bytes, or \<open>None\<close> on failure), the check
  of a secret key, and the public key of a secret key, are library calls.
\<close>

record ('sk, 'pk) nostr_lib =
  hkdf_expand :: "bytes \<Rightarrow> bytes \<Rightarrow> bytes option"
  secret_from_slice :: "bytes \<Rightarrow> (string, 'sk) outcome"
  keys_public_key :: "'sk \<Rightarrow> 'pk"

definition derive_nostr_keypair :: "('sk, 'pk) nostr_lib \<Rightarrow> bytes \<Rightarrow> NostrConfig
    \<Rightarrow> (lotl_error, ('sk, 'pk) NostrKeys) outcome" where
  "derive_nostr_keypair N signal_identity_key config =
     (case hkdf_expand N signal_identity_key (as_bytes (derivation_context config)) of
        None \<Rightarrow> Err (Crypto (Text ''HKDF expansion failed''))
      | Some derived_key \<Rightarrow>
          obind (omap_err (\<lambda>e. Crypto (FmtText ''Invalid secret key: '' e))
            (secret_from_slice N derived_key)) (\<lambda>sk.
          Ok \<lparr>secret_key = sk, public_key = keys_public_key N sk\<rparr>))"

section \<open>Storage\<close>

abbreviation "put_nostr_identities \<equiv> \<lambda>rows c. c\<lparr>nostr_identities := Some rows\<rparr>"

definition init_nostr_tables :: "conn \<Rightarrow> (lotl_error, unit) outcome \<times> conn" where
  "init_nostr_tables c =
     and_then (map_err Database (create_table nostr_identities put_nostr_identities c)) (\<lambda>_ c.
     and_then (map_err Database (create_index ''nostr_identities'' nostr_identities c)) (\<lambda>_ c.
     (Ok (), c)))"

text \<open>The look-up both getters share: prepare, then the first matching row.\<close>

definition nostr_lookup :: "(nostr_row \<Rightarrow> bool) \<Rightarrow> (nostr_row \<Rightarrow> string) \<Rightarrow> conn
    \<Rightarrow> (lotl_error, string option) outcome \<times> conn" where
  "nostr_lookup P col c =
     and_then (map_err Database (prepare ''nostr_identities'' nostr_identities c)) (\<lambda>_ c.
       case query_row ''nostr_identities'' nostr_identities P col c of
         (Ok v, c) \<Rightarrow> (Ok (Some v), c)
       | (Err QueryReturnedNoRows, c) \<Rightarrow> (Ok None, c)
       | (Err e, c) \<Rightarrow> (Err (Database e), c)
       | (Panic m, c) \<Rightarrow> (Panic m, c))"

definition get_nostr_pubkey :: "string \<Rightarrow> conn \<Rightarrow> (lotl_error, string option) outcome \<times> conn" where
  "get_nostr_pubkey fingerprint = nostr_lookup (\<lambda>r. no_fingerprint r = fingerprint) no_nostr_pubkey"

definition get_fingerprint_by_nostr_pubkey :: "string \<Rightarrow> conn
    \<Rightarrow> (lotl_error, string option) outcome \<times> conn" where
  "get_fingerprint_by_nostr_pubkey nostr_pubkey =
     nostr_lookup (\<lambda>r. no_nostr_pubkey r = nostr_pubkey) no_fingerprint"

text \<open>
  \<^verbatim>\<open>INSERT OR REPLACE\<close>: every row that conflicts with the new one, on the fingerprint or on the
  public key, is removed; the foreign key is checked.
\<close>

definition replace_nostr_row :: "nostr_row \<Rightarrow> conn \<Rightarrow> (sql_error, unit) outcome \<times> conn" where
  "replace_nostr_row row = statement (on_table ''nostr_identities'' nostr_identities (\<lambda>rows c.
     if foreign_keys c \<and> contacts c = None then (Err (NoSuchTable ''main.contacts''), c)
     else if foreign_keys c \<and>
         \<not> list_ex (\<lambda>r. co_fingerprint r = no_fingerprint row) (the (contacts c))
       then (Err fk_error, c)
     else (Ok (), c\<lparr>nostr_identities := Some
       (filter (\<lambda>r. no_fingerprint r \<noteq> no_fingerprint row \<and>
          no_nostr_pubkey r \<noteq> no_nostr_pubkey row) rows @ [row])\<rparr>)))"

definition taken_error :: "string \<Rightarrow> string \<Rightarrow> lotl_error" where
  "taken_error nostr_pubkey existing_fingerprint =
     Storage (Text (''Nostr pubkey '' @ nostr_pubkey @
       '' is already associated with fingerprint '' @ existing_fingerprint))"

definition store_nostr_identity :: "string \<Rightarrow> string \<Rightarrow> string \<Rightarrow> conn
    \<Rightarrow> (lotl_error, unit) outcome \<times> conn" where
  "store_nostr_identity fingerprint nostr_pubkey context c =
     and_then (get_fingerprint_by_nostr_pubkey nostr_pubkey c) (\<lambda>existing c.
     and_then
       (case existing of
          Some existing_fingerprint \<Rightarrow>
            if existing_fingerprint \<noteq> fingerprint
            then (Err (taken_error nostr_pubkey existing_fingerprint), c) else (Ok (), c)
        | None \<Rightarrow> (Ok (), c)) (\<lambda>_ c.
     and_then (map_err Database (replace_nostr_row
       \<lparr>no_fingerprint = fingerprint, no_nostr_pubkey = nostr_pubkey,
        no_derivation_context = context\<rparr> c)) (\<lambda>_ c.
     (Ok (), c))))"

section \<open>The table is a one-to-one map\<close>

definition nostr_ready :: "conn \<Rightarrow> bool" where
  "nostr_ready c \<longleftrightarrow> healthy c \<and> (\<exists>rows. nostr_identities c = Some rows \<and>
     keys_distinct no_fingerprint rows \<and> keys_distinct no_nostr_pubkey rows)"

definition nostr_key_of :: "conn \<Rightarrow> string \<Rightarrow> string option" where
  "nostr_key_of c fp =
     (case nostr_identities c of None \<Rightarrow> None
      | Some rows \<Rightarrow> map_option no_nostr_pubkey (find_row no_fingerprint fp rows))"

lemma nostr_readyE:
  assumes "nostr_ready c"
  obtains rows where "healthy c" "faults c = []" "nostr_identities c = Some rows"
    "keys_distinct no_fingerprint rows" "keys_distinct no_nostr_pubkey rows"
  using assms by (auto simp: nostr_ready_def healthy_def)

lemma find_nostr:
  "find (\<lambda>r. no_fingerprint r = fp) rows = find_row no_fingerprint fp rows"
  "find (\<lambda>r. no_nostr_pubkey r = pk) rows = find_row no_nostr_pubkey pk rows"
  by (simp_all add: find_row_def)

lemma get_nostr_ready: "nostr_ready c \<Longrightarrow> get_nostr_pubkey fp c = (Ok (nostr_key_of c fp), c)"
  by (erule nostr_readyE)
    (simp add: get_nostr_pubkey_def nostr_lookup_def prepare_healthy query_row_healthy find_nostr
      nostr_key_of_def split: option.splits)

lemma get_fingerprint_ready:
  assumes "nostr_ready c"
  shows "get_fingerprint_by_nostr_pubkey pk c =
      (Ok (map_option no_fingerprint (find_row no_nostr_pubkey pk (the (nostr_identities c)))), c)"
  using assms by (rule nostr_readyE)
    (simp add: get_fingerprint_by_nostr_pubkey_def nostr_lookup_def prepare_healthy
      query_row_healthy find_nostr split: option.splits)

text \<open>Each key has at most one owner.\<close>

lemma nostr_owner:
  assumes "nostr_ready c"
  shows "map_option no_fingerprint (find_row no_nostr_pubkey pk (the (nostr_identities c))) = Some fp
    \<longleftrightarrow> nostr_key_of c fp = Some pk"
proof -
  obtain rows where rows: "nostr_identities c = Some rows" "keys_distinct no_fingerprint rows"
    "keys_distinct no_nostr_pubkey rows" using assms by (rule nostr_readyE)
  then show ?thesis
    by (auto simp: nostr_key_of_def find_row_Some_iff)
qed

lemma nostr_inj:
  assumes "nostr_ready c" "nostr_key_of c fp = Some pk" "nostr_key_of c fp' = Some pk"
  shows "fp = fp'"
  using assms(2,3) unfolding nostr_owner [OF assms(1), symmetric] by simp

text \<open>Storing a key that no other contact has replaces the row of the contact.\<close>

lemma store_nostr_free:
  assumes "nostr_ready c" "\<And>other. other \<noteq> fp \<Longrightarrow> nostr_key_of c other \<noteq> Some pk"
    "foreign_keys c \<longrightarrow> (\<exists>ks. contacts c = Some ks \<and> fp \<in> co_fingerprint ` set ks)"
  obtains c' where "store_nostr_identity fp pk ctx c = (Ok (), c')" "nostr_ready c'"
    "\<And>q. nostr_key_of c' q = (if q = fp then Some pk else nostr_key_of c q)"
proof -
  obtain rows where rows: "healthy c" "faults c = []" "nostr_identities c = Some rows"
    "keys_distinct no_fingerprint rows" "keys_distinct no_nostr_pubkey rows"
    using assms(1) by (rule nostr_readyE)
  define row where "row = \<lparr>no_fingerprint = fp, no_nostr_pubkey = pk, no_derivation_context = ctx\<rparr>"
  define kept_rows where
    "kept_rows = filter (\<lambda>r. no_fingerprint r \<noteq> fp \<and> no_nostr_pubkey r \<noteq> pk) rows"
  define c' where "c' = c\<lparr>nostr_identities := Some (kept_rows @ [row])\<rparr>"
  have owner: "no_fingerprint r = fp" if "r \<in> set rows" "no_nostr_pubkey r = pk" for r
    using assms(2) [of "no_fingerprint r"] that rows(3,4) by (auto simp: nostr_key_of_def find_row_in)
  then have look: "find_row no_nostr_pubkey pk rows = Some r \<Longrightarrow> no_fingerprint r = fp" for r
    using find_row_key [of no_nostr_pubkey pk rows] by blast
  have "store_nostr_identity fp pk ctx c = (Ok (), c')"
    using look assms(3) rows(2,3)
    by (auto simp: store_nostr_identity_def get_fingerprint_ready [OF assms(1)] replace_nostr_row_def
        statement_healthy on_table_def list_ex_iff c'_def kept_rows_def row_def split: option.splits)
  moreover have "keys_distinct no_fingerprint (kept_rows @ [row])"
    "keys_distinct no_nostr_pubkey (kept_rows @ [row])"
    using rows(4,5) by (auto simp: kept_rows_def keys_distinct_def distinct_map_filter_key row_def)
  then have "nostr_ready c'" using rows(1) by (simp add: nostr_ready_def c'_def healthy_def)
  moreover have "find_row no_fingerprint q kept_rows = (if q = fp then None else find_row no_fingerprint q rows)" for q
    using owner by (auto simp: kept_rows_def find_row_filter [OF rows(4)] dest: find_row_key split: option.split)
  then have "nostr_key_of c' q = (if q = fp then Some pk else nostr_key_of c q)" for q
    using rows(3) by (auto simp: nostr_key_of_def c'_def row_def find_row_append find_row_Cons split: option.split)
  ultimately show ?thesis by (rule that)
qed

section \<open>Properties\<close>

text \<open>
  C25: Storing a Nostr key for a contact. A key that belongs to another fingerprint is refused and
  nothing changes; otherwise the contact has that key afterwards, is its only owner, and every
  other contact keeps the key it had.
\<close>

theorem nostr_store_functional:
  assumes "nostr_ready c"
    "foreign_keys c \<longrightarrow> (\<exists>ks. contacts c = Some ks \<and> fp \<in> co_fingerprint ` set ks)"
  shows "(\<forall>other. other \<noteq> fp \<and> nostr_key_of c other = Some pk \<longrightarrow>
      store_nostr_identity fp pk ctx c = (Err (taken_error pk other), c)) \<and>
    ((\<forall>other. other \<noteq> fp \<longrightarrow> nostr_key_of c other \<noteq> Some pk) \<longrightarrow>
      (\<exists>c'. store_nostr_identity fp pk ctx c = (Ok (), c') \<and> nostr_ready c' \<and>
        get_nostr_pubkey fp c' = (Ok (Some pk), c') \<and>
        get_fingerprint_by_nostr_pubkey pk c' = (Ok (Some fp), c') \<and>
        (\<forall>other. other \<noteq> fp \<longrightarrow> nostr_key_of c' other = nostr_key_of c other)))"
proof (intro conjI allI impI)
  fix other
  assume "other \<noteq> fp \<and> nostr_key_of c other = Some pk"
  then have "map_option no_fingerprint (find_row no_nostr_pubkey pk (the (nostr_identities c))) =
      Some other" "other \<noteq> fp"
    using nostr_owner [OF assms(1)] by simp_all
  then show "store_nostr_identity fp pk ctx c = (Err (taken_error pk other), c)"
    by (auto simp: store_nostr_identity_def get_fingerprint_ready [OF assms(1)])
next
  assume free: "\<forall>other. other \<noteq> fp \<longrightarrow> nostr_key_of c other \<noteq> Some pk"
  then obtain c' where c': "store_nostr_identity fp pk ctx c = (Ok (), c')" "nostr_ready c'"
    "\<And>q. nostr_key_of c' q = (if q = fp then Some pk else nostr_key_of c q)"
    using store_nostr_free [OF assms(1) _ assms(2), of pk ctx] by blast
  have "map_option no_fingerprint (find_row no_nostr_pubkey pk (the (nostr_identities c'))) = Some fp"
    unfolding nostr_owner [OF c'(2)] by (simp add: c'(3))
  with c' show "\<exists>c'. store_nostr_identity fp pk ctx c = (Ok (), c') \<and> nostr_ready c' \<and>
      get_nostr_pubkey fp c' = (Ok (Some pk), c') \<and>
      get_fingerprint_by_nostr_pubkey pk c' = (Ok (Some fp), c') \<and>
      (\<forall>other. other \<noteq> fp \<longrightarrow> nostr_key_of c' other = nostr_key_of c other)"
    by (intro exI [of _ c']) (auto simp: get_nostr_ready get_fingerprint_ready)
qed

definition sample_nostr :: conn where
  "sample_nostr = sample_contacts\<lparr>nostr_identities := Some [\<lparr>no_fingerprint = ''bob'',
     no_nostr_pubkey = ''k1'', no_derivation_context = []\<rparr>]\<rparr>"

theorem nostr_store_functional_witness:
  "store_nostr_identity ''Ps'' ''k1'' [] sample_nostr = (Err (taken_error ''k1'' ''bob''), sample_nostr)"
proof -
  have "nostr_ready sample_nostr"
    by (simp add: sample_nostr_def nostr_ready_def sample_contacts_def empty_conn_def healthy_def
        keys_distinct_def)
  moreover have "nostr_key_of sample_nostr ''bob'' = Some ''k1''"
    by (simp add: sample_nostr_def nostr_key_of_def find_row_Cons)
  ultimately show ?thesis
    using nostr_store_functional [of sample_nostr "''Ps''" "''k1''" "[]"]
    by (auto simp: sample_nostr_def sample_contacts_def sample_contact_def)
qed

text \<open>
  Whatever statements fail, storing a Nostr key never leaves two contacts with the same key or
  one contact with two.
\<close>

theorem nostr_unique_always:
  assumes "nostr_identities c = Some rows" "keys_distinct no_fingerprint rows"
    "keys_distinct no_nostr_pubkey rows"
  shows "\<exists>rows'. nostr_identities (snd (store_nostr_identity fp pk ctx c)) = Some rows' \<and>
    keys_distinct no_fingerprint rows' \<and> keys_distinct no_nostr_pubkey rows'"
proof -
  define I :: "conn \<Rightarrow> bool" where "I = (\<lambda>c. \<exists>rows. nostr_identities c = Some rows \<and>
    keys_distinct no_fingerprint rows \<and> keys_distinct no_nostr_pubkey rows)"
  have blind: "fault_blind I" by (simp add: fault_blind_def I_def)
  have lookup: "kept I (nostr_lookup P col c)" if "I c" for P col c
  proof -
    have "kept I (query_row ''nostr_identities'' nostr_identities P col c)" if "I c" for c
      using that blind by (intro kept_query_row)
    then show ?thesis
      unfolding nostr_lookup_def using that blind
      by (fastforce intro!: kept_and_then kept_map_err kept_prepare split: prod.split outcome.split
          sql_error.split)
  qed
  have "kept I (replace_nostr_row row c)" if "I c" for row c
    unfolding replace_nostr_row_def using blind that
    by (rule kept_statement, intro kept_on_table)
      (auto simp: I_def keys_distinct_def distinct_map_filter_key)
  with lookup have "kept I (store_nostr_identity fp pk ctx c)"
    unfolding store_nostr_identity_def get_fingerprint_by_nostr_pubkey_def
    using assms by (intro kept_and_then kept_map_err) (auto simp: I_def split: option.split)
  then show ?thesis by (simp add: kept_def I_def)
qed

theorem nostr_unique_always_witness:
  "\<exists>rows'. nostr_identities (snd (store_nostr_identity ''Ps'' ''k2'' []
      (sample_nostr\<lparr>faults := [None, Some ''busy'']\<rparr>))) = Some rows' \<and>
    keys_distinct no_nostr_pubkey rows'"
  using nostr_unique_always [of "sample_nostr\<lparr>faults := [None, Some ''busy'']\<rparr>"
      "[\<lparr>no_fingerprint = ''bob'', no_nostr_pubkey = ''k1'', no_derivation_context = []\<rparr>]"
      "''Ps''" "''k2''" "[]"]
  by (auto simp: sample_nostr_def keys_distinct_def)

end
