(* ===== verification/Backend_Equivalence.thy ===== *)
theory Backend_Equivalence
  imports Signal_Storage_Laws Sample_Library
begin

text \<open>
  The two backends behind one trait: whatever sequence of calls a client makes of the session
  store, the identity store or a key store, the memory backend and the SQLite backend answer the
  same; the one exception, expiry within a second, is bounded. Each store is shown to refine a machine whose state is a map; two refinements of the same
  machine cannot be told apart.
\<close>

section \<open>Running a sequence of calls\<close>

fun run_ops :: "('op \<Rightarrow> 's \<Rightarrow> 'ans \<times> 's) \<Rightarrow> 'op list \<Rightarrow> 's \<Rightarrow> 'ans list \<times> 's" where
  "run_ops step [] s = ([], s)"
| "run_ops step (c # cs) s =
     (case step c s of (a, s1) \<Rightarrow> (case run_ops step cs s1 of (as, s2) \<Rightarrow> (a # as, s2)))"

text \<open>A simulation of single calls carries over to sequences.\<close>

lemma run_ops_simulation:
  assumes sim: "\<And>c s. good s \<Longrightarrow> ok c \<Longrightarrow>
      \<exists>s'. step c s = (fst (spec c (view s)), s') \<and> good s' \<and> view s' = snd (spec c (view s))"
    and "good s" "\<forall>c \<in> set cs. ok c"
  shows "\<exists>s'. run_ops step cs s = (fst (run_ops spec cs (view s)), s') \<and> good s' \<and>
    view s' = snd (run_ops spec cs (view s))"
  using assms(2,3)
proof (induction cs arbitrary: s)
  case (Cons c cs)
  then obtain s1 where s1: "step c s = (fst (spec c (view s)), s1)" "good s1"
    "view s1 = snd (spec c (view s))" using sim [of s c] by auto
  obtain s2 where "run_ops step cs s1 = (fst (run_ops spec cs (view s1)), s2)" "good s2"
    "view s2 = snd (run_ops spec cs (view s1))" using Cons.IH [OF s1(2)] Cons.prems(2) by auto
  with s1 show ?case by (auto split: prod.splits)
qed simp

lemma run_ops_cong:
  "(\<And>c v. c \<in> set cs \<Longrightarrow> f c v = g c v) \<Longrightarrow> run_ops f cs v = run_ops g cs v"
  by (induction cs arbitrary: v) (auto split: prod.splits)

text \<open>An answer of a call: what a client sees of it; the kind of error is not part of it.\<close>

definition answer :: "('a \<Rightarrow> 'ans) \<Rightarrow> 'ans \<Rightarrow> ('e, 'a) outcome \<times> 's \<Rightarrow> 'ans \<times> 's" where
  "answer ok bad p = (case p of (Ok v, s) \<Rightarrow> (ok v, s) | (_, s) \<Rightarrow> (bad, s))"

lemma answer_simps [simp]:
  "answer ok bad (Ok v, s) = (ok v, s)" "answer ok bad (Err e, s) = (bad, s)"
  "answer ok bad (Panic m, s) = (bad, s)"
  by (simp_all add: answer_def)

section \<open>Sessions\<close>

datatype 'r session_op = LoadS ProtocolAddress | StoreS ProtocolAddress 'r
  | DeleteS ProtocolAddress | ClearS | CountS

datatype 'r session_answer = LoadedS "'r option" | DoneS | CountedS nat | FailedS

fun session_step where
  "session_step ld st cnt clr del (LoadS a) s = answer LoadedS FailedS (ld a s)"
| "session_step ld st cnt clr del (StoreS a r) s = answer (\<lambda>_. DoneS) FailedS (st a r s)"
| "session_step ld st cnt clr del (DeleteS a) s = answer (\<lambda>_. DoneS) FailedS (del a s)"
| "session_step ld st cnt clr del ClearS s = answer (\<lambda>_. DoneS) FailedS (clr s)"
| "session_step ld st cnt clr del CountS s = answer CountedS FailedS (cnt s)"

fun session_spec :: "'r session_op \<Rightarrow> (ProtocolAddress \<Rightarrow> 'r option)
    \<Rightarrow> 'r session_answer \<times> (ProtocolAddress \<Rightarrow> 'r option)" where
  "session_spec (LoadS a) v = (LoadedS (v a), v)"
| "session_spec (StoreS a r) v = (DoneS, v(a \<mapsto> r))"
| "session_spec (DeleteS a) v = (DoneS, v(a := None))"
| "session_spec ClearS v = (DoneS, Map.empty)"
| "session_spec CountS v = (CountedS (card (dom v)), v)"

fun stored_session_ok :: "('r \<Rightarrow> bool) \<Rightarrow> 'r session_op \<Rightarrow> bool" where
  "stored_session_ok P (StoreS a r) = P r"
| "stored_session_ok P _ = True"

context sessions_contract
begin

lemma session_simulation:
  assumes "good s" "stored_session_ok storable c"
  shows "\<exists>s'. session_step load store count clear delete c s =
    (fst (session_spec c (view s)), s') \<and> good s' \<and> view s' = snd (session_spec c (view s))"
proof (cases c)
  case (StoreS a r)
  with store_view [OF assms(1), of r a] assms(2) show ?thesis by auto
next
  case (DeleteS a)
  with delete_view [OF assms(1), of a] show ?thesis by auto
next
  case ClearS
  with clear_view [OF assms(1)] show ?thesis by auto
qed (use assms(1) load_view count_view in auto)

lemmas session_runs =
  run_ops_simulation [where good = good and view = view and spec = session_spec, OF session_simulation]

end

abbreviation session_run where
  "session_run st \<equiv> run_ops (session_step (load_session st) (store_session st) (session_count st)
     (clear_all_sessions st) (delete_session st))"

text \<open>
  C16: Sessions: started with the same sessions, the memory and the SQLite backend give the same
  answers to any sequence of loads, stores, deletions, clearings and counts, and end with the same
  sessions.
\<close>

theorem session_backends_agree:
  assumes "sqlite_sessions_good L s" "mem_sessions_good m"
    "sqlite_sessions_view L s = view_at (mem_sessions m)"
    "\<forall>c \<in> set cs. stored_session_ok (round_trips L) c"
  shows "fst (session_run (sqlite_session_store L) cs s) = fst (session_run mem_session_store cs m) \<and>
    sqlite_sessions_view L (snd (session_run (sqlite_session_store L) cs s)) =
      view_at (mem_sessions (snd (session_run mem_session_store cs m)))"
proof -
  have "stored_session_ok (\<lambda>_. True) c" for c :: "'a session_op" by (cases c) simp_all
  then obtain m' where "session_run mem_session_store cs m =
      (fst (run_ops session_spec cs (view_at (mem_sessions m))), m')"
    "view_at (mem_sessions m') = snd (run_ops session_spec cs (view_at (mem_sessions m)))"
    using mem_sess.session_runs [OF _ _ assms(2), of "\<lambda>_. True" cs] by blast
  moreover obtain s' where "session_run (sqlite_session_store L) cs s =
      (fst (run_ops session_spec cs (sqlite_sessions_view L s)), s')"
    "sqlite_sessions_view L s' = snd (run_ops session_spec cs (sqlite_sessions_view L s))"
    using sqlite_sess.session_runs [OF _ _ assms(1), of "stored_session_ok (round_trips L)" cs]
      assms(4) by blast
  ultimately show ?thesis by (simp add: assms(3))
qed

text \<open>A new memory storage is empty.\<close>

lemma memory_new [simp]:
  "mem_sessions_good memory_storage_new" "view_at (mem_sessions memory_storage_new) = Map.empty"
  "mem_identities_good memory_storage_new"
  "view_at (mi_identity_keys (mem_identities memory_storage_new)) = Map.empty"
  "mem_pre_keys_good memory_storage_new" "mem_pre_keys_view P memory_storage_new = Map.empty"
  "mem_signed_good memory_storage_new" "mem_signed_pre_keys memory_storage_new = []"
  "mem_kyber_good memory_storage_new" "mem_kyber_pre_keys memory_storage_new = []"
  by (simp_all add: mem_signed_good_def mem_kyber_good_def mem_sessions_good_def mem_identities_good_def mem_pre_keys_good_def
      memory_storage_new_def addressed_def view_at_def mem_pre_keys_view_def keys_distinct_def fun_eq_iff)

text \<open>One session stored on both backends.\<close>

abbreviation sample_address :: ProtocolAddress where
  "sample_address \<equiv> \<lparr>address_name = ''alice'', address_device_id = 1\<rparr>"

theorem session_backends_agree_witness:
  "fst (session_run (sqlite_session_store sample_sessions)
      [StoreS sample_address [7], CountS, DeleteS sample_address, LoadS sample_address] sample_storage) =
    fst (session_run mem_session_store
      [StoreS sample_address [7], CountS, DeleteS sample_address, LoadS sample_address] memory_storage_new)"
  by (rule session_backends_agree [THEN conjunct1]) simp_all

section \<open>Peer identities\<close>

datatype 'k identity_op = SaveI ProtocolAddress 'k | TrustedI ProtocolAddress 'k Direction
  | GetI ProtocolAddress | DeleteI ProtocolAddress

datatype 'k identity_answer = SavedI IdentityChange | IsTrustedI bool | GotI "'k option" | DoneI | FailedI

fun identity_step where
  "identity_step sv tr gt del (SaveI a k) s = answer SavedI FailedI (sv a k s)"
| "identity_step sv tr gt del (TrustedI a k d) s = answer IsTrustedI FailedI (tr a k d s)"
| "identity_step sv tr gt del (GetI a) s = answer GotI FailedI (gt a s)"
| "identity_step sv tr gt del (DeleteI a) s = answer (\<lambda>_. DoneI) FailedI (del a s)"

text \<open>Trust on first use, as a machine.\<close>

fun identity_spec :: "'k identity_op \<Rightarrow> (ProtocolAddress \<Rightarrow> 'k option)
    \<Rightarrow> 'k identity_answer \<times> (ProtocolAddress \<Rightarrow> 'k option)" where
  "identity_spec (SaveI a k) v =
     (SavedI (if v a = None \<or> v a = Some k then NewOrUnchanged else ReplacedExisting), v(a \<mapsto> k))"
| "identity_spec (TrustedI a k d) v = (IsTrustedI (v a = None \<or> v a = Some k), v)"
| "identity_spec (GetI a) v = (GotI (v a), v)"
| "identity_spec (DeleteI a) v = (DoneI, v(a := None))"

context identities_contract
begin

lemma identity_simulation:
  assumes "good s"
  shows "\<exists>s'. identity_step save trusted get delete c s =
    (fst (identity_spec c (view s)), s') \<and> good s' \<and> view s' = snd (identity_spec c (view s))"
proof (cases c)
  case (SaveI a k)
  with save_view [OF assms, of a k] show ?thesis by (auto split: option.splits)
next
  case (DeleteI a)
  with delete_identity_view [OF assms, of a] show ?thesis by auto
qed (use assms trusted_view get_view in \<open>auto split: option.splits\<close>)

lemmas identity_runs = run_ops_simulation [where good = good and view = view
    and spec = identity_spec and ok = "\<lambda>_. True", OF identity_simulation]

end

abbreviation identity_run where
  "identity_run st \<equiv> run_ops (identity_step (save_identity st) (is_trusted_identity st)
     (get_identity st) (delete_identity st))"

text \<open>
  C15: Trust on first use: started with the same known peers, the memory and the SQLite backend
  give the same answers to any sequence of saves, trust checks, reads and deletions of peer
  identities, namely those of the machine that trusts a key exactly when its address has no key or
  has this one.
\<close>

theorem identity_backends_agree:
  assumes "sqlite_identities_good I s" "mem_identities_good m"
    "sqlite_identities_view I s = view_at (mi_identity_keys (mem_identities m))"
  shows "fst (identity_run (sqlite_identity_store I) cs s) =
      fst (run_ops identity_spec cs (sqlite_identities_view I s)) \<and>
    fst (identity_run mem_identity_store cs m) =
      fst (run_ops identity_spec cs (sqlite_identities_view I s))"
  using sqlite_ident.identity_runs [OF _ assms(1), of cs] mem_ident.identity_runs [OF _ assms(2), of cs]
  by (auto simp: assms(3))

theorem identity_backends_agree_witness:
  "fst (identity_run mem_identity_store [SaveI sample_address [1 :: u8], TrustedI sample_address [2] Sending]
      memory_storage_new) = [SavedI NewOrUnchanged, IsTrustedI False]"
  by (rule trans [OF identity_backends_agree [of sample_identities sample_storage memory_storage_new,
      THEN conjunct2]]) simp_all

section \<open>Numbered keys\<close>

text \<open>
  The calls that the three key stores share, then those only some of them have: \<^verbatim>\<open>remove_pre_key\<close> of
  libsignal's trait for one-time keys, the expiry query of the signed and Kyber stores, and
  \<^verbatim>\<open>mark_kyber_pre_key_used\<close>. Neither backend orders the ids of an expiry query, so its answer is
  their set.
\<close>

datatype 'r key_op = GetK u32 | SaveK u32 'r | DeleteK u32 | CountK | MaxK | ClearK

datatype 'r one_time_op = OneTimeCall "'r key_op" | RemoveK u32

datatype 'r rotating_op = KeyCall "'r key_op" | OlderThan u64

datatype 'r kyber_op = RotatingCall "'r rotating_op" | MarkUsed u32

datatype 'r key_answer = GotK 'r | NoKey | DoneK | CountedK nat | MaxIdK "u32 option"
  | OlderIds "u32 set" | FailedK

fun key_step where
  "key_step gt sv cnt mx del clr (GetK i) s = answer GotK NoKey (gt i s)"
| "key_step gt sv cnt mx del clr (SaveK i r) s = answer (\<lambda>_. DoneK) FailedK (sv i r s)"
| "key_step gt sv cnt mx del clr (DeleteK i) s = answer (\<lambda>_. DoneK) FailedK (del i s)"
| "key_step gt sv cnt mx del clr CountK s = answer CountedK FailedK (cnt s)"
| "key_step gt sv cnt mx del clr MaxK s = answer MaxIdK FailedK (mx s)"
| "key_step gt sv cnt mx del clr ClearK s = answer (\<lambda>_. DoneK) FailedK (clr s)"

fun one_time_step where
  "one_time_step st (OneTimeCall c) s = key_step (get_pre_key st) (save_pre_key st) (pre_key_count st)
     (get_max_pre_key_id st) (delete_pre_key st) (clear_all_pre_keys st) c s"
| "one_time_step st (RemoveK i) s = answer (\<lambda>_. DoneK) FailedK (remove_pre_key st i s)"

fun rotating_step where
  "rotating_step st (KeyCall c) s = key_step (get_key st) (save_key st) (key_count st) (get_max_key_id st)
     (delete_key st) (clear_all_keys st) c s"
| "rotating_step st (OlderThan t) s = answer (\<lambda>ids. OlderIds (set ids)) FailedK (get_keys_older_than st t s)"

fun kyber_step where
  "kyber_step st (RotatingCall c) s = rotating_step st c s"
| "kyber_step st (MarkUsed i) s = answer (\<lambda>_. DoneK) FailedK (mark_key_used st i s)"

text \<open>The machines: a map from ids to records, and for expiry a test of a record against a time.\<close>

fun key_spec :: "'r key_op \<Rightarrow> (u32 \<Rightarrow> 'r option) \<Rightarrow> 'r key_answer \<times> (u32 \<Rightarrow> 'r option)" where
  "key_spec (GetK i) v = (case v i of None \<Rightarrow> NoKey | Some r \<Rightarrow> GotK r, v)"
| "key_spec (SaveK i r) v = (DoneK, v(i \<mapsto> r))"
| "key_spec (DeleteK i) v = (DoneK, v(i := None))"
| "key_spec CountK v = (CountedK (card (dom v)), v)"
| "key_spec MaxK v = (MaxIdK (if dom v = {} then None else Some (Max (dom v))), v)"
| "key_spec ClearK v = (DoneK, Map.empty)"

fun one_time_spec where
  "one_time_spec (OneTimeCall c) v = key_spec c v"
| "one_time_spec (RemoveK i) v = (DoneK, v(i := None))"

fun rotating_spec where
  "rotating_spec expired (KeyCall c) v = key_spec c v"
| "rotating_spec expired (OlderThan t) v = (OlderIds {i. \<exists>r. v i = Some r \<and> expired t r}, v)"

fun kyber_spec where
  "kyber_spec expired (RotatingCall c) v = rotating_spec expired c v"
| "kyber_spec expired (MarkUsed i) v = (DoneK, v)"

text \<open>
  The calls covered: saves of records the store can hold, and expiry queries for whole seconds, the
  times on which both backends can agree.
\<close>

fun stored_key_ok :: "(u32 \<Rightarrow> 'r \<Rightarrow> bool) \<Rightarrow> 'r key_op \<Rightarrow> bool" where
  "stored_key_ok P (SaveK i r) = P i r"
| "stored_key_ok P _ = True"

fun one_time_ok :: "(u32 \<Rightarrow> 'r \<Rightarrow> bool) \<Rightarrow> 'r one_time_op \<Rightarrow> bool" where
  "one_time_ok P (OneTimeCall c) = stored_key_ok P c"
| "one_time_ok P (RemoveK i) = True"

fun rotating_ok :: "(u32 \<Rightarrow> 'r \<Rightarrow> bool) \<Rightarrow> 'r rotating_op \<Rightarrow> bool" where
  "rotating_ok P (KeyCall c) = stored_key_ok P c"
| "rotating_ok P (OlderThan t) = (unat t mod 1000 = 0)"

fun kyber_ok :: "(u32 \<Rightarrow> 'r \<Rightarrow> bool) \<Rightarrow> 'r kyber_op \<Rightarrow> bool" where
  "kyber_ok P (RotatingCall c) = rotating_ok P c"
| "kyber_ok P (MarkUsed i) = True"

lemma stored_key_weaken:
  "stored_key_ok P c \<Longrightarrow> (\<And>i r. P i r \<Longrightarrow> Q i r) \<Longrightarrow> stored_key_ok Q c"
  by (cases c) simp_all

lemma one_time_weaken: "one_time_ok P c \<Longrightarrow> (\<And>i r. P i r \<Longrightarrow> Q i r) \<Longrightarrow> one_time_ok Q c"
  by (cases c) (simp_all add: stored_key_weaken)

lemma rotating_weaken: "rotating_ok P c \<Longrightarrow> (\<And>i r. P i r \<Longrightarrow> Q i r) \<Longrightarrow> rotating_ok Q c"
  by (cases c) (simp_all add: stored_key_weaken)

lemma kyber_weaken: "kyber_ok P c \<Longrightarrow> (\<And>i r. P i r \<Longrightarrow> Q i r) \<Longrightarrow> kyber_ok Q c"
  by (cases c) (simp_all add: rotating_weaken)

context numbered_keys
begin

lemma key_simulation:
  assumes "good s" "stored_key_ok storable c"
  shows "\<exists>s'. key_step get save count max_id delete clear c s =
    (fst (key_spec c (view s)), s') \<and> good s' \<and> view s' = snd (key_spec c (view s))"
proof (cases c)
  case (GetK i)
  with get_present [OF assms(1), of i] get_absent [OF assms(1), of i] assms(1)
  show ?thesis by (cases "view s i") auto
next
  case (SaveK i r)
  with save_view [OF assms(1), of i r] assms(2) show ?thesis by auto
next
  case (DeleteK i)
  with delete_view [OF assms(1), of i] show ?thesis by auto
next
  case ClearK
  with clear_view [OF assms(1)] show ?thesis by auto
qed (use assms(1) count_view max_view in auto)

end

context one_time_keys
begin

lemma one_time_simulation:
  assumes "good s" "one_time_ok storable c"
  shows "\<exists>s'. one_time_step st c s =
    (fst (one_time_spec c (view s)), s') \<and> good s' \<and> view s' = snd (one_time_spec c (view s))"
proof (cases c)
  case (OneTimeCall k)
  with key_simulation [OF assms(1), of k] assms(2) show ?thesis by simp
next
  case (RemoveK i)
  with remove_view [OF assms(1), of i] show ?thesis by auto
qed

lemmas one_time_runs = run_ops_simulation [where good = good and view = view and spec = one_time_spec
    and ok = "one_time_ok storable", OF one_time_simulation]

end

abbreviation pre_key_run where
  "pre_key_run st \<equiv> run_ops (one_time_step st)"

text \<open>
  C17: One-time pre-keys: started with the same keys, the memory backend, which stores the key
  pairs, and the SQLite backend, which stores the serialised records, give the same answers to any
  sequence of calls of the store: reads, saves, removals, deletions, counts, largest-id queries and
  clearing.
\<close>

theorem pre_key_backends_agree:
  assumes "sqlite_pre_keys_good L s" "mem_pre_keys_good m"
    "sqlite_pre_keys_view L s = mem_pre_keys_view P m"
    "\<forall>c \<in> set cs. one_time_ok (\<lambda>i r. round_trips L r \<and> pre_key_rebuilds P i r) c"
  shows "fst (pre_key_run (sqlite_pre_key_store L) cs s) = fst (pre_key_run (mem_pre_key_store P) cs m)"
proof -
  have "\<forall>c \<in> set cs. one_time_ok (\<lambda>_. round_trips L) c" "\<forall>c \<in> set cs. one_time_ok (pre_key_rebuilds P) c"
    using assms(4) by (auto intro: one_time_weaken)
  from sqlite_one_time.one_time_runs [OF _ _ assms(1) this(1)] mem_one_time.one_time_runs [OF _ _ assms(2) this(2)]
  show ?thesis by (auto simp: assms(3))
qed

theorem pre_key_backends_agree_witness:
  "fst (pre_key_run (sqlite_pre_key_store sample_records)
      [OneTimeCall (SaveK 3 (sample_new 3 [1])), OneTimeCall MaxK, RemoveK 3, OneTimeCall (GetK 3)] sample_storage) =
    fst (pre_key_run (mem_pre_key_store sample_pre_keys)
      [OneTimeCall (SaveK 3 (sample_new 3 [1])), OneTimeCall MaxK, RemoveK 3, OneTimeCall (GetK 3)] memory_storage_new)"
  by (rule pre_key_backends_agree) simp_all

section \<open>Signed and Kyber pre-keys\<close>

abbreviation rotating_run where
  "rotating_run st \<equiv> run_ops (rotating_step st)"

abbreviation kyber_run where
  "kyber_run st \<equiv> run_ops (kyber_step st)"

context rotating_keys
begin

lemma rotating_simulation:
  assumes "good s" "rotating_ok storable c"
  shows "\<exists>s'. rotating_step st c s = (fst (rotating_spec expired c (view s)), s') \<and> good s' \<and>
    view s' = snd (rotating_spec expired c (view s))"
proof (cases c)
  case (KeyCall k)
  with key_simulation [OF assms(1), of k] assms(2) show ?thesis by simp
next
  case (OlderThan t)
  with older_view [OF assms(1), of t] assms(1) show ?thesis by auto
qed

text \<open>All runs of a store with the contract give the answers of the machine.\<close>

lemmas rotating_refines = run_ops_simulation [where good = good and view = view
    and spec = "rotating_spec expired" and ok = "rotating_ok storable", OF rotating_simulation]

lemma rotating_runs:
  assumes "good s" "\<forall>c \<in> set cs. rotating_ok storable c"
  shows "fst (rotating_run st cs s) = fst (run_ops (rotating_spec expired) cs (view s))"
  using rotating_refines [OF _ _ assms] by auto

lemma older_ids:
  assumes "good s"
  obtains ids where "fst (get_keys_older_than st t s) = Ok ids"
    "\<And>i. i \<in> set ids \<longleftrightarrow> (\<exists>r. view s i = Some r \<and> expired t r)"
  using older_view [OF assms, of t] by auto

end

context kyber_keys
begin

lemma kyber_simulation:
  assumes "good s" "kyber_ok storable c"
  shows "\<exists>s'. kyber_step st c s = (fst (kyber_spec expired c (view s)), s') \<and> good s' \<and>
    view s' = snd (kyber_spec expired c (view s))"
proof (cases c)
  case (RotatingCall k)
  with rotating_simulation [OF assms(1), of k] assms(2) show ?thesis by simp
next
  case (MarkUsed i)
  with mark_view [OF assms(1), of i] show ?thesis by auto
qed

lemmas kyber_refines = run_ops_simulation [where good = good and view = view
    and spec = "kyber_spec expired" and ok = "kyber_ok storable", OF kyber_simulation]

lemma kyber_runs:
  assumes "good s" "\<forall>c \<in> set cs. kyber_ok storable c"
  shows "fst (kyber_run st cs s) = fst (run_ops (kyber_spec expired) cs (view s))"
  using kyber_refines [OF _ _ assms] by auto

end

text \<open>
  SQLite compares seconds and the memory backend milliseconds. For a timestamp read as a number,
  the first implies the second, the second the first up to one second, and for a whole
  second they are the same.
\<close>

lemma seconds_before: "(ts :: u64) div 1000 < t div 1000 \<Longrightarrow> ts < t"
  by (simp add: word_less_nat_alt unat_div)

lemma seconds_close:
  "(ts :: u64) < t \<Longrightarrow> \<not> ts div 1000 < t div 1000 \<Longrightarrow> unat t < unat ts + 1000"
  by (simp add: word_less_nat_alt unat_div)

lemma div_less_whole:
  assumes "(b :: nat) mod 1000 = 0"
  shows "a div 1000 < b div 1000 \<longleftrightarrow> a < b"
proof -
  from assms obtain k where "b = k * 1000" by auto
  then show ?thesis by (simp add: div_less_iff_less_mult)
qed

lemma seconds_whole: "unat (t :: u64) mod 1000 = 0 \<Longrightarrow> ts div 1000 < t div 1000 \<longleftrightarrow> ts < t"
  by (simp add: word_less_nat_alt unat_div div_less_whole)

lemma expired_whole: "unat t mod 1000 = 0 \<Longrightarrow> expired_secs L t = expired_millis L t"
  by (auto simp: fun_eq_iff expired_secs_def expired_millis_def seconds_whole split: outcome.split)

lemma machines_agree:
  "rotating_ok P c \<Longrightarrow> rotating_spec (expired_secs L) c v = rotating_spec (expired_millis L) c v"
  "kyber_ok P k \<Longrightarrow> kyber_spec (expired_secs L) k v = kyber_spec (expired_millis L) k v"
proof -
  show rotating: "rotating_spec (expired_secs L) c v = rotating_spec (expired_millis L) c v"
    if "rotating_ok P c" for c using that by (cases c) (simp_all add: expired_whole)
  show "kyber_spec (expired_secs L) k v = kyber_spec (expired_millis L) k v" if "kyber_ok P k"
    using that by (cases k) (simp_all add: rotating)
qed

text \<open>
  C18: Signed and Kyber pre-keys: started with the same keys, the two backends give the same answers
  to any sequence of calls of their stores: reads, saves, counts, largest-id queries, deletions,
  clearing, marking a Kyber key as used, and queries for the keys older than a time, provided that time
  is a whole second (for other times see \<open>older_keys_within_a_second\<close>).
\<close>

theorem rotating_backends_agree:
  assumes "sqlite_signed_good L s" "mem_signed_good m"
    "sqlite_signed_view L s = hm_get (mem_signed_pre_keys m)"
    "\<forall>c \<in> set cs. rotating_ok (\<lambda>_. rotating_storable L) c"
    "sqlite_kyber_good L' s" "mem_kyber_good m" "sqlite_kyber_view L' s = hm_get (mem_kyber_pre_keys m)"
    "\<forall>c \<in> set ks. kyber_ok (\<lambda>_. rotating_storable L') c"
  shows "fst (rotating_run (sqlite_signed_store L rank) cs s) = fst (rotating_run (mem_signed_store L rank') cs m) \<and>
    fst (kyber_run (sqlite_kyber_store L' rank) ks s) = fst (kyber_run (mem_kyber_store L' rank') ks m)"
proof -
  have ok: "\<forall>c \<in> set cs. rotating_ok (\<lambda>_ _. True) c" "\<forall>c \<in> set ks. kyber_ok (\<lambda>_ _. True) c"
    using assms(4,8) by (auto intro: rotating_weaken kyber_weaken)
  have "run_ops (rotating_spec (expired_secs L)) cs v = run_ops (rotating_spec (expired_millis L)) cs v"
    "run_ops (kyber_spec (expired_secs L')) ks w = run_ops (kyber_spec (expired_millis L')) ks w" for v w
    using assms(4,8) by (auto intro!: run_ops_cong machines_agree)
  then show ?thesis
    using assms ok by (simp add: sqlite_signed.rotating_runs sqlite_kyber.kyber_runs mem_signed.rotating_runs
        mem_kyber.kyber_runs)
qed

theorem rotating_backends_agree_witness:
  "fst (kyber_run (sqlite_kyber_store sample_records unat)
      [RotatingCall (KeyCall (SaveK 3 (3, 9000, [1]))), RotatingCall (KeyCall (SaveK 4 (4, 9500, [2]))),
       MarkUsed 4, RotatingCall (OlderThan 9000), RotatingCall (KeyCall ClearK), RotatingCall (KeyCall CountK)]
      sample_storage) =
    fst (kyber_run (mem_kyber_store sample_records unat)
      [RotatingCall (KeyCall (SaveK 3 (3, 9000, [1]))), RotatingCall (KeyCall (SaveK 4 (4, 9500, [2]))),
       MarkUsed 4, RotatingCall (OlderThan 9000), RotatingCall (KeyCall ClearK), RotatingCall (KeyCall CountK)]
      (memory_storage_new :: (bytes, bytes, bytes, bytes, sample_record, sample_record) MemoryStorage))"
  by (rule rotating_backends_agree [of sample_records sample_storage _ "[]" sample_records, THEN conjunct2])
    (simp_all add: fun_eq_iff)

text \<open>
  C19: Which keys are too old: the SQLite backend reports only keys the memory backend reports too,
  and a key only the memory backend reports is less than a second older than the cutoff.
\<close>

theorem older_keys_within_a_second:
  assumes "sqlite_signed_good L s" "mem_signed_good m"
    "sqlite_signed_view L s = hm_get (mem_signed_pre_keys m)"
  shows "\<exists>ids ids'. fst (get_keys_older_than (sqlite_signed_store L rank) t s) = Ok ids \<and>
    fst (get_keys_older_than (mem_signed_store L rank) t m) = Ok ids' \<and> set ids \<subseteq> set ids' \<and>
    (\<forall>i \<in> set ids' - set ids. \<exists>r ts. sqlite_signed_view L s i = Some r \<and>
       record_timestamp L r = Ok ts \<and> unat ts < unat t \<and> unat t < unat ts + 1000)"
proof -
  obtain ids where ids: "fst (get_keys_older_than (sqlite_signed_store L rank) t s) = Ok ids"
    "\<And>i. i \<in> set ids \<longleftrightarrow> (\<exists>r. sqlite_signed_view L s i = Some r \<and> expired_secs L t r)"
    using sqlite_signed.older_ids [OF assms(1), of rank t] by blast
  obtain ids' where ids': "fst (get_keys_older_than (mem_signed_store L rank) t m) = Ok ids'"
    "\<And>i. i \<in> set ids' \<longleftrightarrow> (\<exists>r. sqlite_signed_view L s i = Some r \<and> expired_millis L t r)"
    using mem_signed.older_ids [OF assms(2), of L rank t] unfolding assms(3) by blast
  have "\<exists>ts. record_timestamp L r = Ok ts \<and> unat ts < unat t \<and> unat t < unat ts + 1000"
    if "expired_millis L t r" "\<not> expired_secs L t r" for r
    using that seconds_close by (auto simp: expired_millis_def expired_secs_def word_less_nat_alt split: outcome.splits)
  moreover have "expired_millis L t r" if "expired_secs L t r" for r
    using that seconds_before by (auto simp: expired_millis_def expired_secs_def split: outcome.splits)
  ultimately show ?thesis using ids ids' by (intro exI [of _ ids] exI [of _ ids']) fastforce
qed

theorem older_keys_within_a_second_witness:
  "\<exists>ids ids'. fst (get_keys_older_than (sqlite_signed_store sample_records unat) 9500
      (sample_signed [(1, 9000, []), (2, 7000, [])])) = Ok ids \<and>
    fst (get_keys_older_than (mem_signed_store sample_records unat) 9500
      (memory_storage_new\<lparr>mem_signed_pre_keys := [(1, (1, 9000, [])), (2, (2, 7000, []))]\<rparr>)) = Ok ids' \<and>
    set ids \<subseteq> set ids'"
proof -
  let ?m = "memory_storage_new\<lparr>mem_signed_pre_keys := [(1 :: u32, (1, 9000, [])), (2, (2, 7000, []))]\<rparr>"
  have "mem_signed_good ?m" by (simp add: mem_signed_good_def keys_distinct_def)
  moreover have "sqlite_signed_view sample_records (sample_signed [(1, 9000, []), (2, 7000, [])]) =
      hm_get (mem_signed_pre_keys ?m)"
    using sample_signed_good [of "[(1, 9000, []), (2, 7000, [])]"]
    by (auto simp: fun_eq_iff hm_get_def find_row_Cons)
  ultimately show ?thesis
    using older_keys_within_a_second [of sample_records _ ?m unat 9500] sample_signed_good by blast
qed

end
