(* ===== verification/Storage_Life_Cycle.thy ===== *)
theory Storage_Life_Cycle
  imports Sample_Library
begin

text \<open>
  The life cycle of the SQLite storage object (\<^verbatim>\<open>initialize\<close>, \<^verbatim>\<open>close\<close>, the accessors) as a step
  relation, refined to a machine of four phases that are passed in one direction only.
\<close>

section \<open>Phases\<close>

datatype phase = Fresh | Opened | Shut | Reopened

text \<open>Phases are ordered by when they can be reached.\<close>

fun phase_rank :: "phase \<Rightarrow> nat" where
  "phase_rank Fresh = 0"
| "phase_rank Opened = 1"
| "phase_rank Shut = 2"
| "phase_rank Reopened = 3"

lemma phase_rank_inject [simp]: "phase_rank p = phase_rank q \<longleftrightarrow> p = q"
  by (cases p; cases q) simp_all

instantiation phase :: linorder
begin

definition less_eq_phase :: "phase \<Rightarrow> phase \<Rightarrow> bool" where
  "less_eq_phase p q \<longleftrightarrow> phase_rank p \<le> phase_rank q"

definition less_phase :: "phase \<Rightarrow> phase \<Rightarrow> bool" where
  "less_phase p q \<longleftrightarrow> phase_rank p < phase_rank q"

instance
  by intro_classes (auto simp: less_eq_phase_def less_phase_def)

end

inductive phase_step :: "phase \<Rightarrow> phase \<Rightarrow> bool" where
  opens: "phase_step Fresh Opened"
| shuts_fresh: "phase_step Fresh Shut"
| shuts: "phase_step Opened Shut"
| reopens: "phase_step Shut Reopened"

inductive_simps phase_step_simps [simp]: "phase_step p q"

lemma phase_step_less: "phase_step p q \<Longrightarrow> p < q"
  by (auto simp: less_phase_def)

section \<open>Steps of a storage object\<close>

text \<open>
  The calls that change the object, with any outcome, and whatever else happens to the shared
  connection: the methods of the stores and other users of the connection change nothing else.
\<close>

inductive storage_step :: "sqlite_storage \<Rightarrow> sqlite_storage \<Rightarrow> bool" where
  initialising: "storage_step s (snd (sqlite_initialize s))"
| closing: "storage_step s (snd (sqlite_close s))"
| using_stores: "storage_step s (s\<lparr>st_connection := c\<rparr>)"

inductive storage_reach :: "sqlite_storage \<Rightarrow> bool" where
  created: "storage_reach (sqlite_storage_new c)"
| steps: "storage_reach s \<Longrightarrow> storage_step s s' \<Longrightarrow> storage_reach s'"

text \<open>The five stores come and go together.\<close>

definition all_present :: "sqlite_storage \<Rightarrow> bool" where
  "all_present s \<longleftrightarrow> st_session_store s \<and> st_identity_store s \<and> st_pre_key_store s \<and>
     st_signed_pre_key_store s \<and> st_kyber_pre_key_store s"

definition none_present :: "sqlite_storage \<Rightarrow> bool" where
  "none_present s \<longleftrightarrow> \<not> st_session_store s \<and> \<not> st_identity_store s \<and> \<not> st_pre_key_store s \<and>
     \<not> st_signed_pre_key_store s \<and> \<not> st_kyber_pre_key_store s"

definition phase_of :: "sqlite_storage \<Rightarrow> phase" where
  "phase_of s =
     (if st_is_closed s then if st_session_store s then Reopened else Shut
      else if st_session_store s then Opened else Fresh)"

lemma initialize_cases:
  obtains (succeeds) c where "sqlite_initialize s = (Ok (), s\<lparr>st_connection := c, st_session_store := True,
      st_identity_store := True, st_pre_key_store := True, st_signed_pre_key_store := True,
      st_kyber_pre_key_store := True\<rparr>)"
  | (failed) r c where "sqlite_initialize s = (r, s\<lparr>st_connection := c\<rparr>)" "\<not> is_ok r"
proof (cases "sqlite_initialize s")
  case (Pair r s')
  from Pair [unfolded sqlite_initialize_def] obtain r0
    where r0: "sqlite_initialize_schema s = (r0, s')" "r = omap_err BoxLotl r0"
    by (rule map_err_cases)
  from r0(1) obtain r1 :: "(lotl_error, unit) outcome" and c where "and_then (r1, s\<lparr>st_connection := c\<rparr>) (\<lambda>_ s.
      (Ok (), s\<lparr>st_session_store := True, st_identity_store := True, st_pre_key_store := True,
        st_signed_pre_key_store := True, st_kyber_pre_key_store := True\<rparr>)) = (r0, s')"
    by (auto simp: sqlite_initialize_schema_def split: prod.splits)
  then show ?thesis
  proof (cases rule: and_then_cases)
    case stops
    then show ?thesis using Pair r0(2) by (intro failed [of r c]) auto
  next
    case goes
    then show ?thesis using Pair r0(2) by (intro succeeds [of c]) auto
  qed
qed

lemma close_cases:
  obtains (already) "st_is_closed s" "sqlite_close s = (Ok (), s)"
  | (closed) c where "sqlite_close s = (Ok (), s\<lparr>st_connection := c, st_is_closed := True,
      st_session_store := False, st_identity_store := False, st_pre_key_store := False,
      st_signed_pre_key_store := False, st_kyber_pre_key_store := False\<rparr>)" "\<not> st_is_closed s"
  | (failed) r c where "sqlite_close s = (r, s\<lparr>st_connection := c\<rparr>)" "\<not> is_ok r"
proof (cases "st_is_closed s")
  case True
  then show ?thesis using already by (simp add: sqlite_close_def)
next
  case False
  obtain r s' where run: "sqlite_close s = (r, s')" by fastforce
  with False obtain r1 :: "(box_error, unit) outcome" and c where "and_then (r1, s\<lparr>st_connection := c\<rparr>) (\<lambda>_ s.
      (Ok (), s\<lparr>st_is_closed := True, st_session_store := False, st_identity_store := False,
        st_pre_key_store := False, st_signed_pre_key_store := False,
        st_kyber_pre_key_store := False\<rparr>)) = (r, s')"
    by (auto simp: sqlite_close_def split: prod.splits)
  then show ?thesis
    using False run by (cases rule: and_then_cases) (auto intro: closed failed)
qed

lemma reach_present: "storage_reach s \<Longrightarrow> all_present s \<or> none_present s"
proof (induction rule: storage_reach.induct)
  case (created c)
  then show ?case by (simp add: none_present_def sqlite_storage_new_def)
next
  case (steps s s')
  from steps.hyps(2) show ?case
  proof cases
    case initialising
    then show ?thesis using steps.IH
      by (cases s rule: initialize_cases) (auto simp: all_present_def none_present_def)
  next
    case closing
    then show ?thesis using steps.IH
      by (cases s rule: close_cases) (auto simp: all_present_def none_present_def)
  next
    case (using_stores c)
    then show ?thesis using steps.IH by (auto simp: all_present_def none_present_def)
  qed
qed

lemma storage_step_phase:
  assumes "storage_step s s'"
  shows "phase_of s' = phase_of s \<or> phase_step (phase_of s) (phase_of s')"
  using assms
proof cases
  case initialising
  then show ?thesis by (cases s rule: initialize_cases) (auto simp: phase_of_def)
next
  case closing
  then show ?thesis by (cases s rule: close_cases) (auto simp: phase_of_def)
next
  case (using_stores c)
  then show ?thesis by (simp add: phase_of_def)
qed

section \<open>Properties\<close>

text \<open>
  C20: The storage object refines the machine of phases: every call, with any outcome, keeps the
  phase or takes one of its steps, so phases are only passed forwards; and the phase decides what
  the accessors do: in the opened phase all five give their store, before it they panic as not
  initialised, and from the first close on they panic as closed, also after a later
  initialisation.
\<close>

theorem storage_refines_phases:
  assumes "storage_reach s" "storage_step s s'"
  shows "(phase_of s' = phase_of s \<or> phase_step (phase_of s) (phase_of s')) \<and>
    phase_of s \<le> phase_of s' \<and>
    (\<forall>acc \<in> {sqlite_session_accessor, sqlite_identity_accessor, sqlite_pre_key_accessor,
        sqlite_signed_pre_key_accessor, sqlite_kyber_pre_key_accessor}.
      acc s = (if phase_of s = Opened then Ok ()
               else if phase_of s = Fresh then Panic ''Storage not initialized''
               else Panic ''Storage has been closed''))"
  using storage_step_phase [OF assms(2)] phase_step_less reach_present [OF assms(1)]
  by (auto simp: phase_of_def accessor_defs all_present_def none_present_def less_imp_le
      simp del: phase_step_simps)

theorem storage_refines_phases_witness:
  "phase_of (snd (sqlite_close (sqlite_storage_new empty_conn))) = Shut \<and>
    Fresh \<le> phase_of (snd (sqlite_close (sqlite_storage_new empty_conn)))"
proof -
  have "phase_of (snd (sqlite_close (sqlite_storage_new empty_conn))) = Shut"
    "phase_of (sqlite_storage_new empty_conn) = Fresh" by code_simp+
  moreover have "phase_of (sqlite_storage_new empty_conn) \<le>
      phase_of (snd (sqlite_close (sqlite_storage_new empty_conn)))"
    using storage_refines_phases [OF storage_reach.created storage_step.closing] by blast
  ultimately show ?thesis by simp
qed

text \<open>
  Closing is not final for the message operations: after a close and another initialisation
  every accessor panics, but establishing a session, encrypting and decrypting run, because they
  look at the stores and not at the closed flag.
\<close>

theorem closed_storage_still_encrypts:
  assumes "sqlite_initialize s = (Ok (), s')" "st_is_closed s"
  shows "sqlite_session_accessor s' = (Panic ''Storage has been closed'' :: (signal_error, unit) outcome) \<and>
    sqlite_encrypt_message P L I a plaintext s' =
      (case message_encrypt P plaintext a (conn_session_store L) (conn_identity_store I)
         (st_connection s') of (r, c) \<Rightarrow> (r, s'\<lparr>st_connection := c\<rparr>))"
proof -
  have "st_is_closed s'" "st_session_store s'" "st_identity_store s'"
    using assms by (cases s rule: initialize_cases; auto)+
  then show ?thesis by (simp add: accessor_defs sqlite_encrypt_message_def with_stores_def)
qed

theorem closed_storage_still_encrypts_witness:
  "\<exists>s'. sqlite_initialize (snd (sqlite_close sample_storage)) = (Ok (), s') \<and>
    sqlite_session_accessor s' = (Panic ''Storage has been closed'' :: (signal_error, unit) outcome) \<and>
    sqlite_encrypt_message sample_protocol sample_sessions sample_identities
      \<lparr>address_name = ''bob'', address_device_id = 1\<rparr> [1] s' =
      (case message_encrypt sample_protocol [1] \<lparr>address_name = ''bob'', address_device_id = 1\<rparr>
         (conn_session_store sample_sessions) (conn_identity_store sample_identities)
         (st_connection s') of (r, c) \<Rightarrow> (r, s'\<lparr>st_connection := c\<rparr>))"
proof -
  let ?s = "snd (sqlite_close sample_storage)"
  have "fst (sqlite_initialize ?s) = Ok ()" "st_is_closed ?s" by code_simp+
  then have "sqlite_initialize ?s = (Ok (), snd (sqlite_initialize ?s))" by (metis prod.collapse)
  from closed_storage_still_encrypts [OF this \<open>st_is_closed ?s\<close>] this show ?thesis by blast
qed

end
