(* ===== verification/Db_Encryption.thy ===== *)
theory Db_Encryption
  imports Lotl_Types
begin

text \<open>
  The database key (\<^verbatim>\<open>src/src/db_encryption.rs\<close>): 32 random bytes kept in a file beside the
  database, created on first use. The file system is a list of files with their content and mode
  and a list of directories. Like the database it carries a schedule of faults, one entry per
  system call: \<open>Some (n, m)\<close> makes the call fail with message \<open>m\<close>, a failing write having written
  \<open>n\<close> bytes first.
\<close>

section \<open>Paths and files\<close>

text \<open>
  A path is whether it is absolute and its components; empty components and \<open>.\<close> are dropped, as
  \<^verbatim>\<open>std::path::Path\<close> does. Symbolic links and \<open>..\<close> are not resolved.
\<close>

type_synonym path = "bool \<times> string list"

fun split_slash :: "string \<Rightarrow> string \<Rightarrow> string list" where
  "split_slash part [] = [part]"
| "split_slash part (ch # cs) =
     (if ch = CHR ''/'' then part # split_slash [] cs else split_slash (part @ [ch]) cs)"

definition path_of :: "string \<Rightarrow> path" where
  "path_of p = (take 1 p = ''/'', filter (\<lambda>q. q \<noteq> [] \<and> q \<noteq> ''.'') (split_slash [] p))"

definition path_parent :: "path \<Rightarrow> path option" where
  "path_parent p = (if snd p = [] then None else Some (fst p, butlast (snd p)))"

definition dir_prefixes :: "path \<Rightarrow> path list" where
  "dir_prefixes p = map (\<lambda>n. (fst p, take n (snd p))) [0..<Suc (length (snd p))]"

record file_entry =
  fe_content :: bytes
  fe_mode :: nat

record file_system =
  fs_files :: "(path, file_entry) hashmap"
  fs_dirs :: "path list"
  fs_new_mode :: nat
  fs_faults :: "(nat \<times> string) option list"

text \<open>A system call: \<open>torn\<close> is what a failing call has done already.\<close>

definition sys_call :: "(nat \<Rightarrow> file_system \<Rightarrow> file_system)
    \<Rightarrow> (file_system \<Rightarrow> (string, 'a) outcome \<times> file_system) \<Rightarrow> file_system
    \<Rightarrow> (string, 'a) outcome \<times> file_system" where
  "sys_call torn f s =
     (case fs_faults s of
        [] \<Rightarrow> f s
      | None # fs \<Rightarrow> f (s\<lparr>fs_faults := fs\<rparr>)
      | Some (n, m) # fs \<Rightarrow> (Err m, torn n (s\<lparr>fs_faults := fs\<rparr>)))"

definition no_such_file :: string where
  "no_such_file = ''No such file or directory (os error 2)''"

definition create_dir_all :: "path \<Rightarrow> file_system \<Rightarrow> (string, unit) outcome \<times> file_system" where
  "create_dir_all p = sys_call (\<lambda>_ s. s) (\<lambda>s.
     (Ok (), s\<lparr>fs_dirs := fs_dirs s @ filter (\<lambda>d. d \<notin> set (fs_dirs s)) (dir_prefixes p)\<rparr>))"

text \<open>\<^verbatim>\<open>File::create\<close> truncates a file that exists and keeps its mode.\<close>

definition file_create :: "path \<Rightarrow> file_system \<Rightarrow> (string, unit) outcome \<times> file_system" where
  "file_create p = sys_call (\<lambda>_ s. s) (\<lambda>s.
     (case hm_get (fs_files s) p of
        Some f \<Rightarrow> (Ok (), s\<lparr>fs_files := hm_insert p (f\<lparr>fe_content := []\<rparr>) (fs_files s)\<rparr>)
      | None \<Rightarrow>
          if the (path_parent p) \<in> set (fs_dirs s)
          then (Ok (), s\<lparr>fs_files := hm_insert p
                  \<lparr>fe_content = [], fe_mode = fs_new_mode s\<rparr> (fs_files s)\<rparr>)
          else (Err no_such_file, s)))"

definition set_permissions :: "path \<Rightarrow> nat \<Rightarrow> file_system
    \<Rightarrow> (string, unit) outcome \<times> file_system" where
  "set_permissions p mode = sys_call (\<lambda>_ s. s) (\<lambda>s.
     (case hm_get (fs_files s) p of
        Some f \<Rightarrow> (Ok (), s\<lparr>fs_files := hm_insert p (f\<lparr>fe_mode := mode\<rparr>) (fs_files s)\<rparr>)
      | None \<Rightarrow> (Err no_such_file, s)))"

text \<open>\<^verbatim>\<open>write_all\<close> on the handle of the file just truncated.\<close>

definition append_bytes :: "path \<Rightarrow> bytes \<Rightarrow> file_system \<Rightarrow> file_system" where
  "append_bytes p b s =
     (case hm_get (fs_files s) p of
        Some f \<Rightarrow> s\<lparr>fs_files := hm_insert p (f\<lparr>fe_content := fe_content f @ b\<rparr>) (fs_files s)\<rparr>
      | None \<Rightarrow> s)"

definition write_all :: "path \<Rightarrow> bytes \<Rightarrow> file_system \<Rightarrow> (string, unit) outcome \<times> file_system" where
  "write_all p b = sys_call (\<lambda>n. append_bytes p (take n b)) (\<lambda>s. (Ok (), append_bytes p b s))"

definition file_open :: "path \<Rightarrow> file_system \<Rightarrow> (string, unit) outcome \<times> file_system" where
  "file_open p = sys_call (\<lambda>_ s. s) (\<lambda>s.
     (if hm_get (fs_files s) p = None then Err no_such_file else Ok (), s))"

text \<open>\<^verbatim>\<open>read_exact\<close> into a buffer of \<open>n\<close> bytes, from the start of the file.\<close>

definition read_exact :: "path \<Rightarrow> nat \<Rightarrow> file_system \<Rightarrow> (string, bytes) outcome \<times> file_system" where
  "read_exact p n = sys_call (\<lambda>_ s. s) (\<lambda>s.
     (case hm_get (fs_files s) p of
        Some f \<Rightarrow> (if length (fe_content f) < n then Err ''failed to fill whole buffer''
                   else Ok (take n (fe_content f)), s)
      | None \<Rightarrow> (Err no_such_file, s)))"

section \<open>Operations\<close>

definition KEY_LEN :: nat where "KEY_LEN = 32"

text \<open>\<open>random\<close> is what the random number generator fills the buffer with.\<close>

definition generate_db_key :: "(nat \<Rightarrow> u8) \<Rightarrow> (db_encryption_error, bytes) outcome" where
  "generate_db_key random = Ok (map random [0..<KEY_LEN])"

definition get_key_file_path :: "string \<Rightarrow> string" where
  "get_key_file_path path = path @ ''.key''"

definition key_error :: "string \<Rightarrow> string \<Rightarrow> db_encryption_error" where
  "key_error prefix e = KeyStorage (FmtText prefix e)"

definition store_db_key :: "string \<Rightarrow> bytes \<Rightarrow> file_system
    \<Rightarrow> (db_encryption_error, unit) outcome \<times> file_system" where
  "store_db_key path key s =
     (if path = '':memory:'' then (Ok (), s)
      else
        let key_path = path_of (get_key_file_path path) in
        and_then
          (case path_parent key_path of
             Some parent \<Rightarrow>
               map_err (key_error ''Failed to create key directory: '') (create_dir_all parent s)
           | None \<Rightarrow> (Ok (), s)) (\<lambda>_ s.
        and_then (map_err (key_error ''Failed to create key file: '') (file_create key_path s)) (\<lambda>_ s.
        and_then (map_err (key_error ''Failed to set key file permissions: '')
          (set_permissions key_path 384 s)) (\<lambda>_ s.
        and_then (map_err (key_error ''Failed to write key: '') (write_all key_path key s)) (\<lambda>_ s.
        (Ok (), s))))))"

definition retrieve_db_key :: "string \<Rightarrow> file_system
    \<Rightarrow> (db_encryption_error, bytes) outcome \<times> file_system" where
  "retrieve_db_key path s =
     (if path = '':memory:''
      then (Err (KeyStorage (Text ''In-memory databases do not have persistent keys'')), s)
      else
        let key_path = path_of (get_key_file_path path) in
        and_then (map_err (key_error ''Failed to open key file: '') (file_open key_path s)) (\<lambda>_ s.
        and_then (map_err (key_error ''Failed to read key: '') (read_exact key_path KEY_LEN s)) (\<lambda>key s.
        (Ok key, s))))"

definition get_or_create_db_key :: "(nat \<Rightarrow> u8) \<Rightarrow> string \<Rightarrow> file_system
    \<Rightarrow> (db_encryption_error, bytes) outcome \<times> file_system" where
  "get_or_create_db_key random path s =
     (case retrieve_db_key path s of
        (Ok key, s) \<Rightarrow> (Ok key, s)
      | (Panic m, s) \<Rightarrow> (Panic m, s)
      | (Err e, s) \<Rightarrow>
          and_then (generate_db_key random, s) (\<lambda>key s.
          and_then (store_db_key path key s) (\<lambda>_ s.
          (Ok key, s))))"

section \<open>Runs of the system calls\<close>

abbreviation key_path :: "string \<Rightarrow> path" where
  "key_path path \<equiv> path_of (get_key_file_path path)"

definition file_at :: "file_system \<Rightarrow> path \<Rightarrow> file_entry option" where
  "file_at s p = hm_get (fs_files s) p"

text \<open>Nothing in the file can be read by anyone but its owner (mode 0600).\<close>

definition owner_only :: "file_system \<Rightarrow> path \<Rightarrow> bool" where
  "owner_only s p = (case file_at s p of Some f \<Rightarrow> fe_content f = [] \<or> fe_mode f = 384 | None \<Rightarrow> True)"

named_theorems fs_simps \<open>evaluation of file system calls\<close>

lemma sys_call_calm [fs_simps]: "fs_faults s = [] \<Longrightarrow> sys_call torn f s = f s"
  by (simp add: sys_call_def)

lemma file_at_faults [simp]: "file_at (s\<lparr>fs_faults := fs\<rparr>) = file_at s"
  by (simp add: file_at_def fun_eq_iff)

lemma file_at_put [simp]:
  "file_at (s\<lparr>fs_files := hm_insert p f (fs_files s)\<rparr>) q = (if q = p then Some f else file_at s q)"
  by (simp add: file_at_def row_simps)

lemma file_at_dirs [simp]: "file_at (s\<lparr>fs_dirs := ds\<rparr>) = file_at s"
  by (simp add: file_at_def fun_eq_iff)

text \<open>A call whose steps, completed or torn, all keep \<open>Q\<close>.\<close>

lemma sys_call_cases:
  assumes "sys_call torn f s = (r, s')"
  obtains (fails) n m fs where "fs_faults s = Some (n, m) # fs" "r = Err m"
      "s' = torn n (s\<lparr>fs_faults := fs\<rparr>)"
  | (runs) fs where "f (s\<lparr>fs_faults := fs\<rparr>) = (r, s')"
proof (cases "fs_faults s")
  case Nil
  then have "s\<lparr>fs_faults := []\<rparr> = s" by simp
  with Nil assms runs [of "[]"] show ?thesis by (simp add: sys_call_def)
next
  case (Cons a fs)
  with assms fails runs show ?thesis by (cases a) (auto simp: sys_call_def)
qed

lemma file_open_same: "file_open p s = (r, s') \<Longrightarrow> file_at s' = file_at s"
  unfolding file_open_def by (erule sys_call_cases) auto

lemma read_exact_same: "read_exact p n s = (r, s') \<Longrightarrow> file_at s' = file_at s"
  unfolding read_exact_def by (erule sys_call_cases) (auto split: option.splits if_splits)

lemma create_dir_all_same: "create_dir_all p s = (r, s') \<Longrightarrow> file_at s' = file_at s"
  unfolding create_dir_all_def by (erule sys_call_cases) auto

lemma file_create_file:
  assumes "file_create p s = (r, s')"
  shows "q \<noteq> p \<Longrightarrow> file_at s' q = file_at s q"
    and "file_at s' p = file_at s p \<or> (\<exists>f. file_at s' p = Some f \<and> fe_content f = [])"
    and "r = Ok () \<Longrightarrow> \<exists>f. file_at s' p = Some f \<and> fe_content f = []"
  using assms unfolding file_create_def
  by (auto elim!: sys_call_cases simp: file_at_def row_simps split: option.splits if_splits)

lemma set_permissions_file:
  assumes "set_permissions p m s = (r, s')"
  shows "q \<noteq> p \<Longrightarrow> file_at s' q = file_at s q"
    and "file_at s p = Some f \<Longrightarrow> \<exists>f'. file_at s' p = Some f' \<and> fe_content f' = fe_content f \<and>
      (r = Ok () \<longrightarrow> fe_mode f' = m)"
  using assms unfolding set_permissions_def
  by (auto elim!: sys_call_cases simp: file_at_def row_simps split: option.splits if_splits)

lemma write_all_file:
  assumes "write_all p b s = (r, s')"
  shows "q \<noteq> p \<Longrightarrow> file_at s' q = file_at s q"
    and "file_at s p = Some f \<Longrightarrow> \<exists>f'. file_at s' p = Some f' \<and> fe_mode f' = fe_mode f \<and>
      (r = Ok () \<longrightarrow> fe_content f' = fe_content f @ b)"
  using assms unfolding write_all_def
  by (auto elim!: sys_call_cases simp: file_at_def append_bytes_def row_simps split: option.splits if_splits)

section \<open>Storing and retrieving\<close>

text \<open>The steps of \<open>store_db_key\<close>, and where a run of it can have stopped.\<close>

lemma make_parent_same:
  assumes "(case path_parent p of
      Some parent \<Rightarrow> map_err f (create_dir_all parent s) | None \<Rightarrow> (Ok (), s)) = (r, s')"
  shows "file_at s' = file_at s"
  using assms by (auto elim!: map_err_cases dest: create_dir_all_same split: option.splits)

lemma store_db_key_cases:
  assumes "store_db_key path key s = (r, s')" "path \<noteq> '':memory:''"
  defines "p \<equiv> key_path path"
  obtains (unchanged) "\<not> is_ok r" "file_at s' = file_at s"
  | (create) s1 r2 where "\<not> is_ok r" "file_at s1 = file_at s" "file_create p s1 = (r2, s')"
  | (chmod) s1 s2 r3 where "\<not> is_ok r" "file_at s1 = file_at s"
      "file_create p s1 = (Ok (), s2)" "set_permissions p 384 s2 = (r3, s')"
  | (writing) s1 s2 s3 r4 where "is_ok r \<longrightarrow> r4 = Ok ()" "file_at s1 = file_at s"
      "file_create p s1 = (Ok (), s2)" "set_permissions p 384 s2 = (Ok (), s3)"
      "write_all p key s3 = (r4, s')"
proof -
  note run = assms(1) [unfolded store_db_key_def if_not_P [OF assms(2)] Let_def, folded p_def]
  from run show ?thesis
  proof (cases rule: and_then_cases)
    case stops
    then show ?thesis using make_parent_same [OF stops(1)] unchanged by blast
  next
    case (goes _ s1)
    then have same: "file_at s1 = file_at s" by (intro make_parent_same) blast
    from goes(2) show ?thesis
    proof (cases rule: and_then_cases)
      case stops
      then show ?thesis using create [OF _ same] by (auto elim: map_err_cases)
    next
      case (goes _ s2)
      then have 2: "file_create p s1 = (Ok (), s2)" by (auto simp: map_err_Ok_conv)
      from goes(2) show ?thesis
      proof (cases rule: and_then_cases)
        case stops
        then show ?thesis using chmod [OF _ same 2] by (auto elim: map_err_cases)
      next
        case (goes _ s3)
        then have 3: "set_permissions p 384 s2 = (Ok (), s3)" by (auto simp: map_err_Ok_conv)
        from goes(2) show ?thesis
          by (cases rule: and_then_cases)
            (auto elim!: map_err_cases simp: is_ok_iff intro: writing [OF _ same 2 3])
      qed
    qed
  qed
qed

lemma store_outcome:
  assumes run: "store_db_key path key s = (r, s')" and on_disk: "path \<noteq> '':memory:''"
  shows "q \<noteq> key_path path \<Longrightarrow> file_at s' q = file_at s q"
    and "file_at s' (key_path path) = file_at s (key_path path) \<or>
      (\<exists>f. file_at s' (key_path path) = Some f \<and> (fe_content f = [] \<or> fe_mode f = 384))"
    and "is_ok r \<Longrightarrow> file_at s' (key_path path) = Some \<lparr>fe_content = key, fe_mode = 384\<rparr>"
proof -
  show "file_at s' q = file_at s q" if "q \<noteq> key_path path"
    using run on_disk by (cases rule: store_db_key_cases)
      (use that in \<open>simp_all add: file_create_file(1) set_permissions_file(1) write_all_file(1)\<close>)
  show "file_at s' (key_path path) = file_at s (key_path path) \<or>
      (\<exists>f. file_at s' (key_path path) = Some f \<and> (fe_content f = [] \<or> fe_mode f = 384))"
    using run on_disk
  proof (cases rule: store_db_key_cases)
    case (create s1 r2)
    then show ?thesis using file_create_file(2) by fastforce
  next
    case (chmod s1 s2 r3)
    then show ?thesis using file_create_file(3) [OF chmod(3)] set_permissions_file(2) [OF chmod(4)]
      by fastforce
  next
    case (writing s1 s2 s3 r4)
    then show ?thesis using file_create_file(3) [OF writing(3)]
        set_permissions_file(2) [OF writing(4)] write_all_file(2) [OF writing(5)] by fastforce
  qed simp
  show "file_at s' (key_path path) = Some \<lparr>fe_content = key, fe_mode = 384\<rparr>" if ok: "is_ok r"
    using run on_disk
  proof (cases rule: store_db_key_cases)
    case (writing s1 s2 s3 r4)
    obtain f where "file_at s' (key_path path) = Some f" "fe_content f = key" "fe_mode f = 384"
      using file_create_file(3) [OF writing(3)] set_permissions_file(2) [OF writing(4)]
        write_all_file(2) [OF writing(5)] writing(1) ok by fastforce
    then show ?thesis by (cases f) simp
  qed (use ok in simp_all)
qed

lemma retrieve_same:
  assumes "retrieve_db_key path s = (r, s')"
  shows "file_at s' = file_at s"
  using assms
  by (auto simp: retrieve_db_key_def Let_def split: if_splits
      elim!: and_then_cases map_err_cases dest!: file_open_same read_exact_same)

text \<open>A retrieved key is the first 32 bytes of the file, and without faults they are retrieved.\<close>

lemma retrieve_Ok:
  assumes "retrieve_db_key path s = (Ok key, s')"
  shows "length key = KEY_LEN" "\<exists>f. file_at s (key_path path) = Some f \<and>
    KEY_LEN \<le> length (fe_content f) \<and> key = take KEY_LEN (fe_content f)"
proof -
  have on_disk: "path \<noteq> '':memory:''" using assms by (auto simp: retrieve_db_key_def)
  obtain s1 where 1: "file_open (key_path path) s = (Ok (), s1)"
    and 2: "read_exact (key_path path) KEY_LEN s1 = (Ok key, s')"
    using assms on_disk
    by (auto simp: retrieve_db_key_def Let_def and_then_Ok_conv map_err_Ok_conv)
  from 2 have "\<exists>f. file_at s1 (key_path path) = Some f \<and>
      KEY_LEN \<le> length (fe_content f) \<and> key = take KEY_LEN (fe_content f)"
    unfolding read_exact_def
    by (elim sys_call_cases) (auto simp: file_at_def split: option.splits if_splits)
  with file_open_same [OF 1] show "\<exists>f. file_at s (key_path path) = Some f \<and>
      KEY_LEN \<le> length (fe_content f) \<and> key = take KEY_LEN (fe_content f)" by auto
  then show "length key = KEY_LEN" by auto
qed

lemma retrieve_calm:
  assumes "fs_faults s = []" "path \<noteq> '':memory:''" "file_at s (key_path path) = Some f"
    "KEY_LEN \<le> length (fe_content f)"
  shows "retrieve_db_key path s = (Ok (take KEY_LEN (fe_content f)), s)"
  using assms by (simp add: retrieve_db_key_def file_open_def read_exact_def fs_simps file_at_def Let_def)

lemma generate_db_key_length: "generate_db_key random = Ok key \<Longrightarrow> length key = KEY_LEN"
  by (auto simp: generate_db_key_def)

text \<open>The two ways through \<open>get_or_create_db_key\<close>.\<close>

lemma get_or_create_cases:
  assumes "get_or_create_db_key random path s = (r, s')"
  obtains (found) key where "retrieve_db_key path s = (Ok key, s')" "r = Ok key"
  | (made) e s1 r2 key where "retrieve_db_key path s = (Err e, s1)"
      "generate_db_key random = Ok key" "store_db_key path key s1 = (r2, s')"
      "\<forall>k. r = Ok k \<longleftrightarrow> k = key \<and> is_ok r2"
proof -
  have no_panic: "fst (retrieve_db_key path s) \<noteq> Panic m" for m
    by (auto simp: retrieve_db_key_def Let_def file_open_def read_exact_def sys_call_def
        split: list.splits option.splits)
  obtain r1 s1 where 1: "retrieve_db_key path s = (r1, s1)" by fastforce
  show ?thesis
  proof (cases r1)
    case (Ok key)
    then have "r = Ok key" "s' = s1" using 1 assms by (simp_all add: get_or_create_db_key_def)
    with 1 Ok show ?thesis by (intro found) simp_all
  next
    case (Err e)
    then have "and_then (store_db_key path (map random [0..<KEY_LEN]) s1)
        (\<lambda>_ s. (Ok (map random [0..<KEY_LEN]), s)) = (r, s')"
      using 1 assms by (simp add: get_or_create_db_key_def generate_db_key_def)
    then show ?thesis
      by (cases rule: and_then_cases)
        (use 1 Err in \<open>auto simp: generate_db_key_def intro!: made\<close>)
  next
    case (Panic m)
    with 1 no_panic [of m] show ?thesis by simp
  qed
qed

section \<open>Properties\<close>

text \<open>A key once returned is found again.\<close>

lemma db_key_found_again:
  assumes "get_or_create_db_key random path s = (Ok key, s')" "path \<noteq> '':memory:''"
  shows "length key = 32 \<and>
    get_or_create_db_key random' path (s'\<lparr>fs_faults := []\<rparr>) = (Ok key, s'\<lparr>fs_faults := []\<rparr>)"
proof -
  have "length key = KEY_LEN \<and> (\<exists>f. file_at s' (key_path path) = Some f \<and>
      KEY_LEN \<le> length (fe_content f) \<and> key = take KEY_LEN (fe_content f))"
    using assms(1)
  proof (cases rule: get_or_create_cases)
    case (found k)
    then show ?thesis using retrieve_Ok [OF found(1)] retrieve_same [OF found(1)] by auto
  next
    case (made e s1 r2 k)
    then have "key = k" "is_ok r2" by auto
    with made(2) store_outcome(3) [OF made(3) assms(2)] show ?thesis
      by (auto dest: generate_db_key_length)
  qed
  then obtain f where f: "length key = KEY_LEN" "file_at s' (key_path path) = Some f"
    "KEY_LEN \<le> length (fe_content f)" "key = take KEY_LEN (fe_content f)" by blast
  then show ?thesis
    using retrieve_calm [of "s'\<lparr>fs_faults := []\<rparr>" path f] assms(2)
    by (simp add: get_or_create_db_key_def KEY_LEN_def)
qed

lemmas db_key_same = db_key_found_again [THEN conjunct2]

text \<open>
  C24: Once a call has returned a key, with whatever faults on the way, the key has 32 bytes and
  every later call on an undisturbed file system returns the same key and changes nothing.
\<close>

theorem db_key_stable:
  assumes "get_or_create_db_key random path s = (Ok key, s')" "path \<noteq> '':memory:''"
  shows "length key = 32 \<and>
    get_or_create_db_key random' path (s'\<lparr>fs_faults := []\<rparr>) = (Ok key, s'\<lparr>fs_faults := []\<rparr>)"
  by (rule db_key_found_again [OF assms])

definition sample_fs :: file_system where
  "sample_fs = \<lparr>fs_files = [], fs_dirs = [(False, [])], fs_new_mode = 420, fs_faults = []\<rparr>"

theorem db_key_stable_witness:
  "\<exists>s'. get_or_create_db_key (\<lambda>_. 7) ''db'' sample_fs = (Ok (replicate 32 7), s') \<and>
    get_or_create_db_key (\<lambda>_. 9) ''db'' (s'\<lparr>fs_faults := []\<rparr>) =
      (Ok (replicate 32 7), s'\<lparr>fs_faults := []\<rparr>)"
proof -
  have "fst (get_or_create_db_key (\<lambda>_. 7) ''db'' sample_fs) = Ok (replicate 32 7)"
    by code_simp
  then obtain s' where s': "get_or_create_db_key (\<lambda>_. 7) ''db'' sample_fs = (Ok (replicate 32 7), s')"
    by (metis prod.collapse)
  then show ?thesis using db_key_stable [OF s', of "\<lambda>_. 9"] by simp
qed

text \<open>
  C23: Who can read the key file: wherever a call stops, every other file is as it was, and the key
  file is as it was, or empty, or of mode 0600; so a freshly generated key is never in a file that
  others can read, and a key file private before the call is private after it. A returned key is either
  the content of the new file of mode 0600 or was in the key file already. The mode of a key file
  found is not looked at: a key in a file that others can read is returned, and the file left as it is.
\<close>

theorem db_key_private:
  assumes "get_or_create_db_key random path s = (r, s')" "path \<noteq> '':memory:''"
  shows "(\<forall>q. q \<noteq> key_path path \<longrightarrow> file_at s' q = file_at s q) \<and>
    (file_at s' (key_path path) \<noteq> file_at s (key_path path) \<longrightarrow> owner_only s' (key_path path)) \<and>
    (owner_only s (key_path path) \<longrightarrow> owner_only s' (key_path path)) \<and>
    (\<forall>key. r = Ok key \<longrightarrow> file_at s' (key_path path) = Some \<lparr>fe_content = key, fe_mode = 384\<rparr> \<or>
      file_at s' (key_path path) = file_at s (key_path path) \<and>
      (\<exists>f. file_at s (key_path path) = Some f \<and> key = take KEY_LEN (fe_content f))) \<and>
    (\<forall>f. fs_faults s = [] \<and> file_at s (key_path path) = Some f \<and> KEY_LEN \<le> length (fe_content f) \<longrightarrow>
      r = Ok (take KEY_LEN (fe_content f)) \<and> file_at s' (key_path path) = Some f)"
proof -
  let ?kp = "key_path path"
  have other: "file_at s' q = file_at s q" if "q \<noteq> ?kp" for q
    using assms(1) by (cases rule: get_or_create_cases)
      (use that assms(2) in \<open>simp_all add: retrieve_same store_outcome(1)\<close>)
  have changed: "file_at s' ?kp = file_at s ?kp \<or> owner_only s' ?kp"
    using assms(1)
  proof (cases rule: get_or_create_cases)
    case (made e s1 r2 key)
    show ?thesis
      using store_outcome(2) [OF made(3) assms(2)] unfolding retrieve_same [OF made(1)] owner_only_def by auto
  qed (simp add: retrieve_same)
  then have keeps: "owner_only s ?kp \<longrightarrow> owner_only s' ?kp" by (auto simp: owner_only_def)
  have key: "file_at s' ?kp = Some \<lparr>fe_content = key, fe_mode = 384\<rparr> \<or> file_at s' ?kp = file_at s ?kp \<and>
      (\<exists>f. file_at s ?kp = Some f \<and> key = take KEY_LEN (fe_content f))" if ok: "r = Ok key" for key
    using assms(1)
  proof (cases rule: get_or_create_cases)
    case (found k)
    with ok have "retrieve_db_key path s = (Ok key, s')" by simp
    from retrieve_Ok(2) [OF this] retrieve_same [OF this] show ?thesis by auto
  next
    case (made e s1 r2 k)
    with ok have "key = k" "is_ok r2" by auto
    with store_outcome(3) [OF made(3) assms(2)] show ?thesis by simp
  qed
  have "r = Ok (take KEY_LEN (fe_content f)) \<and> file_at s' ?kp = Some f"
    if "fs_faults s = []" "file_at s ?kp = Some f" "KEY_LEN \<le> length (fe_content f)" for f
    using retrieve_calm [OF that(1) assms(2) that(2,3)] assms(1) that(2) by (simp add: get_or_create_db_key_def)
  with other changed keeps key show ?thesis by blast
qed

theorem db_key_private_witness:
  "owner_only (snd (get_or_create_db_key (\<lambda>_. 7) ''db''
      (sample_fs\<lparr>fs_faults := [None, None, None, None, Some (5, ''full'')]\<rparr>))) (key_path ''db'')"
proof -
  let ?s = "sample_fs\<lparr>fs_faults := [None, None, None, None, Some (5, ''full'')]\<rparr>"
  let ?s' = "snd (get_or_create_db_key (\<lambda>_. 7) ''db'' ?s)"
  have run: "get_or_create_db_key (\<lambda>_. 7) ''db'' ?s =
      (fst (get_or_create_db_key (\<lambda>_. 7) ''db'' ?s), ?s')" by simp
  have "owner_only ?s (key_path ''db'')" by (simp add: owner_only_def file_at_def sample_fs_def)
  moreover have "''db'' \<noteq> '':memory:''" by simp
  ultimately show ?thesis using db_key_private [OF run] by blast
qed

text \<open>
  C39: A key that cannot be read is replaced: when opening or reading the key file fails, for
  whatever reason, and the following calls succeed, the file's key is overwritten by a fresh one
  and the fresh one is returned, although the database is encrypted under the old one.
\<close>

theorem unreadable_key_replaced:
  assumes "retrieve_db_key path s = (Err e, s1)" "fs_faults s1 = []" "path \<noteq> '':memory:''"
    "file_at s (key_path path) = Some f"
  shows "fst (get_or_create_db_key random path s) = Ok (map random [0..<32]) \<and>
    file_at (snd (get_or_create_db_key random path s)) (key_path path) =
      Some \<lparr>fe_content = map random [0..<32], fe_mode = 384\<rparr>"
proof -
  let ?key = "map random [0..<KEY_LEN]"
  have here: "file_at s1 (key_path path) = Some f"
    using assms(4) unfolding retrieve_same [OF assms(1)] .
  have "fst (store_db_key path ?key s1) = Ok ()"
    using assms(2,3) here
    by (auto simp: store_db_key_def Let_def create_dir_all_def file_create_def set_permissions_def
        write_all_def fs_simps file_at_def row_simps split: option.split)
  then obtain s2 where s2: "store_db_key path ?key s1 = (Ok (), s2)" by (metis prod.collapse)
  then show ?thesis
    using store_outcome(3) [OF s2 assms(3)] assms(1)
    by (simp add: get_or_create_db_key_def generate_db_key_def KEY_LEN_def)
qed

theorem unreadable_key_replaced_witness:
  "let s = sample_fs\<lparr>fs_files := [(key_path ''db'', \<lparr>fe_content = replicate 32 7, fe_mode = 384\<rparr>)],
      fs_faults := [Some (0, ''busy'')]\<rparr> in
   fst (get_or_create_db_key (\<lambda>_. 9) ''db'' s) = Ok (replicate 32 9)"
proof -
  define s where "s = sample_fs\<lparr>fs_files := [(key_path ''db'', \<lparr>fe_content = replicate 32 7, fe_mode = 384\<rparr>)],
      fs_faults := [Some (0, ''busy'')]\<rparr>"
  have "retrieve_db_key ''db'' s = (Err (key_error ''Failed to open key file: '' ''busy''), s\<lparr>fs_faults := []\<rparr>)"
    by (simp add: s_def retrieve_db_key_def file_open_def sys_call_def sample_fs_def Let_def)
  moreover have "file_at s (key_path ''db'') = Some \<lparr>fe_content = replicate 32 7, fe_mode = 384\<rparr>"
    by (simp add: s_def file_at_def hm_get_def find_row_Cons)
  ultimately have "fst (get_or_create_db_key (\<lambda>_. 9) ''db'' s) = Ok (map (\<lambda>_. 9) [0..<32])"
    using unreadable_key_replaced [of "''db''" s _ "s\<lparr>fs_faults := []\<rparr>" _ "\<lambda>_. 9"] by simp
  then show ?thesis by (simp add: s_def map_replicate_const)
qed

end
