(* ===== verification/Db_Connection.thy ===== *)
theory Db_Connection
  imports Db_Encryption Contact_Manager Signal_Storage_Keys
begin

text \<open>
  The database connection (\<^verbatim>\<open>src/src/db_connection.rs\<close>): opening a database with its key, and
  the schema version in \<^verbatim>\<open>schema_info\<close>. A \<^verbatim>\<open>DbConnection\<close> is nothing but the shared connection.
  Versions are \<^verbatim>\<open>i32\<close> in the code; the table only ever receives values of that type.
\<close>

section \<open>Operations\<close>

text \<open>\<^verbatim>\<open>Connection::open\<close> and SQLCipher's \<^verbatim>\<open>PRAGMA key\<close> belong to libraries.\<close>

record sqlcipher_lib =
  open_connection :: "string \<Rightarrow> (sql_error, conn) outcome"
  pragma_key :: "string \<Rightarrow> conn \<Rightarrow> (sql_error, unit) outcome \<times> conn"

text \<open>The file system is the state here; the connection is the result.\<close>

definition db_connection_new :: "sqlcipher_lib \<Rightarrow> ('z) digest_lib_scheme \<Rightarrow> (nat \<Rightarrow> u8) \<Rightarrow> string
    \<Rightarrow> file_system \<Rightarrow> (lotl_error, conn) outcome \<times> file_system" where
  "db_connection_new Q D random path fs =
     and_then (map_err Database (open_connection Q path, fs)) (\<lambda>connection fs.
     and_then
       (if path \<noteq> '':memory:''
        then and_then (map_err (\<lambda>e. Storage (ToString (BoxDbKey e)))
               (get_or_create_db_key random path fs)) (\<lambda>key fs.
             case map_err Database (pragma_key Q (hex_encode D key) connection) of
               (r, connection) \<Rightarrow> (obind r (\<lambda>_. Ok connection), fs))
        else (Ok connection, fs)) (\<lambda>connection fs.
     case map_err Database (pragma connection) of
       (r, connection) \<Rightarrow> (obind r (\<lambda>_. Ok connection), fs)))"

definition initialize_schema_info :: "conn \<Rightarrow> (lotl_error, int) outcome \<times> conn" where
  "initialize_schema_info = with_lock (\<lambda>c.
     and_then (map_err Database (create_table schema_info put_schema_info c)) (\<lambda>_ c.
     and_then (map_err Database (insert_schema_version c)) (\<lambda>_ c.
     and_then (map_err Database
       (query_row ''schema_info'' schema_info (\<lambda>_. True) si_version c)) (\<lambda>current_version c.
     (Ok current_version, c)))))"

definition get_schema_version :: "conn \<Rightarrow> (lotl_error, int) outcome \<times> conn" where
  "get_schema_version = with_lock (\<lambda>c.
     and_then (map_err Database (prepare ''schema_info'' schema_info c)) (\<lambda>_ c.
       map_err Database (query_row ''schema_info'' schema_info (\<lambda>_. True) si_version c)))"

text \<open>The statement has no \<^verbatim>\<open>WHERE\<close>: it updates every row.\<close>

definition update_schema_version :: "int \<Rightarrow> conn \<Rightarrow> (lotl_error, unit) outcome \<times> conn" where
  "update_schema_version version = with_lock (\<lambda>c.
     and_then (map_err Database (update_rows ''schema_info'' schema_info put_schema_info
       (\<lambda>_. True) (\<lambda>r. r\<lparr>si_version := version, si_updated_at := unixepoch c\<rparr>) c)) (\<lambda>_ c.
     (Ok (), c)))"

definition optimize :: "conn \<Rightarrow> (lotl_error, unit) outcome \<times> conn" where
  "optimize = with_lock (\<lambda>c. and_then (map_err Database (pragma c)) (\<lambda>_ c. (Ok (), c)))"

section \<open>The schema version\<close>

text \<open>The version a connection reports: that of the first row.\<close>

definition schema_version :: "conn \<Rightarrow> int option" where
  "schema_version c =
     (case schema_info c of Some (r # rs) \<Rightarrow> Some (si_version r) | _ \<Rightarrow> None)"

definition schema_rows :: "conn \<Rightarrow> nat" where
  "schema_rows c = (case schema_info c of Some rows \<Rightarrow> length rows | None \<Rightarrow> 0)"

lemma get_schema_version_healthy:
  assumes "healthy c" "schema_version c = Some v"
  shows "get_schema_version c = (Ok v, c)"
  using assms
  by (auto simp: schema_version_def get_schema_version_def with_lock_def prepare_def query_row_def
      statement_def on_table_def healthy_def split: option.splits list.splits)

lemma initialize_schema_info_healthy:
  assumes "healthy c"
  shows "\<exists>c'. initialize_schema_info c =
      (Ok (case schema_version c of Some v \<Rightarrow> v | None \<Rightarrow> 1), c') \<and> healthy c' \<and>
    schema_version c' = Some (case schema_version c of Some v \<Rightarrow> v | None \<Rightarrow> 1) \<and>
    schema_rows c' = schema_rows c + 1"
proof -
  have faults: "faults c = []" "\<not> poisoned c" using assms by (simp_all add: healthy_def)
  show ?thesis
  proof (cases "schema_info c")
    case None
    with faults show ?thesis
      by (simp add: initialize_schema_info_def with_lock_def create_table_def statement_def
          insert_schema_version_def execute_def on_table_def query_row_def schema_version_def
          schema_rows_def healthy_def)
  next
    case (Some rows)
    with faults show ?thesis
      by (cases rows) (simp_all add: initialize_schema_info_def with_lock_def create_table_def
          statement_def insert_schema_version_def execute_def on_table_def query_row_def
          schema_version_def schema_rows_def healthy_def)
  qed
qed

lemma update_schema_version_healthy:
  assumes "healthy c" "schema_version c = Some old"
  shows "\<exists>c'. update_schema_version v c = (Ok (), c') \<and> healthy c' \<and> schema_version c' = Some v"
  using assms
  by (auto simp: update_schema_version_def with_lock_def update_rows_def statement_def
      on_table_def row_update_def schema_version_def healthy_def split: option.splits list.splits)

section \<open>Properties\<close>

text \<open>
  The schema version a program sets is the one it reads, also after the schema is initialised
  again; every initialisation adds a row to \<^verbatim>\<open>schema_info\<close>.
\<close>

theorem schema_version_round_trip:
  assumes "healthy c"
  shows "\<exists>v0 c1 c2 c3. initialize_schema_info c = (Ok v0, c1) \<and>
    update_schema_version v c1 = (Ok (), c2) \<and> get_schema_version c2 = (Ok v, c2) \<and>
    initialize_schema_info c2 = (Ok v, c3) \<and> get_schema_version c3 = (Ok v, c3) \<and>
    schema_rows c1 = schema_rows c + 1 \<and> schema_rows c3 = schema_rows c2 + 1"
proof -
  obtain v0 c1 where c1: "initialize_schema_info c = (Ok v0, c1)" "healthy c1"
    "schema_version c1 = Some v0" "schema_rows c1 = schema_rows c + 1"
    using initialize_schema_info_healthy [OF assms] by blast
  obtain c2 where c2: "update_schema_version v c1 = (Ok (), c2)" "healthy c2"
    "schema_version c2 = Some v"
    using update_schema_version_healthy [OF c1(2,3)] by blast
  obtain c3 where "initialize_schema_info c2 = (Ok v, c3)" "healthy c3"
    "schema_version c3 = Some v" "schema_rows c3 = schema_rows c2 + 1"
    using initialize_schema_info_healthy [OF c2(2)] c2(3) by auto
  with c1 c2 show ?thesis
    by (intro exI [of _ v0] exI [of _ c1] exI [of _ c2] exI [of _ c3])
      (simp add: get_schema_version_healthy)
qed

theorem schema_version_round_trip_witness:
  "\<exists>c1 c2. initialize_schema_info empty_conn = (Ok 1, c1) \<and>
    update_schema_version 2 c1 = (Ok (), c2) \<and> get_schema_version c2 = (Ok 2, c2)"
proof -
  have "healthy empty_conn" by (simp add: healthy_def empty_conn_def)
  from schema_version_round_trip [OF this, of 2]
  obtain v0 c1 c2 where run: "initialize_schema_info empty_conn = (Ok v0, c1)"
    "update_schema_version 2 c1 = (Ok (), c2)" "get_schema_version c2 = (Ok 2, c2)" by blast
  moreover have "fst (initialize_schema_info empty_conn) = Ok 1" by code_simp
  ultimately show ?thesis by auto
qed

text \<open>
  A database on disk is opened under a key that later opens find again: if opening succeeds,
  with whatever file system faults on the way, some key was given to \<^verbatim>\<open>PRAGMA key\<close>, and every
  later open of the path, whatever the database has become, gives it the same key and succeeds
  when that key is accepted.
\<close>

theorem database_reopens:
  assumes "db_connection_new Q D random path fs = (Ok c, fs')" "path \<noteq> '':memory:''"
  shows "\<exists>key c0 c1. open_connection Q path = Ok c0 \<and>
    pragma_key Q (hex_encode D key) c0 = (Ok (), c1) \<and>
    (\<forall>Q' random' c0' c1' c2'. open_connection Q' path = Ok c0' \<longrightarrow>
       pragma_key Q' (hex_encode D key) c0' = (Ok (), c1') \<longrightarrow> pragma c1' = (Ok (), c2') \<longrightarrow>
       db_connection_new Q' D random' path (fs'\<lparr>fs_faults := []\<rparr>) = (Ok c2', fs'\<lparr>fs_faults := []\<rparr>))"
proof -
  obtain c0 where c0: "open_connection Q path = Ok c0"
    using assms by (cases "open_connection Q path") (auto simp: db_connection_new_def)
  obtain r1 fs1 where k: "get_or_create_db_key random path fs = (r1, fs1)" by fastforce
  with assms c0 obtain key where key: "get_or_create_db_key random path fs = (Ok key, fs1)"
    by (cases r1) (auto simp: db_connection_new_def)
  obtain r c1 where c1: "pragma_key Q (hex_encode D key) c0 = (r, c1)" by fastforce
  with assms c0 key have r: "r = Ok ()" and fs': "fs' = fs1"
    by (cases r; auto simp: db_connection_new_def map_err_pure split: prod.splits)+
  have "get_or_create_db_key random' path (fs'\<lparr>fs_faults := []\<rparr>) = (Ok key, fs'\<lparr>fs_faults := []\<rparr>)"
    for random' using db_key_same [OF key assms(2), of random'] unfolding fs' .
  then show ?thesis
    using assms(2) c0 c1 r
    by (intro exI [of _ key] exI [of _ c0] exI [of _ c1]) (simp add: db_connection_new_def)
qed

definition sample_sqlcipher :: sqlcipher_lib where
  "sample_sqlcipher = \<lparr>open_connection = \<lambda>_. Ok empty_conn,
     pragma_key = \<lambda>k c. (if k = replicate 32 (CHR ''7'') then Ok () else Err (SqliteFailure ''file is not a database''), c)\<rparr>"

definition sample_hex :: digest_lib where
  "sample_hex = \<lparr>sha256 = id, hex_encode = map (\<lambda>_. CHR ''7'')\<rparr>"

theorem database_reopens_witness:
  "\<exists>c fs'. db_connection_new sample_sqlcipher sample_hex (\<lambda>_. 7) ''db'' sample_fs = (Ok c, fs') \<and>
    (\<exists>key c0 c1. open_connection sample_sqlcipher ''db'' = Ok c0 \<and>
      pragma_key sample_sqlcipher (hex_encode sample_hex key) c0 = (Ok (), c1))"
proof -
  let ?run = "db_connection_new sample_sqlcipher sample_hex (\<lambda>_. 7) ''db'' sample_fs"
  have "is_ok (fst ?run)" by code_simp
  then obtain c where "fst ?run = Ok c" by (auto simp: is_ok_iff)
  then have run: "?run = (Ok c, snd ?run)" by (metis prod.collapse)
  have "''db'' \<noteq> '':memory:''" by simp
  from database_reopens [OF run this] run show ?thesis by blast
qed

end
