(* ===== verification/Lotl_Api.thy ===== *)
theory Lotl_Api
  imports Storage_Ops Key_Rotation Message_History Nostr_Integration Db_Connection
begin

text \<open>
  The public interface (\<^verbatim>\<open>src/src/lib.rs\<close>): the \<open>Lotl\<close> object with its connection,
  configuration and storage, and each method as the composition of the other parts. The \<^verbatim>\<open>?\<close>
  operator and the \<^verbatim>\<open>map_err\<close> calls are the error injections of \<^verbatim>\<open>Lotl_Types\<close>.
\<close>

section \<open>Data\<close>

text \<open>
  The storage shares the connection (\<^verbatim>\<open>Arc<Mutex<Connection>>\<close>): \<open>lo_connection\<close> is the one
  connection, and \<open>on_storage\<close> passes it to the storage and takes it back.
\<close>

record Lotl =
  lo_connection :: conn
  lo_config :: LotlConfig
  lo_storage :: "sqlite_storage option"

record SerializableBundle =
  sb_version :: string
  sb_registration_id :: u32
  sb_device_id :: u8
  sb_pre_key_id :: u32
  sb_pre_key_public :: bytes
  sb_signed_pre_key_id :: u32
  sb_signed_pre_key_public :: bytes
  sb_signed_pre_key_signature :: bytes
  sb_identity_key :: bytes
  sb_kyber_pre_key_id :: u32
  sb_kyber_pre_key_public :: bytes
  sb_kyber_pre_key_signature :: bytes

definition CARGO_PKG_VERSION :: string where
  "CARGO_PKG_VERSION = ''0.1.0''"

definition lib_name :: string where
  "lib_name = ''lotl''"

definition lib_version :: string where
  "lib_version = CARGO_PKG_VERSION"

text \<open>The store libraries of an instance, and the order in which SQLite returns unordered ids.\<close>

record ('sess, 'ikp, 'ik, 'pk, 'spk, 'kyr) store_libs =
  sl_sessions :: "'sess blob_lib"
  sl_identities :: "('ikp, 'ik) identity_lib"
  sl_pre_keys :: "'pk key_record_lib"
  sl_signed :: "'spk key_record_lib"
  sl_kyber :: "'kyr key_record_lib"
  sl_rank :: "u32 \<Rightarrow> nat"

text \<open>
  How keys are made: the two record constructors with their signatures, the one-time pre-key
  constructor, and \<^verbatim>\<open>KyberPreKeyRecord::generate\<close>.
\<close>

record ('ikp, 'kp, 'kyp, 'pk, 'spk, 'kyr) maker_libs =
  ml_signed :: "('ikp, 'kp, 'spk) key_maker"
  ml_kyber :: "('ikp, 'kyp, 'kyr) key_maker"
  ml_pre_key :: "u32 \<Rightarrow> 'kp \<Rightarrow> 'pk"
  ml_kyber_generate :: "u32 \<Rightarrow> 'ikp \<Rightarrow> (signal_error, 'kyr) outcome"

text \<open>What the random number generator delivers.\<close>

record ('ikp, 'kp, 'kyp) randomness =
  rn_identity :: 'ikp
  rn_registration :: u32
  rn_signed :: 'kp
  rn_kyber :: 'kyp
  rn_pre_keys :: "nat \<Rightarrow> 'kp"
  rn_db_key :: "nat \<Rightarrow> u8"

text \<open>
  bincode on bundles, and the libsignal calls that decode a bundle's parts, check a device id and
  build the library's own bundle; decoding errors are only ever displayed.
\<close>

record ('ik, 'pub, 'kpub, 'pkb) bundle_lib =
  bincode_serialize :: "SerializableBundle \<Rightarrow> (string, bytes) outcome"
  bincode_deserialize :: "bytes \<Rightarrow> (string, SerializableBundle) outcome"
  public_key_deserialize :: "bytes \<Rightarrow> (string, 'pub) outcome"
  kem_public_key_deserialize :: "bytes \<Rightarrow> (string, 'kpub) outcome"
  device_id_new :: "u8 \<Rightarrow> (string, u8) outcome"
  pre_key_bundle_new :: "u32 \<Rightarrow> u8 \<Rightarrow> (u32 \<times> 'pub) option \<Rightarrow> u32 \<Rightarrow> 'pub \<Rightarrow> bytes \<Rightarrow> u32
    \<Rightarrow> 'kpub \<Rightarrow> bytes \<Rightarrow> 'ik \<Rightarrow> (signal_error, 'pkb) outcome"

text \<open>Wire messages: \<^verbatim>\<open>CiphertextMessage::serialize\<close> and the two \<^verbatim>\<open>try_from\<close> parsers.\<close>

record 'ct wire_lib =
  ciphertext_serialize :: "'ct \<Rightarrow> bytes"
  pre_key_message_try_from :: "bytes \<Rightarrow> (signal_error, 'ct) outcome"
  signal_message_try_from :: "bytes \<Rightarrow> (signal_error, 'ct) outcome"

section \<open>Errors and the shared connection\<close>

abbreviation boxed :: "box_error \<Rightarrow> lotl_error" where
  "boxed e \<equiv> Storage (ToString e)"

abbreviation boxed_signal :: "signal_error \<Rightarrow> lotl_error" where
  "boxed_signal e \<equiv> Storage (ToString (BoxSignal e))"

definition on_storage :: "(sqlite_storage \<Rightarrow> (lotl_error, 'a) outcome \<times> sqlite_storage) \<Rightarrow> Lotl
    \<Rightarrow> (lotl_error, 'a) outcome \<times> Lotl" where
  "on_storage f l =
     (case lo_storage l of
        None \<Rightarrow> (Err (Storage (Text ''Storage not initialized'')), l)
      | Some st \<Rightarrow>
          (case f (st\<lparr>st_connection := lo_connection l\<rparr>) of
             (r, st) \<Rightarrow> (r, l\<lparr>lo_connection := st_connection st, lo_storage := Some st\<rparr>)))"

definition on_connection :: "(conn \<Rightarrow> (lotl_error, 'a) outcome \<times> conn) \<Rightarrow> Lotl
    \<Rightarrow> (lotl_error, 'a) outcome \<times> Lotl" where
  "on_connection f l =
     (case with_lock f (lo_connection l) of (r, c) \<Rightarrow> (r, l\<lparr>lo_connection := c\<rparr>))"

section \<open>Construction\<close>

definition ensure_storage_initialized :: "Lotl \<Rightarrow> (lotl_error, unit) outcome \<times> Lotl" where
  "ensure_storage_initialized l =
     (if lo_storage l = None then
        (case sqlite_initialize_schema (sqlite_storage_new (lo_connection l)) of
           (r, st) \<Rightarrow>
             and_then (r, l\<lparr>lo_connection := st_connection st\<rparr>) (\<lambda>_ l.
               (Ok (), l\<lparr>lo_storage := Some st\<rparr>)))
      else (Ok (), l))"

text \<open>The keys of a first run, in the order they are written.\<close>

definition create_identity :: "('sess, 'ikp, 'ik, 'pk, 'spk, 'kyr) store_libs
    \<Rightarrow> ('ikp, 'kp, 'kyp, 'pk, 'spk, 'kyr) maker_libs \<Rightarrow> ('ikp, 'kp, 'kyp) randomness
    \<Rightarrow> bool \<Rightarrow> clock \<Rightarrow> sqlite_storage \<Rightarrow> (lotl_error, unit) outcome \<times> sqlite_storage" where
  "create_identity S M R oc now s =
     and_then (map_err boxed (generate_identity_key_pair (rn_identity R), s)) (\<lambda>identity_key_pair s.
     and_then (map_err boxed (set_local_identity_key_pair (sqlite_identity_store (sl_identities S))
       identity_key_pair s)) (\<lambda>_ s.
     let registration_id = and (rn_registration R) 0x3FFF in
     and_then (map_err boxed (set_local_registration_id (sqlite_identity_store (sl_identities S))
       registration_id s)) (\<lambda>_ s.
     and_then (map_err boxed (generate_signed_pre_key (ml_signed M) now (rn_signed R)
       identity_key_pair 1, s)) (\<lambda>signed_pre_key s.
     and_then (map_err SignalProtocol (record_id (sl_signed S) signed_pre_key, s)) (\<lambda>i s.
     and_then (map_err SignalProtocol (save_key (sqlite_signed_store (sl_signed S) (sl_rank S))
       i signed_pre_key s)) (\<lambda>_ s.
     and_then (map_err SignalProtocol (ml_kyber_generate M 1 identity_key_pair, s)) (\<lambda>kyber_record s.
     and_then (map_err SignalProtocol (save_key (sqlite_kyber_store (sl_kyber S) (sl_rank S))
       1 kyber_record s)) (\<lambda>_ s.
     and_then (map_err boxed (replenish_pre_keys (sqlite_pre_key_store (sl_pre_keys S))
       (ml_pre_key M) oc (rn_pre_keys R) s)) (\<lambda>_ s.
     (Ok (), s))))))))))"

text \<open>\<^verbatim>\<open>is_ok\<close>: whatever error the read reports, it counts as no identity; a panic unwinds.\<close>

definition ensure_identity_initialized :: "('sess, 'ikp, 'ik, 'pk, 'spk, 'kyr) store_libs
    \<Rightarrow> ('ikp, 'kp, 'kyp, 'pk, 'spk, 'kyr) maker_libs \<Rightarrow> ('ikp, 'kp, 'kyp) randomness
    \<Rightarrow> bool \<Rightarrow> clock \<Rightarrow> Lotl \<Rightarrow> (lotl_error, unit) outcome \<times> Lotl" where
  "ensure_identity_initialized S M R oc now = on_storage (\<lambda>s.
     (case get_identity_key_pair (sqlite_identity_store (sl_identities S)) s of
        (Ok _, s) \<Rightarrow> (Ok (), s)
      | (Err _, s) \<Rightarrow> create_identity S M R oc now s
      | (Panic m, s) \<Rightarrow> (Panic m, s)))"

definition ensure_contacts_table_initialized :: "Lotl \<Rightarrow> (lotl_error, unit) outcome \<times> Lotl" where
  "ensure_contacts_table_initialized = on_connection (\<lambda>c.
     and_then (init_contacts_table c) (\<lambda>_ c. (Ok (), c)))"

definition ensure_message_history_initialized :: "Lotl \<Rightarrow> (lotl_error, unit) outcome \<times> Lotl" where
  "ensure_message_history_initialized = on_connection (\<lambda>c.
     and_then (init_message_history_tables c) (\<lambda>_ c. (Ok (), c)))"

text \<open>When a step fails the connection is dropped with the object that was being built.\<close>

definition lotl_new :: "sqlcipher_lib \<Rightarrow> ('z) digest_lib_scheme
    \<Rightarrow> ('sess, 'ikp, 'ik, 'pk, 'spk, 'kyr) store_libs
    \<Rightarrow> ('ikp, 'kp, 'kyp, 'pk, 'spk, 'kyr) maker_libs \<Rightarrow> ('ikp, 'kp, 'kyp) randomness
    \<Rightarrow> bool \<Rightarrow> clock \<Rightarrow> LotlConfig \<Rightarrow> file_system \<Rightarrow> (lotl_error, Lotl) outcome \<times> file_system" where
  "lotl_new Q D S M R oc now config fs =
     (if db_path config = [] then (Err (InvalidConfig (Text ''db_path cannot be empty'')), fs)
      else
        and_then (db_connection_new Q D (rn_db_key R) (db_path config) fs) (\<lambda>connection fs.
        let lotl = \<lparr>lo_connection = connection, lo_config = config, lo_storage = None\<rparr> in
        (case and_then (ensure_storage_initialized lotl) (\<lambda>_ l.
              and_then (ensure_identity_initialized S M R oc now l) (\<lambda>_ l.
              and_then (ensure_contacts_table_initialized l) (\<lambda>_ l.
                ensure_message_history_initialized l))) of
           (r, l) \<Rightarrow> (obind r (\<lambda>_. Ok l), fs))))"

section \<open>Identity\<close>

definition get_identity_key :: "Lotl \<Rightarrow> (lotl_error, bytes) outcome \<times> Lotl" where
  "get_identity_key = on_connection (\<lambda>c.
     and_then (map_err Database (prepare ''local_identity'' local_identity c)) (\<lambda>_ c.
       case query_row ''local_identity'' local_identity (\<lambda>r. li_id r = 1) li_public_key c of
         (Ok key, c) \<Rightarrow> (Ok key, c)
       | (Err QueryReturnedNoRows, c) \<Rightarrow>
           (Err (Storage (Text ''Local identity not initialized'')), c)
       | (Err e, c) \<Rightarrow> (Err (Database e), c)
       | (Panic m, c) \<Rightarrow> (Panic m, c)))"

definition get_fingerprint :: "('z) digest_lib_scheme \<Rightarrow> Lotl \<Rightarrow> (lotl_error, string) outcome \<times> Lotl"
  where
  "get_fingerprint D l =
     and_then (get_identity_key l) (\<lambda>identity_key l.
       (Ok (generate_fingerprint D identity_key (fingerprint_salt (lo_config l))
         (fingerprint_prefix (lo_config l))), l))"

section \<open>Bundles\<close>

text \<open>
  Both generators build the same bundle from the same reads: the identity, and the pre-key,
  signed pre-key and Kyber pre-key with the largest ids.
\<close>

definition newest_key_id :: "string \<Rightarrow> ('s \<Rightarrow> (box_error, u32 option) outcome \<times> 's) \<Rightarrow> 's
    \<Rightarrow> (lotl_error, u32) outcome \<times> 's" where
  "newest_key_id none f s =
     and_then (map_err boxed (f s)) (\<lambda>max_id s.
       case max_id of None \<Rightarrow> (Err (KeyNotFound (Text none)), s) | Some i \<Rightarrow> (Ok i, s))"

definition build_bundle :: "('sess, 'ikp, 'ik, 'pk, 'spk, 'kyr) store_libs \<Rightarrow> sqlite_storage
    \<Rightarrow> (lotl_error, SerializableBundle) outcome \<times> sqlite_storage" where
  "build_bundle S s =
     (let ids = sqlite_identity_store (sl_identities S); pres = sqlite_pre_key_store (sl_pre_keys S);
          signeds = sqlite_signed_store (sl_signed S) (sl_rank S);
          kybers = sqlite_kyber_store (sl_kyber S) (sl_rank S) in
     and_then (map_err SignalProtocol (get_identity_key_pair ids s)) (\<lambda>identity_key_pair s.
     and_then (map_err SignalProtocol (get_local_registration_id ids s)) (\<lambda>registration_id s.
     and_then (newest_key_id ''No pre-keys available'' (get_max_pre_key_id pres) s) (\<lambda>pre_key_id s.
     and_then (map_err SignalProtocol (get_pre_key pres pre_key_id s)) (\<lambda>pre_key_record s.
     and_then (newest_key_id ''No signed pre-key available'' (get_max_key_id signeds) s)
       (\<lambda>signed_pre_key_id s.
     and_then (map_err SignalProtocol (get_key signeds signed_pre_key_id s))
       (\<lambda>signed_pre_key_record s.
     and_then (newest_key_id ''No kyber pre-key available'' (get_max_key_id kybers) s)
       (\<lambda>kyber_pre_key_id s.
     and_then (map_err SignalProtocol (get_key kybers kyber_pre_key_id s)) (\<lambda>kyber_pre_key_record s.
     and_then (map_err SignalProtocol (record_public_key (sl_pre_keys S) pre_key_record, s))
       (\<lambda>pre_key_public s.
     and_then (map_err SignalProtocol (record_public_key (sl_signed S) signed_pre_key_record, s))
       (\<lambda>signed_pre_key_public s.
     and_then (map_err SignalProtocol (record_signature (sl_signed S) signed_pre_key_record, s))
       (\<lambda>signed_pre_key_signature s.
     and_then (map_err SignalProtocol (record_public_key (sl_kyber S) kyber_pre_key_record, s))
       (\<lambda>kyber_pre_key_public s.
     and_then (map_err SignalProtocol (record_signature (sl_kyber S) kyber_pre_key_record, s))
       (\<lambda>kyber_pre_key_signature s.
     (Ok \<lparr>sb_version = CARGO_PKG_VERSION, sb_registration_id = registration_id, sb_device_id = 1,
          sb_pre_key_id = pre_key_id, sb_pre_key_public = pre_key_public,
          sb_signed_pre_key_id = signed_pre_key_id,
          sb_signed_pre_key_public = signed_pre_key_public,
          sb_signed_pre_key_signature = signed_pre_key_signature,
          sb_identity_key = ik_serialize (sl_identities S)
            (pair_identity_key (sl_identities S) identity_key_pair),
          sb_kyber_pre_key_id = kyber_pre_key_id, sb_kyber_pre_key_public = kyber_pre_key_public,
          sb_kyber_pre_key_signature = kyber_pre_key_signature\<rparr>, s)))))))))))))))"

definition generate_prekey_bundle :: "('ik, 'pub, 'kpub, 'pkb) bundle_lib
    \<Rightarrow> ('sess, 'ikp, 'ik, 'pk, 'spk, 'kyr) store_libs \<Rightarrow> Lotl \<Rightarrow> (lotl_error, bytes) outcome \<times> Lotl"
  where
  "generate_prekey_bundle B S l =
     and_then (ensure_storage_initialized l) (\<lambda>_. on_storage (\<lambda>s.
       and_then (build_bundle S s) (\<lambda>bundle s.
         map_err Serialization (bincode_serialize B bundle, s))))"

definition generate_prekey_bundle_with_metadata :: "('ik, 'pub, 'kpub, 'pkb) bundle_lib
    \<Rightarrow> ('sess, 'ikp, 'ik, 'pk, 'spk, 'kyr) store_libs \<Rightarrow> Lotl
    \<Rightarrow> (lotl_error, bytes \<times> u32 \<times> u32 \<times> u32) outcome \<times> Lotl" where
  "generate_prekey_bundle_with_metadata B S l =
     and_then (ensure_storage_initialized l) (\<lambda>_. on_storage (\<lambda>s.
       and_then (build_bundle S s) (\<lambda>bundle s.
       and_then (map_err Serialization (bincode_serialize B bundle, s)) (\<lambda>bytes s.
         (Ok (bytes, sb_pre_key_id bundle, sb_signed_pre_key_id bundle, sb_kyber_pre_key_id bundle),
          s)))))"

definition identity_key_from_bundle :: "('ik, 'pub, 'kpub, 'pkb) bundle_lib \<Rightarrow> bytes
    \<Rightarrow> (lotl_error, bytes) outcome" where
  "identity_key_from_bundle B bundle_bytes =
     obind (omap_err Serialization (bincode_deserialize B bundle_bytes)) (\<lambda>bundle.
       Ok (sb_identity_key bundle))"

definition bundle_version :: "('ik, 'pub, 'kpub, 'pkb) bundle_lib \<Rightarrow> bytes
    \<Rightarrow> (lotl_error, string) outcome" where
  "bundle_version B bundle_bytes =
     obind (omap_err Serialization (bincode_deserialize B bundle_bytes)) (\<lambda>bundle.
       Ok (sb_version bundle))"

section \<open>Sessions and messages\<close>

definition invalid_device_id :: "string \<Rightarrow> lotl_error" where
  "invalid_device_id e = Storage (FmtText ''Invalid device ID: '' e)"

definition process_prekey_bundle :: "('ik, 'pub, 'kpub, 'pkb) bundle_lib
    \<Rightarrow> ('sess, 'ikp, 'ik, 'pk, 'spk, 'kyr) store_libs
    \<Rightarrow> (conn, 'sess, 'ikp, 'ik, 'pk, 'spk, 'kyr, 'pkb, 'ct) protocol_lib \<Rightarrow> string \<Rightarrow> bytes \<Rightarrow> Lotl
    \<Rightarrow> (lotl_error, unit) outcome \<times> Lotl" where
  "process_prekey_bundle B S P peer_id bundle_bytes l =
     and_then (ensure_storage_initialized l) (\<lambda>_ l.
     and_then (map_err Serialization (bincode_deserialize B bundle_bytes, l)) (\<lambda>sb. on_storage (\<lambda>s.
     and_then (map_err SignalProtocol (ik_decode (sl_identities S) (sb_identity_key sb), s))
       (\<lambda>identity_key s.
     and_then (map_err (\<lambda>e. Crypto (FmtText ''Failed to deserialize pre-key public: '' e))
       (public_key_deserialize B (sb_pre_key_public sb), s)) (\<lambda>pre_key_public s.
     and_then (map_err (\<lambda>e. Crypto (FmtText ''Failed to deserialize signed pre-key public: '' e))
       (public_key_deserialize B (sb_signed_pre_key_public sb), s)) (\<lambda>signed_pre_key_public s.
     and_then (map_err (\<lambda>e. Crypto (FmtText ''Failed to deserialize kyber pre-key public: '' e))
       (kem_public_key_deserialize B (sb_kyber_pre_key_public sb), s)) (\<lambda>kyber_pre_key_public s.
     and_then (map_err invalid_device_id (device_id_new B (sb_device_id sb), s)) (\<lambda>bundle_device s.
     and_then (map_err SignalProtocol (pre_key_bundle_new B (sb_registration_id sb) bundle_device
       (Some (sb_pre_key_id sb, pre_key_public)) (sb_signed_pre_key_id sb) signed_pre_key_public
       (sb_signed_pre_key_signature sb) (sb_kyber_pre_key_id sb) kyber_pre_key_public
       (sb_kyber_pre_key_signature sb) identity_key, s)) (\<lambda>bundle s.
     and_then (map_err invalid_device_id (device_id_new B (sb_device_id sb), s)) (\<lambda>device s.
     and_then (map_err boxed (sqlite_establish_session_from_bundle P (sl_sessions S) (sl_identities S)
       \<lparr>address_name = peer_id, address_device_id = device\<rparr> bundle s)) (\<lambda>_ s.
     (Ok (), s))))))))))))"

definition encrypt :: "('ik, 'pub, 'kpub, 'pkb) bundle_lib \<Rightarrow> 'ct wire_lib
    \<Rightarrow> ('sess, 'ikp, 'ik, 'pk, 'spk, 'kyr) store_libs
    \<Rightarrow> (conn, 'sess, 'ikp, 'ik, 'pk, 'spk, 'kyr, 'pkb, 'ct) protocol_lib \<Rightarrow> string \<Rightarrow> bytes \<Rightarrow> Lotl
    \<Rightarrow> (lotl_error, bytes) outcome \<times> Lotl" where
  "encrypt B W S P peer_id plaintext l =
     and_then (ensure_storage_initialized l) (\<lambda>_. on_storage (\<lambda>s.
     and_then (map_err invalid_device_id (device_id_new B 1, s)) (\<lambda>device s.
     and_then (map_err SignalProtocol (sqlite_encrypt_message P (sl_sessions S) (sl_identities S)
       \<lparr>address_name = peer_id, address_device_id = device\<rparr> plaintext s)) (\<lambda>ciphertext s.
     (Ok (ciphertext_serialize W ciphertext), s)))))"

text \<open>A ciphertext that does not parse as a pre-key message is parsed as an ordinary one.\<close>

definition parse_ciphertext :: "'ct wire_lib \<Rightarrow> bytes \<Rightarrow> (lotl_error, 'ct) outcome" where
  "parse_ciphertext W ciphertext =
     (case pre_key_message_try_from W ciphertext of
        Ok m \<Rightarrow> Ok m
      | Err _ \<Rightarrow> omap_err SignalProtocol (signal_message_try_from W ciphertext)
      | Panic p \<Rightarrow> Panic p)"

definition decrypt :: "('ik, 'pub, 'kpub, 'pkb) bundle_lib \<Rightarrow> 'ct wire_lib
    \<Rightarrow> ('sess, 'ikp, 'ik, 'pk, 'spk, 'kyr) store_libs
    \<Rightarrow> (conn, 'sess, 'ikp, 'ik, 'pk, 'spk, 'kyr, 'pkb, 'ct) protocol_lib \<Rightarrow> string \<Rightarrow> bytes \<Rightarrow> Lotl
    \<Rightarrow> (lotl_error, bytes) outcome \<times> Lotl" where
  "decrypt B W S P peer_id ciphertext l =
     and_then (ensure_storage_initialized l) (\<lambda>_. on_storage (\<lambda>s.
     and_then (map_err invalid_device_id (device_id_new B 1, s)) (\<lambda>device s.
     and_then (parse_ciphertext W ciphertext, s) (\<lambda>ciphertext_message s.
     and_then (map_err SignalProtocol (sqlite_decrypt_message P (sl_sessions S) (sl_identities S)
       (sl_pre_keys S) (sl_signed S) (sl_kyber S) (sl_rank S)
       \<lparr>address_name = peer_id, address_device_id = device\<rparr> ciphertext_message s)) (\<lambda>plaintext s.
     (Ok plaintext, s))))))"

text \<open>
  \<^verbatim>\<open>has_session\<close> returns \<open>False\<close> on every failure, also when the mutex is poisoned; the prepared
  statement counts the rows of the peer on device 1.
\<close>

definition has_session :: "string \<Rightarrow> Lotl \<Rightarrow> bool \<times> Lotl" where
  "has_session peer_id l =
     (if lo_storage l = None \<or> poisoned (lo_connection l) then (False, l)
      else case and_then (prepare ''sessions'' sessions (lo_connection l)) (\<lambda>_.
             query_all ''sessions'' sessions (\<lambda>rows.
               length (filter (\<lambda>r. se_address r = peer_id \<and> se_device_id r = 1) rows))) of
             (Ok n, c) \<Rightarrow> (0 < n, l\<lparr>lo_connection := c\<rparr>)
           | (_, c) \<Rightarrow> (False, l\<lparr>lo_connection := c\<rparr>))"

definition lotl_delete_session :: "('ik, 'pub, 'kpub, 'pkb) bundle_lib
    \<Rightarrow> ('sess, 'ikp, 'ik, 'pk, 'spk, 'kyr) store_libs \<Rightarrow> string \<Rightarrow> Lotl
    \<Rightarrow> (lotl_error, unit) outcome \<times> Lotl" where
  "lotl_delete_session B S peer_id l =
     and_then (ensure_storage_initialized l) (\<lambda>_. on_storage (\<lambda>s.
     and_then (map_err invalid_device_id (device_id_new B 1, s)) (\<lambda>device s.
     and_then (map_err boxed (delete_session (sqlite_session_store (sl_sessions S))
       \<lparr>address_name = peer_id, address_device_id = device\<rparr> s)) (\<lambda>_ s.
     (Ok (), s)))))"

section \<open>Maintenance\<close>

text \<open>Rotating one kind of key when it is due; \<open>needs\<close> and \<open>renew\<close> are the two functions called.\<close>

definition rotate_if_due :: "('s \<Rightarrow> (box_error, bool) outcome \<times> 's)
    \<Rightarrow> ('s \<Rightarrow> (box_error, unit) outcome \<times> 's) \<Rightarrow> 's \<Rightarrow> (lotl_error, bool) outcome \<times> 's" where
  "rotate_if_due needs renew s =
     and_then (map_err boxed (needs s)) (\<lambda>due s.
       if due then and_then (map_err boxed (renew s)) (\<lambda>_ s. (Ok True, s)) else (Ok False, s))"

text \<open>\<open>clk i\<close> is the \<open>i\<close>-th reading of the clock; the counts are \<^verbatim>\<open>usize\<close>.\<close>

definition perform_key_maintenance :: "('sess, 'ikp, 'ik, 'pk, 'spk, 'kyr) store_libs
    \<Rightarrow> ('ikp, 'kp, 'kyp, 'pk, 'spk, 'kyr) maker_libs \<Rightarrow> ('ikp, 'kp, 'kyp) randomness
    \<Rightarrow> bool \<Rightarrow> (nat \<Rightarrow> clock) \<Rightarrow> Lotl \<Rightarrow> (lotl_error, MaintenanceResult) outcome \<times> Lotl" where
  "perform_key_maintenance S M R oc clk l =
     (let ids = sqlite_identity_store (sl_identities S); pres = sqlite_pre_key_store (sl_pre_keys S);
          signeds = sqlite_signed_store (sl_signed S) (sl_rank S);
          kybers = sqlite_kyber_store (sl_kyber S) (sl_rank S) in
     and_then (ensure_storage_initialized l) (\<lambda>_. on_storage (\<lambda>s.
     and_then (map_err SignalProtocol (get_identity_key_pair ids s)) (\<lambda>identity_key_pair s.
     and_then (rotate_if_due (signed_pre_key_needs_rotation signeds (sl_signed S) oc (clk 0))
       (rotate_signed_pre_key signeds (sl_signed S) (ml_signed M) oc (clk 1) (rn_signed R)
          identity_key_pair) s) (\<lambda>signed_rotated s.
     and_then (rotate_if_due (kyber_pre_key_needs_rotation kybers (sl_kyber S) oc (clk 2))
       (rotate_kyber_pre_key kybers (ml_kyber M) oc (clk 3) (rn_kyber R)
          identity_key_pair) s) (\<lambda>kyber_rotated s.
     and_then (map_err boxed (pre_key_count pres s)) (\<lambda>count_before s.
     and_then (if count_before < MIN_PRE_KEY_COUNT
               then map_err boxed (replenish_pre_keys pres (ml_pre_key M) oc (rn_pre_keys R) s)
               else (Ok (), s)) (\<lambda>_ s.
     and_then (map_err boxed (pre_key_count pres s)) (\<lambda>count_after s.
     and_then (map_err boxed (cleanup_expired_signed_pre_keys signeds oc (clk 4) s)) (\<lambda>_ s.
     and_then (map_err boxed (cleanup_expired_kyber_pre_keys kybers oc (clk 5) s)) (\<lambda>_ s.
     (Ok \<lparr>pre_keys_generated = word_of_nat (count_after - count_before),
          signed_pre_key_rotated = signed_rotated, kyber_pre_key_rotated = kyber_rotated\<rparr>,
      s))))))))))))"

section \<open>Contacts and Nostr\<close>

definition lotl_add_contact :: "('z) digest_lib_scheme \<Rightarrow> clock \<Rightarrow> bytes \<Rightarrow> string option \<Rightarrow> Lotl
    \<Rightarrow> (lotl_error, string) outcome \<times> Lotl" where
  "lotl_add_contact D now identity_key alias l =
     on_connection (add_contact D now identity_key alias (fingerprint_salt (lo_config l))
       (fingerprint_prefix (lo_config l))) l"

definition lotl_lookup_contact :: "string \<Rightarrow> Lotl \<Rightarrow> (lotl_error, ContactInfo option) outcome \<times> Lotl"
  where
  "lotl_lookup_contact fingerprint = on_connection (lookup_contact fingerprint)"

definition lotl_list_contacts :: "(string \<Rightarrow> nat) \<Rightarrow> Lotl
    \<Rightarrow> (lotl_error, ContactInfo list) outcome \<times> Lotl" where
  "lotl_list_contacts rank = on_connection (list_contacts rank)"

definition lotl_derive_nostr_keypair :: "('sk, 'pk) nostr_lib \<Rightarrow> NostrConfig \<Rightarrow> Lotl
    \<Rightarrow> (lotl_error, ('sk, 'pk) NostrKeys) outcome \<times> Lotl" where
  "lotl_derive_nostr_keypair N config l =
     and_then (get_identity_key l) (\<lambda>identity_key l. (derive_nostr_keypair N identity_key config, l))"

definition get_peer_nostr_pubkey :: "string \<Rightarrow> Lotl \<Rightarrow> (lotl_error, string option) outcome \<times> Lotl"
  where
  "get_peer_nostr_pubkey fingerprint = on_connection (\<lambda>c.
     and_then (init_nostr_tables c) (\<lambda>_ c. get_nostr_pubkey fingerprint c))"

definition lotl_store_nostr_identity :: "string \<Rightarrow> string \<Rightarrow> NostrConfig \<Rightarrow> Lotl
    \<Rightarrow> (lotl_error, unit) outcome \<times> Lotl" where
  "lotl_store_nostr_identity fingerprint nostr_pubkey config = on_connection (\<lambda>c.
     and_then (init_nostr_tables c) (\<lambda>_ c.
     and_then (store_nostr_identity fingerprint nostr_pubkey (derivation_context config) c) (\<lambda>_ c.
     (Ok (), c))))"

end
