(* ===== verification/Local_Identity_Laws.thy ===== *)
theory Local_Identity_Laws
  imports Sample_Library
begin

text \<open>
  The local identity of the SQLite backend: one row with the key pair and the registration id,
  each settable before the other; and the frame rules that say what an operation on one table
  leaves alone in the others.
\<close>

section \<open>Frames\<close>

text \<open>The storage with the local identity blanked out.\<close>

definition without_local :: "sqlite_storage \<Rightarrow> sqlite_storage" where
  "without_local s = s\<lparr>st_connection := (st_connection s)\<lparr>local_identity := None\<rparr>\<rparr>"

text \<open>Two storages that agree once \<open>f\<close> blanks out a table agree on everything else.\<close>

lemma agree_column:
  assumes "s'\<lparr>st_connection := f (st_connection s')\<rparr> = s\<lparr>st_connection := f (st_connection s)\<rparr>"
    "\<And>c. col (f c) = col c"
  shows "col (st_connection s') = col (st_connection s)"
proof -
  have "f (st_connection s') = f (st_connection s)"
    using assms(1) by (cases s; cases s') simp
  then show ?thesis using assms(2) by metis
qed

lemma agree_ready:
  assumes "s'\<lparr>st_connection := f (st_connection s')\<rparr> = s\<lparr>st_connection := f (st_connection s)\<rparr>"
    "\<And>c. faults (f c) = faults c" "\<And>c. poisoned (f c) = poisoned c"
  shows "ready s' = ready s"
  using agree_column [of f s' s faults, OF assms(1,2)] agree_column [of f s' s poisoned, OF assms(1,3)]
    assms(1)
  by (cases s; cases s') (simp add: ready_def healthy_def)

lemma without_local_frame:
  assumes "without_local s' = without_local s"
  shows "ready s' = ready s"
    "sessions (st_connection s') = sessions (st_connection s)"
    "pre_keys (st_connection s') = pre_keys (st_connection s)"
    "signed_pre_keys (st_connection s') = signed_pre_keys (st_connection s)"
    "kyber_pre_keys (st_connection s') = kyber_pre_keys (st_connection s)"
  by (rule agree_ready [OF assms [unfolded without_local_def]]
      agree_column [OF assms [unfolded without_local_def]]; simp)+

lemma without_pre_keys_frame:
  assumes "without_pre_keys s' = without_pre_keys s"
  shows "ready s' = ready s"
    "sessions (st_connection s') = sessions (st_connection s)"
    "local_identity (st_connection s') = local_identity (st_connection s)"
    "signed_pre_keys (st_connection s') = signed_pre_keys (st_connection s)"
    "kyber_pre_keys (st_connection s') = kyber_pre_keys (st_connection s)"
  by (rule agree_ready [OF assms [unfolded without_pre_keys_def]]
      agree_column [OF assms [unfolded without_pre_keys_def]]; simp)+

lemma without_signed_frame:
  assumes "without_signed s' = without_signed s"
  shows "ready s' = ready s"
    "sessions (st_connection s') = sessions (st_connection s)"
    "local_identity (st_connection s') = local_identity (st_connection s)"
    "pre_keys (st_connection s') = pre_keys (st_connection s)"
    "kyber_pre_keys (st_connection s') = kyber_pre_keys (st_connection s)"
  by (rule agree_ready [OF assms [unfolded without_signed_def]]
      agree_column [OF assms [unfolded without_signed_def]]; simp)+

lemma without_kyber_frame:
  assumes "without_kyber s' = without_kyber s"
  shows "ready s' = ready s"
    "sessions (st_connection s') = sessions (st_connection s)"
    "local_identity (st_connection s') = local_identity (st_connection s)"
    "pre_keys (st_connection s') = pre_keys (st_connection s)"
    "signed_pre_keys (st_connection s') = signed_pre_keys (st_connection s)"
  by (rule agree_ready [OF assms [unfolded without_kyber_def]]
      agree_column [OF assms [unfolded without_kyber_def]]; simp)+

text \<open>Goodness and views of a store depend on its own table and on the readiness of the storage.\<close>

lemma pre_keys_depends:
  assumes "pre_keys (st_connection s') = pre_keys (st_connection s)" "ready s' = ready s"
  shows "sqlite_pre_keys_good L s' = sqlite_pre_keys_good L s"
    "sqlite_pre_keys_view L s' = sqlite_pre_keys_view L s"
  using assms by (simp_all add: sqlite_pre_keys_good_def sqlite_pre_keys_view_def)

lemma signed_depends:
  assumes "signed_pre_keys (st_connection s') = signed_pre_keys (st_connection s)"
    "ready s' = ready s"
  shows "sqlite_signed_good L s' = sqlite_signed_good L s"
    "sqlite_signed_view L s' = sqlite_signed_view L s"
  using assms by (simp_all add: sqlite_signed_good_def sqlite_signed_view_def)

lemma kyber_depends:
  assumes "kyber_pre_keys (st_connection s') = kyber_pre_keys (st_connection s)"
    "ready s' = ready s"
  shows "sqlite_kyber_good L s' = sqlite_kyber_good L s"
    "sqlite_kyber_view L s' = sqlite_kyber_view L s"
  using assms by (simp_all add: sqlite_kyber_good_def sqlite_kyber_view_def)

section \<open>The local identity row\<close>

definition identity_good :: "sqlite_storage \<Rightarrow> bool" where
  "identity_good s \<longleftrightarrow> ready s \<and> local_identity (st_connection s) \<noteq> None"

definition local_row :: "sqlite_storage \<Rightarrow> local_identity_row option" where
  "local_row s = (case local_identity (st_connection s) of
     None \<Rightarrow> None | Some rows \<Rightarrow> find_row li_id 1 rows)"

lemma identity_depends:
  assumes "local_identity (st_connection s') = local_identity (st_connection s)" "ready s' = ready s"
  shows "identity_good s' = identity_good s" "local_row s' = local_row s"
  using assms by (simp_all add: identity_good_def local_row_def)

lemma set_pair_law:
  assumes "identity_good s"
  shows "\<exists>s' r. set_local_identity_key_pair (sqlite_identity_store I) kp s = (Ok (), s') \<and>
    identity_good s' \<and> without_local s' = without_local s \<and> local_row s' = Some r \<and>
    li_private_key r = pair_serialize I kp \<and>
    li_public_key r = ik_serialize I (pair_identity_key I kp) \<and>
    li_registration_id r = (case local_row s of Some r \<Rightarrow> li_registration_id r | None \<Rightarrow> 0)"
  using assms
  by (auto simp: identity_good_def sqlite_identity_store_def sqlite_set_local_identity_key_pair_def
      sql_simps ready_update without_local_def local_row_def find_row_upsert Let_def)

lemma set_registration_law:
  assumes "identity_good s"
  shows "\<exists>s' r. set_local_registration_id (sqlite_identity_store I) n s = (Ok (), s') \<and>
    identity_good s' \<and> without_local s' = without_local s \<and> local_row s' = Some r \<and>
    li_registration_id r = n \<and>
    li_private_key r = (case local_row s of Some r \<Rightarrow> li_private_key r | None \<Rightarrow> []) \<and>
    li_public_key r = (case local_row s of Some r \<Rightarrow> li_public_key r | None \<Rightarrow> [])"
  using assms
  by (auto simp: identity_good_def sqlite_identity_store_def sqlite_set_local_registration_id_def
      sql_simps ready_update without_local_def local_row_def find_row_upsert Let_def)

lemma get_pair_law:
  assumes "identity_good s"
  shows "local_row s = None \<Longrightarrow> get_identity_key_pair (sqlite_identity_store I) s =
      (Err (InvalidState ''storage'' (Text ''Local identity key pair not set'')), s)"
    and "local_row s = Some r \<Longrightarrow> pair_try_from I (li_private_key r) = Ok kp \<Longrightarrow>
      get_identity_key_pair (sqlite_identity_store I) s = (Ok kp, s)"
  using assms
  by (auto simp: identity_good_def sqlite_identity_store_def sqlite_get_identity_key_pair_def
      sql_simps local_row_def decode_row_def find_is_find_row)

lemma get_registration_law:
  assumes "identity_good s"
  shows "get_local_registration_id (sqlite_identity_store I) s =
    ((case local_row s of
        None \<Rightarrow> Err (InvalidState ''storage'' (Text ''Local registration ID not set''))
      | Some r \<Rightarrow> Ok (li_registration_id r)), s)"
  using assms
  by (auto simp: identity_good_def sqlite_identity_store_def sqlite_get_local_registration_id_def
      sql_simps local_row_def find_is_find_row split: option.splits)

section \<open>Setting and reading the local identity\<close>

text \<open>
  The local identity: whichever of the key pair and the registration id is set first, both are
  read back afterwards; before, neither can be read.
\<close>

theorem local_identity_round_trip:
  assumes "identity_good s" "local_row s = None" "pair_try_from I (pair_serialize I kp) = Ok kp"
  defines "st \<equiv> sqlite_identity_store I"
  shows "(\<exists>e. get_identity_key_pair st s = (Err e, s)) \<and>
    (\<exists>s1 s2. set_local_identity_key_pair st kp s = (Ok (), s1) \<and>
      set_local_registration_id st n s1 = (Ok (), s2) \<and>
      get_identity_key_pair st s2 = (Ok kp, s2) \<and> get_local_registration_id st s2 = (Ok n, s2)) \<and>
    (\<exists>s1 s2. set_local_registration_id st n s = (Ok (), s1) \<and>
      set_local_identity_key_pair st kp s1 = (Ok (), s2) \<and>
      get_identity_key_pair st s2 = (Ok kp, s2) \<and> get_local_registration_id st s2 = (Ok n, s2))"
proof (intro conjI)
  show "\<exists>e. get_identity_key_pair st s = (Err e, s)"
    unfolding st_def using get_pair_law(1) [OF assms(1,2)] by blast
  obtain s1 r1 where s1: "set_local_identity_key_pair st kp s = (Ok (), s1)" "identity_good s1"
    "local_row s1 = Some r1" "li_private_key r1 = pair_serialize I kp"
    unfolding st_def using set_pair_law [OF assms(1), of I kp] by blast
  obtain s2 r2 where "set_local_registration_id st n s1 = (Ok (), s2)" "identity_good s2"
    "local_row s2 = Some r2" "li_registration_id r2 = n" "li_private_key r2 = pair_serialize I kp"
    unfolding st_def using set_registration_law [OF s1(2), of I n] s1(3,4) by auto
  with s1(1) assms(3) show "\<exists>s1 s2. set_local_identity_key_pair st kp s = (Ok (), s1) \<and>
      set_local_registration_id st n s1 = (Ok (), s2) \<and>
      get_identity_key_pair st s2 = (Ok kp, s2) \<and> get_local_registration_id st s2 = (Ok n, s2)"
    unfolding st_def by (intro exI [of _ s1] exI [of _ s2]) (simp add: get_pair_law get_registration_law)
next
  obtain s1 r1 where s1: "set_local_registration_id st n s = (Ok (), s1)" "identity_good s1"
    "local_row s1 = Some r1" "li_registration_id r1 = n"
    unfolding st_def using set_registration_law [OF assms(1), of I n] by blast
  obtain s2 r2 where "set_local_identity_key_pair st kp s1 = (Ok (), s2)" "identity_good s2"
    "local_row s2 = Some r2" "li_registration_id r2 = n" "li_private_key r2 = pair_serialize I kp"
    unfolding st_def using set_pair_law [OF s1(2), of I kp] s1(3,4) by auto
  with s1(1) assms(3) show "\<exists>s1 s2. set_local_registration_id st n s = (Ok (), s1) \<and>
      set_local_identity_key_pair st kp s1 = (Ok (), s2) \<and>
      get_identity_key_pair st s2 = (Ok kp, s2) \<and> get_local_registration_id st s2 = (Ok n, s2)"
    unfolding st_def by (intro exI [of _ s1] exI [of _ s2]) (simp add: get_pair_law get_registration_law)
qed

theorem local_identity_round_trip_witness:
  "\<exists>s2. get_identity_key_pair (sqlite_identity_store sample_identities) s2 = (Ok [1, 2], s2) \<and>
    get_local_registration_id (sqlite_identity_store sample_identities) s2 = (Ok 7, s2)"
proof -
  have "identity_good sample_storage" "local_row sample_storage = None"
    by (simp_all add: sample_storage_eq identity_good_def local_row_def ready_def healthy_def
        empty_conn_def)
  moreover have "pair_try_from sample_identities (pair_serialize sample_identities [1, 2]) = Ok [1, 2]"
    by (simp add: sample_identities_def)
  ultimately show ?thesis using local_identity_round_trip [of sample_storage sample_identities "[1, 2]" 7]
    by blast
qed

end
