(* ===== verification/Lotl_Api_Laws.thy ===== *)
theory Lotl_Api_Laws
  imports Lotl_Api Local_Identity_Laws Key_Rotation_Laws
begin

text \<open>
  The public interface from the contracts of the stores it composes: the storage an instance works
  on, what a bundle holds, and what one maintenance run does step by step.
\<close>

section \<open>The storage of an instance\<close>

text \<open>The storage as the methods see it: with the shared connection.\<close>

definition storage_of :: "Lotl \<Rightarrow> sqlite_storage option" where
  "storage_of l = map_option (\<lambda>st. st\<lparr>st_connection := lo_connection l\<rparr>) (lo_storage l)"

lemma storage_of_put [simp]:
  "storage_of (l\<lparr>lo_connection := st_connection s, lo_storage := Some s\<rparr>) = Some s"
  by (simp add: storage_of_def)

lemma ensure_storage_present [simp]:
  "storage_of l = Some s \<Longrightarrow> ensure_storage_initialized l = (Ok (), l)"
  by (auto simp: ensure_storage_initialized_def storage_of_def)

definition with_storage :: "Lotl \<Rightarrow> sqlite_storage \<Rightarrow> Lotl" where
  "with_storage l s = l\<lparr>lo_connection := st_connection s, lo_storage := Some s\<rparr>"

lemma storage_of_with [simp]: "storage_of (with_storage l s) = Some s"
  "lo_config (with_storage l s) = lo_config l" "lo_connection (with_storage l s) = st_connection s"
  by (simp_all add: with_storage_def storage_of_def)

lemma on_storage_present:
  "storage_of l = Some s \<Longrightarrow> on_storage f l = (case f s of (r, s') \<Rightarrow> (r, with_storage l s'))"
  by (auto simp: storage_of_def on_storage_def with_storage_def split: option.splits)

text \<open>The key stores and the local identity of an instance are in order.\<close>

definition stores_good :: "('sess, 'ikp, 'ik, 'pk, 'spk, 'kyr) store_libs \<Rightarrow> sqlite_storage \<Rightarrow> bool" where
  "stores_good S s \<longleftrightarrow> identity_good s \<and> sqlite_pre_keys_good (sl_pre_keys S) s \<and>
     sqlite_signed_good (sl_signed S) s \<and> sqlite_kyber_good (sl_kyber S) s"

definition identity_of :: "('sess, 'ikp, 'ik, 'pk, 'spk, 'kyr) store_libs \<Rightarrow> sqlite_storage
    \<Rightarrow> 'ikp option" where
  "identity_of S s = Option.bind (local_row s) (\<lambda>r. decoded (pair_try_from (sl_identities S)) (li_private_key r))"

abbreviation pre_view where "pre_view S \<equiv> sqlite_pre_keys_view (sl_pre_keys S)"
abbreviation signed_view where "signed_view S \<equiv> sqlite_signed_view (sl_signed S)"
abbreviation kyber_view where "kyber_view S \<equiv> sqlite_kyber_view (sl_kyber S)"

abbreviation pres_of where "pres_of S \<equiv> sqlite_pre_key_store (sl_pre_keys S)"
abbreviation signeds_of where "signeds_of S \<equiv> sqlite_signed_store (sl_signed S) (sl_rank S)"
abbreviation kybers_of where "kybers_of S \<equiv> sqlite_kyber_store (sl_kyber S) (sl_rank S)"

lemma decoded_Some_iff: "decoded dec b = Some v \<longleftrightarrow> dec b = Ok v"
  by (simp add: decoded_def split: outcome.splits)

lemma get_identity_of:
  assumes "stores_good S s" "identity_of S s = Some kp"
  shows "get_identity_key_pair (sqlite_identity_store (sl_identities S)) s = (Ok kp, s)"
proof -
  obtain r where "local_row s = Some r" "pair_try_from (sl_identities S) (li_private_key r) = Ok kp"
    using assms(2) by (auto simp: identity_of_def decoded_Some_iff Option.bind_eq_Some_conv)
  with assms(1) show ?thesis by (simp add: stores_good_def get_pair_law(2))
qed

text \<open>An operation on one store leaves the others good and as they were.\<close>

lemma stores_after_pre_keys:
  assumes "stores_good S s" "sqlite_pre_keys_good (sl_pre_keys S) s'"
    "without_pre_keys s' = without_pre_keys s"
  shows "stores_good S s'" "signed_view S s' = signed_view S s" "kyber_view S s' = kyber_view S s"
    "identity_of S s' = identity_of S s"
  using assms without_pre_keys_frame [OF assms(3)] identity_depends [of s' s]
    signed_depends [of s' s "sl_signed S"] kyber_depends [of s' s "sl_kyber S"]
  by (simp_all add: stores_good_def identity_of_def)

lemma stores_after_signed:
  assumes "stores_good S s" "sqlite_signed_good (sl_signed S) s'"
    "without_signed s' = without_signed s"
  shows "stores_good S s'" "pre_view S s' = pre_view S s" "kyber_view S s' = kyber_view S s"
    "identity_of S s' = identity_of S s"
  using assms without_signed_frame [OF assms(3)] identity_depends [of s' s]
    pre_keys_depends [of s' s "sl_pre_keys S"] kyber_depends [of s' s "sl_kyber S"]
  by (simp_all add: stores_good_def identity_of_def)

lemma stores_after_kyber:
  assumes "stores_good S s" "sqlite_kyber_good (sl_kyber S) s'"
    "without_kyber s' = without_kyber s"
  shows "stores_good S s'" "pre_view S s' = pre_view S s" "signed_view S s' = signed_view S s"
    "identity_of S s' = identity_of S s"
  using assms without_kyber_frame [OF assms(3)] identity_depends [of s' s]
    pre_keys_depends [of s' s "sl_pre_keys S"] signed_depends [of s' s "sl_signed S"]
  by (simp_all add: stores_good_def identity_of_def)

lemma stores_after_identity:
  assumes "stores_good S s" "identity_good s'" "without_local s' = without_local s"
  shows "stores_good S s'" "pre_view S s' = pre_view S s" "signed_view S s' = signed_view S s"
    "kyber_view S s' = kyber_view S s"
  using assms without_local_frame [OF assms(3)]
    pre_keys_depends [of s' s "sl_pre_keys S"] signed_depends [of s' s "sl_signed S"] kyber_depends [of s' s "sl_kyber S"]
  by (simp_all add: stores_good_def)

section \<open>Bundles\<close>

text \<open>The newest key of a numbered store: the largest id and its record.\<close>

definition newest :: "(u32 \<Rightarrow> 'r option) \<Rightarrow> (u32 \<times> 'r) option" where
  "newest v = (if dom v = {} then None else Some (Max (dom v), the (v (Max (dom v)))))"

lemma newest_SomeD:
  assumes "newest v = Some (i, r)" "finite (dom v)"
  shows "v i = Some r" "dom v \<noteq> {}" "i = Max (dom v)"
proof -
  from assms(1) show ne: "dom v \<noteq> {}" and i: "i = Max (dom v)"
    by (auto simp: newest_def split: if_splits)
  from Max_in [OF assms(2) ne] obtain x where "v i = Some x" unfolding i by blast
  with assms(1) i show "v i = Some r" by (auto simp: newest_def split: if_splits)
qed

lemma newest_None [simp]: "newest v = None \<longleftrightarrow> v = Map.empty"
  by (simp add: newest_def)

lemma newest_empty [simp]: "newest Map.empty = None"
  by simp

lemma newest_id:
  assumes "f s = (Ok (if dom v = {} then None else Some (Max (dom v))), s)"
  shows "newest v = Some (i, r) \<Longrightarrow> newest_key_id none f s = (Ok i, s)"
    and "newest v = None \<Longrightarrow> newest_key_id none f s = (Err (KeyNotFound (Text none)), s)"
  using assms by (auto simp: newest_key_id_def newest_def split: if_splits)

text \<open>What \<open>build_bundle\<close> reads of a store: the newest id and its record, or that there is none.\<close>

context numbered_keys
begin

lemma newest_read:
  assumes "good s" "newest (view s) = Some (i, r)"
  shows "newest_key_id none max_id s = (Ok i, s)" "get i s = (Ok r, s)"
  using newest_id(1) [of max_id, OF max_view [OF assms(1)] assms(2)]
    get_present [OF assms(1) newest_SomeD(1) [OF assms(2) finite_view [OF assms(1)]]] by simp_all

lemma newest_missing:
  "good s \<Longrightarrow> view s = Map.empty \<Longrightarrow> newest_key_id none max_id s = (Err (KeyNotFound (Text none)), s)"
  using newest_id(2) [of max_id, OF max_view] by simp

end

text \<open>What a bundle must be made of.\<close>

definition bundle_for :: "('sess, 'ikp, 'ik, 'pk, 'spk, 'kyr) store_libs \<Rightarrow> sqlite_storage
    \<Rightarrow> SerializableBundle \<Rightarrow> bool" where
  "bundle_for S s b \<longleftrightarrow>
     (\<exists>kp pre signed kyber r.
        identity_of S s = Some kp \<and> local_row s = Some r \<and>
        newest (pre_view S s) = Some (sb_pre_key_id b, pre) \<and>
        newest (signed_view S s) = Some (sb_signed_pre_key_id b, signed) \<and>
        newest (kyber_view S s) = Some (sb_kyber_pre_key_id b, kyber) \<and>
        sb_version b = CARGO_PKG_VERSION \<and> sb_device_id b = 1 \<and>
        sb_registration_id b = li_registration_id r \<and>
        sb_identity_key b = ik_serialize (sl_identities S) (pair_identity_key (sl_identities S) kp) \<and>
        record_public_key (sl_pre_keys S) pre = Ok (sb_pre_key_public b) \<and>
        record_public_key (sl_signed S) signed = Ok (sb_signed_pre_key_public b) \<and>
        record_signature (sl_signed S) signed = Ok (sb_signed_pre_key_signature b) \<and>
        record_public_key (sl_kyber S) kyber = Ok (sb_kyber_pre_key_public b) \<and>
        record_signature (sl_kyber S) kyber = Ok (sb_kyber_pre_key_signature b))"

lemma build_bundle_good:
  assumes "stores_good S s" "bundle_for S s b"
  shows "build_bundle S s = (Ok b, s)"
proof -
  obtain kp pre signed kyber r where b: "identity_of S s = Some kp" "local_row s = Some r"
    "newest (pre_view S s) = Some (sb_pre_key_id b, pre)"
    "newest (signed_view S s) = Some (sb_signed_pre_key_id b, signed)"
    "newest (kyber_view S s) = Some (sb_kyber_pre_key_id b, kyber)"
    "b = \<lparr>sb_version = CARGO_PKG_VERSION, sb_registration_id = li_registration_id r,
      sb_device_id = 1, sb_pre_key_id = sb_pre_key_id b, sb_pre_key_public = sb_pre_key_public b,
      sb_signed_pre_key_id = sb_signed_pre_key_id b,
      sb_signed_pre_key_public = sb_signed_pre_key_public b,
      sb_signed_pre_key_signature = sb_signed_pre_key_signature b,
      sb_identity_key = ik_serialize (sl_identities S) (pair_identity_key (sl_identities S) kp),
      sb_kyber_pre_key_id = sb_kyber_pre_key_id b,
      sb_kyber_pre_key_public = sb_kyber_pre_key_public b,
      sb_kyber_pre_key_signature = sb_kyber_pre_key_signature b\<rparr>"
    "record_public_key (sl_pre_keys S) pre = Ok (sb_pre_key_public b)"
    "record_public_key (sl_signed S) signed = Ok (sb_signed_pre_key_public b)"
    "record_signature (sl_signed S) signed = Ok (sb_signed_pre_key_signature b)"
    "record_public_key (sl_kyber S) kyber = Ok (sb_kyber_pre_key_public b)"
    "record_signature (sl_kyber S) kyber = Ok (sb_kyber_pre_key_signature b)"
    using assms(2) unfolding bundle_for_def by (cases b) auto
  from assms(1) have good: "identity_good s" "sqlite_pre_keys_good (sl_pre_keys S) s"
    "sqlite_signed_good (sl_signed S) s" "sqlite_kyber_good (sl_kyber S) s"
    by (simp_all add: stores_good_def)
  note reads = sqlite_one_time.newest_read [OF good(2) b(3)] sqlite_signed.newest_read [OF good(3) b(4)]
    sqlite_kyber.newest_read [OF good(4) b(5)]
  show ?thesis
    by (simp add: build_bundle_def Let_def get_identity_of [OF assms(1) b(1)]
        get_registration_law [OF good(1)] b(2) reads b(7-11) b(6) [symmetric])
qed

text \<open>The first missing key decides the error.\<close>

lemma build_bundle_missing:
  assumes "stores_good S s" "identity_of S s = Some kp"
  shows "pre_view S s = Map.empty \<Longrightarrow>
      build_bundle S s = (Err (KeyNotFound (Text ''No pre-keys available'')), s)"
    and "pre_view S s \<noteq> Map.empty \<Longrightarrow> signed_view S s = Map.empty \<Longrightarrow>
      build_bundle S s = (Err (KeyNotFound (Text ''No signed pre-key available'')), s)"
    and "pre_view S s \<noteq> Map.empty \<Longrightarrow> signed_view S s \<noteq> Map.empty \<Longrightarrow>
      kyber_view S s = Map.empty \<Longrightarrow>
      build_bundle S s = (Err (KeyNotFound (Text ''No kyber pre-key available'')), s)"
proof -
  from assms(1) have good: "identity_good s" "sqlite_pre_keys_good (sl_pre_keys S) s"
    "sqlite_signed_good (sl_signed S) s" "sqlite_kyber_good (sl_kyber S) s"
    by (simp_all add: stores_good_def)
  obtain row where row: "local_row s = Some row"
    using assms(2) by (auto simp: identity_of_def Option.bind_eq_Some_conv)
  have newest: "\<exists>i r. newest v = Some (i, r)" if "v \<noteq> Map.empty" for v :: "u32 \<Rightarrow> 'x option"
    using that newest_None [of v] by (cases "newest v") auto
  note start = get_identity_of [OF assms] get_registration_law [OF good(1)] row
  show "build_bundle S s = (Err (KeyNotFound (Text ''No pre-keys available'')), s)"
    if "pre_view S s = Map.empty"
    using that by (simp add: build_bundle_def Let_def start sqlite_one_time.newest_missing [OF good(2)])
  assume pre: "pre_view S s \<noteq> Map.empty"
  then obtain i p where "newest (pre_view S s) = Some (i, p)" using newest by blast
  note start = start sqlite_one_time.newest_read [OF good(2) this]
  show "build_bundle S s = (Err (KeyNotFound (Text ''No signed pre-key available'')), s)"
    if "signed_view S s = Map.empty"
    using that by (simp add: build_bundle_def Let_def start sqlite_signed.newest_missing [OF good(3)])
  assume "signed_view S s \<noteq> Map.empty" and none: "kyber_view S s = Map.empty"
  then obtain j k where "newest (signed_view S s) = Some (j, k)" using newest by blast
  note start = start sqlite_signed.newest_read [OF good(3) this]
  show "build_bundle S s = (Err (KeyNotFound (Text ''No kyber pre-key available'')), s)"
    by (simp add: build_bundle_def Let_def start sqlite_kyber.newest_missing [OF good(4) none])
qed

text \<open>
  C10: Generating a bundle publishes the identity and the newest key of each kind, stores nothing,
  and gives the same bytes with and without metadata; the receiver reads back from them the
  version of the crate and the identity key.
\<close>

theorem bundle_publishes_newest_keys:
  assumes "storage_of l = Some s" "stores_good S s" "bundle_for S s b"
    "bincode_serialize B b = Ok bytes" "bincode_deserialize B bytes = Ok b"
  shows "\<exists>l'. storage_of l' = Some s \<and> generate_prekey_bundle B S l = (Ok bytes, l') \<and>
    generate_prekey_bundle_with_metadata B S l =
      (Ok (bytes, Max (dom (pre_view S s)), Max (dom (signed_view S s)), Max (dom (kyber_view S s))), l') \<and>
    bundle_version B bytes = Ok ''0.1.0'' \<and>
    identity_key_from_bundle B bytes =
      Ok (ik_serialize (sl_identities S) (pair_identity_key (sl_identities S) (the (identity_of S s))))"
proof -
  have ids: "sb_pre_key_id b = Max (dom (pre_view S s))"
    "sb_signed_pre_key_id b = Max (dom (signed_view S s))"
    "sb_kyber_pre_key_id b = Max (dom (kyber_view S s))"
    using assms(3) by (auto simp: bundle_for_def newest_def split: if_splits)
  have "sb_version b = ''0.1.0''" "sb_identity_key b =
      ik_serialize (sl_identities S) (pair_identity_key (sl_identities S) (the (identity_of S s)))"
    using assms(3) by (auto simp: bundle_for_def CARGO_PKG_VERSION_def)
  with ids show ?thesis
    by (intro exI [of _ "with_storage l s"])
      (simp add: generate_prekey_bundle_def generate_prekey_bundle_with_metadata_def assms(1,4,5)
        on_storage_present build_bundle_good [OF assms(2,3)] bundle_version_def
        identity_key_from_bundle_def)
qed

text \<open>
  Without a key of some kind there is no bundle: the first kind that is missing, in the order
  pre-key, signed pre-key, Kyber pre-key, is the one reported, and nothing is stored.
\<close>

theorem bundle_reports_missing_key:
  assumes "storage_of l = Some s" "stores_good S s" "identity_of S s = Some kp"
    "pre_view S s = Map.empty \<or> signed_view S s = Map.empty \<or> kyber_view S s = Map.empty"
  shows "\<exists>l'. storage_of l' = Some s \<and> generate_prekey_bundle B S l =
    (Err (KeyNotFound (Text
       (if pre_view S s = Map.empty then ''No pre-keys available''
        else if signed_view S s = Map.empty then ''No signed pre-key available''
        else ''No kyber pre-key available''))), l')"
  using assms(1,4) build_bundle_missing [OF assms(2,3)]
  by (intro exI [of _ "with_storage l s"])
    (auto simp: generate_prekey_bundle_def on_storage_present)

section \<open>Maintenance\<close>

text \<open>
  The newest key is due when the store is empty or the key is older than seven days; the clock
  must not be behind it.
\<close>

definition rotation_due :: "('r, 'z) key_record_lib_scheme \<Rightarrow> (u32 \<Rightarrow> 'r option) \<Rightarrow> nat \<Rightarrow> bool" where
  "rotation_due L v ms \<longleftrightarrow> (case newest v of None \<Rightarrow> True
     | Some (i, r) \<Rightarrow> (case record_timestamp L r of
         Ok ts \<Rightarrow> 604800 < (unat (millis_u64 ms) - unat ts) div 1000 | _ \<Rightarrow> False))"

definition clock_fine :: "('r, 'z) key_record_lib_scheme \<Rightarrow> (u32 \<Rightarrow> 'r option) \<Rightarrow> nat \<Rightarrow> bool" where
  "clock_fine L v ms \<longleftrightarrow> (case newest v of None \<Rightarrow> True
     | Some (i, r) \<Rightarrow> (\<exists>ts. record_timestamp L r = Ok ts \<and> ts \<le> millis_u64 ms))"

text \<open>The keys after a rotation at \<open>ms1\<close>, if one was due at \<open>ms0\<close>.\<close>

definition rotated_view :: "('r, 'z) key_record_lib_scheme \<Rightarrow> ('ikp, 'kp, 'r) key_maker \<Rightarrow> nat \<Rightarrow> nat
    \<Rightarrow> 'kp \<Rightarrow> 'ikp \<Rightarrow> (u32 \<Rightarrow> 'r option) \<Rightarrow> u32 \<Rightarrow> 'r option" where
  "rotated_view L K ms0 ms1 kp ikp v =
     (if rotation_due L v ms0
      then (case calculate_signature K ikp (public_serialize K kp) of
              Ok sig \<Rightarrow> v(next_key_id v \<mapsto> record_new K (next_key_id v) (millis_u64 ms1) kp sig)
            | _ \<Rightarrow> v)
      else v)"

lemma rotated_view_nonempty:
  "is_ok (calculate_signature K ikp (public_serialize K kp)) \<Longrightarrow>
    rotated_view L K ms0 ms1 kp ikp v \<noteq> Map.empty"
  by (auto simp: rotated_view_def is_ok_iff rotation_due_def)

context rotating_keys
begin

lemma due_check:
  assumes "good s" "clock_fine L (view s) ms"
  shows "signed_pre_key_needs_rotation st L oc (Some ms) s = (Ok (rotation_due L (view s) ms), s)"
proof (cases "newest (view s)")
  case None
  with needs_rotation_empty [OF assms(1)] show ?thesis by (simp add: rotation_due_def)
next
  case (Some p)
  then obtain i r where p: "newest (view s) = Some (i, r)" by (cases p) simp
  note d = newest_SomeD [OF p finite_view [OF assms(1)]]
  obtain ts where ts: "record_timestamp L r = Ok ts" "ts \<le> millis_u64 ms"
    using assms(2) p by (auto simp: clock_fine_def)
  from needs_rotation [OF assms(1) _ ts(1,2)] d(1,3) ts(1) p show ?thesis
    by (simp add: rotation_due_def)
qed

lemma signed_step:
  assumes "good s" "clock_fine L (view s) ms0" "ids_left 1 (view s)" "key_maker_lawful K L"
    "\<forall>i r. rotating_storable L r \<longrightarrow> storable i r"
    "is_ok (calculate_signature K ikp (public_serialize K kp))"
  shows "\<exists>s'. rotate_if_due (signed_pre_key_needs_rotation st L oc (Some ms0))
      (rotate_signed_pre_key st L K oc (Some ms1) kp ikp) s =
        (Ok (rotation_due L (view s) ms0), s') \<and>
    good s' \<and> rest s' = rest s \<and> view s' = rotated_view L K ms0 ms1 kp ikp (view s)"
proof -
  obtain sig where sig: "calculate_signature K ikp (public_serialize K kp) = Ok sig"
    using assms(6) by (auto simp: is_ok_iff)
  note check = due_check [OF assms(1,2), of oc]
  show ?thesis
  proof (cases "rotation_due L (view s) ms0")
    case True
    with rotate_signed [OF assms(1,3-5) sig, of oc ms1] check sig show ?thesis
      by (auto simp: rotated_view_def rotate_if_due_def)
  next
    case False
    with check assms(1) show ?thesis by (auto simp: rotated_view_def rotate_if_due_def)
  qed
qed

lemma kyber_step:
  assumes "good s" "clock_fine L (view s) ms0" "ids_left 1 (view s)" "key_maker_lawful K L"
    "\<forall>i r. rotating_storable L r \<longrightarrow> storable i r"
    "is_ok (calculate_signature K ikp (public_serialize K kp))"
  shows "\<exists>s'. rotate_if_due (kyber_pre_key_needs_rotation st L oc (Some ms0))
      (rotate_kyber_pre_key st K oc (Some ms1) kp ikp) s =
        (Ok (rotation_due L (view s) ms0), s') \<and>
    good s' \<and> rest s' = rest s \<and> view s' = rotated_view L K ms0 ms1 kp ikp (view s)"
proof -
  obtain sig where sig: "calculate_signature K ikp (public_serialize K kp) = Ok sig"
    using assms(6) by (auto simp: is_ok_iff)
  note check = due_check [OF assms(1,2), of oc, folded kyber_needs_rotation_eq]
  show ?thesis
  proof (cases "rotation_due L (view s) ms0")
    case True
    with rotate_kyber [OF assms(1,3-5) sig, of oc ms1] check sig show ?thesis
      by (auto simp: rotated_view_def rotate_if_due_def)
  next
    case False
    with check assms(1) show ?thesis by (auto simp: rotated_view_def rotate_if_due_def)
  qed
qed

end

text \<open>The stock step: 100 new one-time keys when fewer than 50 are left.\<close>

definition stocked :: "(u32 \<Rightarrow> 'kp \<Rightarrow> 'pk) \<Rightarrow> (nat \<Rightarrow> 'kp) \<Rightarrow> (u32 \<Rightarrow> 'pk option) \<Rightarrow> u32 \<Rightarrow> 'pk option"
  where
  "stocked new gen v =
     (if card (dom v) < MIN_PRE_KEY_COUNT then with_run new gen (next_key_id v) 100 v else v)"

lemma card_stocked:
  "finite (dom v) \<Longrightarrow> ids_left 100 v \<Longrightarrow> card (dom (stocked new gen v)) =
    card (dom v) + (if card (dom v) < MIN_PRE_KEY_COUNT then 100 else 0)"
  by (simp add: stocked_def card_with_run)

lemma stock_step:
  assumes "sqlite_pre_keys_good L s" "ids_left 100 (sqlite_pre_keys_view L s)"
    "\<forall>i k. round_trips L (new i k)"
  defines "v \<equiv> sqlite_pre_keys_view L s" and "st \<equiv> sqlite_pre_key_store L"
  shows "\<exists>s'. (if card (dom v) < MIN_PRE_KEY_COUNT
        then map_err boxed (replenish_pre_keys st new oc gen s) else (Ok (), s)) = (Ok (), s') \<and>
    sqlite_pre_keys_good L s' \<and> without_pre_keys s' = without_pre_keys s \<and>
    sqlite_pre_keys_view L s' = stocked new gen v"
  using sqlite_one_time.replenish [OF assms(1,2), of new oc gen] assms
  by (auto simp: stocked_def map_err_Ok_conv)

text \<open>What maintenance needs: lawful libraries, room for new ids, and clocks that have not gone back.\<close>

definition maintainable :: "('sess, 'ikp, 'ik, 'pk, 'spk, 'kyr) store_libs
    \<Rightarrow> ('ikp, 'kp, 'kyp, 'pk, 'spk, 'kyr) maker_libs \<Rightarrow> ('ikp, 'kp, 'kyp) randomness
    \<Rightarrow> (nat \<Rightarrow> nat) \<Rightarrow> sqlite_storage \<Rightarrow> bool" where
  "maintainable S M R ms s \<longleftrightarrow> stores_good S s \<and>
     (\<exists>ikp. identity_of S s = Some ikp \<and>
        is_ok (calculate_signature (ml_signed M) ikp (public_serialize (ml_signed M) (rn_signed R))) \<and>
        is_ok (calculate_signature (ml_kyber M) ikp (public_serialize (ml_kyber M) (rn_kyber R)))) \<and>
     key_maker_lawful (ml_signed M) (sl_signed S) \<and> key_maker_lawful (ml_kyber M) (sl_kyber S) \<and>
     (\<forall>i k. round_trips (sl_pre_keys S) (ml_pre_key M i k)) \<and>
     ids_left 100 (pre_view S s) \<and> ids_left 1 (signed_view S s) \<and> ids_left 1 (kyber_view S s) \<and>
     clock_fine (sl_signed S) (signed_view S s) (ms 0) \<and>
     clock_fine (sl_kyber S) (kyber_view S s) (ms 2) \<and>
     (\<forall>i \<in> {4, 5}. unat (GRACE_PERIOD_SECS * 1000) \<le> ms i \<and> ms i < 2 ^ 64)"

abbreviation cutoff_at :: "nat \<Rightarrow> u64" where
  "cutoff_at ms \<equiv> millis_u64 ms - GRACE_PERIOD_SECS * 1000"

lemmas stores_goodD = stores_good_def [THEN iffD1, THEN conjunct2, THEN conjunct1]
  stores_good_def [THEN iffD1, THEN conjunct2, THEN conjunct2, THEN conjunct1]
  stores_good_def [THEN iffD1, THEN conjunct2, THEN conjunct2, THEN conjunct2]

text \<open>The three parts of a maintenance run: two rotations, the stock, two clean-ups.\<close>

lemma maintenance_rotations:
  assumes "maintainable S M R ms s" "identity_of S s = Some ikp"
  defines "signeds \<equiv> sqlite_signed_store (sl_signed S) (sl_rank S)"
    and "kybers \<equiv> sqlite_kyber_store (sl_kyber S) (sl_rank S)"
  shows "\<exists>s1 s2. rotate_if_due (signed_pre_key_needs_rotation signeds (sl_signed S) oc (Some (ms 0)))
      (rotate_signed_pre_key signeds (sl_signed S) (ml_signed M) oc (Some (ms 1)) (rn_signed R) ikp) s =
        (Ok (rotation_due (sl_signed S) (signed_view S s) (ms 0)), s1) \<and>
    rotate_if_due (kyber_pre_key_needs_rotation kybers (sl_kyber S) oc (Some (ms 2)))
      (rotate_kyber_pre_key kybers (ml_kyber M) oc (Some (ms 3)) (rn_kyber R) ikp) s1 =
        (Ok (rotation_due (sl_kyber S) (kyber_view S s) (ms 2)), s2) \<and>
    stores_good S s2 \<and> identity_of S s2 = Some ikp \<and>
    sessions (st_connection s2) = sessions (st_connection s) \<and> pre_view S s2 = pre_view S s \<and>
    signed_view S s2 =
      rotated_view (sl_signed S) (ml_signed M) (ms 0) (ms 1) (rn_signed R) ikp (signed_view S s) \<and>
    kyber_view S s2 =
      rotated_view (sl_kyber S) (ml_kyber M) (ms 2) (ms 3) (rn_kyber R) ikp (kyber_view S s)"
proof -
  note m = assms(1) [unfolded maintainable_def]
  from m assms(2) have good: "stores_good S s" and
    sigs: "is_ok (calculate_signature (ml_signed M) ikp (public_serialize (ml_signed M) (rn_signed R)))"
      "is_ok (calculate_signature (ml_kyber M) ikp (public_serialize (ml_kyber M) (rn_kyber R)))" by auto
  from m have needs: "clock_fine (sl_signed S) (signed_view S s) (ms 0)"
    "clock_fine (sl_kyber S) (kyber_view S s) (ms 2)" "ids_left 1 (signed_view S s)"
    "ids_left 1 (kyber_view S s)" "key_maker_lawful (ml_signed M) (sl_signed S)"
    "key_maker_lawful (ml_kyber M) (sl_kyber S)" by auto
  obtain s1 where s1: "rotate_if_due (signed_pre_key_needs_rotation signeds (sl_signed S) oc (Some (ms 0)))
      (rotate_signed_pre_key signeds (sl_signed S) (ml_signed M) oc (Some (ms 1)) (rn_signed R) ikp) s =
        (Ok (rotation_due (sl_signed S) (signed_view S s) (ms 0)), s1)"
    "sqlite_signed_good (sl_signed S) s1" "without_signed s1 = without_signed s"
    "signed_view S s1 =
      rotated_view (sl_signed S) (ml_signed M) (ms 0) (ms 1) (rn_signed R) ikp (signed_view S s)"
    using sqlite_signed.signed_step [OF stores_goodD(2) [OF good] needs(1,3,5) storable_rotating sigs(1)]
    unfolding signeds_def by blast
  note a1 = stores_after_signed [OF good s1(2,3)] without_signed_frame [OF s1(3)]
  obtain s2 where s2: "rotate_if_due (kyber_pre_key_needs_rotation kybers (sl_kyber S) oc (Some (ms 2)))
      (rotate_kyber_pre_key kybers (ml_kyber M) oc (Some (ms 3)) (rn_kyber R) ikp) s1 =
        (Ok (rotation_due (sl_kyber S) (kyber_view S s) (ms 2)), s2)"
    "sqlite_kyber_good (sl_kyber S) s2" "without_kyber s2 = without_kyber s1"
    "kyber_view S s2 =
      rotated_view (sl_kyber S) (ml_kyber M) (ms 2) (ms 3) (rn_kyber R) ikp (kyber_view S s)"
    using sqlite_kyber.kyber_step [OF stores_goodD(3) [OF a1(1)] needs(2,4,6) [folded a1(3)]
        storable_rotating sigs(2)] unfolding kybers_def a1(3) by blast
  note a2 = stores_after_kyber [OF a1(1) s2(2,3)] without_kyber_frame [OF s2(3)]
  show ?thesis
    using s1(1,4) s2(1,4) a1 a2 assms(2)
    by (intro exI [of _ s1] exI [of _ s2]) (simp del: One_nat_def)
qed

lemma maintenance_stock:
  assumes "stores_good S s" "ids_left 100 (pre_view S s)"
    "\<forall>i k. round_trips (sl_pre_keys S) (new i k)"
  defines "pv \<equiv> pre_view S s" and "pres \<equiv> sqlite_pre_key_store (sl_pre_keys S)"
  shows "\<exists>s'. (if card (dom pv) < MIN_PRE_KEY_COUNT
        then map_err boxed (replenish_pre_keys pres new oc gen s) else (Ok (), s)) = (Ok (), s') \<and>
    pre_key_count pres s = (Ok (card (dom pv)), s) \<and>
    pre_key_count pres s' =
      (Ok (card (dom pv) + (if card (dom pv) < MIN_PRE_KEY_COUNT then 100 else 0)), s') \<and>
    stores_good S s' \<and> pre_view S s' = stocked new gen pv \<and> signed_view S s' = signed_view S s \<and>
    kyber_view S s' = kyber_view S s \<and> identity_of S s' = identity_of S s \<and>
    sessions (st_connection s') = sessions (st_connection s)"
proof -
  note good = stores_goodD(1) [OF assms(1)]
  obtain s' where s': "(if card (dom pv) < MIN_PRE_KEY_COUNT
      then map_err boxed (replenish_pre_keys pres new oc gen s) else (Ok (), s)) = (Ok (), s')"
    "sqlite_pre_keys_good (sl_pre_keys S) s'" "without_pre_keys s' = without_pre_keys s"
    "pre_view S s' = stocked new gen pv"
    using stock_step [OF good assms(2,3)] unfolding pv_def pres_def by blast
  note a = stores_after_pre_keys [OF assms(1) s'(2,3)] without_pre_keys_frame [OF s'(3)]
  have "card (dom (stocked new gen pv)) =
      card (dom pv) + (if card (dom pv) < MIN_PRE_KEY_COUNT then 100 else 0)"
    using card_stocked [OF sqlite_one_time.finite_view [OF good] assms(2), of new gen]
    unfolding pv_def .
  with a s' show ?thesis
    using sqlite_one_time.count_view [OF good] sqlite_one_time.count_view [OF s'(2)]
    unfolding pres_def pv_def by (intro exI [of _ s']) simp
qed

lemma maintenance_cleanups:
  assumes "stores_good S s" "\<forall>i \<in> {4, 5}. unat (GRACE_PERIOD_SECS * 1000) \<le> ms i \<and> ms i < 2 ^ 64"
  shows "\<exists>s1 s2. cleanup_expired_signed_pre_keys (signeds_of S) oc (Some (ms (4::nat))) s = (Ok (), s1) \<and>
    cleanup_expired_kyber_pre_keys (kybers_of S) oc (Some (ms 5)) s1 = (Ok (), s2) \<and>
    stores_good S s2 \<and> identity_of S s2 = identity_of S s \<and> pre_view S s2 = pre_view S s \<and>
    sessions (st_connection s2) = sessions (st_connection s) \<and>
    cleaned (expired_secs (sl_signed S) (cutoff_at (ms 4))) (signed_view S s) (signed_view S s2) \<and>
    cleaned (expired_secs (sl_kyber S) (cutoff_at (ms 5))) (kyber_view S s) (kyber_view S s2)"
proof -
  from assms(2) have grace: "unat (GRACE_PERIOD_SECS * 1000) \<le> ms 4" "ms 4 < 2 ^ 64"
    "unat (GRACE_PERIOD_SECS * 1000) \<le> ms 5" "ms 5 < 2 ^ 64" by auto
  obtain s1 where s1: "cleanup_expired_signed_pre_keys (signeds_of S) oc (Some (ms 4)) s = (Ok (), s1)"
    "sqlite_signed_good (sl_signed S) s1" "without_signed s1 = without_signed s"
    "cleaned (expired_secs (sl_signed S) (cutoff_at (ms 4))) (signed_view S s) (signed_view S s1)"
    using sqlite_signed.cleanup [OF stores_goodD(2) [OF assms(1)] grace(1,2)] by blast
  note a1 = stores_after_signed [OF assms(1) s1(2,3)] without_signed_frame [OF s1(3)]
  obtain s2 where s2: "cleanup_expired_kyber_pre_keys (kybers_of S) oc (Some (ms 5)) s1 = (Ok (), s2)"
    "sqlite_kyber_good (sl_kyber S) s2" "without_kyber s2 = without_kyber s1"
    "cleaned (expired_secs (sl_kyber S) (cutoff_at (ms 5))) (kyber_view S s1) (kyber_view S s2)"
    using sqlite_kyber.cleanup [OF stores_goodD(3) [OF a1(1)] grace(3,4), folded kyber_cleanup_eq]
    by blast
  note a2 = stores_after_kyber [OF a1(1) s2(2,3)] without_kyber_frame [OF s2(3)]
  show ?thesis using s1 s2 a1 a2 by (intro exI [of _ s1] exI [of _ s2]) simp
qed

lemma maintenance_run:
  assumes "storage_of l = Some s" "maintainable S M R ms s" "identity_of S s = Some ikp"
  defines "pv \<equiv> pre_view S s" and "sv \<equiv> signed_view S s" and "kv \<equiv> kyber_view S s"
  shows "\<exists>l' s'. perform_key_maintenance S M R oc (\<lambda>i. Some (ms i)) l =
      (Ok \<lparr>pre_keys_generated = (if card (dom pv) < MIN_PRE_KEY_COUNT then 100 else 0),
         signed_pre_key_rotated = rotation_due (sl_signed S) sv (ms 0),
         kyber_pre_key_rotated = rotation_due (sl_kyber S) kv (ms 2)\<rparr>, l') \<and>
    storage_of l' = Some s' \<and> stores_good S s' \<and> identity_of S s' = Some ikp \<and>
    sessions (st_connection s') = sessions (st_connection s) \<and>
    pre_view S s' = stocked (ml_pre_key M) (rn_pre_keys R) pv \<and>
    cleaned (expired_secs (sl_signed S) (cutoff_at (ms 4)))
      (rotated_view (sl_signed S) (ml_signed M) (ms 0) (ms 1) (rn_signed R) ikp sv) (signed_view S s') \<and>
    cleaned (expired_secs (sl_kyber S) (cutoff_at (ms 5)))
      (rotated_view (sl_kyber S) (ml_kyber M) (ms 2) (ms 3) (rn_kyber R) ikp kv) (kyber_view S s')"
proof -
  note m = assms(2) [unfolded maintainable_def]
  then have good: "stores_good S s" by simp
  obtain s1 s2 where rot: "stores_good S s2" "pre_view S s2 = pre_view S s" "identity_of S s2 = Some ikp"
    and rot': "rotate_if_due (signed_pre_key_needs_rotation (signeds_of S) (sl_signed S) oc (Some (ms 0)))
        (rotate_signed_pre_key (signeds_of S) (sl_signed S) (ml_signed M) oc (Some (ms 1)) (rn_signed R) ikp) s =
        (Ok (rotation_due (sl_signed S) sv (ms 0)), s1)"
      "rotate_if_due (kyber_pre_key_needs_rotation (kybers_of S) (sl_kyber S) oc (Some (ms 2)))
        (rotate_kyber_pre_key (kybers_of S) (ml_kyber M) oc (Some (ms 3)) (rn_kyber R) ikp) s1 =
        (Ok (rotation_due (sl_kyber S) kv (ms 2)), s2)"
      "sessions (st_connection s2) = sessions (st_connection s)"
      "signed_view S s2 = rotated_view (sl_signed S) (ml_signed M) (ms 0) (ms 1) (rn_signed R) ikp sv"
      "kyber_view S s2 = rotated_view (sl_kyber S) (ml_kyber M) (ms 2) (ms 3) (rn_kyber R) ikp kv"
    using maintenance_rotations [OF assms(2,3)] unfolding sv_def kv_def by blast
  from m rot(2) have "ids_left 100 (pre_view S s2)"
    "\<forall>i k. round_trips (sl_pre_keys S) (ml_pre_key M i k)" by simp_all
  note stock = maintenance_stock [OF rot(1) this, of oc "rn_pre_keys R", unfolded rot(2), folded pv_def]
  then obtain s3 where s3: "stores_good S s3" and run3: "(if card (dom pv) < MIN_PRE_KEY_COUNT
      then map_err boxed (replenish_pre_keys (pres_of S) (ml_pre_key M) oc (rn_pre_keys R) s2)
      else (Ok (), s2)) = (Ok (), s3)"
    "pre_key_count (pres_of S) s2 = (Ok (card (dom pv)), s2)"
    "pre_key_count (pres_of S) s3 =
      (Ok (card (dom pv) + (if card (dom pv) < MIN_PRE_KEY_COUNT then 100 else 0)), s3)"
    and same3: "pre_view S s3 = stocked (ml_pre_key M) (rn_pre_keys R) pv"
    "signed_view S s3 = signed_view S s2" "kyber_view S s3 = kyber_view S s2" "identity_of S s3 = identity_of S s2"
    "sessions (st_connection s3) = sessions (st_connection s2)" by blast
  have "\<forall>i \<in> {4, 5}. unat (GRACE_PERIOD_SECS * 1000) \<le> ms i \<and> ms i < 2 ^ 64" using m by blast
  from maintenance_cleanups [OF s3 this, of oc] obtain s4 s5 where run5:
    "cleanup_expired_signed_pre_keys (signeds_of S) oc (Some (ms 4)) s3 = (Ok (), s4)"
    "cleanup_expired_kyber_pre_keys (kybers_of S) oc (Some (ms 5)) s4 = (Ok (), s5)"
    and s5: "stores_good S s5" "identity_of S s5 = identity_of S s3" "pre_view S s5 = pre_view S s3"
    "sessions (st_connection s5) = sessions (st_connection s3)"
    "cleaned (expired_secs (sl_signed S) (cutoff_at (ms 4))) (signed_view S s3) (signed_view S s5)"
    "cleaned (expired_secs (sl_kyber S) (cutoff_at (ms 5))) (kyber_view S s3) (kyber_view S s5)"
    by blast
  show ?thesis
    using s5 same3 rot'(3-5) rot(2,3)
    by (intro exI [of _ "with_storage l s5"] exI [of _ s5])
      (simp add: perform_key_maintenance_def Let_def assms(1) on_storage_present
        get_identity_of [OF good assms(3)] rot'(1,2) run3 run5 del: One_nat_def)
qed

end
