(* ===== verification/Sample_Instance.thy ===== *)
theory Sample_Instance
  imports Lotl_Api_Laws Sample_Library
begin

text \<open>
  A concrete instance for the examples: the sample library in every slot of the interface's
  parameters, and storages that hold a given identity and given keys.
\<close>

definition sample_stores :: "(bytes, bytes, bytes, sample_record, sample_record, sample_record) store_libs"
  where
  "sample_stores = \<lparr>sl_sessions = sample_sessions, sl_identities = sample_identities,
     sl_pre_keys = sample_records, sl_signed = sample_records, sl_kyber = sample_records,
     sl_rank = unat\<rparr>"

definition sample_makers :: "(bytes, bytes, bytes, sample_record, sample_record, sample_record) maker_libs"
  where
  "sample_makers = \<lparr>ml_signed = sample_maker, ml_kyber = sample_maker, ml_pre_key = sample_new,
     ml_kyber_generate = \<lambda>i kp. Ok (i, 0, kp)\<rparr>"

definition sample_random :: "(bytes, bytes, bytes) randomness" where
  "sample_random = \<lparr>rn_identity = [5, 1], rn_registration = 70000, rn_signed = [2], rn_kyber = [3],
     rn_pre_keys = \<lambda>i. [word_of_nat i], rn_db_key = \<lambda>_. 7\<rparr>"

lemma sample_libs [simp]:
  "sl_sessions sample_stores = sample_sessions" "sl_identities sample_stores = sample_identities"
  "sl_pre_keys sample_stores = sample_records" "sl_signed sample_stores = sample_records"
  "sl_kyber sample_stores = sample_records" "sl_rank sample_stores = unat"
  "ml_signed sample_makers = sample_maker" "ml_kyber sample_makers = sample_maker"
  "ml_pre_key sample_makers = sample_new" "rn_identity sample_random = [5, 1]"
  "rn_signed sample_random = [2]" "rn_kyber sample_random = [3]"
  by (simp_all add: sample_stores_def sample_makers_def sample_random_def)

text \<open>A storage with the sample identity, and with the keys of three lists saved after it.\<close>

definition sample_identified :: sqlite_storage where
  "sample_identified = snd (set_local_identity_key_pair (sqlite_identity_store sample_identities)
     [5, 1] sample_storage)"

definition sample_stocked :: "u32 list \<Rightarrow> sqlite_storage" where
  "sample_stocked is = fold (\<lambda>i s. snd (save_pre_key (sqlite_pre_key_store sample_records) i
     (sample_new i []) s)) is sample_identified"

definition sample_keyed :: "u32 list \<Rightarrow> sample_record list \<Rightarrow> sqlite_storage" where
  "sample_keyed is rs = fold (\<lambda>r s. snd (save_key (sqlite_signed_store sample_records unat) (fst r) r s))
     rs (sample_stocked is)"

definition sample_full :: "u32 list \<Rightarrow> sample_record list \<Rightarrow> sample_record list \<Rightarrow> sqlite_storage" where
  "sample_full is rs ks = fold (\<lambda>r s. snd (save_key (sqlite_kyber_store sample_records unat) (fst r) r s))
     ks (sample_keyed is rs)"

lemma sample_identified_good:
  "stores_good sample_stores sample_identified \<and>
    local_row sample_identified = Some \<lparr>li_id = 1, li_registration_id = 0, li_private_key = [5, 1],
      li_public_key = [1], li_created_at = 0, li_updated_at = 0\<rparr> \<and>
    sqlite_pre_keys_view sample_records sample_identified = Map.empty \<and>
    sqlite_signed_view sample_records sample_identified = Map.empty \<and>
    sqlite_kyber_view sample_records sample_identified = Map.empty"
proof -
  have start: "identity_good sample_storage" "local_row sample_storage = None"
    by (simp_all add: sample_storage_eq identity_good_def local_row_def ready_def healthy_def
        empty_conn_def)
  then have "stores_good sample_stores sample_storage" by (simp add: stores_good_def)
  moreover obtain s' where s': "set_local_identity_key_pair (sqlite_identity_store sample_identities)
      [5, 1] sample_storage = (Ok (), s')" "identity_good s'"
    "without_local s' = without_local sample_storage"
    using set_pair_law [OF start(1), of sample_identities "[5, 1]"] by blast
  moreover have "local_row sample_identified = Some \<lparr>li_id = 1, li_registration_id = 0,
      li_private_key = [5, 1], li_public_key = [1], li_created_at = 0, li_updated_at = 0\<rparr>"
    unfolding sample_identified_def by code_simp
  ultimately show ?thesis
    using stores_after_identity [of sample_stores sample_storage s'] by (simp add: sample_identified_def)
qed

abbreviation sample_row :: local_identity_row where
  "sample_row \<equiv> \<lparr>li_id = 1, li_registration_id = 0, li_private_key = [5, 1], li_public_key = [1],
     li_created_at = 0, li_updated_at = 0\<rparr>"

lemma identity_of_sample: "local_row s = Some sample_row \<Longrightarrow> identity_of sample_stores s = Some [5, 1]"
  by (simp add: identity_of_def decoded_def sample_identities_def)

lemma sample_stocked_good:
  "stores_good sample_stores (sample_stocked is) \<and> local_row (sample_stocked is) = Some sample_row \<and>
    sqlite_pre_keys_view sample_records (sample_stocked is) =
      (\<lambda>i. if i \<in> set is then Some (sample_new i []) else None) \<and>
    sqlite_signed_view sample_records (sample_stocked is) = Map.empty \<and>
    sqlite_kyber_view sample_records (sample_stocked is) = Map.empty"
proof (induction "is" rule: rev_induct)
  case (snoc i "is")
  then have good: "stores_good sample_stores (sample_stocked is)" by simp
  obtain s' where s': "save_pre_key (sqlite_pre_key_store sample_records) i (sample_new i [])
      (sample_stocked is) = (Ok (), s')" "sqlite_pre_keys_good sample_records s'"
    "sqlite_pre_keys_view sample_records s' =
      (sqlite_pre_keys_view sample_records (sample_stocked is))(i \<mapsto> sample_new i [])"
    "without_pre_keys s' = without_pre_keys (sample_stocked is)"
    using sqlite_save_pre_key_law [of sample_records "sample_stocked is" "sample_new i []" i]
      stores_goodD(1) [OF good] by auto
  moreover have "sample_stocked (is @ [i]) = s'"
    using s'(1) by (simp add: sample_stocked_def)
  moreover have "local_row s' = local_row (sample_stocked is)"
    by (rule identity_depends(2) [OF without_pre_keys_frame(3,1) [OF s'(4)]])
  ultimately show ?case
    using snoc stores_after_pre_keys [OF good _ s'(4)] by (auto simp: fun_eq_iff)
qed (simp add: sample_stocked_def sample_identified_good)

lemma sample_keyed_good:
  "stores_good sample_stores (sample_keyed is rs) \<and> local_row (sample_keyed is rs) = Some sample_row \<and>
    sqlite_pre_keys_view sample_records (sample_keyed is rs) =
      (\<lambda>i. if i \<in> set is then Some (sample_new i []) else None) \<and>
    sqlite_signed_view sample_records (sample_keyed is rs) = map_of (rev (map (\<lambda>r. (fst r, r)) rs)) \<and>
    sqlite_kyber_view sample_records (sample_keyed is rs) = Map.empty"
proof (induction rs rule: rev_induct)
  case (snoc r rs)
  then have good: "stores_good sample_stores (sample_keyed is rs)" by simp
  obtain s' where s': "save_key (sqlite_signed_store sample_records unat) (fst r) r
      (sample_keyed is rs) = (Ok (), s')" "sqlite_signed_good sample_records s'"
    "sqlite_signed_view sample_records s' =
      (sqlite_signed_view sample_records (sample_keyed is rs))(fst r \<mapsto> r)"
    "without_signed s' = without_signed (sample_keyed is rs)"
    using sqlite_save_signed_law [of sample_records "sample_keyed is rs" r unat "fst r"]
      stores_goodD(2) [OF good] by auto
  moreover have "sample_keyed is (rs @ [r]) = s'"
    using s'(1) by (simp add: sample_keyed_def)
  moreover have "local_row s' = local_row (sample_keyed is rs)"
    by (rule identity_depends(2) [OF without_signed_frame(3,1) [OF s'(4)]])
  ultimately show ?case
    using snoc stores_after_signed [OF good _ s'(4)] by (auto simp: fun_eq_iff)
qed (simp add: sample_keyed_def sample_stocked_good)

lemma sample_full_good:
  "stores_good sample_stores (sample_full is rs ks) \<and> local_row (sample_full is rs ks) = Some sample_row \<and>
    sqlite_pre_keys_view sample_records (sample_full is rs ks) =
      (\<lambda>i. if i \<in> set is then Some (sample_new i []) else None) \<and>
    sqlite_signed_view sample_records (sample_full is rs ks) = map_of (rev (map (\<lambda>r. (fst r, r)) rs)) \<and>
    sqlite_kyber_view sample_records (sample_full is rs ks) = map_of (rev (map (\<lambda>r. (fst r, r)) ks))"
proof (induction ks rule: rev_induct)
  case (snoc r ks)
  then have good: "stores_good sample_stores (sample_full is rs ks)" by simp
  obtain s' where s': "save_key (sqlite_kyber_store sample_records unat) (fst r) r
      (sample_full is rs ks) = (Ok (), s')" "sqlite_kyber_good sample_records s'"
    "sqlite_kyber_view sample_records s' =
      (sqlite_kyber_view sample_records (sample_full is rs ks))(fst r \<mapsto> r)"
    "without_kyber s' = without_kyber (sample_full is rs ks)"
    using sqlite_save_kyber_law [of sample_records "sample_full is rs ks" r unat "fst r"]
      stores_goodD(3) [OF good] by auto
  moreover have "sample_full is rs (ks @ [r]) = s'"
    using s'(1) by (simp add: sample_full_def)
  moreover have "local_row s' = local_row (sample_full is rs ks)"
    by (rule identity_depends(2) [OF without_kyber_frame(3,1) [OF s'(4)]])
  ultimately show ?case
    using snoc stores_after_kyber [OF good _ s'(4)] by (auto simp: fun_eq_iff)
qed (simp add: sample_full_def sample_keyed_good)

definition sample_config :: LotlConfig where
  "sample_config = \<lparr>db_path = '':memory:'', fingerprint_salt = [], fingerprint_prefix = ''lotl:''\<rparr>"

definition sample_lotl :: "sqlite_storage \<Rightarrow> Lotl" where
  "sample_lotl s = \<lparr>lo_connection = st_connection s, lo_config = sample_config, lo_storage = Some s\<rparr>"

lemma storage_of_sample [simp]: "storage_of (sample_lotl s) = Some s"
  by (simp add: storage_of_def sample_lotl_def)

end
