(* ===== verification/Lotl_First_Run.thy ===== *)
theory Lotl_First_Run
  imports Sample_Instance
begin

text \<open>
  Starting an instance: on a fresh database every key is made, on one that has an identity nothing
  is, and after an interrupted first run the missing keys are not made up for.
\<close>

section \<open>Creating the tables\<close>

definition or_empty :: "'r list option \<Rightarrow> 'r list" where
  "or_empty t = (case t of None \<Rightarrow> [] | Some rows \<Rightarrow> rows)"

lemma or_empty_simps [simp]: "or_empty None = []" "or_empty (Some rows) = rows"
  by (simp_all add: or_empty_def)

lemma created_table:
  assumes "faults c = []"
  shows
    "create_table schema_info put_schema_info c = (Ok (), c\<lparr>schema_info := Some (or_empty (schema_info c))\<rparr>)"
    "create_table local_identity put_local_identity c = (Ok (), c\<lparr>local_identity := Some (or_empty (local_identity c))\<rparr>)"
    "create_table identity_keys put_identity_keys c = (Ok (), c\<lparr>identity_keys := Some (or_empty (identity_keys c))\<rparr>)"
    "create_table sessions put_sessions c = (Ok (), c\<lparr>sessions := Some (or_empty (sessions c))\<rparr>)"
    "create_table pre_keys put_pre_keys c = (Ok (), c\<lparr>pre_keys := Some (or_empty (pre_keys c))\<rparr>)"
    "create_table signed_pre_keys put_signed_pre_keys c = (Ok (), c\<lparr>signed_pre_keys := Some (or_empty (signed_pre_keys c))\<rparr>)"
    "create_table kyber_pre_keys put_kyber_pre_keys c = (Ok (), c\<lparr>kyber_pre_keys := Some (or_empty (kyber_pre_keys c))\<rparr>)"
    "create_table contacts put_contacts c = (Ok (), c\<lparr>contacts := Some (or_empty (contacts c))\<rparr>)"
    "create_table conversations put_conversations c = (Ok (), c\<lparr>conversations := Some (or_empty (conversations c))\<rparr>)"
    "create_table messages put_messages c = (Ok (), c\<lparr>messages := Some (or_empty (messages c))\<rparr>)"
  using assms by (cases c; simp add: create_table_healthy split: option.split)+

text \<open>The connection once the schema, or the application tables, have been set up.\<close>

definition with_schema :: "conn \<Rightarrow> conn" where
  "with_schema c = c\<lparr>
     schema_info := Some (or_empty (schema_info c) @ [\<lparr>si_version = 1, si_updated_at = unixepoch c\<rparr>]),
     local_identity := Some (or_empty (local_identity c)),
     identity_keys := Some (or_empty (identity_keys c)), sessions := Some (or_empty (sessions c)),
     pre_keys := Some (or_empty (pre_keys c)), signed_pre_keys := Some (or_empty (signed_pre_keys c)),
     kyber_pre_keys := Some (or_empty (kyber_pre_keys c))\<rparr>"

definition with_app_tables :: "conn \<Rightarrow> conn" where
  "with_app_tables c = c\<lparr>contacts := Some (or_empty (contacts c)),
     conversations := Some (or_empty (conversations c)), messages := Some (or_empty (messages c))\<rparr>"

definition opened_storage :: "conn \<Rightarrow> sqlite_storage" where
  "opened_storage c = \<lparr>st_connection = with_schema c, st_session_store = True,
     st_identity_store = True, st_pre_key_store = True, st_signed_pre_key_store = True,
     st_kyber_pre_key_store = True, st_is_closed = False\<rparr>"

lemma initialize_schema_run:
  "healthy c \<Longrightarrow> sqlite_initialize_schema (sqlite_storage_new c) = (Ok (), opened_storage c)"
  by (simp add: sqlite_initialize_schema_def sqlite_storage_new_def with_lock_def healthy_def
      created_table insert_schema_version_def execute_healthy
      sqlite_identity_create_tables_def sqlite_session_create_tables_def
      sqlite_pre_key_create_tables_def sqlite_signed_pre_key_create_tables_def
      sqlite_kyber_pre_key_create_tables_def opened_storage_def with_schema_def)

lemma ensure_storage_run:
  "healthy c \<Longrightarrow> ensure_storage_initialized \<lparr>lo_connection = c, lo_config = g, lo_storage = None\<rparr> =
    (Ok (), \<lparr>lo_connection = with_schema c, lo_config = g, lo_storage = Some (opened_storage c)\<rparr>)"
  by (simp add: ensure_storage_initialized_def initialize_schema_run opened_storage_def)

lemma app_tables_run:
  assumes "healthy (lo_connection l)"
  shows "and_then (ensure_contacts_table_initialized l) (\<lambda>_ l. ensure_message_history_initialized l) =
    (Ok (), l\<lparr>lo_connection := with_app_tables (lo_connection l)\<rparr>)"
  using assms
  by (simp add: ensure_contacts_table_initialized_def ensure_message_history_initialized_def
      on_connection_def with_lock_def healthy_def init_contacts_table_def created_table
      create_index_healthy init_message_history_tables_def with_app_tables_def)

lemma opened_ready: "healthy c \<Longrightarrow> ready (opened_storage c)"
  by (simp add: ready_def opened_storage_def with_schema_def healthy_def)

lemma app_tables_same:
  assumes "st_connection s' = with_app_tables (st_connection s)" "stores_good S s"
    "s' = s\<lparr>st_connection := st_connection s'\<rparr>"
  shows "stores_good S s'" "identity_of S s' = identity_of S s" "local_row s' = local_row s"
    "pre_view S s' = pre_view S s" "signed_view S s' = signed_view S s"
    "kyber_view S s' = kyber_view S s"
proof -
  have "local_identity (st_connection s') = local_identity (st_connection s)"
    "pre_keys (st_connection s') = pre_keys (st_connection s)"
    "signed_pre_keys (st_connection s') = signed_pre_keys (st_connection s)"
    "kyber_pre_keys (st_connection s') = kyber_pre_keys (st_connection s)"
    "faults (st_connection s') = faults (st_connection s)"
    "poisoned (st_connection s') = poisoned (st_connection s)"
    using assms(1) by (simp_all add: with_app_tables_def)
  moreover from this(5,6) have "ready s' = ready s"
    by (subst assms(3)) (simp add: ready_def healthy_def)
  ultimately show "stores_good S s'" "identity_of S s' = identity_of S s" "local_row s' = local_row s"
    "pre_view S s' = pre_view S s" "signed_view S s' = signed_view S s"
    "kyber_view S s' = kyber_view S s"
    using assms(2) identity_depends [of s' s] pre_keys_depends [of s' s "sl_pre_keys S"]
      signed_depends [of s' s "sl_signed S"] kyber_depends [of s' s "sl_kyber S"]
    by (simp_all add: stores_good_def identity_of_def)
qed

section \<open>Making the keys\<close>

text \<open>What the first run needs of the libraries.\<close>

definition provisionable :: "('sess, 'ikp, 'ik, 'pk, 'spk, 'kyr) store_libs
    \<Rightarrow> ('ikp, 'kp, 'kyp, 'pk, 'spk, 'kyr) maker_libs \<Rightarrow> ('ikp, 'kp, 'kyp) randomness
    \<Rightarrow> bytes \<Rightarrow> 'kyr \<Rightarrow> bool" where
  "provisionable S M R sig kr \<longleftrightarrow>
     pair_try_from (sl_identities S) (pair_serialize (sl_identities S) (rn_identity R)) = Ok (rn_identity R) \<and>
     key_maker_lawful (ml_signed M) (sl_signed S) \<and>
     calculate_signature (ml_signed M) (rn_identity R)
       (public_serialize (ml_signed M) (rn_signed R)) = Ok sig \<and>
     ml_kyber_generate M 1 (rn_identity R) = Ok kr \<and> rotating_storable (sl_kyber S) kr \<and>
     (\<forall>i k. round_trips (sl_pre_keys S) (ml_pre_key M i k))"

text \<open>The storage after it: one identity, one signed and one Kyber key with id 1, a hundred one-time keys.\<close>

definition provisioned :: "('sess, 'ikp, 'ik, 'pk, 'spk, 'kyr) store_libs
    \<Rightarrow> ('ikp, 'kp, 'kyp, 'pk, 'spk, 'kyr) maker_libs \<Rightarrow> ('ikp, 'kp, 'kyp) randomness
    \<Rightarrow> nat \<Rightarrow> bytes \<Rightarrow> 'kyr \<Rightarrow> sqlite_storage \<Rightarrow> bool" where
  "provisioned S M R ms sig kr s \<longleftrightarrow> stores_good S s \<and> identity_of S s = Some (rn_identity R) \<and>
     (\<exists>row. local_row s = Some row \<and> li_registration_id row = and (rn_registration R) 0x3FFF \<and>
        li_public_key row =
          ik_serialize (sl_identities S) (pair_identity_key (sl_identities S) (rn_identity R))) \<and>
     signed_view S s = [1 \<mapsto> record_new (ml_signed M) 1 (millis_u64 ms) (rn_signed R) sig] \<and>
     kyber_view S s = [1 \<mapsto> kr] \<and>
     pre_view S s = with_run (ml_pre_key M) (rn_pre_keys R) 1 100 Map.empty"

text \<open>A storage with tables and no key in them.\<close>

definition unprovisioned :: "('sess, 'ikp, 'ik, 'pk, 'spk, 'kyr) store_libs \<Rightarrow> sqlite_storage \<Rightarrow> bool"
  where
  "unprovisioned S s \<longleftrightarrow> stores_good S s \<and> local_row s = None \<and> pre_view S s = Map.empty \<and>
     signed_view S s = Map.empty \<and> kyber_view S s = Map.empty"

text \<open>The first half: the key pair and the registration id.\<close>

lemma local_identity_created:
  assumes "stores_good S s" "pair_try_from (sl_identities S) (pair_serialize (sl_identities S) kp) = Ok kp"
  obtains s1 s2 r where "set_local_identity_key_pair (sqlite_identity_store (sl_identities S)) kp s = (Ok (), s1)"
    "set_local_registration_id (sqlite_identity_store (sl_identities S)) reg s1 = (Ok (), s2)"
    "stores_good S s2" "identity_of S s2 = Some kp" "local_row s2 = Some r" "li_registration_id r = reg"
    "li_public_key r = ik_serialize (sl_identities S) (pair_identity_key (sl_identities S) kp)"
    "pre_view S s2 = pre_view S s" "signed_view S s2 = signed_view S s" "kyber_view S s2 = kyber_view S s"
proof -
  let ?ids = "sqlite_identity_store (sl_identities S)"
  obtain s1 r1 where s1: "set_local_identity_key_pair ?ids kp s = (Ok (), s1)"
    "identity_good s1" "without_local s1 = without_local s" "local_row s1 = Some r1"
    "li_private_key r1 = pair_serialize (sl_identities S) kp"
    "li_public_key r1 = ik_serialize (sl_identities S) (pair_identity_key (sl_identities S) kp)"
    using set_pair_law [OF assms(1) [unfolded stores_good_def, THEN conjunct1],
        of "sl_identities S" kp] by blast
  note a1 = stores_after_identity [OF assms(1) s1(2,3)]
  obtain s2 r2 where s2: "set_local_registration_id ?ids reg s1 = (Ok (), s2)"
    "identity_good s2" "without_local s2 = without_local s1" "local_row s2 = Some r2"
    "li_registration_id r2 = reg" "li_private_key r2 = li_private_key r1" "li_public_key r2 = li_public_key r1"
    using set_registration_law [OF s1(2), of "sl_identities S" reg]
    unfolding s1(4) option.case by blast
  note a2 = stores_after_identity [OF a1(1) s2(2,3)]
  have "identity_of S s2 = Some kp"
    using s2(4,6) s1(5) assms(2) by (simp add: identity_of_def decoded_def)
  with s1(1) s2(1) a2(1) show ?thesis
    by (rule that [OF _ _ _ _ s2(4,5)]) (simp_all add: s2(7) s1(6) a2(2-4) a1(2-4))
qed

text \<open>The second half: the first signed and Kyber key and the one-time keys.\<close>

lemma first_keys_created:
  assumes "stores_good S s" "pre_view S s = Map.empty" "rotating_storable (sl_signed S) x"
    "rotating_storable (sl_kyber S) y" "\<forall>i k. round_trips (sl_pre_keys S) (new i k)"
  obtains s1 s2 s3 where "save_key (signeds_of S) 1 x s = (Ok (), s1)" "save_key (kybers_of S) 1 y s1 = (Ok (), s2)"
    "replenish_pre_keys (pres_of S) new oc gen s2 = (Ok (), s3)" "stores_good S s3"
    "identity_of S s3 = identity_of S s" "local_row s3 = local_row s"
    "signed_view S s3 = (signed_view S s)(1 \<mapsto> x)" "kyber_view S s3 = (kyber_view S s)(1 \<mapsto> y)"
    "pre_view S s3 = with_run new gen 1 100 Map.empty"
proof -
  obtain s1 where s1: "save_key (signeds_of S) 1 x s = (Ok (), s1)" "sqlite_signed_good (sl_signed S) s1"
    "signed_view S s1 = (signed_view S s)(1 \<mapsto> x)" "without_signed s1 = without_signed s"
    using sqlite_save_signed_law [OF stores_goodD(2) [OF assms(1)] assms(3), of "sl_rank S" 1] by blast
  note a1 = stores_after_signed [OF assms(1) s1(2,4)] identity_depends(2) [OF without_signed_frame(3,1) [OF s1(4)]]
  obtain s2 where s2: "save_key (kybers_of S) 1 y s1 = (Ok (), s2)" "sqlite_kyber_good (sl_kyber S) s2"
    "kyber_view S s2 = (kyber_view S s1)(1 \<mapsto> y)" "without_kyber s2 = without_kyber s1"
    using sqlite_save_kyber_law [OF stores_goodD(3) [OF a1(1)] assms(4), of "sl_rank S" 1] by blast
  note a2 = stores_after_kyber [OF a1(1) s2(2,4)] identity_depends(2) [OF without_kyber_frame(3,1) [OF s2(4)]]
  have none: "pre_view S s2 = Map.empty" using a1 a2 assms(2) by simp
  obtain s3 where s3: "replenish_pre_keys (pres_of S) new oc gen s2 = (Ok (), s3)"
    "sqlite_pre_keys_good (sl_pre_keys S) s3" "without_pre_keys s3 = without_pre_keys s2"
    "pre_view S s3 = with_run new gen 1 100 Map.empty"
    using sqlite_one_time.replenish [OF stores_goodD(1) [OF a2(1)] _ assms(5), of oc gen, unfolded none, OF no_ids(1)]
    unfolding no_ids(2) by blast
  note a3 = stores_after_pre_keys [OF a2(1) s3(2,3)] identity_depends(2) [OF without_pre_keys_frame(3,1) [OF s3(3)]]
  show ?thesis
    using a1 a2 a3 s1(3) s2(3) by (intro that [OF s1(1) s2(1) s3(1) _ _ _ _ _ s3(4)]) simp_all
qed

lemma create_identity_run:
  assumes "unprovisioned S s" "provisionable S M R sig kr"
  shows "\<exists>s'. create_identity S M R oc (Some ms) s = (Ok (), s') \<and> provisioned S M R ms sig kr s'"
proof -
  note u = assms(1) [unfolded unprovisioned_def] and p = assms(2) [unfolded provisionable_def]
  then have good: "stores_good S s" and law: "key_maker_lawful (ml_signed M) (sl_signed S)"
    and kr: "rotating_storable (sl_kyber S) kr"
    and pk: "\<forall>i k. round_trips (sl_pre_keys S) (ml_pre_key M i k)" by simp_all
  let ?ids = "sqlite_identity_store (sl_identities S)"
    and ?rec = "record_new (ml_signed M) 1 (millis_u64 ms) (rn_signed R) sig"
  obtain s1 s2 r where ids: "set_local_identity_key_pair ?ids (rn_identity R) s = (Ok (), s1)"
    "set_local_registration_id ?ids (and (rn_registration R) 0x3FFF) s1 = (Ok (), s2)"
    and s2: "stores_good S s2" "identity_of S s2 = Some (rn_identity R)" "local_row s2 = Some r"
      "li_registration_id r = and (rn_registration R) 0x3FFF"
      "li_public_key r = ik_serialize (sl_identities S) (pair_identity_key (sl_identities S) (rn_identity R))"
      "pre_view S s2 = pre_view S s" "signed_view S s2 = signed_view S s" "kyber_view S s2 = kyber_view S s"
    using local_identity_created [OF good, of "rn_identity R" "and (rn_registration R) 0x3FFF"] p by blast
  from s2(6) u have none: "pre_view S s2 = Map.empty" by simp
  obtain s3 s4 s5 where keys: "save_key (signeds_of S) 1 ?rec s2 = (Ok (), s3)" "save_key (kybers_of S) 1 kr s3 = (Ok (), s4)"
    "replenish_pre_keys (pres_of S) (ml_pre_key M) oc (rn_pre_keys R) s4 = (Ok (), s5)"
    and s5: "stores_good S s5" "identity_of S s5 = identity_of S s2" "local_row s5 = local_row s2"
      "signed_view S s5 = (signed_view S s2)(1 \<mapsto> ?rec)" "kyber_view S s5 = (kyber_view S s2)(1 \<mapsto> kr)"
      "pre_view S s5 = with_run (ml_pre_key M) (rn_pre_keys R) 1 100 Map.empty"
    by (rule first_keys_created [OF s2(1) none lawful_record(3) [OF law] kr pk])
  have "create_identity S M R oc (Some ms) s = (Ok (), s5)"
    using p lawful_record(1) [OF law, of 1 "millis_u64 ms"]
    by (simp add: create_identity_def generate_identity_key_pair_def ids keys generate_signed_pre_key_def
        clock_millis_def Let_def)
  moreover have "provisioned S M R ms sig kr s5"
    using s2 s5 u by (simp add: provisioned_def)
  ultimately show ?thesis by blast
qed

text \<open>Opening a database in which there is no table yet, and one whose tables are in order.\<close>

lemma opened_fresh:
  assumes "healthy c" "local_identity c = None" "pre_keys c = None" "signed_pre_keys c = None"
    "kyber_pre_keys c = None"
  shows "unprovisioned S (opened_storage c)"
  using opened_ready [OF assms(1)] assms(2-5)
  by (auto simp: unprovisioned_def stores_good_def identity_good_def sqlite_pre_keys_good_def
      sqlite_signed_good_def sqlite_kyber_good_def local_row_def sqlite_pre_keys_view_def
      sqlite_signed_view_def sqlite_kyber_view_def opened_storage_def with_schema_def)

lemma new_run:
  assumes "db_path config \<noteq> []" "db_connection_new Q D (rn_db_key R) (db_path config) fs = (Ok c, fs')"
    "healthy c" "stores_good S s1"
    "ensure_identity_initialized S M R oc now
       \<lparr>lo_connection = with_schema c, lo_config = config, lo_storage = Some (opened_storage c)\<rparr> =
     (Ok (), \<lparr>lo_connection = st_connection s1, lo_config = config, lo_storage = Some s1\<rparr>)"
  shows "\<exists>l s. lotl_new Q D S M R oc now config fs = (Ok l, fs') \<and> lo_config l = config \<and>
    storage_of l = Some s \<and> s = s1\<lparr>st_connection := st_connection s\<rparr> \<and>
    st_connection s = with_app_tables (st_connection s1)"
proof -
  let ?l = "\<lparr>lo_connection = with_app_tables (st_connection s1), lo_config = config, lo_storage = Some s1\<rparr>"
  have h: "healthy (st_connection s1)"
    using assms(4) by (simp add: stores_good_def identity_good_def ready_def)
  have "lotl_new Q D S M R oc now config fs = (Ok ?l, fs')"
    using assms(1,2) app_tables_run [of "\<lparr>lo_connection = st_connection s1, lo_config = config,
        lo_storage = Some s1\<rparr>"] h
    by (simp add: lotl_new_def Let_def ensure_storage_run [OF assms(3)] assms(5))
  then show ?thesis by (intro exI [of _ ?l]) (simp add: storage_of_def)
qed

section \<open>Properties\<close>

text \<open>
  C6: A first run on a fresh database provisions it completely: the new identity and a 14-bit
  registration id can be read, there is one signed and one Kyber pre-key, both with id 1, and the
  hundred one-time pre-keys 1 to 100; the application tables exist.
\<close>

theorem first_run_provisions:
  assumes "db_path config \<noteq> []" "db_connection_new Q D (rn_db_key R) (db_path config) fs = (Ok c, fs')"
    "healthy c" "local_identity c = None" "pre_keys c = None" "signed_pre_keys c = None"
    "kyber_pre_keys c = None" "provisionable S M R sig kr"
  shows "\<exists>l s. lotl_new Q D S M R oc (Some ms) config fs = (Ok l, fs') \<and> lo_config l = config \<and>
    storage_of l = Some s \<and> provisioned S M R ms sig kr s \<and>
    (\<exists>row. local_row s = Some row \<and> unat (li_registration_id row) < 2 ^ 14) \<and>
    dom (pre_view S s) = {i. 1 \<le> unat i \<and> unat i \<le> 100} \<and>
    contacts (lo_connection l) \<noteq> None \<and> conversations (lo_connection l) \<noteq> None \<and>
    messages (lo_connection l) \<noteq> None"
proof -
  note fresh = opened_fresh [OF assms(3-7), of S]
  obtain s1 where s1: "create_identity S M R oc (Some ms) (opened_storage c) = (Ok (), s1)"
    "provisioned S M R ms sig kr s1" using create_identity_run [OF fresh assms(8)] by blast
  from fresh have open_good: "stores_good S (opened_storage c)" "local_row (opened_storage c) = None"
    by (simp_all add: unprovisioned_def)
  have init: "ensure_identity_initialized S M R oc (Some ms)
      \<lparr>lo_connection = with_schema c, lo_config = config, lo_storage = Some (opened_storage c)\<rparr> =
    (Ok (), \<lparr>lo_connection = st_connection s1, lo_config = config, lo_storage = Some s1\<rparr>)"
    using get_pair_law(1) [of "opened_storage c" "sl_identities S"] open_good s1(1)
    by (simp add: ensure_identity_initialized_def on_storage_def stores_good_def opened_storage_def)
  have good: "stores_good S s1" using s1(2) by (simp add: provisioned_def)
  from new_run [OF assms(1-3) good init] obtain l s where l: "lotl_new Q D S M R oc (Some ms) config fs = (Ok l, fs')"
    "lo_config l = config" "storage_of l = Some s" "s = s1\<lparr>st_connection := st_connection s\<rparr>"
    "st_connection s = with_app_tables (st_connection s1)" by (elim exE conjE)
  have "unat (and (rn_registration R) 0x3FFF) < 2 ^ 14"
    using word_and_le1 [of "rn_registration R" "0x3FFF"] by (simp add: word_le_nat_alt and.commute)
  moreover have "provisioned S M R ms sig kr s"
    using s1(2) app_tables_same [OF l(5) good l(4)] by (simp add: provisioned_def)
  moreover from this have "dom (pre_view S s) = {i. 1 \<le> unat i \<and> unat i \<le> 100}"
    by (auto simp: provisioned_def dom_with_run)
  moreover have "lo_connection l = st_connection s" using l(3) by (auto simp: storage_of_def)
  ultimately show ?thesis
    using l by (intro exI [of _ l] exI [of _ s])
      (auto simp: provisioned_def with_app_tables_def simp del: One_nat_def)
qed

lemma sample_opened:
  "db_connection_new sample_sqlcipher sample_hex (rn_db_key sample_random) (db_path sample_config) sample_fs =
    (Ok empty_conn, sample_fs)"
  by code_simp

lemma sample_provisionable:
  "provisionable sample_stores sample_makers sample_random [5, 1, 2] (1, 0, [5, 1])"
  by (simp add: provisionable_def) (simp add: sample_identities_def sample_makers_def)

theorem first_run_provisions_witness:
  "\<exists>l s. lotl_new sample_sqlcipher sample_hex sample_stores sample_makers sample_random True
      (Some 1000) sample_config sample_fs = (Ok l, sample_fs) \<and> storage_of l = Some s \<and>
    dom (pre_view sample_stores s) = {i. 1 \<le> unat i \<and> unat i \<le> 100}"
proof -
  have "db_path sample_config \<noteq> []" "healthy empty_conn" "local_identity empty_conn = None"
    "pre_keys empty_conn = None" "signed_pre_keys empty_conn = None" "kyber_pre_keys empty_conn = None"
    by (simp_all add: sample_config_def empty_conn_def healthy_def)
  from first_run_provisions [OF this(1) sample_opened this(2-6) sample_provisionable, of True 1000]
  show ?thesis by blast
qed

text \<open>
  A restart on a database that has an identity changes no key: the identity, the registration
  id and every pre-key are those stored before, whatever the random number generator would give.
\<close>

theorem restart_keeps_keys:
  assumes "db_path config \<noteq> []" "db_connection_new Q D (rn_db_key R) (db_path config) fs = (Ok c, fs')"
    "healthy c" "stores_good S s0" "st_connection s0 = c" "identity_of S s0 = Some kp"
  shows "\<exists>l s. lotl_new Q D S M R oc now config fs = (Ok l, fs') \<and> storage_of l = Some s \<and>
    stores_good S s \<and> identity_of S s = Some kp \<and> local_row s = local_row s0 \<and>
    pre_view S s = pre_view S s0 \<and> signed_view S s = signed_view S s0 \<and>
    kyber_view S s = kyber_view S s0"
proof -
  let ?o = "opened_storage c"
  have tables: "local_identity (st_connection ?o) = local_identity (st_connection s0)"
    "pre_keys (st_connection ?o) = pre_keys (st_connection s0)"
    "signed_pre_keys (st_connection ?o) = signed_pre_keys (st_connection s0)"
    "kyber_pre_keys (st_connection ?o) = kyber_pre_keys (st_connection s0)"
    using assms(4,5)
    by (auto simp: opened_storage_def with_schema_def stores_good_def identity_good_def
        sqlite_pre_keys_good_def sqlite_signed_good_def sqlite_kyber_good_def)
  have rdy: "ready ?o = ready s0"
    using opened_ready [OF assms(3)] assms(4) by (simp add: stores_good_def identity_good_def)
  note same = identity_depends [OF tables(1) rdy] pre_keys_depends [OF tables(2) rdy, of "sl_pre_keys S"]
    signed_depends [OF tables(3) rdy, of "sl_signed S"] kyber_depends [OF tables(4) rdy, of "sl_kyber S"]
  have good: "stores_good S ?o" using assms(4) same by (simp add: stores_good_def)
  have ident: "identity_of S ?o = Some kp" using assms(6) same by (simp add: identity_of_def)
  have init: "ensure_identity_initialized S M R oc now
      \<lparr>lo_connection = with_schema c, lo_config = config, lo_storage = Some ?o\<rparr> =
    (Ok (), \<lparr>lo_connection = st_connection ?o, lo_config = config, lo_storage = Some ?o\<rparr>)"
    using get_identity_of [OF good ident]
    by (simp add: ensure_identity_initialized_def on_storage_def opened_storage_def)
  from new_run [OF assms(1-3) good init] obtain l s where
    l: "lotl_new Q D S M R oc now config fs = (Ok l, fs')"
    "storage_of l = Some s" "s = ?o\<lparr>st_connection := st_connection s\<rparr>"
    "st_connection s = with_app_tables (st_connection ?o)" by (elim exE conjE)
  with app_tables_same [OF l(4) good l(3)] same ident show ?thesis by auto
qed

definition sample_reopened :: "string \<Rightarrow> (sql_error, conn) outcome" where
  "sample_reopened = (\<lambda>_. Ok (st_connection (sample_full [7, 8] [(1, 0, [])] [(1, 0, [])])))"

theorem restart_keeps_keys_witness:
  "\<exists>l s. lotl_new (sample_sqlcipher\<lparr>open_connection := sample_reopened\<rparr>) sample_hex sample_stores
      sample_makers sample_random True None sample_config sample_fs = (Ok l, sample_fs) \<and>
    storage_of l = Some s \<and> identity_of sample_stores s = Some [5, 1] \<and>
    pre_view sample_stores s 8 = Some (8, 0, [])"
proof -
  let ?s = "sample_full [7, 8] [(1, 0, [])] [(1, 0, [])]"
  let ?Q = "sample_sqlcipher\<lparr>open_connection := sample_reopened\<rparr>"
  note good = sample_full_good [of "[7, 8]" "[(1, 0, [])]" "[(1, 0, [])]"]
  have "db_connection_new ?Q sample_hex (rn_db_key sample_random) (db_path sample_config) sample_fs =
      (Ok (st_connection ?s), sample_fs)" by code_simp
  moreover have "db_path sample_config \<noteq> []" by (simp add: sample_config_def)
  moreover have "healthy (st_connection ?s)"
    using good by (simp add: stores_good_def identity_good_def ready_def)
  moreover have "identity_of sample_stores ?s = Some [5, 1]" using good identity_of_sample by blast
  moreover have "pre_view sample_stores ?s 8 = Some (8, 0, [])" using good by (simp add: sample_new_def)
  ultimately show ?thesis
    using restart_keeps_keys [of sample_config ?Q sample_hex sample_random sample_fs "st_connection ?s"
        sample_fs sample_stores ?s "[5, 1]" sample_makers True None] good
    by (metis (no_types, lifting))
qed

text \<open>
  C36: An interrupted first run is not repaired: when writing the registration id fails after the
  key pair was written, the first call reports the error, and every later one finds an identity,
  succeeds and changes nothing, so that the instance has registration id 0, no pre-key of any
  kind, and cannot make a bundle.
\<close>

theorem interrupted_first_run_not_repaired:
  fixes m :: string and l l0 :: Lotl
  assumes "storage_of l = Some s" "unprovisioned S s" "provisionable S M R sig kr"
  defines "l0 \<equiv> with_storage l (s\<lparr>st_connection := (st_connection s)\<lparr>faults := [None, None, None, Some m]\<rparr>\<rparr>)"
  shows "\<exists>e l1 s1. ensure_identity_initialized S M R oc now l0 = (Err e, l1) \<and>
    storage_of l1 = Some s1 \<and> ensure_identity_initialized S M R' oc now' l1 = (Ok (), l1) \<and>
    identity_of S s1 = Some (rn_identity R) \<and>
    (\<exists>row. local_row s1 = Some row \<and> li_registration_id row = 0) \<and>
    signed_view S s1 = Map.empty \<and> kyber_view S s1 = Map.empty \<and>
    (\<exists>l2. generate_prekey_bundle B S l1 = (Err (KeyNotFound (Text ''No pre-keys available'')), l2))"
proof -
  note u = assms(2) [unfolded unprovisioned_def] and p = assms(3) [unfolded provisionable_def]
  then have good: "identity_good s" "local_row s = None" by (simp_all add: stores_good_def)
  obtain s1 row where s1: "set_local_identity_key_pair (sqlite_identity_store (sl_identities S))
      (rn_identity R) s = (Ok (), s1)" "identity_good s1" "without_local s1 = without_local s"
    "local_row s1 = Some row" "li_private_key row = pair_serialize (sl_identities S) (rn_identity R)"
    "li_registration_id row = 0"
    using set_pair_law [OF good(1), of "sl_identities S" "rn_identity R"] unfolding good(2) by auto
  note a1 = stores_after_identity [OF conjunct1 [OF u] s1(2,3)]
  have id1: "identity_of S s1 = Some (rn_identity R)"
    using s1(4,5) p by (simp add: identity_of_def decoded_def)
  let ?e = "boxed (BoxSqlite (SqliteFailure m))"
  have "ensure_identity_initialized S M R oc now l0 = (Err ?e, with_storage l s1)"
    using good s1(1)
    by (auto simp: ensure_identity_initialized_def on_storage_present l0_def with_storage_def
        storage_of_def identity_good_def ready_def healthy_def local_row_def create_identity_def
        generate_identity_key_pair_def sqlite_identity_store_def through_def accessor_defs
        sqlite_get_identity_key_pair_def sqlite_set_local_identity_key_pair_def
        sqlite_set_local_registration_id_def prepare_s_def prepare_def query_row_def statement_fault
        execute_def on_table_def decode_row_def find_is_find_row with_lock_def Let_def
        on_storage_def statement_def)
  moreover have "ensure_identity_initialized S M R' oc now' (with_storage l s1) =
      (Ok (), with_storage l s1)"
    using get_identity_of [OF a1(1) id1]
    by (simp add: ensure_identity_initialized_def on_storage_present with_storage_def)
  moreover have "\<exists>l2. generate_prekey_bundle B S (with_storage l s1) =
      (Err (KeyNotFound (Text ''No pre-keys available'')), l2)"
    using build_bundle_missing(1) [OF a1(1) id1] a1(2) u
    by (simp add: generate_prekey_bundle_def on_storage_present)
  ultimately show ?thesis
    using s1(4,6) id1 a1 u
    by (intro exI [of _ ?e] exI [of _ "with_storage l s1"] exI [of _ s1]) simp
qed

theorem interrupted_first_run_not_repaired_witness:
  "\<exists>e l1. ensure_identity_initialized sample_stores sample_makers sample_random True (Some 1000)
      (with_storage (sample_lotl sample_storage) (sample_storage\<lparr>st_connection :=
         (st_connection sample_storage)\<lparr>faults := [None, None, None, Some ''disk I/O error'']\<rparr>\<rparr>)) =
      (Err e, l1) \<and>
    ensure_identity_initialized sample_stores sample_makers sample_random True (Some 2000) l1 = (Ok (), l1)"
proof -
  have "unprovisioned sample_stores sample_storage"
    by (simp add: unprovisioned_def stores_good_def)
      (simp add: sample_storage_eq identity_good_def local_row_def ready_def healthy_def empty_conn_def)
  from interrupted_first_run_not_repaired [OF storage_of_sample this sample_provisionable,
      where R' = sample_random and oc = True and now = "Some 1000" and now' = "Some 2000"]
  show ?thesis by blast
qed

end
