(* ===== verification/Lotl_Maintenance.thy ===== *)
theory Lotl_Maintenance
  imports Sample_Instance
begin

text \<open>
  What a maintenance run leaves behind, and examples for the properties of bundles and maintenance.
\<close>

lemma stocked_keeps:
  assumes "finite (dom v)" "ids_left 100 v"
  shows "v \<subseteq>\<^sub>m stocked new gen v" "MIN_PRE_KEY_COUNT \<le> card (dom (stocked new gen v))"
  using card_stocked [OF assms, of new gen] with_run_keeps [OF assms(1) ids_left_mono [OF assms(2)], THEN sym]
  by (auto simp: stocked_def map_le_def MIN_PRE_KEY_COUNT_def)

lemma rotated_view_keeps:
  assumes "finite (dom v)" "ids_left 1 v" "v i = Some r"
  shows "rotated_view L K ms0 ms1 kp ikp v i = Some r"
proof -
  have "i \<noteq> next_key_id v"
    using next_key_id_fresh [OF assms(1,2)] assms(3) by auto
  with assms(3) show ?thesis by (simp add: rotated_view_def split: outcome.split)
qed

lemma cleaned_rotation:
  assumes "finite (dom v)" "ids_left 1 v" "is_ok (calculate_signature K ikp (public_serialize K kp))"
    "cleaned old (rotated_view L K ms0 ms1 kp ikp v) v'"
  shows "\<forall>i r. v i = Some r \<and> \<not> old r \<longrightarrow> v' i = Some r" "v' \<noteq> Map.empty"
proof -
  show "v' \<noteq> Map.empty"
    using assms(4) rotated_view_nonempty [OF assms(3), of L ms0 ms1 v] by (simp add: cleaned_def)
  have "v' i = Some r" if "v i = Some r" "\<not> old r" for i r
    using assms(4) rotated_view_keeps [OF assms(1,2) that(1), of L K ms0 ms1 kp ikp] that(2)
    by (simp add: cleaned_def)
  then show "\<forall>i r. v i = Some r \<and> \<not> old r \<longrightarrow> v' i = Some r" by blast
qed

text \<open>
  C7: A maintenance run reports exactly what it did and leaves a working stock: the identity and
  the sessions are untouched, no one-time pre-key is lost and at least 50 are there, signed and
  Kyber keys were rotated when due and no unexpired one was lost, and neither store is empty, so
  that a bundle can be made.
\<close>

theorem maintenance_postcondition:
  assumes "storage_of l = Some s" "maintainable S M R ms s"
  shows "\<exists>res l' s'. perform_key_maintenance S M R oc (\<lambda>i. Some (ms i)) l = (Ok res, l') \<and>
    storage_of l' = Some s' \<and> stores_good S s' \<and> identity_of S s' = identity_of S s \<and>
    sessions (st_connection s') = sessions (st_connection s) \<and>
    pre_keys_generated res = (if card (dom (pre_view S s)) < 50 then 100 else 0) \<and>
    pre_view S s \<subseteq>\<^sub>m pre_view S s' \<and> 50 \<le> card (dom (pre_view S s')) \<and>
    card (dom (pre_view S s')) = card (dom (pre_view S s)) + unat (pre_keys_generated res) \<and>
    signed_pre_key_rotated res = rotation_due (sl_signed S) (signed_view S s) (ms 0) \<and>
    kyber_pre_key_rotated res = rotation_due (sl_kyber S) (kyber_view S s) (ms 2) \<and>
    (\<forall>i r. signed_view S s i = Some r \<and> \<not> expired_secs (sl_signed S) (cutoff_at (ms 4)) r \<longrightarrow>
       signed_view S s' i = Some r) \<and>
    (\<forall>i r. kyber_view S s i = Some r \<and> \<not> expired_secs (sl_kyber S) (cutoff_at (ms 5)) r \<longrightarrow>
       kyber_view S s' i = Some r) \<and>
    signed_view S s' \<noteq> Map.empty \<and> kyber_view S s' \<noteq> Map.empty"
proof -
  note m = assms(2) [unfolded maintainable_def]
  then obtain ikp where ikp: "identity_of S s = Some ikp"
    and sigs: "is_ok (calculate_signature (ml_signed M) ikp (public_serialize (ml_signed M) (rn_signed R)))"
      "is_ok (calculate_signature (ml_kyber M) ikp (public_serialize (ml_kyber M) (rn_kyber R)))" by auto
  from m have good: "stores_good S s" and left: "ids_left 100 (pre_view S s)"
    "ids_left 1 (signed_view S s)" "ids_left 1 (kyber_view S s)" by simp_all
  note fin = sqlite_one_time.finite_view [OF stores_goodD(1) [OF good]]
    sqlite_signed.finite_view [OF stores_goodD(2) [OF good]]
    sqlite_kyber.finite_view [OF stores_goodD(3) [OF good]]
  let ?rsv = "rotated_view (sl_signed S) (ml_signed M) (ms 0) (ms 1) (rn_signed R) ikp (signed_view S s)"
    and ?rkv = "rotated_view (sl_kyber S) (ml_kyber M) (ms 2) (ms 3) (rn_kyber R) ikp (kyber_view S s)"
  obtain l' s' where run: "perform_key_maintenance S M R oc (\<lambda>i. Some (ms i)) l =
      (Ok \<lparr>pre_keys_generated = (if card (dom (pre_view S s)) < MIN_PRE_KEY_COUNT then 100 else 0),
         signed_pre_key_rotated = rotation_due (sl_signed S) (signed_view S s) (ms 0),
         kyber_pre_key_rotated = rotation_due (sl_kyber S) (kyber_view S s) (ms 2)\<rparr>, l')"
    "storage_of l' = Some s'" "stores_good S s'" "identity_of S s' = Some ikp"
    "sessions (st_connection s') = sessions (st_connection s)"
    "pre_view S s' = stocked (ml_pre_key M) (rn_pre_keys R) (pre_view S s)"
    and clean: "cleaned (expired_secs (sl_signed S) (cutoff_at (ms 4))) ?rsv (signed_view S s')"
      "cleaned (expired_secs (sl_kyber S) (cutoff_at (ms 5))) ?rkv (kyber_view S s')"
    using maintenance_run [OF assms ikp, of oc] by (elim exE conjE)
  note cleaned_rotation [OF fin(2) left(2) sigs(1) clean(1)] cleaned_rotation [OF fin(3) left(3) sigs(2) clean(2)]
  moreover have "card (dom (pre_view S s')) =
      card (dom (pre_view S s)) + (if card (dom (pre_view S s)) < MIN_PRE_KEY_COUNT then 100 else 0)"
    unfolding run(6) by (rule card_stocked [OF fin(1) left(1)])
  moreover have "unat (100 :: u32) = 100" by simp
  moreover note run(1-5) stocked_keeps [OF fin(1) left(1), of "ml_pre_key M" "rn_pre_keys R", folded run(6)]
  ultimately show ?thesis
    by (intro exI [of _ "\<lparr>pre_keys_generated = (if card (dom (pre_view S s)) < MIN_PRE_KEY_COUNT then 100 else 0),
         signed_pre_key_rotated = rotation_due (sl_signed S) (signed_view S s) (ms 0),
         kyber_pre_key_rotated = rotation_due (sl_kyber S) (kyber_view S s) (ms 2)\<rparr>"]
        exI [of _ l'] exI [of _ s'] conjI)
      (simp_all only: ikp MIN_PRE_KEY_COUNT_def MaintenanceResult.select_convs if_distrib [of unat] simp_thms
        unsigned_0)
qed

lemma sample_newest [simp]:
  "newest [i \<mapsto> r] = Some (i, r)" "next_key_id [i \<mapsto> r] = i + 1"
  by (simp_all add: newest_def next_key_id_def)

text \<open>
  A stock that needs one-time pre-keys, with a signed key of a given time; the Kyber key is fresh. When
  the signed key is worn it needs rotation, too.
\<close>

abbreviation sample_aged :: "u64 \<Rightarrow> sqlite_storage" where
  "sample_aged t \<equiv> sample_full [7, 8] [(1, t, [])] [(4, 700000000, [])]"

abbreviation sample_worn :: sqlite_storage where
  "sample_worn \<equiv> sample_aged 0"

lemma sample_aged_views:
  "stores_good sample_stores (sample_aged t)" "local_row (sample_aged t) = Some sample_row"
  "dom (pre_view sample_stores (sample_aged t)) = {7, 8}" "pre_view sample_stores (sample_aged t) 8 = Some (8, 0, [])"
  "signed_view sample_stores (sample_aged t) = [1 \<mapsto> (1, t, [])]"
  "kyber_view sample_stores (sample_aged t) = [4 \<mapsto> (4, 700000000, [])]"
  using sample_full_good [of "[7, 8]" "[(1, t, [])]" "[(4, 700000000, [])]"]
  by (auto simp: sample_new_def split: if_splits)

lemmas sample_worn_views = sample_aged_views [of 0]

lemma max_sample [simp]: "Max {7, 8 :: u32} = 8"
  by (simp add: max_def word_le_nat_alt)

lemma sample_aged_maintainable:
  assumes "t \<le> 700000000"
  shows "maintainable sample_stores sample_makers sample_random (\<lambda>_. 700000000) (sample_aged t)"
  using assms sample_aged_views(1) identity_of_sample [OF sample_aged_views(2)]
  by (simp add: maintainable_def sample_aged_views(3,5,6) clock_fine_def ids_left_def
      millis_u64_def GRACE_PERIOD_SECS_def word_le_nat_alt is_ok_iff del: sample_libs(3-5))
    simp

theorem maintenance_postcondition_witness:
  "\<exists>res l' s'. perform_key_maintenance sample_stores sample_makers sample_random True
      (\<lambda>i. Some 700000000) (sample_lotl sample_worn) = (Ok res, l') \<and>
    storage_of l' = Some s' \<and> pre_keys_generated res = 100 \<and> signed_pre_key_rotated res \<and>
    \<not> kyber_pre_key_rotated res \<and> kyber_view sample_stores s' 4 = Some (4, 700000000, [])"
proof -
  from maintenance_postcondition [OF storage_of_sample sample_aged_maintainable [of 0, OF word_zero_le], of True]
  show ?thesis
    unfolding sample_worn_views(3,5,6)
    by (elim exE conjE) (simp add: rotation_due_def millis_u64_def expired_secs_def
        GRACE_PERIOD_SECS_def)
qed

text \<open>A bundle of that instance, and a bincode that knows only it.\<close>

definition sample_bundle :: SerializableBundle where
  "sample_bundle = \<lparr>sb_version = ''0.1.0'', sb_registration_id = 0, sb_device_id = 1,
     sb_pre_key_id = 8, sb_pre_key_public = [], sb_signed_pre_key_id = 1,
     sb_signed_pre_key_public = [], sb_signed_pre_key_signature = [], sb_identity_key = [1],
     sb_kyber_pre_key_id = 4, sb_kyber_pre_key_public = [], sb_kyber_pre_key_signature = []\<rparr>"

definition sample_bundles :: "(bytes, bytes, bytes, bytes) bundle_lib" where
  "sample_bundles = \<lparr>bincode_serialize = \<lambda>b. if b = sample_bundle then Ok [42] else Err ''unknown'',
     bincode_deserialize = \<lambda>bs. if bs = [42] then Ok sample_bundle else Err ''unknown'',
     public_key_deserialize = Ok, kem_public_key_deserialize = Ok, device_id_new = Ok,
     pre_key_bundle_new = \<lambda>_ _ _ _ _ _ _ _ _ _. Ok [9]\<rparr>"

lemma sample_aged_bundle: "bundle_for sample_stores (sample_aged t) sample_bundle"
proof -
  have "newest (pre_view sample_stores (sample_aged t)) = Some (8, 8, 0, [])"
    unfolding newest_def sample_aged_views(3) max_sample
    by (simp add: sample_aged_views(4) del: sample_libs)
  then show ?thesis
    using identity_of_sample [OF sample_aged_views(2)] sample_aged_views(2,5,6)
    by (simp add: bundle_for_def sample_bundle_def CARGO_PKG_VERSION_def
        sample_records_def sample_identities_def del: sample_libs(3-5)) (simp add: sample_records_def)
qed

lemmas sample_worn_bundle = sample_aged_bundle [of 0]

theorem bundle_publishes_newest_keys_witness:
  "\<exists>l'. generate_prekey_bundle sample_bundles sample_stores (sample_lotl sample_worn) = (Ok [42], l') \<and>
    generate_prekey_bundle_with_metadata sample_bundles sample_stores (sample_lotl sample_worn) =
      (Ok ([42], 8, 1, 4), l') \<and>
    identity_key_from_bundle sample_bundles [42] = Ok [1]"
proof -
  have "bincode_serialize sample_bundles sample_bundle = Ok [42]"
    "bincode_deserialize sample_bundles [42] = Ok sample_bundle" by (simp_all add: sample_bundles_def)
  from bundle_publishes_newest_keys [OF storage_of_sample sample_worn_views(1) sample_worn_bundle this]
  show ?thesis
    using identity_of_sample [OF sample_worn_views(2)]
    unfolding sample_worn_views(3,5,6) max_sample by (simp add: sample_identities_def) blast
qed

theorem bundle_reports_missing_key_witness:
  "\<exists>l'. generate_prekey_bundle sample_bundles sample_stores (sample_lotl (sample_full [7] [] [(4, 0, [])])) =
    (Err (KeyNotFound (Text ''No signed pre-key available'')), l')"
proof -
  let ?s = "sample_full [7] [] [(4, 0, [])]"
  note good = sample_full_good [of "[7]" "[]" "[(4, 0, [])]"]
  then have views: "pre_view sample_stores ?s = [7 \<mapsto> sample_new 7 []]"
    "signed_view sample_stores ?s = Map.empty" by (auto simp: fun_eq_iff)
  have "(7 :: u32) \<in> dom (pre_view sample_stores ?s)" unfolding views by simp
  then have "pre_view sample_stores ?s \<noteq> Map.empty" by auto
  with bundle_reports_missing_key [OF storage_of_sample _ identity_of_sample, of ?s sample_bundles]
    good views(2) show ?thesis by auto
qed

end
