(* ===== verification/Lotl_Sessions.thy ===== *)
theory Lotl_Sessions
  imports Lotl_Maintenance Contact_Manager
begin

text \<open>
  Peers at the public interface: which sessions the instance sees, what processing a bundle and
  deleting a session change of it, and that two instances agree on a fingerprint.
\<close>

section \<open>The sessions an instance sees\<close>

definition peer_address :: "string \<Rightarrow> ProtocolAddress" where
  "peer_address peer_id = \<lparr>address_name = peer_id, address_device_id = 1\<rparr>"

lemma peer_address_inject [simp]: "peer_address p = peer_address q \<longleftrightarrow> p = q"
  by (simp add: peer_address_def)

lemma session_rows_present:
  assumes "blobs_good dec session_key se_session_data rows"
  shows "filter (\<lambda>r. se_address r = p \<and> se_device_id r = 1) rows \<noteq> [] \<longleftrightarrow>
    blob_view dec session_key se_session_data (Some rows) (address_pair (peer_address p)) \<noteq> None"
proof -
  have "filter (\<lambda>r. se_address r = p \<and> se_device_id r = 1) rows =
      filter (\<lambda>r. session_key r = address_pair (peer_address p)) rows"
    by (rule filter_cong) (auto simp: session_key_def address_pair_def peer_address_def device_number_def)
  then show ?thesis
    using assms find_row_in [of session_key rows]
    by (cases rule: blob_view_cases [OF assms, of "address_pair (peer_address p)"])
      (auto simp: filter_key_empty)
qed

lemma has_session_view:
  assumes "storage_of l = Some s" "sqlite_sessions_good L s"
  shows "has_session p l = (sqlite_sessions_view L s (peer_address p) \<noteq> None, l)"
proof -
  from assms(1) obtain st where st: "lo_storage l = Some st" "st_connection s = lo_connection l"
    by (auto simp: storage_of_def)
  from assms(2) st(2) obtain rows where rows: "faults (lo_connection l) = []"
    "\<not> poisoned (lo_connection l)" "sessions (lo_connection l) = Some rows"
    "blobs_good (deserialize L) session_key se_session_data rows"
    by (auto simp: sqlite_sessions_good_def ready_def healthy_def)
  show ?thesis
    using session_rows_present [OF rows(4), of p] rows(1-3) st
    by (simp add: has_session_def sql_simps sqlite_sessions_view_def)
qed

text \<open>
  C27: Deleting the session with a peer leaves no session with it, and every session with another
  peer as it was.
\<close>

theorem session_deleted:
  assumes "storage_of l = Some s" "sqlite_sessions_good (sl_sessions S) s" "device_id_new B 1 = Ok 1"
  shows "\<exists>l' s'. lotl_delete_session B S p l = (Ok (), l') \<and> storage_of l' = Some s' \<and>
    sqlite_sessions_good (sl_sessions S) s' \<and> fst (has_session p l') = False \<and>
    (\<forall>q. q \<noteq> p \<longrightarrow> fst (has_session q l') = fst (has_session q l))"
proof -
  obtain s' where s': "delete_session (sqlite_session_store (sl_sessions S)) (peer_address p) s = (Ok (), s')"
    "sqlite_sessions_good (sl_sessions S) s'"
    "sqlite_sessions_view (sl_sessions S) s' = (sqlite_sessions_view (sl_sessions S) s)(peer_address p := None)"
    using sqlite_delete_session_law [OF assms(2)] by blast
  have "lotl_delete_session B S p l = (Ok (), with_storage l s')"
    using s'(1) by (simp add: lotl_delete_session_def assms(1,3) on_storage_present peer_address_def)
  with s' show ?thesis
    using has_session_view [OF assms(1,2)] has_session_view [OF storage_of_with(1) s'(2)] by auto
qed

definition sample_sessions_of :: "ProtocolAddress list \<Rightarrow> sqlite_storage" where
  "sample_sessions_of as = fold (\<lambda>a s. snd (store_session (sqlite_session_store sample_sessions) a [7] s))
     as sample_storage"

lemma sample_sessions_of_good:
  "sqlite_sessions_good sample_sessions (sample_sessions_of as) \<and>
    sqlite_sessions_view sample_sessions (sample_sessions_of as) =
      (\<lambda>a. if a \<in> set as then Some [7] else None)"
proof (induction as rule: rev_induct)
  case (snoc a as)
  then show ?case
    using sqlite_store_law [of sample_sessions "sample_sessions_of as" "[7]" a]
    by (auto simp: sample_sessions_of_def fun_eq_iff)
qed (simp add: sample_sessions_of_def)

theorem session_deleted_witness:
  "\<exists>l'. lotl_delete_session sample_bundles sample_stores ''bob''
      (sample_lotl (sample_sessions_of [peer_address ''alice'', peer_address ''bob''])) = (Ok (), l') \<and>
    \<not> fst (has_session ''bob'' l') \<and> fst (has_session ''alice'' l')"
proof -
  let ?s = "sample_sessions_of [peer_address ''alice'', peer_address ''bob'']"
  note good = sample_sessions_of_good [of "[peer_address ''alice'', peer_address ''bob'']"]
  have "fst (has_session ''alice'' (sample_lotl ?s))"
    using has_session_view [OF storage_of_sample, of sample_sessions ?s] good by simp
  moreover have "device_id_new sample_bundles 1 = Ok 1" by (simp add: sample_bundles_def)
  ultimately show ?thesis
    using session_deleted [OF storage_of_sample, of sample_stores ?s sample_bundles "''bob''"] good
    by auto
qed

section \<open>Processing a bundle\<close>

text \<open>The bytes decode to a bundle for the given device.\<close>

definition bundle_decodes :: "('ik, 'pub, 'kpub, 'pkb) bundle_lib
    \<Rightarrow> ('sess, 'ikp, 'ik, 'pk, 'spk, 'kyr) store_libs \<Rightarrow> bytes \<Rightarrow> u8 \<Rightarrow> 'pkb \<Rightarrow> bool" where
  "bundle_decodes B S bytes d pkb \<longleftrightarrow>
     (\<exists>sb ik pre signed kyber.
        bincode_deserialize B bytes = Ok sb \<and> ik_decode (sl_identities S) (sb_identity_key sb) = Ok ik \<and>
        public_key_deserialize B (sb_pre_key_public sb) = Ok pre \<and>
        public_key_deserialize B (sb_signed_pre_key_public sb) = Ok signed \<and>
        kem_public_key_deserialize B (sb_kyber_pre_key_public sb) = Ok kyber \<and>
        device_id_new B (sb_device_id sb) = Ok d \<and>
        pre_key_bundle_new B (sb_registration_id sb) d (Some (sb_pre_key_id sb, pre))
          (sb_signed_pre_key_id sb) signed (sb_signed_pre_key_signature sb) (sb_kyber_pre_key_id sb)
          kyber (sb_kyber_pre_key_signature sb) ik = Ok pkb)"

text \<open>
  The protocol's \<^verbatim>\<open>process_prekey_bundle\<close> accepts a bundle in a storage: it stores a session under
  the address it was given, and changes no other session.
\<close>

definition accepts_bundle where
  "accepts_bundle S P pkb a s \<longleftrightarrow>
     (\<exists>c r. process_prekey_bundle_lib P a (conn_session_store (sl_sessions S))
         (conn_identity_store (sl_identities S)) pkb (st_connection s) = (Ok (), c) \<and>
       sqlite_sessions_good (sl_sessions S) (s\<lparr>st_connection := c\<rparr>) \<and>
       sqlite_sessions_view (sl_sessions S) (s\<lparr>st_connection := c\<rparr>) =
         (sqlite_sessions_view (sl_sessions S) s)(a \<mapsto> r))"

text \<open>
  C26: Processing a bundle of a peer's device 1 gives a session with the peer; processing one of
  any other device succeeds as well, but gives no session that \<open>has_session\<close>, \<open>encrypt\<close> or
  \<open>decrypt\<close> would ever look at. Sessions with other peers stay.
\<close>

theorem bundle_gives_session:
  assumes "storage_of l = Some s" "sqlite_sessions_good (sl_sessions S) s"
    "st_session_store s" "st_identity_store s" "bundle_decodes B S bytes d pkb"
    "accepts_bundle S P pkb \<lparr>address_name = p, address_device_id = d\<rparr> s"
  shows "\<exists>l' s'. process_prekey_bundle B S P p bytes l = (Ok (), l') \<and> storage_of l' = Some s' \<and>
    sqlite_sessions_good (sl_sessions S) s' \<and>
    (\<forall>q. fst (has_session q l') = (q = p \<and> d = 1 \<or> fst (has_session q l)))"
proof -
  let ?a = "\<lparr>address_name = p, address_device_id = d\<rparr>"
  from assms(6) obtain c r where c: "process_prekey_bundle_lib P ?a (conn_session_store (sl_sessions S))
      (conn_identity_store (sl_identities S)) pkb (st_connection s) = (Ok (), c)"
    "sqlite_sessions_good (sl_sessions S) (s\<lparr>st_connection := c\<rparr>)"
    "sqlite_sessions_view (sl_sessions S) (s\<lparr>st_connection := c\<rparr>) =
      (sqlite_sessions_view (sl_sessions S) s)(?a \<mapsto> r)" unfolding accepts_bundle_def by blast
  have "process_prekey_bundle B S P p bytes l = (Ok (), with_storage l (s\<lparr>st_connection := c\<rparr>))"
    using assms(5) by (auto simp: bundle_decodes_def process_prekey_bundle_def assms(1,3,4)
        on_storage_present sqlite_establish_session_from_bundle_def with_stores_def c(1))
  moreover have "peer_address q = ?a \<longleftrightarrow> q = p \<and> d = 1" for q by (auto simp: peer_address_def)
  ultimately show ?thesis
    using has_session_view [OF assms(1,2)] has_session_view [OF storage_of_with(1) c(2)] c(2,3) by auto
qed

definition sample_store_only :: "('s, bytes, bytes, bytes, sample_record, sample_record, sample_record,
    bytes, bytes) protocol_lib" where
  "sample_store_only = sample_protocol
     \<lparr>process_prekey_bundle_lib := \<lambda>a st ids pkb. store_session st a pkb\<rparr>"

lemma store_through:
  "ready s \<Longrightarrow> store_session (sqlite_session_store L) a r s = (Ok (), s') \<Longrightarrow>
    \<exists>c. sqlite_store_session L a r (st_connection s) = (Ok (), c) \<and> s' = s\<lparr>st_connection := c\<rparr>"
  by (auto simp: sqlite_session_store_def through_ready split: prod.splits)

theorem bundle_gives_session_witness:
  "\<exists>l'. process_prekey_bundle sample_bundles sample_stores sample_store_only ''carol'' [42]
      (sample_lotl (sample_sessions_of [])) = (Ok (), l') \<and> fst (has_session ''carol'' l')"
proof -
  let ?s = "sample_sessions_of []" and ?a = "\<lparr>address_name = ''carol'', address_device_id = 1\<rparr>"
  note good = sample_sessions_of_good [of "[]", THEN conjunct1]
  then have ready: "ready ?s" by (simp add: sqlite_sessions_good_def)
  obtain s' where s': "store_session (sqlite_session_store sample_sessions) ?a [9] ?s = (Ok (), s')"
    "sqlite_sessions_good sample_sessions s'"
    "sqlite_sessions_view sample_sessions s' = (sqlite_sessions_view sample_sessions ?s)(?a \<mapsto> [9])"
    using sqlite_store_law [OF good sample_sessions_round_trip, of ?a "[9]"] by blast
  from store_through [OF ready s'(1)] s'(2,3) have "accepts_bundle sample_stores sample_store_only [9] ?a ?s"
    by (auto simp: accepts_bundle_def sample_store_only_def conn_session_store_def)
  moreover have "bundle_decodes sample_bundles sample_stores [42] 1 [9]"
    by (simp add: bundle_decodes_def sample_bundles_def sample_bundle_def sample_identities_def)
  moreover have "st_session_store ?s" "st_identity_store ?s"
    by (simp_all add: sample_sessions_of_def sample_storage_eq)
  ultimately show ?thesis
    using bundle_gives_session [OF storage_of_sample, of sample_stores ?s sample_bundles "[42]" 1 "[9]"
        sample_store_only "''carol''"] good by auto
qed

section \<open>Fingerprints\<close>

lemma get_identity_key_good:
  assumes "storage_of l = Some s" "identity_good s" "local_row s = Some row"
  shows "get_identity_key l = (Ok (li_public_key row), l)"
proof -
  from assms(1) have st: "st_connection s = lo_connection l" by (auto simp: storage_of_def)
  from assms(2) st obtain rows where rows: "faults (lo_connection l) = []"
    "\<not> poisoned (lo_connection l)" "local_identity (lo_connection l) = Some rows"
    by (auto simp: identity_good_def ready_def healthy_def)
  moreover have "find (\<lambda>r. li_id r = 1) rows = Some row"
    using assms(3) st rows(3) by (simp add: local_row_def find_is_find_row)
  ultimately show ?thesis
    by (simp add: get_identity_key_def on_connection_def with_lock_def sql_simps)
qed

text \<open>
  C28: Two instances with the same salt and prefix agree on a fingerprint: the one a peer computes
  when it adds the key found in this instance's bundle as a contact is the one this instance
  reports, and looking it up gives that key.
\<close>

theorem fingerprints_agree:
  assumes "storage_of l = Some s" "stores_good S s" "bundle_for S s b"
    "bincode_serialize B b = Ok bytes" "bincode_deserialize B bytes = Ok b"
    "local_row s = Some row" "li_public_key row = sb_identity_key b"
    "contacts_good (lo_connection peer)"
    "fingerprint_salt (lo_config peer) = fingerprint_salt (lo_config l)"
    "fingerprint_prefix (lo_config peer) = fingerprint_prefix (lo_config l)"
  shows "\<exists>key fp peer' i. fst (generate_prekey_bundle B S l) = Ok bytes \<and>
    identity_key_from_bundle B bytes = Ok key \<and>
    lotl_add_contact D (Some ms) key alias peer = (Ok fp, peer') \<and>
    fst (get_fingerprint D l) = Ok fp \<and>
    fst (lotl_lookup_contact fp peer') = Ok (Some i) \<and> ci_signal_identity_key i = key"
proof -
  let ?key = "sb_identity_key b"
  let ?fp = "generate_fingerprint D ?key (fingerprint_salt (lo_config l)) (fingerprint_prefix (lo_config l))"
  have bytes: "fst (generate_prekey_bundle B S l) = Ok bytes"
    by (simp add: generate_prekey_bundle_def assms(1,4) on_storage_present
        build_bundle_good [OF assms(2,3)])
  have key: "identity_key_from_bundle B bytes = Ok ?key"
    by (simp add: identity_key_from_bundle_def assms(5))
  obtain c where c: "add_contact D (Some ms) ?key alias (fingerprint_salt (lo_config l))
      (fingerprint_prefix (lo_config l)) (lo_connection peer) = (Ok ?fp, c)" "contacts_good c"
    "contacts_view c ?fp = Some (added ?fp ?key alias (secs_i64 ms) (contacts_view (lo_connection peer) ?fp))"
    using add_contact_good [OF assms(8) refl, of D ms ?key "alias" "fingerprint_salt (lo_config l)"
        "fingerprint_prefix (lo_config l)"] by (metis fun_upd_same)
  have unlocked: "\<not> poisoned (lo_connection peer)" "\<not> poisoned c"
    using assms(8) c(2) by (auto simp: contacts_good_def healthy_def)
  have add: "lotl_add_contact D (Some ms) ?key alias peer = (Ok ?fp, peer\<lparr>lo_connection := c\<rparr>)"
    using unlocked by (simp add: lotl_add_contact_def on_connection_def with_lock_def assms(9,10) c(1))
  have lookup: "fst (lotl_lookup_contact ?fp (peer\<lparr>lo_connection := c\<rparr>)) =
      Ok (Some (added ?fp ?key alias (secs_i64 ms) (contacts_view (lo_connection peer) ?fp)))"
    using unlocked lookup_good [OF c(2)] c(3)
    by (simp add: lotl_lookup_contact_def on_connection_def with_lock_def)
  have "get_identity_key l = (Ok ?key, l)"
    using get_identity_key_good [OF assms(1) _ assms(6)] assms(2,7) by (simp add: stores_good_def)
  then have "fst (get_fingerprint D l) = Ok ?fp" by (simp add: get_fingerprint_def)
  with bytes key add lookup show ?thesis
    by (intro exI [of _ ?key] exI [of _ ?fp] exI [of _ "peer\<lparr>lo_connection := c\<rparr>"] exI conjI)
      (simp_all add: added_def)
qed

theorem fingerprints_agree_witness:
  "\<exists>fp peer'. lotl_add_contact sample_digest (Some 9000) [1] None
      \<lparr>lo_connection = sample_contacts, lo_config = sample_config, lo_storage = None\<rparr> = (Ok fp, peer') \<and>
    fst (get_fingerprint sample_digest (sample_lotl sample_worn)) = Ok fp"
proof -
  let ?peer = "\<lparr>lo_connection = sample_contacts, lo_config = sample_config, lo_storage = None\<rparr>"
  note good = sample_full_good [of "[7, 8]" "[(1, 0, [])]" "[(4, 700000000, [])]"]
  have "bincode_serialize sample_bundles sample_bundle = Ok [42]"
    "bincode_deserialize sample_bundles [42] = Ok sample_bundle"
    "li_public_key sample_row = sb_identity_key sample_bundle"
    "identity_key_from_bundle sample_bundles [42] = Ok [1]"
    by (simp_all add: sample_bundles_def sample_bundle_def identity_key_from_bundle_def)
  with fingerprints_agree [OF storage_of_sample _ sample_worn_bundle this(1,2) _ this(3),
      of ?peer sample_digest 9000 None] good show ?thesis by (simp add: sample_lotl_def) auto
qed

section \<open>The Nostr key pair\<close>

text \<open>
  C29: The Nostr secret key of an instance is no secret: it is derived from the public identity key,
  which every bundle contains, so whoever has a bundle and knows the derivation context computes the
  same key pair.
\<close>

theorem nostr_secret_from_bundle:
  assumes "storage_of l = Some s" "stores_good S s" "bundle_for S s b"
    "bincode_serialize B b = Ok bytes" "bincode_deserialize B bytes = Ok b"
    "local_row s = Some row" "li_public_key row = sb_identity_key b"
  shows "\<exists>key. fst (generate_prekey_bundle B S l) = Ok bytes \<and>
    identity_key_from_bundle B bytes = Ok key \<and>
    fst (lotl_derive_nostr_keypair N config l) = derive_nostr_keypair N key config"
proof -
  have "get_identity_key l = (Ok (sb_identity_key b), l)"
    using get_identity_key_good [OF assms(1) _ assms(6)] assms(2,7) by (simp add: stores_good_def)
  then show ?thesis
    by (intro exI [of _ "sb_identity_key b"])
      (simp add: generate_prekey_bundle_def assms(1,4,5) on_storage_present
        build_bundle_good [OF assms(2,3)] identity_key_from_bundle_def lotl_derive_nostr_keypair_def)
qed

definition sample_nostr_lib :: "(bytes, bytes) nostr_lib" where
  "sample_nostr_lib = \<lparr>hkdf_expand = \<lambda>key info. Some (key @ info), secret_from_slice = Ok,
     keys_public_key = \<lambda>sk. sk\<rparr>"

theorem nostr_secret_from_bundle_witness:
  "fst (lotl_derive_nostr_keypair sample_nostr_lib default_nostr_config (sample_lotl sample_worn)) =
    derive_nostr_keypair sample_nostr_lib [1] default_nostr_config"
proof -
  have "bincode_serialize sample_bundles sample_bundle = Ok [42]"
    "bincode_deserialize sample_bundles [42] = Ok sample_bundle"
    "li_public_key sample_row = sb_identity_key sample_bundle"
    "identity_key_from_bundle sample_bundles [42] = Ok [1]"
    by (simp_all add: sample_bundles_def sample_bundle_def identity_key_from_bundle_def)
  with nostr_secret_from_bundle [OF storage_of_sample sample_worn_views(1) sample_worn_bundle this(1,2)
      sample_worn_views(2) this(3)] show ?thesis by auto
qed

end
