(* ===== verification/Lotl_Fault_Safety.thy ===== *)
theory Lotl_Fault_Safety
  imports Sample_Instance
begin

text \<open>
  What a maintenance run does when database statements fail: nothing here assumes a healthy
  connection, an open storage or a successful result. The operations of the key stores are shown to
  keep an invariant of the tables, once for each table; rotation and clean-up keep it for any store
  with that contract.
\<close>

section \<open>Invariants along locked regions\<close>

definition lock_blind :: "(conn \<Rightarrow> bool) \<Rightarrow> bool" where
  "lock_blind I \<longleftrightarrow> fault_blind I \<and> (\<forall>c b. I (c\<lparr>poisoned := b\<rparr>) \<longleftrightarrow> I c)"

lemma lock_blind_faults [simp]: "lock_blind I \<Longrightarrow> fault_blind I"
  by (simp add: lock_blind_def)

lemma kept_with_lock [kept_intros]:
  assumes "lock_blind I" "I c" "kept I (f c)"
  shows "kept I (with_lock f c)"
  using assms
  by (auto simp: with_lock_def lock_blind_def split: prod.splits outcome.splits)

lemma kept_unwrap [kept_intros]: "kept I r \<Longrightarrow> kept I (unwrap_o m r)" "kept I r \<Longrightarrow> kept I (unwrap_or_o d r)"
  by (cases r; cases "fst r"; simp)+

lemma kept_query_max [kept_intros]:
  "fault_blind I \<Longrightarrow> I c \<Longrightarrow> kept I (query_max name tbl col c)"
  unfolding query_max_def by (intro kept_statement kept_on_table) (auto split: option.splits)

lemma kept_decode_row [kept_intros]: "kept I r \<Longrightarrow> kept I (decode_row p dec wrap absent r)"
  by (cases r; cases "fst r") (auto simp: decode_row_def intro!: kept_intros split: sql_error.splits)

lemma kept_prepare_s [kept_intros]: "fault_blind I \<Longrightarrow> I c \<Longrightarrow> kept I (prepare_s name tbl c)"
  unfolding prepare_s_def by (rule kept_map_err [OF kept_prepare])

lemma kept_count_rows [kept_intros]: "lock_blind I \<Longrightarrow> I c \<Longrightarrow> kept I (count_rows name tbl c)"
  unfolding count_rows_def by (intro kept_intros) auto

lemma kept_max_row_id [kept_intros]: "lock_blind I \<Longrightarrow> I c \<Longrightarrow> kept I (max_row_id name tbl col c)"
  unfolding max_row_id_def by (intro kept_intros) auto

text \<open>A read whose outcome is matched, and a write whose rows were read before.\<close>

lemma kept_case_read:
  "kept I r \<Longrightarrow> (\<And>x s. I s \<Longrightarrow> kept I (g x s)) \<Longrightarrow> kept I (case r of (x, s) \<Rightarrow> g x s)"
  by (cases r) simp

lemma kept_known_rows:
  assumes "lock_blind I" "I c" "tbl c = Some rows" "\<And>c fs. tbl (c\<lparr>faults := fs\<rparr>) = tbl c"
    "\<And>c. I c \<Longrightarrow> tbl c = Some rows \<Longrightarrow> I (put (f rows) c)"
  shows "kept I (with_lock (\<lambda>c. map_err g (execute name tbl put f c)) c)"
  using assms
  by (auto simp: with_lock_def execute_def statement_def on_table_def lock_blind_def fault_blind_def
      split: list.splits option.splits)

text \<open>A count above one is the number of rows.\<close>

lemma count_rows_above:
  assumes "count_rows name tbl c = (Ok n, c')" "0 < n" "\<And>c fs. tbl (c\<lparr>faults := fs\<rparr>) = tbl c"
  shows "\<exists>rows fs. tbl c = Some rows \<and> n = length rows \<and> c' = c\<lparr>faults := fs\<rparr>"
proof -
  have same [simp]: "\<exists>fs. c = c\<lparr>faults := fs\<rparr>" for c :: conn
    by (rule exI [of _ "faults c"]) simp
  show ?thesis
    using assms(1,2)
    by (auto simp: count_rows_def with_lock_def prepare_def query_all_def statement_def on_table_def
        assms(3) split: list.splits option.splits if_splits)
qed

lemma through_OkD:
  "through acc f s = (Ok v, s1) \<Longrightarrow>
    \<exists>c. f (st_connection s) = (Ok v, c) \<and> s1 = s\<lparr>st_connection := c\<rparr>"
  by (auto simp: through_def and_then_Ok_conv split: prod.splits)

text \<open>The same of a storage: the object stays as it was but for its connection, which keeps \<open>I\<close>.\<close>

definition on_conn :: "sqlite_storage \<Rightarrow> (conn \<Rightarrow> bool) \<Rightarrow> sqlite_storage \<Rightarrow> bool" where
  "on_conn st I s \<longleftrightarrow> s\<lparr>st_connection := st_connection st\<rparr> = st \<and> I (st_connection s)"

lemma on_connD: "on_conn st I s \<Longrightarrow> I (st_connection s)"
  by (auto simp: on_conn_def)

lemma on_conn_put [simp]: "on_conn st I s \<Longrightarrow> on_conn st I (s\<lparr>st_connection := c\<rparr>) \<longleftrightarrow> I c"
  by (simp add: on_conn_def)

lemma on_conn_self [simp]: "on_conn s I s \<longleftrightarrow> I (st_connection s)"
  by (simp add: on_conn_def)

lemma kept_through [kept_intros]:
  assumes "on_conn st I s" "kept I (f (st_connection s))"
  shows "kept (on_conn st I) (through acc f s)"
  using assms unfolding through_def
  by (intro kept_and_then) (auto simp: kept_def split: prod.splits)

text \<open>
  And of an instance that has its storage: neither the storage object nor the configuration
  changes. \<open>st\<close> and \<open>cfg\<close> are the ones it started with.
\<close>

definition lotl_inv :: "sqlite_storage \<Rightarrow> LotlConfig \<Rightarrow> (conn \<Rightarrow> bool) \<Rightarrow> Lotl \<Rightarrow> bool" where
  "lotl_inv st cfg I l \<longleftrightarrow> (\<exists>s. storage_of l = Some s \<and> on_conn st I s) \<and> lo_config l = cfg"

lemma lotl_invD: "lotl_inv st cfg I l \<Longrightarrow> I (lo_connection l)"
  by (auto simp: lotl_inv_def storage_of_def dest: on_connD)

lemma lotl_inv_ensure [simp]: "lotl_inv st cfg I l \<Longrightarrow> ensure_storage_initialized l = (Ok (), l)"
  by (auto simp: lotl_inv_def)

lemma kept_on_storage [kept_intros]:
  "lotl_inv st cfg I l \<Longrightarrow> (\<And>s. on_conn st I s \<Longrightarrow> kept (on_conn st I) (f s)) \<Longrightarrow>
    kept (lotl_inv st cfg I) (on_storage f l)"
  by (auto simp: on_storage_def lotl_inv_def storage_of_def kept_def split: prod.splits) (metis snd_conv)

lemma lotl_inv_put:
  "lotl_inv st cfg I l \<Longrightarrow> I c \<Longrightarrow> lotl_inv st cfg I (l\<lparr>lo_connection := c\<rparr>)"
  by (auto simp: lotl_inv_def storage_of_def on_conn_def)

lemma kept_on_connection [kept_intros]:
  assumes "lotl_inv st cfg I l" "lock_blind I" "\<And>c. I c \<Longrightarrow> kept I (f c)"
  shows "kept (lotl_inv st cfg I) (on_connection f l)"
proof -
  have "kept I (with_lock f (lo_connection l))"
    by (intro kept_with_lock assms lotl_invD [OF assms(1)])
  then show ?thesis
    using lotl_inv_put [OF assms(1)] by (auto simp: on_connection_def kept_def split: prod.splits)
qed

section \<open>Stores that keep an invariant\<close>

text \<open>
  Every operation of the store keeps \<open>I\<close>, deletion when the count just read was above one; \<open>I\<close>
  may say that the store is not empty.
\<close>

locale fault_safe_keys =
  fixes st :: "('s, 'r, 'z) rotating_store_scheme" and I :: "'s \<Rightarrow> bool"
  assumes keeps_get: "I s \<Longrightarrow> kept I (get_key st i s)"
    and keeps_save: "I s \<Longrightarrow> kept I (save_key st i r s)"
    and keeps_count: "I s \<Longrightarrow> kept I (key_count st s)"
    and keeps_max: "I s \<Longrightarrow> kept I (get_max_key_id st s)"
    and keeps_older: "I s \<Longrightarrow> kept I (get_keys_older_than st t s)"
    and guarded_delete: "I s \<Longrightarrow> key_count st s = (Ok n, s1) \<Longrightarrow> 1 < n \<Longrightarrow> kept I (delete_key st i s1)"
begin

lemmas keeps = keeps_get keeps_save keeps_count keeps_max keeps_older

lemma keeps_rotate_signed: "I s \<Longrightarrow> kept I (rotate_signed_pre_key st L K oc now kp ikp s)"
  unfolding rotate_signed_pre_key_def Let_def by (intro kept_intros keeps) auto

lemma keeps_rotate_kyber: "I s \<Longrightarrow> kept I (rotate_kyber_pre_key st K oc now kp ikp s)"
  unfolding rotate_kyber_pre_key_def Let_def by (intro kept_intros keeps) auto

lemma keeps_needs_rotation: "I s \<Longrightarrow> kept I (signed_pre_key_needs_rotation st L oc now s)"
  unfolding signed_pre_key_needs_rotation_def Let_def
  by (intro kept_and_then keeps) (auto intro!: kept_intros keeps split: option.split)

lemma keeps_cleanup_loop: "I s \<Longrightarrow> kept I (cleanup_loop st ids s)"
proof (induction ids arbitrary: s)
  case (Cons i ids)
  show ?case unfolding cleanup_loop.simps
  proof (rule kept_and_then [OF keeps_count [OF Cons.prems]])
    fix n s1 assume count: "key_count st s = (Ok n, s1)" "I s1"
    show "kept I (if 1 < n then and_then (delete_key st i s1) (\<lambda>_. cleanup_loop st ids)
        else cleanup_loop st ids s1)"
      using guarded_delete [OF Cons.prems count(1), of i] Cons.IH count(2)
      by (auto intro!: kept_and_then)
  qed
qed simp

lemma keeps_cleanup: "I s \<Longrightarrow> kept I (cleanup_expired_signed_pre_keys st oc now s)"
  unfolding cleanup_expired_signed_pre_keys_def
  by (intro kept_and_then keeps) (auto intro: keeps_cleanup_loop)

end

section \<open>Tables with an invariant\<close>

text \<open>
  A row of a rotating key as \<^verbatim>\<open>save\<close> writes it: the blob of a record and its creation second.
\<close>

definition row_of_record :: "('r, 'z) key_record_lib_scheme \<Rightarrow> rotating_key_row \<Rightarrow> bool" where
  "row_of_record L row \<longleftrightarrow> (\<exists>r ts. serialize L r = Ok (rk_key_data row) \<and>
     record_timestamp L r = Ok ts \<and> rk_created_at row = secs_as_i64 ts)"

lemma row_of_recordI:
  "serialize L r = Ok (rk_key_data row) \<Longrightarrow> record_timestamp L r = Ok ts \<Longrightarrow>
    rk_created_at row = secs_as_i64 ts \<Longrightarrow> row_of_record L row"
  by (auto simp: row_of_record_def)

text \<open>
  An invariant of the tables that the single writes of the key stores keep, deletion of a rotating
  key only while there are at least two. What the stores, rotation and maintenance then keep
  follows from these.
\<close>

locale guarded_tables =
  fixes S :: "('sess, 'ikp, 'ik, 'pk, 'spk, 'kyr) store_libs" and I :: "conn \<Rightarrow> bool"
  assumes blind: "lock_blind I"
    and pre_save: "I c \<Longrightarrow> pre_keys c = Some pres \<Longrightarrow>
      serialize (sl_pre_keys S) r = Ok (pk_key_data p) \<Longrightarrow>
      I (c\<lparr>pre_keys := Some (row_upsert pk_id p pres)\<rparr>)"
    and signed_save: "I c \<Longrightarrow> signed_pre_keys c = Some rows \<Longrightarrow> row_of_record (sl_signed S) row \<Longrightarrow>
      I (c\<lparr>signed_pre_keys := Some (row_upsert rk_id row rows)\<rparr>)"
    and kyber_save: "I c \<Longrightarrow> kyber_pre_keys c = Some rows \<Longrightarrow> row_of_record (sl_kyber S) row \<Longrightarrow>
      I (c\<lparr>kyber_pre_keys := Some (row_upsert rk_id row rows)\<rparr>)"
    and signed_delete: "I c \<Longrightarrow> signed_pre_keys c = Some rows \<Longrightarrow> 1 < length rows \<Longrightarrow>
      I (c\<lparr>signed_pre_keys := Some (row_delete rk_id i rows)\<rparr>)"
    and kyber_delete: "I c \<Longrightarrow> kyber_pre_keys c = Some rows \<Longrightarrow> 1 < length rows \<Longrightarrow>
      I (c\<lparr>kyber_pre_keys := Some (row_delete rk_id i rows)\<rparr>)"
begin

lemma fault_blind_inv [simp]: "fault_blind I"
  by (rule lock_blind_faults [OF blind])

lemmas inv_intros = kept_intros blind fault_blind_inv

text \<open>Reading the local identity, and what the key stores do, whichever statements fail.\<close>

lemma inv_identity: "I c \<Longrightarrow> kept I (sqlite_get_identity_key_pair J c)"
  unfolding sqlite_get_identity_key_pair_def by (intro inv_intros) simp_all

lemma inv_registration: "I c \<Longrightarrow> kept I (sqlite_get_local_registration_id c)"
  unfolding sqlite_get_local_registration_id_def
  by (intro inv_intros kept_case_read) (auto split: outcome.split sql_error.split)

lemma inv_signed_ops:
  assumes "I c"
  shows "kept I (sqlite_get_signed_pre_key L i c)"
    and "kept I (sqlite_save_signed_pre_key (sl_signed S) i r c)"
    and "kept I (sqlite_signed_pre_key_count c)"
    and "kept I (sqlite_get_max_signed_pre_key_id c)"
    and "kept I (sqlite_get_signed_pre_keys_older_than rank t c)"
  using assms
  unfolding sqlite_get_signed_pre_key_def sqlite_save_signed_pre_key_def
    sqlite_signed_pre_key_count_def sqlite_get_max_signed_pre_key_id_def
    sqlite_get_signed_pre_keys_older_than_def Let_def
  by (auto intro!: inv_intros signed_save intro: row_of_recordI simp: map_err_Ok_conv)

lemma inv_kyber_ops:
  assumes "I c"
  shows "kept I (sqlite_get_kyber_pre_key L i c)"
    and "kept I (sqlite_save_kyber_pre_key (sl_kyber S) i r c)"
    and "kept I (sqlite_kyber_pre_key_count c)"
    and "kept I (sqlite_get_max_kyber_pre_key_id c)"
    and "kept I (sqlite_get_kyber_pre_keys_older_than rank t c)"
  using assms
  unfolding sqlite_get_kyber_pre_key_def sqlite_save_kyber_pre_key_def
    sqlite_kyber_pre_key_count_def sqlite_get_max_kyber_pre_key_id_def
    sqlite_get_kyber_pre_keys_older_than_def Let_def
  by (auto intro!: inv_intros kyber_save intro: row_of_recordI simp: map_err_Ok_conv)

lemma inv_pre_key_ops:
  assumes "I c"
  shows "kept I (sqlite_get_pre_key L i c)"
    and "kept I (sqlite_save_pre_key (sl_pre_keys S) i r c)"
    and "kept I (sqlite_pre_key_count c)"
    and "kept I (sqlite_get_max_pre_key_id c)"
  using assms
  unfolding sqlite_get_pre_key_def sqlite_save_pre_key_def sqlite_pre_key_count_def
    sqlite_get_max_pre_key_id_def
  by (auto intro!: inv_intros pre_save simp: map_err_Ok_conv)

lemma inv_guarded_delete:
  assumes "I c" "1 < n"
  shows "sqlite_signed_pre_key_count c = (Ok n, c') \<Longrightarrow> kept I (sqlite_delete_signed_pre_key i c')"
    and "sqlite_kyber_pre_key_count c = (Ok n, c') \<Longrightarrow> kept I (sqlite_delete_kyber_pre_key i c')"
proof -
  show "kept I (sqlite_delete_signed_pre_key i c')" if count: "sqlite_signed_pre_key_count c = (Ok n, c')"
  proof -
    obtain rows fs where rows: "signed_pre_keys c = Some rows" "n = length rows" "c' = c\<lparr>faults := fs\<rparr>"
      using count_rows_above [OF count [unfolded sqlite_signed_pre_key_count_def]] assms(2) by auto
    with blind have "I c'" "signed_pre_keys c' = Some rows"
      using assms(1) by (simp_all add: lock_blind_def fault_blind_def)
    with rows(2) assms(2) show ?thesis
      unfolding sqlite_delete_signed_pre_key_def
      by (intro kept_known_rows [OF blind]) (auto intro: signed_delete)
  qed
  show "kept I (sqlite_delete_kyber_pre_key i c')" if count: "sqlite_kyber_pre_key_count c = (Ok n, c')"
  proof -
    obtain rows fs where rows: "kyber_pre_keys c = Some rows" "n = length rows" "c' = c\<lparr>faults := fs\<rparr>"
      using count_rows_above [OF count [unfolded sqlite_kyber_pre_key_count_def]] assms(2) by auto
    with blind have "I c'" "kyber_pre_keys c' = Some rows"
      using assms(1) by (simp_all add: lock_blind_def fault_blind_def)
    with rows(2) assms(2) show ?thesis
      unfolding sqlite_delete_kyber_pre_key_def
      by (intro kept_known_rows [OF blind]) (auto intro: kyber_delete)
  qed
qed

lemma storage_identity_ops:
  assumes "on_conn st I s"
  shows "kept (on_conn st I) (get_identity_key_pair (sqlite_identity_store J) s)"
    and "kept (on_conn st I) (get_local_registration_id (sqlite_identity_store J) s)"
  using assms on_connD [OF assms]
  by (auto simp: sqlite_identity_store_def intro!: kept_through inv_identity inv_registration)

lemma storage_pre_key_ops:
  assumes "on_conn st I s"
  shows "kept (on_conn st I) (get_pre_key (sqlite_pre_key_store (sl_pre_keys S)) i s)"
    and "kept (on_conn st I) (save_pre_key (sqlite_pre_key_store (sl_pre_keys S)) i r s)"
    and "kept (on_conn st I) (pre_key_count (sqlite_pre_key_store (sl_pre_keys S)) s)"
    and "kept (on_conn st I) (get_max_pre_key_id (sqlite_pre_key_store (sl_pre_keys S)) s)"
  using assms on_connD [OF assms]
  by (auto simp: sqlite_pre_key_store_def intro!: kept_through inv_pre_key_ops)

lemma storage_save_loop:
  "on_conn st I s \<Longrightarrow>
    kept (on_conn st I) (save_pre_keys_loop (sqlite_pre_key_store (sl_pre_keys S)) new xs s)"
proof (induction xs arbitrary: s)
  case (Cons x xs)
  then show ?case by (cases x) (auto intro!: kept_intros storage_pre_key_ops)
qed simp

lemma storage_replenish:
  "on_conn st I s \<Longrightarrow>
    kept (on_conn st I) (replenish_pre_keys (sqlite_pre_key_store (sl_pre_keys S)) new oc gen s)"
  unfolding replenish_pre_keys_def
  by (intro kept_and_then storage_pre_key_ops) (auto intro: storage_save_loop)

end

sublocale guarded_tables < signed_safe:
  fault_safe_keys "sqlite_signed_store (sl_signed S) (sl_rank S)" "on_conn st I" for st
proof unfold_locales
  fix s s1 :: sqlite_storage and n :: nat and i
  assume s: "on_conn st I s" "key_count (sqlite_signed_store (sl_signed S) (sl_rank S)) s = (Ok n, s1)"
    "1 < n"
  then obtain c where c: "sqlite_signed_pre_key_count (st_connection s) = (Ok n, c)"
    "s1 = s\<lparr>st_connection := c\<rparr>" by (auto simp: sqlite_signed_store_def dest!: through_OkD)
  note inv = on_connD [OF s(1)]
  show "kept (on_conn st I) (delete_key (sqlite_signed_store (sl_signed S) (sl_rank S)) i s1)"
    using inv_guarded_delete(1) [OF inv s(3) c(1), of i] inv_signed_ops(3) [OF inv] c s(1)
    by (auto simp: sqlite_signed_store_def intro!: kept_through)
qed (auto simp: sqlite_signed_store_def intro!: kept_through inv_signed_ops dest: on_connD)

sublocale guarded_tables < kyber_safe:
  fault_safe_keys "sqlite_kyber_store (sl_kyber S) (sl_rank S)" "on_conn st I" for st
proof unfold_locales
  fix s s1 :: sqlite_storage and n :: nat and i
  assume s: "on_conn st I s" "key_count (sqlite_kyber_store (sl_kyber S) (sl_rank S)) s = (Ok n, s1)"
    "1 < n"
  then obtain c where c: "sqlite_kyber_pre_key_count (st_connection s) = (Ok n, c)"
    "s1 = s\<lparr>st_connection := c\<rparr>" by (auto simp: sqlite_kyber_store_def dest!: through_OkD)
  note inv = on_connD [OF s(1)]
  show "kept (on_conn st I) (delete_key (sqlite_kyber_store (sl_kyber S) (sl_rank S)) i s1)"
    using inv_guarded_delete(2) [OF inv s(3) c(1), of i] inv_kyber_ops(3) [OF inv] c s(1)
    by (auto simp: sqlite_kyber_store_def intro!: kept_through)
qed (auto simp: sqlite_kyber_store_def intro!: kept_through inv_kyber_ops dest: on_connD)

lemma kept_rotate_if_due:
  "I s \<Longrightarrow> (\<And>s. I s \<Longrightarrow> kept I (needs s)) \<Longrightarrow> (\<And>s. I s \<Longrightarrow> kept I (renew s)) \<Longrightarrow>
    kept I (rotate_if_due needs renew s)"
  unfolding rotate_if_due_def by (auto intro!: kept_intros)

lemma kept_if: "(b \<Longrightarrow> kept I x) \<Longrightarrow> (\<not> b \<Longrightarrow> kept I y) \<Longrightarrow> kept I (if b then x else y)"
  by simp

context guarded_tables begin

lemmas maintenance_ops = storage_identity_ops kept_rotate_if_due signed_safe.keeps_needs_rotation
  signed_safe.keeps_rotate_signed kyber_safe.keeps_needs_rotation [folded kyber_needs_rotation_eq]
  kyber_safe.keeps_rotate_kyber storage_pre_key_ops storage_replenish signed_safe.keeps_cleanup
  kyber_safe.keeps_cleanup [folded kyber_cleanup_eq]

lemma maintenance_keeps:
  "lotl_inv st cfg I l \<Longrightarrow> kept (lotl_inv st cfg I) (perform_key_maintenance S M R oc clk l)"
  unfolding perform_key_maintenance_def Let_def
  by (simp, rule kept_on_storage, assumption)
    (intro kept_and_then kept_map_err kept_if maintenance_ops kept_pair [THEN iffD2]; assumption)

end

section \<open>What maintenance leaves alone\<close>

text \<open>
  The tables maintenance has no business in are as given, and the signed and Kyber tables hold a
  key each, with distinct ids.
\<close>

definition stock_ok :: "rotating_key_row list option \<Rightarrow> bool" where
  "stock_ok t \<longleftrightarrow> (\<exists>rows. t = Some rows \<and> rows \<noteq> [] \<and> keys_distinct rk_id rows)"

definition other_tables where
  "other_tables c = (local_identity c, identity_keys c, sessions c, contacts c, conversations c,
     messages c, nostr_identities c)"

definition maintenance_inv where
  "maintenance_inv T c \<longleftrightarrow> other_tables c = T \<and> stock_ok (signed_pre_keys c) \<and> stock_ok (kyber_pre_keys c)"

lemma maintenance_inv_blind [simp]: "lock_blind (maintenance_inv T)"
  by (simp add: lock_blind_def fault_blind_def maintenance_inv_def other_tables_def)

lemma stock_ok_simps [simp]: "stock_ok (Some rows) \<longleftrightarrow> rows \<noteq> [] \<and> keys_distinct rk_id rows"
  by (simp add: stock_ok_def)

lemma upsert_nonempty [simp]: "row_upsert k r rows \<noteq> []"
  by (simp add: row_upsert_def)

lemma delete_leaves_one:
  assumes "keys_distinct k rows" "Suc 0 < length rows"
  shows "row_delete k x rows \<noteq> []"
proof
  assume "row_delete k x rows = []"
  then have "\<forall>r \<in> set rows. k r = x" by (auto simp: row_delete_def filter_empty_conv)
  then have "set (map k rows) \<subseteq> {x}" by auto
  with assms(1) have "length (map k rows) \<le> card {x}"
    unfolding keys_distinct_def by (metis card_mono distinct_card finite.emptyI finite.insertI)
  with assms(2) show False by simp
qed

interpretation maintained: guarded_tables S "maintenance_inv T"
  by unfold_locales
    (auto simp: maintenance_inv_def other_tables_def keys_distinct_upsert keys_distinct_delete
      delete_leaves_one)

text \<open>
  C8: Whatever fails in a maintenance run, any statement, an overflow check or the clock, and
  whether it returns an error or panics: the local identity, the peers' identities, the sessions,
  contacts, conversations, messages and Nostr keys are exactly as before, and the signed and Kyber
  stores are not emptied.
\<close>

theorem maintenance_fault_safe:
  assumes "perform_key_maintenance S M R oc clk l = (r, l')" "lo_storage l \<noteq> None"
    "stock_ok (signed_pre_keys (lo_connection l))" "stock_ok (kyber_pre_keys (lo_connection l))"
  shows "other_tables (lo_connection l') = other_tables (lo_connection l) \<and>
    stock_ok (signed_pre_keys (lo_connection l')) \<and> stock_ok (kyber_pre_keys (lo_connection l'))"
proof -
  obtain st where "storage_of l = Some st" "st_connection st = lo_connection l"
    using assms(2) by (auto simp: storage_of_def)
  with assms(3,4) have "lotl_inv st (lo_config l) (maintenance_inv (other_tables (lo_connection l))) l"
    by (simp add: lotl_inv_def maintenance_inv_def)
  from keptD [OF maintained.maintenance_keeps [OF this] assms(1)] show ?thesis
    by (auto simp: maintenance_inv_def dest: lotl_invD)
qed

theorem maintenance_fault_safe_witness:
  "\<exists>r l'. perform_key_maintenance sample_stores sample_makers sample_random True (\<lambda>i. Some 700000000)
      \<lparr>lo_connection = (st_connection (sample_full [7] [(1, 0, [])] [(4, 0, [])]))
           \<lparr>faults := [None, None, None, None, Some ''disk I/O error'']\<rparr>,
         lo_config = sample_config, lo_storage = Some sample_storage\<rparr> = (r, l') \<and>
    sessions (lo_connection l') = sessions (st_connection (sample_full [7] [(1, 0, [])] [(4, 0, [])])) \<and>
    stock_ok (signed_pre_keys (lo_connection l'))"
proof -
  let ?c = "st_connection (sample_full [7] [(1, 0, [])] [(4, 0, [])])"
  let ?l = "\<lparr>lo_connection = ?c\<lparr>faults := [None, None, None, None, Some ''disk I/O error'']\<rparr>,
     lo_config = sample_config, lo_storage = Some sample_storage\<rparr>"
  obtain r l' where run: "perform_key_maintenance sample_stores sample_makers sample_random True
      (\<lambda>i. Some 700000000) ?l = (r, l')" by fastforce
  have "signed_pre_keys ?c \<noteq> None \<and> map rk_id (the (signed_pre_keys ?c)) = [1] \<and>
      kyber_pre_keys ?c \<noteq> None \<and> map rk_id (the (kyber_pre_keys ?c)) = [4]" by code_simp
  then have "stock_ok (signed_pre_keys (lo_connection ?l))" "stock_ok (kyber_pre_keys (lo_connection ?l))"
    by (auto simp: stock_ok_def keys_distinct_def)
  with maintenance_fault_safe [OF run] run show ?thesis by (auto simp: other_tables_def)
qed

section \<open>A failing query for the largest id\<close>

context one_time_keys
begin

lemma replenish_from_one:
  assumes "get_max_pre_key_id st s0 = (Ok None, s)" "good s" "\<forall>i k. storable i (new i k)"
  shows "\<exists>s'. replenish_pre_keys st new oc gen s0 = (Ok (), s') \<and> good s' \<and>
    view s' = with_run new gen 1 100 (view s)"
proof -
  let ?run = "map (\<lambda>i. (1 + word_of_nat i, gen i)) [0..<100]"
  have room: "unat (1 :: u32) + 100 \<le> 2 ^ 32" by simp
  have "generate_pre_keys oc gen 1 100 = Ok ?run"
    using generate_pre_keys_fits [of 1 100] by simp
  with save_loop [OF assms(2,3), of ?run, unfolded fold_run [OF room, of new gen]]
  show ?thesis by (auto simp: replenish_pre_keys_def assms(1) REPLENISH_COUNT_def)
qed

end

text \<open>
  C37: When the query for the largest one-time pre-key id fails, replenishment does not report it:
  it takes the store for empty, starts at id 1 and replaces every stored key with an id up to 100
  by a new one.
\<close>

theorem failed_max_overwrites:
  fixes m :: string
  assumes "sqlite_pre_keys_good L s" "\<forall>i k. round_trips L (new i k)"
  shows "\<exists>s'. replenish_pre_keys (sqlite_pre_key_store L) new oc gen
      (s\<lparr>st_connection := (st_connection s)\<lparr>faults := [None, Some m]\<rparr>\<rparr>) = (Ok (), s') \<and>
    sqlite_pre_keys_good L s' \<and>
    (\<forall>i. sqlite_pre_keys_view L s' i =
      (if 1 \<le> unat i \<and> unat i \<le> 100 then Some (new i (gen (unat i - 1)))
       else sqlite_pre_keys_view L s i))"
proof -
  from assms(1) obtain rows where rows: "ready s" "pre_keys (st_connection s) = Some rows"
    by (auto simp: sqlite_pre_keys_good_def)
  then have "get_max_pre_key_id (sqlite_pre_key_store L)
      (s\<lparr>st_connection := (st_connection s)\<lparr>faults := [None, Some m]\<rparr>\<rparr>) = (Ok None, s)"
    by (simp add: sqlite_pre_key_store_def sqlite_get_max_pre_key_id_def max_row_id_def through_def
        accessor_defs with_lock_def prepare_def query_max_def statement_def on_table_def ready_def
        healthy_def)
  from sqlite_one_time.replenish_from_one [OF this assms(1), of new oc gen] assms(2)
  show ?thesis by (auto simp: with_run_def)
qed

theorem failed_max_overwrites_witness:
  "\<exists>s'. replenish_pre_keys (sqlite_pre_key_store sample_records) sample_new True (\<lambda>i. [42])
      (sample_stocked [7]\<lparr>st_connection := (st_connection (sample_stocked [7]))
         \<lparr>faults := [None, Some ''database is locked'']\<rparr>\<rparr>) = (Ok (), s') \<and>
    sqlite_pre_keys_view sample_records (sample_stocked [7]) 7 = Some (7, 0, []) \<and>
    sqlite_pre_keys_view sample_records s' 7 = Some (7, 0, [42])"
proof -
  note good = sample_stocked_good [of "[7]"]
  then have "sqlite_pre_keys_good sample_records (sample_stocked [7])" by (auto dest: stores_goodD(1))
  from failed_max_overwrites [OF this, of sample_new True "\<lambda>i. [42]" "''database is locked''"] good
  show ?thesis by (auto simp: sample_new_def)
qed

end
