(* ===== verification/Lotl_Calls.thy ===== *)
theory Lotl_Calls
  imports Lotl_Fault_Safety
begin

text \<open>
  What the calls of the public interface keep, whichever statements fail. The protocol library is
  a parameter, but not an arbitrary one: it gets the stores as trait objects and can change them only
  through the methods of libsignal's store traits. The locale extends the one of maintenance by
  the writes those methods and \<open>delete_session\<close> make; every call then keeps the invariant.
\<close>

section \<open>A confined protocol library\<close>

text \<open>
  The methods of libsignal's store traits (the extended traits of the crate are not visible to the
  library) keep an invariant of the state.
\<close>

definition session_calls :: "('s \<Rightarrow> bool) \<Rightarrow> ('s, 'sess) session_store \<Rightarrow> bool" where
  "session_calls I st \<longleftrightarrow> (\<forall>s. I s \<longrightarrow>
     (\<forall>a. kept I (load_session st a s)) \<and> (\<forall>a r. kept I (store_session st a r s)))"

definition identity_calls :: "('s \<Rightarrow> bool) \<Rightarrow> ('s, 'ikp, 'ik) identity_store \<Rightarrow> bool" where
  "identity_calls I st \<longleftrightarrow> (\<forall>s. I s \<longrightarrow>
     kept I (get_identity_key_pair st s) \<and> kept I (get_local_registration_id st s) \<and>
     (\<forall>a k. kept I (save_identity st a k s)) \<and> (\<forall>a k d. kept I (is_trusted_identity st a k d s)) \<and>
     (\<forall>a. kept I (get_identity st a s)))"

definition pre_key_calls :: "('s \<Rightarrow> bool) \<Rightarrow> ('s, 'pk) pre_key_store \<Rightarrow> bool" where
  "pre_key_calls I st \<longleftrightarrow> (\<forall>s. I s \<longrightarrow>
     (\<forall>i. kept I (get_pre_key st i s)) \<and> (\<forall>i r. kept I (save_pre_key st i r s)) \<and>
     (\<forall>i. kept I (remove_pre_key st i s)))"

definition signed_calls :: "('s \<Rightarrow> bool) \<Rightarrow> ('s, 'r, 'z) rotating_store_scheme \<Rightarrow> bool" where
  "signed_calls I st \<longleftrightarrow> (\<forall>s. I s \<longrightarrow>
     (\<forall>i. kept I (get_key st i s)) \<and> (\<forall>i r. kept I (save_key st i r s)))"

definition kyber_calls :: "('s \<Rightarrow> bool) \<Rightarrow> ('s, 'r, 'z) kyber_store_scheme \<Rightarrow> bool" where
  "kyber_calls I st \<longleftrightarrow> signed_calls I st \<and> (\<forall>s i. I s \<longrightarrow> kept I (mark_key_used st i s))"

text \<open>
  The library is confined: what the methods of the stores it was given keep, its own functions
  keep. Rust's ownership rules give this for any implementation.
\<close>

definition confined :: "('s, 'sess, 'ikp, 'ik, 'pk, 'spk, 'kyr, 'pkb, 'ct) protocol_lib \<Rightarrow> bool" where
  "confined P \<longleftrightarrow>
     (\<forall>I ss ids. session_calls I ss \<and> identity_calls I ids \<longrightarrow> (\<forall>s. I s \<longrightarrow>
        (\<forall>a b. kept I (process_prekey_bundle_lib P a ss ids b s)) \<and>
        (\<forall>m a. kept I (message_encrypt P m a ss ids s)))) \<and>
     (\<forall>I ss ids pres signeds kybers. session_calls I ss \<and> identity_calls I ids \<and>
        pre_key_calls I pres \<and> signed_calls I signeds \<and> kyber_calls I kybers \<longrightarrow>
        (\<forall>s m a. I s \<longrightarrow> kept I (message_decrypt P m a ss ids pres signeds kybers s)))"

lemma confinedD:
  assumes "confined P" "session_calls I ss" "identity_calls I ids" "I s"
  shows "kept I (process_prekey_bundle_lib P a ss ids b s)" "kept I (message_encrypt P m a ss ids s)"
    "pre_key_calls I pres \<Longrightarrow> signed_calls I signeds \<Longrightarrow> kyber_calls I kybers \<Longrightarrow>
      kept I (message_decrypt P ct a ss ids pres signeds kybers s)"
proof -
  note P = assms(1) [unfolded confined_def]
  note two = P [THEN conjunct1, THEN spec [of _ I], THEN spec [of _ ss], THEN spec [of _ ids]]
  note five = P [THEN conjunct2, THEN spec [of _ I], THEN spec [of _ ss], THEN spec [of _ ids],
      THEN spec [of _ pres], THEN spec [of _ signeds], THEN spec [of _ kybers]]
  show "kept I (process_prekey_bundle_lib P a ss ids b s)" "kept I (message_encrypt P m a ss ids s)"
    using two assms(2-4) by simp_all
  show "kept I (message_decrypt P ct a ss ids pres signeds kybers s)"
    if "pre_key_calls I pres" "signed_calls I signeds" "kyber_calls I kybers"
    using five assms(2-4) that by simp
qed

section \<open>The writes of the protocol's methods\<close>

locale open_tables = guarded_tables S I
  for S :: "('sess, 'ikp, 'ik, 'pk, 'spk, 'kyr) store_libs" and I :: "conn \<Rightarrow> bool" +
  assumes session_save: "I c \<Longrightarrow> sessions c = Some sess_rows \<Longrightarrow> se_device_id q < 256 \<Longrightarrow>
      serialize (sl_sessions S) x = Ok (se_session_data q) \<Longrightarrow>
      I (c\<lparr>sessions := Some (row_upsert session_key q sess_rows)\<rparr>)"
    and session_delete: "I c \<Longrightarrow> sessions c = Some sess_rows \<Longrightarrow>
      I (c\<lparr>sessions := Some (filter keep sess_rows)\<rparr>)"
    and identity_save: "I c \<Longrightarrow> identity_keys c = Some id_rows \<Longrightarrow> ik_device_id p < 256 \<Longrightarrow>
      ik_public_key p = ik_serialize (sl_identities S) k \<Longrightarrow>
      I (c\<lparr>identity_keys := Some (row_upsert identity_row_key p id_rows)\<rparr>)"
    and pre_key_delete: "I c \<Longrightarrow> pre_keys c = Some pres \<Longrightarrow>
      I (c\<lparr>pre_keys := Some (row_delete pk_id i pres)\<rparr>)"
    and kyber_mark: "I c \<Longrightarrow> kyber_pre_keys c = Some rows \<Longrightarrow>
      I (c\<lparr>kyber_pre_keys := Some (row_update (\<lambda>r. rk_id r = i) (\<lambda>r. r\<lparr>rk_is_current := False\<rparr>) rows)\<rparr>)"
begin

lemma inv_get_identity: "I c \<Longrightarrow> kept I (sqlite_get_identity J a c)"
  unfolding sqlite_get_identity_def by (intro inv_intros) simp_all

lemma session_calls_keep: "session_calls I (conn_session_store (sl_sessions S))"
  unfolding session_calls_def conn_session_store_def session_store.select_convs sqlite_load_session_def
    sqlite_store_session_def
  by (auto intro!: inv_intros session_save simp: map_err_Ok_conv device_number_bound)

lemma inv_save_identity: "I c \<Longrightarrow> kept I (sqlite_save_identity (sl_identities S) a k c)"
  unfolding sqlite_save_identity_def Let_def
  by (intro inv_intros kept_case_read)
    (auto intro!: identity_save simp: device_number_bound split: outcome.split sql_error.split)

lemma inv_is_trusted: "I c \<Longrightarrow> kept I (sqlite_is_trusted_identity J a k d c)"
  unfolding sqlite_is_trusted_identity_def
  by (intro kept_and_then inv_get_identity) (auto split: option.split)

lemma identity_calls_keep: "identity_calls I (conn_identity_store (sl_identities S))"
  by (simp add: identity_calls_def conn_identity_store_def inv_identity inv_registration
      inv_save_identity inv_is_trusted inv_get_identity)

lemma inv_remove_pre_key: "I c \<Longrightarrow> kept I (sqlite_remove_pre_key i c)"
  unfolding sqlite_remove_pre_key_def by (intro inv_intros) (simp_all add: pre_key_delete)

lemma pre_key_calls_keep: "pre_key_calls I (conn_pre_key_store (sl_pre_keys S))"
  by (simp add: pre_key_calls_def conn_pre_key_store_def inv_pre_key_ops inv_remove_pre_key)

lemma signed_calls_keep: "signed_calls I (conn_signed_store (sl_signed S) rank)"
  by (simp add: signed_calls_def conn_signed_store_def inv_signed_ops)

lemma inv_mark_used: "I c \<Longrightarrow> kept I (sqlite_mark_kyber_pre_key_used i c)"
  unfolding sqlite_mark_kyber_pre_key_used_def by (intro inv_intros) (simp_all add: kyber_mark)

lemma kyber_calls_keep: "kyber_calls I (conn_kyber_store (sl_kyber S) rank)"
  by (simp add: kyber_calls_def signed_calls_def conn_kyber_store_def inv_kyber_ops inv_mark_used)

text \<open>The calls of the interface.\<close>

lemma kept_with_stores:
  assumes "on_conn st I s" "\<And>c. I c \<Longrightarrow> kept I (f c)"
  shows "kept (on_conn st I) (with_stores present f s)"
  using assms on_connD [OF assms(1)] unfolding with_stores_def
  by (intro kept_and_then) (auto simp: kept_def split: prod.splits, metis snd_conv)

lemma bundle_keeps: "on_conn st I s \<Longrightarrow> kept (on_conn st I) (build_bundle S s)"
  unfolding build_bundle_def newest_key_id_def Let_def
  by (intro kept_and_then kept_map_err maintenance_ops signed_safe.keeps kyber_safe.keeps kept_pair [THEN iffD2])
    (auto split: option.split)

lemma prekey_bundle_keeps:
  "lotl_inv st cfg I l \<Longrightarrow> kept (lotl_inv st cfg I) (generate_prekey_bundle B S l)"
  "lotl_inv st cfg I l \<Longrightarrow> kept (lotl_inv st cfg I) (generate_prekey_bundle_with_metadata B S l)"
  unfolding generate_prekey_bundle_def generate_prekey_bundle_with_metadata_def
  by (simp, rule kept_on_storage, assumption, intro kept_and_then kept_map_err bundle_keeps; simp)+

lemma process_bundle_keeps:
  assumes "confined P" "lotl_inv st cfg I l"
  shows "kept (lotl_inv st cfg I) (process_prekey_bundle B S P peer bytes l)"
proof -
  have "kept (on_conn st I) (sqlite_establish_session_from_bundle P (sl_sessions S) (sl_identities S) a b s)"
    if "on_conn st I s" for a b s
    unfolding sqlite_establish_session_from_bundle_def using that
    by (intro kept_and_then kept_map_err kept_with_stores
        confinedD [OF assms(1) session_calls_keep identity_calls_keep]) auto
  with assms(2) show ?thesis
    unfolding process_prekey_bundle_def
    by (simp add: map_err_pure)
      (intro kept_and_then kept_on_storage kept_map_err; simp)
qed

lemma encrypt_keeps:
  assumes "confined P" "lotl_inv st cfg I l"
  shows "kept (lotl_inv st cfg I) (encrypt B W S P peer plaintext l)"
proof -
  have "kept (on_conn st I) (sqlite_encrypt_message P (sl_sessions S) (sl_identities S) a m s)"
    if "on_conn st I s" for a m s
    unfolding sqlite_encrypt_message_def using that
    by (intro kept_with_stores confinedD [OF assms(1) session_calls_keep identity_calls_keep]) auto
  with assms(2) show ?thesis
    unfolding encrypt_def
    by simp (rule kept_on_storage, assumption, intro kept_and_then kept_map_err; simp)
qed

lemma decrypt_keeps:
  assumes "confined P" "lotl_inv st cfg I l"
  shows "kept (lotl_inv st cfg I) (decrypt B W S P peer ciphertext l)"
proof -
  have "kept (on_conn st I) (sqlite_decrypt_message P (sl_sessions S) (sl_identities S) (sl_pre_keys S)
      (sl_signed S) (sl_kyber S) rank a m s)" if "on_conn st I s" for a m s rank
    unfolding sqlite_decrypt_message_def using that
    by (intro kept_with_stores confinedD(3) [OF assms(1) session_calls_keep identity_calls_keep]
        pre_key_calls_keep signed_calls_keep kyber_calls_keep) auto
  with assms(2) show ?thesis
    unfolding decrypt_def
    by simp (rule kept_on_storage, assumption, intro kept_and_then kept_map_err; simp)
qed

lemma delete_session_keeps:
  assumes "lotl_inv st cfg I l"
  shows "kept (lotl_inv st cfg I) (lotl_delete_session B S peer l)"
proof -
  have "kept I (sqlite_delete_session a c)" if "I c" for a c
    unfolding sqlite_delete_session_def using that by (intro inv_intros) (simp_all add: session_delete)
  then have "kept (on_conn st I) (delete_session (sqlite_session_store (sl_sessions S)) a s)"
    if "on_conn st I s" for a s
    using that by (auto simp: sqlite_session_store_def intro!: kept_through dest: on_connD)
  with assms show ?thesis
    unfolding lotl_delete_session_def
    by simp (rule kept_on_storage, assumption, intro kept_and_then kept_map_err; simp)
qed

lemma has_session_keeps:
  assumes "lotl_inv st cfg I l" "has_session peer l = (b, l')"
  shows "lotl_inv st cfg I l'"
proof -
  let ?rows = "\<lambda>rows. length (filter (\<lambda>r. se_address r = peer \<and> se_device_id r = 1) rows)"
  let ?run = "and_then (prepare ''sessions'' sessions (lo_connection l)) (\<lambda>_.
    query_all ''sessions'' sessions ?rows)"
  obtain r c where run: "?run = (r, c)" by (cases ?run)
  have "kept I ?run" by (intro inv_intros lotl_invD [OF assms(1)]) assumption
  then have "I c" using run by (rule keptD)
  with assms run show ?thesis
    by (cases r) (auto simp: has_session_def intro: lotl_inv_put split: if_splits)
qed

lemma get_identity_key_keeps: "lotl_inv st cfg I l \<Longrightarrow> kept (lotl_inv st cfg I) (get_identity_key l)"
  unfolding get_identity_key_def
  by (intro kept_on_connection blind inv_intros kept_case_read)
    (auto split: outcome.split sql_error.split)

lemma identity_reads_keep:
  "lotl_inv st cfg I l \<Longrightarrow> kept (lotl_inv st cfg I) (get_fingerprint D l)"
  "lotl_inv st cfg I l \<Longrightarrow> kept (lotl_inv st cfg I) (lotl_derive_nostr_keypair N config l)"
  unfolding get_fingerprint_def lotl_derive_nostr_keypair_def
  by (intro kept_and_then get_identity_key_keeps; simp)+

end

end
