(* ===== verification/Lotl_System.thy ===== *)
theory Lotl_System
  imports Lotl_Calls Lotl_First_Run Message_History_Laws Nostr_Integration
begin

text \<open>
  The instance as a transition system: every call of the public interface and every operation an
  application runs on the shared connection, with any result and any database failures. The
  system invariant says that the tables are what the stores' contracts need; every step keeps
  it, so after any history an instance whose database works again can be maintained and can
  publish a bundle.
\<close>

section \<open>The invariant\<close>

text \<open>The library's encoders and decoders agree.\<close>

definition faithful :: "('r, 'z) blob_lib_scheme \<Rightarrow> bool" where
  "faithful L \<longleftrightarrow> (\<forall>r b. serialize L r = Ok b \<longrightarrow> deserialize L b = Ok r)"

definition faithful_libs :: "('sess, 'ikp, 'ik, 'pk, 'spk, 'kyr) store_libs \<Rightarrow> bool" where
  "faithful_libs S \<longleftrightarrow> faithful (sl_sessions S) \<and> faithful (sl_pre_keys S) \<and>
     faithful (sl_signed S) \<and> faithful (sl_kyber S) \<and> identity_keys_round_trip (sl_identities S)"

definition sessions_inv where
  "sessions_inv L t \<longleftrightarrow> (\<exists>rows. t = Some rows \<and>
     blobs_good (deserialize L) session_key se_session_data rows \<and>
     (\<forall>r \<in> set rows. se_device_id r < 256))"

definition identities_inv where
  "identities_inv J t \<longleftrightarrow> (\<exists>rows. t = Some rows \<and> keys_distinct identity_row_key rows \<and>
     (\<forall>r \<in> set rows. \<exists>k. ik_public_key r = ik_serialize J k))"

definition pre_keys_inv where
  "pre_keys_inv L t \<longleftrightarrow> (\<exists>rows. t = Some rows \<and> blobs_good (deserialize L) pk_id pk_key_data rows)"

definition rotating_inv where
  "rotating_inv L t \<longleftrightarrow> (\<exists>rows. t = Some rows \<and> rows \<noteq> [] \<and> rotating_good L rows)"

definition nostr_inv :: "nostr_row list option \<Rightarrow> bool" where
  "nostr_inv t \<longleftrightarrow> (\<forall>rows. t = Some rows \<longrightarrow>
     keys_distinct no_fingerprint rows \<and> keys_distinct no_nostr_pubkey rows)"

text \<open>\<open>T\<close> is the local identity table, which no call changes; \<open>n\<close> a message id already used.\<close>

definition system_inv :: "('sess, 'ikp, 'ik, 'pk, 'spk, 'kyr) store_libs \<Rightarrow> int
    \<Rightarrow> local_identity_row list option \<Rightarrow> conn \<Rightarrow> bool" where
  "system_inv S n T c \<longleftrightarrow> faithful_libs S \<and> local_identity c = T \<and>
     sessions_inv (sl_sessions S) (sessions c) \<and>
     identities_inv (sl_identities S) (identity_keys c) \<and>
     pre_keys_inv (sl_pre_keys S) (pre_keys c) \<and>
     rotating_inv (sl_signed S) (signed_pre_keys c) \<and>
     rotating_inv (sl_kyber S) (kyber_pre_keys c) \<and>
     nostr_inv (nostr_identities c) \<and> history_inv n c"

lemma history_inv_keys [simp]:
  "history_inv n (c\<lparr>local_identity := x1\<rparr>) = history_inv n c"
  "history_inv n (c\<lparr>identity_keys := x2\<rparr>) = history_inv n c"
  "history_inv n (c\<lparr>sessions := x3\<rparr>) = history_inv n c"
  "history_inv n (c\<lparr>pre_keys := x4\<rparr>) = history_inv n c"
  "history_inv n (c\<lparr>signed_pre_keys := x5\<rparr>) = history_inv n c"
  "history_inv n (c\<lparr>kyber_pre_keys := x6\<rparr>) = history_inv n c"
  "history_inv n (c\<lparr>nostr_identities := x7\<rparr>) = history_inv n c"
  "history_inv n (c\<lparr>poisoned := b\<rparr>) = history_inv n c"
  by (simp_all add: history_inv_def rows_defs)

lemma system_inv_blind [simp]: "lock_blind (system_inv S n T)"
  by (simp add: lock_blind_def fault_blind_def system_inv_def)

lemma system_inv_fault_blind [simp]: "fault_blind (system_inv S n T)"
  by (rule lock_blind_faults [OF system_inv_blind])

subsection \<open>The writes of the key stores\<close>

lemma faithful_decoded: "faithful L \<Longrightarrow> serialize L r = Ok b \<Longrightarrow> decoded (deserialize L) b = Some r"
  by (simp add: faithful_def decoded_def)

lemma rotating_inv_save:
  assumes "faithful L" "rotating_inv L (Some rows)" "row_of_record L row"
  shows "rotating_inv L (Some (row_upsert rk_id row rows))"
proof -
  from assms(3) obtain r ts where r: "serialize L r = Ok (rk_key_data row)"
    "record_timestamp L r = Ok ts" "rk_created_at row = secs_as_i64 ts"
    by (auto simp: row_of_record_def)
  with assms(1) have "deserialize L (rk_key_data row) = Ok r" by (simp add: faithful_def)
  with r assms show ?thesis
    by (auto simp: rotating_inv_def rotating_good_def set_upsert decoded_def intro!: blobs_good_upsert)
qed

lemma rotating_inv_delete:
  "rotating_inv L (Some rows) \<Longrightarrow> 1 < length rows \<Longrightarrow> rotating_inv L (Some (row_delete rk_id i rows))"
  using delete_leaves_one [of rk_id rows i]
  by (auto simp: rotating_inv_def rotating_good_def blobs_good_def keys_distinct_delete set_delete)

lemma rotating_inv_mark:
  "rotating_inv L (Some rows) \<Longrightarrow> rotating_inv L (Some (row_update P (\<lambda>r. r\<lparr>rk_is_current := b\<rparr>) rows))"
  using rotating_good_mark [of L rows P b] by (auto simp: rotating_inv_def row_update_def)

lemma sessions_inv_save:
  assumes "faithful L" "sessions_inv L (Some rows)" "se_device_id q < 256"
    "serialize L x = Ok (se_session_data q)"
  shows "sessions_inv L (Some (row_upsert session_key q rows))"
  using assms faithful_decoded [OF assms(1,4)]
  by (auto simp: sessions_inv_def set_upsert intro: blobs_good_upsert)

lemma sessions_inv_delete: "sessions_inv L (Some rows) \<Longrightarrow> sessions_inv L (Some (filter P rows))"
  by (auto simp: sessions_inv_def blobs_good_def keys_distinct_filter)

lemma identities_inv_save:
  "identities_inv J (Some rows) \<Longrightarrow> ik_public_key p = ik_serialize J k \<Longrightarrow>
    identities_inv J (Some (row_upsert identity_row_key p rows))"
  by (auto simp: identities_inv_def set_upsert keys_distinct_upsert)

lemma pre_keys_inv_save:
  assumes "faithful L" "pre_keys_inv L (Some rows)" "serialize L x = Ok (pk_key_data p)"
  shows "pre_keys_inv L (Some (row_upsert pk_id p rows))"
  using assms faithful_decoded [OF assms(1,3)]
  by (auto simp: pre_keys_inv_def intro: blobs_good_upsert)

lemma pre_keys_inv_delete:
  "pre_keys_inv L (Some rows) \<Longrightarrow> pre_keys_inv L (Some (row_delete pk_id i rows))"
  by (auto simp: pre_keys_inv_def intro: blobs_good_delete)

interpretation running: open_tables S "system_inv S n T"
  by unfold_locales
    (auto simp: system_inv_def faithful_libs_def
      intro: pre_keys_inv_save pre_keys_inv_delete rotating_inv_save rotating_inv_delete
        rotating_inv_mark sessions_inv_save sessions_inv_delete identities_inv_save)

subsection \<open>Contacts, messages and Nostr keys\<close>

text \<open>The tables that contacts and messages have no business in.\<close>

definition key_tables where
  "key_tables c = (local_identity c, identity_keys c, sessions c, pre_keys c, signed_pre_keys c,
     kyber_pre_keys c, nostr_identities c)"

definition same_keys :: "conn \<Rightarrow> conn \<Rightarrow> bool" where
  "same_keys c0 c \<longleftrightarrow> key_tables c = key_tables c0"

lemma same_keys_refl [simp]: "same_keys c c"
  by (simp add: same_keys_def)

lemma same_keys_blind [simp]: "fault_blind (same_keys c0)"
  by (simp add: fault_blind_def same_keys_def key_tables_def)

lemma same_keys_put [simp]:
  "same_keys c0 (c\<lparr>contacts := x1\<rparr>) = same_keys c0 c"
  "same_keys c0 (c\<lparr>conversations := x2\<rparr>) = same_keys c0 c"
  "same_keys c0 (c\<lparr>messages := x3\<rparr>) = same_keys c0 c"
  "same_keys c0 (c\<lparr>conversations_seq := x4\<rparr>) = same_keys c0 c"
  "same_keys c0 (c\<lparr>messages_seq := x5\<rparr>) = same_keys c0 c"
  "same_keys c0 (c\<lparr>last_insert_rowid := x6\<rparr>) = same_keys c0 c"
  "same_keys c0 (c\<lparr>faults := x7\<rparr>) = same_keys c0 c"
  "same_keys c0 (c\<lparr>unixepoch := x8\<rparr>) = same_keys c0 c"
  by (simp_all add: same_keys_def key_tables_def)

lemma same_keys_inv:
  "system_inv S n T c \<Longrightarrow> same_keys c c' \<Longrightarrow> history_inv n c' \<Longrightarrow> system_inv S n T c'"
  by (simp add: system_inv_def same_keys_def key_tables_def)

lemma same_keys_inserts [kept_intros]:
  "same_keys c0 c \<Longrightarrow> kept (same_keys c0) (insert_conversation fp c)"
  "same_keys c0 c \<Longrightarrow> kept (same_keys c0) (insert_message m c)"
  "same_keys c0 c \<Longrightarrow> kept (same_keys c0) (delete_conversation_row i c)"
  unfolding insert_conversation_def insert_message_def delete_conversation_row_def
  by (intro kept_statement kept_on_table; simp)+

lemma same_keys_conversation [kept_intros]:
  "same_keys c0 c \<Longrightarrow> kept (same_keys c0) (get_or_create_conversation fp c)"
  "same_keys c0 c \<Longrightarrow> kept (same_keys c0) (update_conversation i t inc c)"
  "same_keys c0 c \<Longrightarrow> kept (same_keys c0) (delete_conversation fp c)"
  unfolding get_or_create_conversation_def update_conversation_def delete_conversation_def
  by (intro kept_case_read kept_intros; simp split: outcome.split sql_error.split;
      intro kept_intros allI impI; simp)+

lemma same_keys_ops:
  assumes "same_keys c0 c"
  shows "kept (same_keys c0) (init_contacts_table c)"
    and "kept (same_keys c0) (init_message_history_tables c)"
    and "kept (same_keys c0) (add_contact D now key al salt prefix c)"
    and "kept (same_keys c0) (update_contact_alias now fp al c)"
    and "kept (same_keys c0) (store_incoming_message fp t p w e c)"
    and "kept (same_keys c0) (store_outgoing_message fp t p c)"
    and "kept (same_keys c0) (update_delivery_status i st c)"
    and "kept (same_keys c0) (mark_conversation_read fp c)"
    and "kept (same_keys c0) (mark_conversation_read_up_to fp t c)"
    and "kept (same_keys c0) (delete_message i c)"
    and "kept (same_keys c0) (delete_conversation fp c)"
    and "kept (same_keys c0) (archive_conversation fp b c)"
  using assms
  unfolding init_contacts_table_def init_message_history_tables_def add_contact_def
    update_contact_alias_def store_incoming_message_def store_outgoing_message_def
    update_delivery_status_def mark_conversation_read_def mark_conversation_read_up_to_def
    delete_message_def archive_conversation_def Let_def
  by (auto split: option.split intro!: kept_intros)

lemma history_step_same_keys: "history_step c c' \<Longrightarrow> same_keys c c'"
proof (induction rule: history_step.induct)
  case (environment c fs t)
  then show ?case by simp
qed (erule keptD [rotated], rule same_keys_ops, simp)+

lemma history_step_keeps: "history_step c c' \<Longrightarrow> system_inv S n T c \<Longrightarrow> system_inv S n T c'"
  using step_keeps [of c c' n] history_step_same_keys [of c c'] same_keys_inv [of S n T c c']
  by (simp add: system_inv_def)

text \<open>Nostr keys: the table stays one-to-one, and nothing else changes.\<close>

lemma system_inv_nostr:
  "system_inv S n T c \<Longrightarrow> nostr_inv t \<Longrightarrow> system_inv S n T (c\<lparr>nostr_identities := t\<rparr>)"
  by (simp add: system_inv_def)

lemma nostr_ops_keep:
  assumes "system_inv S n T c"
  shows "kept (system_inv S n T) (init_nostr_tables c)"
    and "kept (system_inv S n T) (nostr_lookup P col c)"
    and "kept (system_inv S n T) (replace_nostr_row row c)"
proof -
  show "kept (system_inv S n T) (init_nostr_tables c)"
    using assms unfolding init_nostr_tables_def
    by (intro kept_intros) (auto intro!: system_inv_nostr simp: nostr_inv_def)
  show "kept (system_inv S n T) (nostr_lookup P col c)"
    using assms unfolding nostr_lookup_def
    by (intro kept_intros kept_case_read) (auto split: outcome.split sql_error.split)
  show "kept (system_inv S n T) (replace_nostr_row row c)"
    using assms unfolding replace_nostr_row_def
    by (intro kept_statement kept_on_table)
      (auto intro!: system_inv_nostr simp: system_inv_def [of S n T] nostr_inv_def keys_distinct_def
        distinct_map_filter_key)
qed

lemma store_nostr_keeps:
  "system_inv S n T c \<Longrightarrow> kept (system_inv S n T) (store_nostr_identity fp pk ctx c)"
  unfolding store_nostr_identity_def get_fingerprint_by_nostr_pubkey_def
  by (intro kept_and_then kept_map_err nostr_ops_keep) (auto split: option.split)

lemma history_reads_keep:
  assumes "system_inv S n T c"
  shows "kept (system_inv S n T) (lookup_contact fp c)"
    and "kept (system_inv S n T) (list_contacts rank c)"
    and "kept (system_inv S n T) (get_message i c)"
    and "kept (system_inv S n T) (get_conversation_messages rank' fp limit offset c)"
    and "kept (system_inv S n T) (list_conversations rank' b c)"
    and "kept (system_inv S n T) (get_unread_count fp c)"
proof -
  have "kept (system_inv S n T) (select_message i c)"
    using assms unfolding select_message_def
    by (intro kept_statement kept_on_table) (auto split: option.split)
  then show "kept (system_inv S n T) (get_message i c)"
    unfolding get_message_def by (rule kept_case_read) (auto split: outcome.split sql_error.split)
  show "kept (system_inv S n T) (lookup_contact fp c)" "kept (system_inv S n T) (get_unread_count fp c)"
    using assms unfolding lookup_contact_def get_unread_count_def
    by (intro kept_case_read kept_query_row; simp split: outcome.split sql_error.split)+
  show "kept (system_inv S n T) (list_contacts rank c)"
    "kept (system_inv S n T) (list_conversations rank' b c)"
    using assms unfolding list_contacts_def list_conversations_def get_conversations_def
    by (intro kept_intros; simp)+
  show "kept (system_inv S n T) (get_conversation_messages rank' fp limit offset c)"
    using assms unfolding get_conversation_messages_def
    by (intro kept_case_read kept_query_row) (auto intro!: kept_intros split: outcome.split sql_error.split)
qed

section \<open>The transition system\<close>

text \<open>
  One step: a call of the interface, an operation of the message history or the contacts that the
  application runs on the shared connection once it has the lock, or the environment, which moves the clock and decides
  which of the next statements fail. Results are not looked at: a step may end in an error or a
  panic.
\<close>

inductive lotl_step :: "('ik, 'pub, 'kpub, 'pkb) bundle_lib \<Rightarrow> 'ct wire_lib
    \<Rightarrow> ('sess, 'ikp, 'ik, 'pk, 'spk, 'kyr) store_libs
    \<Rightarrow> ('ikp, 'kp, 'kyp, 'pk, 'spk, 'kyr) maker_libs
    \<Rightarrow> (conn, 'sess, 'ikp, 'ik, 'pk, 'spk, 'kyr, 'pkb, 'ct) protocol_lib \<Rightarrow> digest_lib
    \<Rightarrow> ('sk, 'npk) nostr_lib \<Rightarrow> Lotl \<Rightarrow> Lotl \<Rightarrow> bool" for B W S M P D N where
  publish: "generate_prekey_bundle B S l = (r, l') \<Longrightarrow> lotl_step B W S M P D N l l'"
| publish_metadata: "generate_prekey_bundle_with_metadata B S l = (r, l') \<Longrightarrow> lotl_step B W S M P D N l l'"
| establish: "process_prekey_bundle B S P peer data l = (r, l') \<Longrightarrow> lotl_step B W S M P D N l l'"
| send: "encrypt B W S P peer data l = (r, l') \<Longrightarrow> lotl_step B W S M P D N l l'"
| receive: "decrypt B W S P peer data l = (r, l') \<Longrightarrow> lotl_step B W S M P D N l l'"
| ask_session: "has_session peer l = (b, l') \<Longrightarrow> lotl_step B W S M P D N l l'"
| end_session: "lotl_delete_session B S peer l = (r, l') \<Longrightarrow> lotl_step B W S M P D N l l'"
| maintain: "perform_key_maintenance S M R oc clk l = (r, l') \<Longrightarrow> lotl_step B W S M P D N l l'"
| own_key: "get_identity_key l = (r, l') \<Longrightarrow> lotl_step B W S M P D N l l'"
| own_fingerprint: "get_fingerprint D l = (r, l') \<Longrightarrow> lotl_step B W S M P D N l l'"
| contact: "lotl_add_contact D now key al l = (r, l') \<Longrightarrow> lotl_step B W S M P D N l l'"
| look_up: "lotl_lookup_contact fp l = (r, l') \<Longrightarrow> lotl_step B W S M P D N l l'"
| enumerate: "lotl_list_contacts rank l = (r, l') \<Longrightarrow> lotl_step B W S M P D N l l'"
| derive_nostr: "lotl_derive_nostr_keypair N nc l = (r, l') \<Longrightarrow> lotl_step B W S M P D N l l'"
| peer_nostr: "get_peer_nostr_pubkey fp l = (r, l') \<Longrightarrow> lotl_step B W S M P D N l l'"
| keep_nostr: "lotl_store_nostr_identity fp pk nc l = (r, l') \<Longrightarrow> lotl_step B W S M P D N l l'"
| history: "\<not> poisoned (lo_connection l) \<Longrightarrow> history_step (lo_connection l) c \<Longrightarrow>
    lotl_step B W S M P D N l (l\<lparr>lo_connection := c\<rparr>)"
| read_message: "on_connection (get_message i) l = (r, l') \<Longrightarrow> lotl_step B W S M P D N l l'"
| read_page: "on_connection (get_conversation_messages rank' fp limit offset) l = (r, l') \<Longrightarrow>
    lotl_step B W S M P D N l l'"
| read_list: "on_connection (list_conversations rank' b) l = (r, l') \<Longrightarrow> lotl_step B W S M P D N l l'"
| read_unread: "on_connection (get_unread_count fp) l = (r, l') \<Longrightarrow> lotl_step B W S M P D N l l'"

inductive_cases lotl_stepE: "lotl_step B W S M P D N l l'"

lemma add_contact_keeps_all:
  assumes "system_inv S n T c"
  shows "kept (system_inv S n T) (add_contact D now key al salt prefix c)"
  using add_contact_keeps [of n c D now key al salt prefix] assms
    same_keys_ops(3) [of c c D now key al salt prefix]
    same_keys_inv [OF assms, of "snd (add_contact D now key al salt prefix c)"]
  by (simp add: kept_def system_inv_def)

lemma interface_keeps:
  assumes "lotl_inv st cfg (system_inv S n T) l"
  shows "kept (lotl_inv st cfg (system_inv S n T)) (lotl_add_contact D now key al l)"
    and "kept (lotl_inv st cfg (system_inv S n T)) (lotl_lookup_contact fp l)"
    and "kept (lotl_inv st cfg (system_inv S n T)) (lotl_list_contacts rank l)"
    and "kept (lotl_inv st cfg (system_inv S n T)) (get_peer_nostr_pubkey fp l)"
    and "kept (lotl_inv st cfg (system_inv S n T)) (lotl_store_nostr_identity fp pk nc l)"
proof -
  note at = kept_on_connection [OF assms system_inv_blind]
  show "kept (lotl_inv st cfg (system_inv S n T)) (lotl_add_contact D now key al l)"
    unfolding lotl_add_contact_def by (rule at, rule add_contact_keeps_all)
  show "kept (lotl_inv st cfg (system_inv S n T)) (lotl_lookup_contact fp l)"
    "kept (lotl_inv st cfg (system_inv S n T)) (lotl_list_contacts rank l)"
    unfolding lotl_lookup_contact_def lotl_list_contacts_def by (rule at, rule history_reads_keep, assumption)+
  show "kept (lotl_inv st cfg (system_inv S n T)) (get_peer_nostr_pubkey fp l)"
    "kept (lotl_inv st cfg (system_inv S n T)) (lotl_store_nostr_identity fp pk nc l)"
    unfolding get_peer_nostr_pubkey_def lotl_store_nostr_identity_def get_nostr_pubkey_def
    by (rule at, intro kept_and_then nostr_ops_keep store_nostr_keeps; simp)+
qed

lemma lotl_step_keeps:
  assumes "lotl_step B W S M P D N l l'" "confined P" "lotl_inv st cfg (system_inv S n T) l"
  shows "lotl_inv st cfg (system_inv S n T) l'"
  using assms(1)
proof cases
  case (history c)
  then show ?thesis
    using lotl_inv_put [OF assms(3)] history_step_keeps lotl_invD [OF assms(3)] by blast
next
  case (ask_session peer b)
  show ?thesis by (rule running.has_session_keeps [OF assms(3) ask_session])
qed (auto elim!: keptD [rotated] intro!: assms(2,3) running.prekey_bundle_keeps
    running.process_bundle_keeps running.encrypt_keeps running.decrypt_keeps
    running.delete_session_keeps running.maintenance_keeps running.get_identity_key_keeps
    running.identity_reads_keep interface_keeps kept_on_connection history_reads_keep)

lemma lotl_steps_keep:
  assumes "(lotl_step B W S M P D N)\<^sup>*\<^sup>* l l'" "confined P" "lotl_inv st cfg (system_inv S n T) l"
  shows "lotl_inv st cfg (system_inv S n T) l'"
  using assms(1) by (induction rule: rtranclp_induct) (auto intro: lotl_step_keeps assms(2,3))

text \<open>
  C1: The system invariant. Whatever calls are made, in whatever order, whichever statements fail and
  however each call ends: the local identity never changes, every stored blob can be read back, the
  signed and Kyber stores are never empty, ids, addresses and Nostr keys stay unique, the message
  tables keep their invariant, and the storage object and the configuration stay what they were.
\<close>

theorem system_invariant:
  assumes "(lotl_step B W S M P D N)\<^sup>*\<^sup>* l l'" "confined P" "storage_of l = Some s"
    "system_inv S n T (lo_connection l)"
  shows "\<exists>s'. storage_of l' = Some s' \<and> s'\<lparr>st_connection := st_connection s\<rparr> = s \<and>
    lo_config l' = lo_config l \<and> system_inv S n T (lo_connection l')"
proof -
  have "st_connection s = lo_connection l" using assms(3) by (auto simp: storage_of_def)
  with assms(3,4) have "lotl_inv s (lo_config l) (system_inv S n T) l" by (simp add: lotl_inv_def)
  from lotl_steps_keep [OF assms(1,2) this] show ?thesis
    by (auto simp: lotl_inv_def on_conn_def storage_of_def)
qed

end
