(* ===== verification/Lotl_Recovery.thy ===== *)
theory Lotl_Recovery
  imports Lotl_System Lotl_Sessions
begin

text \<open>
  The life of an instance: a first run on a blank database file establishes the system invariant,
  every history keeps it, and whenever the database works again one maintenance run and then a
  bundle succeed.
\<close>

section \<open>The invariant and the contracts of the stores\<close>

lemma rotating_inv_view:
  "rotating_inv L t \<longleftrightarrow> (\<exists>rows. t = Some rows \<and> rotating_good L rows) \<and>
    blob_view (deserialize L) rk_id rk_key_data t \<noteq> Map.empty"
proof -
  have "blob_view (deserialize L) rk_id rk_key_data (Some rows) \<noteq> Map.empty \<longleftrightarrow> rows \<noteq> []"
    if "rotating_good L rows" for rows
    using dom_blob_view [of "deserialize L" rk_id rk_key_data rows] that
    by (cases rows) (auto simp: rotating_good_def)
  then show ?thesis by (auto simp: rotating_inv_def)
qed

text \<open>In an open storage whose database works, the invariant is what every store contract asks for.\<close>

lemma system_inv_good:
  assumes "ready s" "system_inv S n T (st_connection s)" "T \<noteq> None"
  shows "stores_good S s" "sqlite_sessions_good (sl_sessions S) s"
    "sqlite_identities_good (sl_identities S) s"
    "signed_view S s \<noteq> Map.empty" "kyber_view S s \<noteq> Map.empty"
proof -
  note inv = assms(2) [unfolded system_inv_def]
  show "stores_good S s" "sqlite_sessions_good (sl_sessions S) s"
    "sqlite_identities_good (sl_identities S) s"
    using assms(1,3) inv
    by (auto simp: stores_good_def identity_good_def sqlite_pre_keys_good_def sqlite_signed_good_def
        sqlite_kyber_good_def sqlite_sessions_good_def sqlite_identities_good_def pre_keys_inv_def
        rotating_inv_def sessions_inv_def identities_inv_def faithful_libs_def)
  show "signed_view S s \<noteq> Map.empty" "kyber_view S s \<noteq> Map.empty"
    using inv by (simp_all add: sqlite_signed_view_def sqlite_kyber_view_def rotating_inv_view)
qed

lemma good_system_inv:
  assumes "stores_good S s" "sqlite_sessions_good (sl_sessions S) s"
    "sqlite_identities_good (sl_identities S) s" "faithful_libs S"
    "signed_view S s \<noteq> Map.empty" "kyber_view S s \<noteq> Map.empty"
    "nostr_inv (nostr_identities (st_connection s))" "history_inv n (st_connection s)"
  shows "system_inv S n (local_identity (st_connection s)) (st_connection s)"
proof -
  have "rotating_inv (sl_signed S) (signed_pre_keys (st_connection s))"
    "rotating_inv (sl_kyber S) (kyber_pre_keys (st_connection s))"
    "pre_keys_inv (sl_pre_keys S) (pre_keys (st_connection s))"
    using assms(1,5,6)
    by (simp_all add: rotating_inv_view stores_good_def sqlite_signed_good_def sqlite_kyber_good_def
        sqlite_signed_view_def sqlite_kyber_view_def sqlite_pre_keys_good_def pre_keys_inv_def)
  moreover have "sessions_inv (sl_sessions S) (sessions (st_connection s))"
    "identities_inv (sl_identities S) (identity_keys (st_connection s))"
    using assms(2,3)
    by (simp_all add: sqlite_sessions_good_def sqlite_identities_good_def sessions_inv_def identities_inv_def)
  ultimately show ?thesis using assms(4,7,8) by (simp add: system_inv_def)
qed

section \<open>The first run establishes it\<close>

text \<open>A database in which nothing has been created.\<close>

definition blank :: "conn \<Rightarrow> bool" where
  "blank c \<longleftrightarrow> healthy c \<and> local_identity c = None \<and> identity_keys c = None \<and> sessions c = None \<and>
     pre_keys c = None \<and> signed_pre_keys c = None \<and> kyber_pre_keys c = None \<and> contacts c = None \<and>
     conversations c = None \<and> messages c = None \<and> nostr_identities c = None \<and>
     conversations_seq c = 0 \<and> messages_seq c = 0"

text \<open>Making the keys leaves all other tables alone.\<close>

definition beside_keys where
  "beside_keys c = (identity_keys c, sessions c, contacts c, conversations c, messages c,
     nostr_identities c, conversations_seq c, messages_seq c, foreign_keys c)"

definition beside_inv where
  "beside_inv A c \<longleftrightarrow> beside_keys c = A"

lemma beside_inv_blind [simp]: "lock_blind (beside_inv A)"
  by (simp add: lock_blind_def fault_blind_def beside_inv_def beside_keys_def)

interpretation creating: guarded_tables S "beside_inv A"
  by unfold_locales (simp_all add: beside_inv_def beside_keys_def)

lemma set_local_keeps:
  assumes "on_conn st (beside_inv A) s"
  shows "kept (on_conn st (beside_inv A)) (set_local_identity_key_pair (sqlite_identity_store J) kp s)"
    and "kept (on_conn st (beside_inv A)) (set_local_registration_id (sqlite_identity_store J) i s)"
proof -
  have "kept (beside_inv A) (sqlite_set_local_identity_key_pair J kp c)"
    "kept (beside_inv A) (sqlite_set_local_registration_id i c)" if "beside_inv A c" for c
    using that unfolding sqlite_set_local_identity_key_pair_def sqlite_set_local_registration_id_def Let_def
    by (intro kept_intros; simp add: beside_inv_def beside_keys_def)+
  with assms on_connD [OF assms] show
    "kept (on_conn st (beside_inv A)) (set_local_identity_key_pair (sqlite_identity_store J) kp s)"
    "kept (on_conn st (beside_inv A)) (set_local_registration_id (sqlite_identity_store J) i s)"
    by (auto simp: sqlite_identity_store_def intro!: kept_through)
qed

lemma create_identity_beside:
  "on_conn st (beside_inv A) s \<Longrightarrow> kept (on_conn st (beside_inv A)) (create_identity S M R oc now s)"
  unfolding create_identity_def Let_def
  by (intro kept_and_then kept_map_err set_local_keeps creating.signed_safe.keeps_save
      creating.kyber_safe.keeps_save creating.storage_replenish kept_pair [THEN iffD2]; assumption)

lemma blank_history: "blank c \<Longrightarrow> beside_keys c' = beside_keys (with_app_tables (with_schema c)) \<Longrightarrow>
    history_inv 0 c' \<and> nostr_inv (nostr_identities c') \<and> sessions c' = Some [] \<and> identity_keys c' = Some []"
  by (simp add: blank_def beside_keys_def with_app_tables_def with_schema_def or_empty_def
      history_inv_def rows_defs nostr_inv_def)

lemma beside_app_tables:
  "beside_keys c = beside_keys c' \<Longrightarrow> beside_keys (with_app_tables c) = beside_keys (with_app_tables c')"
  by (simp add: beside_keys_def with_app_tables_def)

text \<open>
  C3: A first run on a blank database ends in a state of the system: the invariant holds, the
  storage is open, and the identity is the one that was generated.
\<close>

theorem first_run_starts_system:
  assumes "db_path config \<noteq> []" "db_connection_new Q D (rn_db_key R) (db_path config) fs = (Ok c, fs')"
    "blank c" "provisionable S M R sig kr" "faithful_libs S"
  shows "\<exists>l s T. lotl_new Q D S M R oc (Some ms) config fs = (Ok l, fs') \<and> storage_of l = Some s \<and>
    ready s \<and> system_inv S 0 T (lo_connection l) \<and> identity_of S s = Some (rn_identity R)"
proof -
  have c: "healthy c" "local_identity c = None" "pre_keys c = None" "signed_pre_keys c = None"
    "kyber_pre_keys c = None" using assms(3) by (simp_all add: blank_def)
  let ?o = "opened_storage c"
  note fresh = opened_fresh [OF c, of S]
  obtain s1 where s1: "create_identity S M R oc (Some ms) ?o = (Ok (), s1)"
    "provisioned S M R ms sig kr s1" using create_identity_run [OF fresh assms(4)] by blast
  have "kept (on_conn ?o (beside_inv (beside_keys (with_schema c)))) (create_identity S M R oc (Some ms) ?o)"
    by (rule create_identity_beside) (simp add: beside_inv_def opened_storage_def)
  then have beside: "beside_keys (st_connection s1) = beside_keys (with_schema c)"
    using s1(1) by (auto simp: beside_inv_def dest: on_connD)
  have init: "ensure_identity_initialized S M R oc (Some ms)
      \<lparr>lo_connection = with_schema c, lo_config = config, lo_storage = Some ?o\<rparr> =
    (Ok (), \<lparr>lo_connection = st_connection s1, lo_config = config, lo_storage = Some s1\<rparr>)"
    using get_pair_law(1) [of ?o "sl_identities S"] fresh s1(1)
    by (simp add: ensure_identity_initialized_def on_storage_def stores_good_def opened_storage_def
        unprovisioned_def)
  have good: "stores_good S s1" using s1(2) by (simp add: provisioned_def)
  from new_run [OF assms(1,2) c(1) good init] obtain l s where
    l: "lotl_new Q D S M R oc (Some ms) config fs = (Ok l, fs')"
    "storage_of l = Some s" "s = s1\<lparr>st_connection := st_connection s\<rparr>"
    "st_connection s = with_app_tables (st_connection s1)" by (elim exE conjE)
  note same = app_tables_same [OF l(4) good l(3)]
  have rdy: "ready s" using same(1) by (simp add: stores_good_def identity_good_def)
  note tables = blank_history [OF assms(3) beside_app_tables [OF beside, folded l(4)]]
  have "system_inv S 0 (local_identity (st_connection s)) (st_connection s)"
  proof (rule good_system_inv)
    show "sqlite_sessions_good (sl_sessions S) s" "sqlite_identities_good (sl_identities S) s"
      using rdy tables assms(5) by (simp_all add: sqlite_sessions_good_def sqlite_identities_good_def faithful_libs_def)
    show "signed_view S s \<noteq> Map.empty" "kyber_view S s \<noteq> Map.empty"
      unfolding same(5,6) using s1(2) by (auto simp: provisioned_def)
  qed (use same(1) tables assms(5) in simp_all)
  moreover have "lo_connection l = st_connection s" using l(2) by (auto simp: storage_of_def)
  moreover have "identity_of S s = Some (rn_identity R)" using same(2) s1(2) by (simp add: provisioned_def)
  ultimately show ?thesis using l(1,2) rdy by auto
qed

text \<open>Opening a database that is a state of the system adds a row of schema information, nothing else.\<close>

lemma opened_tables:
  assumes "system_inv S n T c" "T \<noteq> None"
  shows "key_tables (with_app_tables (with_schema c)) = key_tables c"
    and "message_rows (with_app_tables (with_schema c)) = message_rows c"
    and "conversation_rows (with_app_tables (with_schema c)) = conversation_rows c"
    and "contact_rows (with_app_tables (with_schema c)) = contact_rows c"
    and "key_tables (with_schema c) = key_tables c"
    and "system_inv S n T (with_app_tables (with_schema c))"
proof -
  note inv = assms(1) [unfolded system_inv_def]
  show keys: "key_tables (with_schema c) = key_tables c"
    "key_tables (with_app_tables (with_schema c)) = key_tables c"
    using inv assms(2)
    by (auto simp: key_tables_def with_app_tables_def with_schema_def sessions_inv_def
        identities_inv_def pre_keys_inv_def rotating_inv_def)
  show rows: "message_rows (with_app_tables (with_schema c)) = message_rows c"
    "conversation_rows (with_app_tables (with_schema c)) = conversation_rows c"
    "contact_rows (with_app_tables (with_schema c)) = contact_rows c"
    by (auto simp: with_app_tables_def with_schema_def rows_defs split: option.split)
  have "history_inv n (with_app_tables (with_schema c))"
    using inv rows by (simp add: history_inv_def) (simp add: with_app_tables_def with_schema_def)
  then show "system_inv S n T (with_app_tables (with_schema c))"
    using same_keys_inv [OF assms(1)] keys(2) by (simp add: same_keys_def)
qed

text \<open>
  C4: A restart on a database the system left behind resumes it: the invariant holds again, the
  storage is open, and the identity, the peers' identities, the sessions, all pre-keys, the Nostr
  keys, contacts, conversations and messages are exactly those found, whatever the random number
  generator and the clock deliver.
\<close>

theorem restart_resumes_system:
  assumes "db_path config \<noteq> []" "db_connection_new Q D (rn_db_key R) (db_path config) fs = (Ok c, fs')"
    "healthy c" "system_inv S n T c" "identity_of S (opened_storage c) = Some ikp"
  shows "\<exists>l s. lotl_new Q D S M R oc now config fs = (Ok l, fs') \<and> storage_of l = Some s \<and> ready s \<and>
    system_inv S n T (lo_connection l) \<and> key_tables (lo_connection l) = key_tables c \<and>
    message_rows (lo_connection l) = message_rows c \<and>
    conversation_rows (lo_connection l) = conversation_rows c \<and>
    contact_rows (lo_connection l) = contact_rows c"
proof -
  let ?o = "opened_storage c"
  have o: "st_connection ?o = with_schema c" by (simp add: opened_storage_def)
  have "ready ?o" by (rule opened_ready [OF assms(3)])
  have T: "T \<noteq> None"
  proof
    assume "T = None"
    with assms(4,5) show False
      by (auto simp: system_inv_def identity_of_def local_row_def opened_storage_def with_schema_def)
  qed
  note tables = opened_tables [OF assms(4) T]
  have "same_keys c (with_schema c)" using tables(5) by (simp add: same_keys_def)
  moreover have "history_inv n (with_schema c)"
    using assms(4) by (simp add: system_inv_def history_inv_def rows_defs) (simp add: with_schema_def)
  ultimately have "system_inv S n T (st_connection ?o)"
    unfolding o by (rule same_keys_inv [OF assms(4)])
  note good = system_inv_good(1) [OF \<open>ready ?o\<close> this T]
  have init: "ensure_identity_initialized S M R oc now
      \<lparr>lo_connection = with_schema c, lo_config = config, lo_storage = Some ?o\<rparr> =
    (Ok (), \<lparr>lo_connection = st_connection ?o, lo_config = config, lo_storage = Some ?o\<rparr>)"
    using get_identity_of [OF good assms(5)]
    by (simp add: ensure_identity_initialized_def on_storage_def opened_storage_def)
  from new_run [OF assms(1-3) good init] obtain l s where
    l: "lotl_new Q D S M R oc now config fs = (Ok l, fs')" "storage_of l = Some s"
    "s = ?o\<lparr>st_connection := st_connection s\<rparr>" "st_connection s = with_app_tables (st_connection ?o)"
    by (elim exE conjE)
  have "ready s" using app_tables_same(1) [OF l(4) good l(3)] by (simp add: stores_good_def identity_good_def)
  moreover have "lo_connection l = with_app_tables (with_schema c)"
    using l(2,4) o by (auto simp: storage_of_def)
  ultimately show ?thesis using l(1,2) tables by auto
qed

section \<open>Recovery\<close>

text \<open>
  What a recovery needs beyond the tables: a library that signs, makes and reads records, room for
  new ids, and clocks that have not gone back.
\<close>

definition serviceable :: "('sess, 'ikp, 'ik, 'pk, 'spk, 'kyr) store_libs
    \<Rightarrow> ('ikp, 'kp, 'kyp, 'pk, 'spk, 'kyr) maker_libs \<Rightarrow> ('ikp, 'kp, 'kyp) randomness \<Rightarrow> 'ikp
    \<Rightarrow> (nat \<Rightarrow> nat) \<Rightarrow> sqlite_storage \<Rightarrow> bool" where
  "serviceable S M R ikp ms s \<longleftrightarrow>
     is_ok (calculate_signature (ml_signed M) ikp (public_serialize (ml_signed M) (rn_signed R))) \<and>
     is_ok (calculate_signature (ml_kyber M) ikp (public_serialize (ml_kyber M) (rn_kyber R))) \<and>
     key_maker_lawful (ml_signed M) (sl_signed S) \<and> key_maker_lawful (ml_kyber M) (sl_kyber S) \<and>
     (\<forall>i k. round_trips (sl_pre_keys S) (ml_pre_key M i k)) \<and>
     ids_left 100 (pre_view S s) \<and> ids_left 1 (signed_view S s) \<and> ids_left 1 (kyber_view S s) \<and>
     clock_fine (sl_signed S) (signed_view S s) (ms 0) \<and>
     clock_fine (sl_kyber S) (kyber_view S s) (ms 2) \<and>
     (\<forall>i \<in> {4, 5}. unat (GRACE_PERIOD_SECS * 1000) \<le> ms i \<and> ms i < 2 ^ 64)"

definition publishable :: "('ik, 'pub, 'kpub, 'pkb) bundle_lib
    \<Rightarrow> ('sess, 'ikp, 'ik, 'pk, 'spk, 'kyr) store_libs \<Rightarrow> bool" where
  "publishable B S \<longleftrightarrow> (\<forall>b. is_ok (bincode_serialize B b)) \<and>
     (\<forall>r. is_ok (record_public_key (sl_pre_keys S) r)) \<and>
     (\<forall>r. is_ok (record_public_key (sl_signed S) r) \<and> is_ok (record_signature (sl_signed S) r)) \<and>
     (\<forall>r. is_ok (record_public_key (sl_kyber S) r) \<and> is_ok (record_signature (sl_kyber S) r))"

definition open_storage :: "sqlite_storage \<Rightarrow> bool" where
  "open_storage s \<longleftrightarrow> \<not> st_is_closed s \<and> st_session_store s \<and> st_identity_store s \<and>
     st_pre_key_store s \<and> st_signed_pre_key_store s \<and> st_kyber_pre_key_store s"

lemma ready_open: "ready s \<longleftrightarrow> open_storage s \<and> healthy (st_connection s)"
  by (auto simp: ready_def open_storage_def)

lemma newest_exists: "v \<noteq> Map.empty \<Longrightarrow> \<exists>i r. newest v = Some (i, r)"
  by (simp add: newest_def)

lemma bundle_exists:
  assumes "publishable B S" "identity_of S s = Some ikp" "pre_view S s \<noteq> Map.empty"
    "signed_view S s \<noteq> Map.empty" "kyber_view S s \<noteq> Map.empty"
  shows "\<exists>b bytes. bundle_for S s b \<and> bincode_serialize B b = Ok bytes \<and>
    sb_identity_key b = ik_serialize (sl_identities S) (pair_identity_key (sl_identities S) ikp)"
proof -
  obtain row where row: "local_row s = Some row"
    using assms(2) by (auto simp: identity_of_def bind_eq_Some_conv)
  obtain i1 r1 i2 r2 i3 r3 where newest: "newest (pre_view S s) = Some (i1, r1)"
    "newest (signed_view S s) = Some (i2, r2)" "newest (kyber_view S s) = Some (i3, r3)"
    using assms(3-5) newest_exists by metis
  obtain p1 p2 p3 g2 g3 where parts: "record_public_key (sl_pre_keys S) r1 = Ok p1"
    "record_public_key (sl_signed S) r2 = Ok p2" "record_public_key (sl_kyber S) r3 = Ok p3"
    "record_signature (sl_signed S) r2 = Ok g2" "record_signature (sl_kyber S) r3 = Ok g3"
    using assms(1) unfolding publishable_def is_ok_iff by metis
  define b where "b = \<lparr>sb_version = CARGO_PKG_VERSION, sb_registration_id = li_registration_id row,
    sb_device_id = 1, sb_pre_key_id = i1, sb_pre_key_public = p1, sb_signed_pre_key_id = i2,
    sb_signed_pre_key_public = p2, sb_signed_pre_key_signature = g2,
    sb_identity_key = ik_serialize (sl_identities S) (pair_identity_key (sl_identities S) ikp),
    sb_kyber_pre_key_id = i3, sb_kyber_pre_key_public = p3, sb_kyber_pre_key_signature = g3\<rparr>"
  have "bundle_for S s b" using assms(2) row newest parts by (simp add: bundle_for_def b_def)
  moreover obtain bytes where "bincode_serialize B b = Ok bytes"
    using assms(1) unfolding publishable_def is_ok_iff by blast
  moreover have "sb_identity_key b = ik_serialize (sl_identities S) (pair_identity_key (sl_identities S) ikp)"
    by (simp add: b_def)
  ultimately show ?thesis by blast
qed

text \<open>A maintenance run on any state of the system leaves what a bundle needs.\<close>

lemma maintenance_restocks:
  assumes "storage_of l = Some s" "stores_good S s" "identity_of S s = Some ikp" "serviceable S M R ikp ms s"
  shows "\<exists>res l' s'. perform_key_maintenance S M R oc (\<lambda>i. Some (ms i)) l = (Ok res, l') \<and>
    storage_of l' = Some s' \<and> stores_good S s' \<and> identity_of S s' = Some ikp \<and>
    50 \<le> card (dom (pre_view S s')) \<and> signed_view S s' \<noteq> Map.empty \<and> kyber_view S s' \<noteq> Map.empty"
proof -
  note v = assms(4) [unfolded serviceable_def]
  then have "maintainable S M R ms s" using assms(2,3) by (simp add: maintainable_def)
  from maintenance_run [OF assms(1) this assms(3), of oc] obtain l' s' where
    run: "perform_key_maintenance S M R oc (\<lambda>i. Some (ms i)) l =
      (Ok \<lparr>pre_keys_generated = (if card (dom (pre_view S s)) < MIN_PRE_KEY_COUNT then 100 else 0),
         signed_pre_key_rotated = rotation_due (sl_signed S) (signed_view S s) (ms 0),
         kyber_pre_key_rotated = rotation_due (sl_kyber S) (kyber_view S s) (ms 2)\<rparr>, l')"
      "storage_of l' = Some s'" "stores_good S s'" "identity_of S s' = Some ikp"
      "pre_view S s' = stocked (ml_pre_key M) (rn_pre_keys R) (pre_view S s)"
      "cleaned (expired_secs (sl_signed S) (cutoff_at (ms 4))) (rotated_view (sl_signed S) (ml_signed M)
        (ms 0) (ms 1) (rn_signed R) ikp (signed_view S s)) (signed_view S s')"
      "cleaned (expired_secs (sl_kyber S) (cutoff_at (ms 5))) (rotated_view (sl_kyber S) (ml_kyber M)
        (ms 2) (ms 3) (rn_kyber R) ikp (kyber_view S s)) (kyber_view S s')" by (elim exE conjE)
  note fin = sqlite_one_time.finite_view [OF stores_goodD(1) [OF assms(2)]]
    sqlite_signed.finite_view [OF stores_goodD(2) [OF assms(2)]]
    sqlite_kyber.finite_view [OF stores_goodD(3) [OF assms(2)]]
  from v have left: "ids_left 100 (pre_view S s)" "ids_left 1 (signed_view S s)" "ids_left 1 (kyber_view S s)"
    and sigs: "is_ok (calculate_signature (ml_signed M) ikp (public_serialize (ml_signed M) (rn_signed R)))"
      "is_ok (calculate_signature (ml_kyber M) ikp (public_serialize (ml_kyber M) (rn_kyber R)))" by simp_all
  have "50 \<le> card (dom (pre_view S s'))"
    using stocked_keeps(2) [OF fin(1) left(1)] by (simp add: run(5) MIN_PRE_KEY_COUNT_def)
  with run(1-4) cleaned_rotation(2) [OF fin(2) left(2) sigs(1) run(6)]
    cleaned_rotation(2) [OF fin(3) left(3) sigs(2) run(7)] show ?thesis by blast
qed

text \<open>
  C2: Recovery. Whatever was called since the invariant held, and whatever failed meanwhile: as soon as
  the database works again, one maintenance run succeeds, at least 50 one-time pre-keys are there,
  and a bundle can be made, which publishes the identity the instance had at the start.
\<close>

theorem recovers_after_any_history:
  assumes "(lotl_step B W S M P D N)\<^sup>*\<^sup>* l l1" "confined P" "storage_of l = Some s" "open_storage s"
    "system_inv S n T (lo_connection l)" "identity_of S s = Some ikp"
    "healthy (lo_connection l1)" "publishable B S" "storage_of l1 = Some s1" "serviceable S M R ikp ms s1"
  shows "\<exists>res l2 s2 b bytes. perform_key_maintenance S M R oc (\<lambda>i. Some (ms i)) l1 = (Ok res, l2) \<and>
    storage_of l2 = Some s2 \<and> 50 \<le> card (dom (pre_view S s2)) \<and>
    fst (generate_prekey_bundle B S l2) = Ok bytes \<and> bincode_serialize B b = Ok bytes \<and>
    sb_identity_key b = ik_serialize (sl_identities S) (pair_identity_key (sl_identities S) ikp)"
proof -
  have conn: "st_connection s = lo_connection l" "st_connection s1 = lo_connection l1"
    using assms(3,9) by (auto simp: storage_of_def)
  with assms(3,5) have "lotl_inv s (lo_config l) (system_inv S n T) l" by (simp add: lotl_inv_def)
  from lotl_steps_keep [OF assms(1,2) this] have s1: "on_conn s (system_inv S n T) s1"
    using assms(9) by (simp add: lotl_inv_def)
  have T: "local_identity (st_connection s) = T" "local_identity (st_connection s1) = T" "T \<noteq> None"
    using assms(5,6) on_connD [OF s1] conn(1)
    by (auto simp: system_inv_def identity_of_def local_row_def bind_eq_Some_conv split: option.splits)
  have "s1\<lparr>st_connection := st_connection s\<rparr> = s" using s1 by (simp add: on_conn_def)
  with assms(4,7) conn(2) have "ready s1" by (cases s1; cases s) (simp add: ready_open open_storage_def)
  note good = system_inv_good [OF this on_connD [OF s1] T(3)]
  have "identity_of S s1 = Some ikp"
    using assms(6) T(1,2) by (simp add: identity_of_def local_row_def)
  from maintenance_restocks [OF assms(9) good(1) this assms(10), of oc] obtain res l2 s2 where
    run: "perform_key_maintenance S M R oc (\<lambda>i. Some (ms i)) l1 = (Ok res, l2)"
    "storage_of l2 = Some s2" "stores_good S s2" "identity_of S s2 = Some ikp"
    "50 \<le> card (dom (pre_view S s2))" "signed_view S s2 \<noteq> Map.empty" "kyber_view S s2 \<noteq> Map.empty"
    by (elim exE conjE)
  have "pre_view S s2 \<noteq> Map.empty" using run(5) by auto
  from bundle_exists [OF assms(8) run(4) this run(6,7)] obtain b bytes where
    b: "bundle_for S s2 b" "bincode_serialize B b = Ok bytes"
    "sb_identity_key b = ik_serialize (sl_identities S) (pair_identity_key (sl_identities S) ikp)"
    by (elim exE conjE)
  have "fst (generate_prekey_bundle B S l2) = Ok bytes"
    by (simp add: generate_prekey_bundle_def run(2) on_storage_present build_bundle_good [OF run(3) b(1)] b(2))
  with run(1,2,5) b(2,3) show ?thesis by blast
qed

section \<open>Examples\<close>

lemma sample_confined: "confined sample_protocol"
  by (auto simp: confined_def sample_protocol_def session_calls_def identity_calls_def
      intro!: kept_and_then split: option.split)

lemma sample_faithful: "faithful_libs sample_stores"
  by (simp add: faithful_libs_def faithful_def sample_sessions_def)
    (simp add: sample_records_def)

text \<open>The samples with keys: only the key tables were written.\<close>

lemma fold_keeps: "I s \<Longrightarrow> (\<And>x s. I s \<Longrightarrow> I (snd (f x s))) \<Longrightarrow> I (fold (\<lambda>x s. snd (f x s)) xs s)"
  by (induction xs arbitrary: s) simp_all

lemma sample_full_beside:
  "on_conn sample_storage (beside_inv (beside_keys (st_connection sample_storage))) (sample_full is rs ks)"
proof -
  let ?I = "on_conn sample_storage (beside_inv (beside_keys (st_connection sample_storage)))"
  have "?I sample_identified"
    unfolding sample_identified_def
    by (rule set_local_keeps(1) [unfolded kept_def]) (simp add: beside_inv_def)
  then have "?I (sample_stocked is)"
    unfolding sample_stocked_def
    by (rule fold_keeps) (rule creating.storage_pre_key_ops(2) [of _ _ _ sample_stores, simplified, unfolded kept_def])
  then have "?I (sample_keyed is rs)"
    unfolding sample_keyed_def
    by (rule fold_keeps) (rule creating.signed_safe.keeps_save [of _ _ _ sample_stores, simplified, unfolded kept_def])
  then show ?thesis
    unfolding sample_full_def
    by (rule fold_keeps) (rule creating.kyber_safe.keeps_save [of _ _ _ sample_stores, simplified, unfolded kept_def])
qed

text \<open>The worn instance is a state of the system; a fault hits its next call and is gone after it.\<close>

lemma sample_worn_ready: "ready sample_worn"
  using sample_worn_views(1) by (simp add: stores_good_def identity_good_def)

lemma sample_worn_system:
  "system_inv sample_stores 0 (local_identity (st_connection sample_worn)) (st_connection sample_worn)"
proof (rule good_system_inv)
  have "beside_keys (st_connection sample_worn) = beside_keys (st_connection sample_storage)"
    using on_connD [OF sample_full_beside [of "[7, 8]" "[(1, 0, [])]" "[(4, 700000000, [])]"]]
    by (simp add: beside_inv_def)
  then have tables: "sessions (st_connection sample_worn) = Some []" "identity_keys (st_connection sample_worn) = Some []"
    "nostr_inv (nostr_identities (st_connection sample_worn))" "history_inv 0 (st_connection sample_worn)"
    by (simp_all add: beside_keys_def sample_storage_eq empty_conn_def nostr_inv_def history_inv_def rows_defs)
  then show "sqlite_sessions_good (sl_sessions sample_stores) sample_worn"
    "sqlite_identities_good (sl_identities sample_stores) sample_worn"
    "nostr_inv (nostr_identities (st_connection sample_worn))" "history_inv 0 (st_connection sample_worn)"
    using sample_worn_ready by (simp_all add: sqlite_sessions_good_def sqlite_identities_good_def)
qed (use sample_worn_views sample_faithful in \<open>simp_all del: sample_libs\<close>)

definition sample_faulty :: Lotl where
  "sample_faulty = (sample_lotl sample_worn)
     \<lparr>lo_connection := (st_connection sample_worn)\<lparr>faults := [Some ''database is locked'']\<rparr>\<rparr>"

definition sample_wires :: "bytes wire_lib" where
  "sample_wires = \<lparr>ciphertext_serialize = id, pre_key_message_try_from = Ok, signal_message_try_from = Ok\<rparr>"

abbreviation sample_step where
  "sample_step \<equiv> lotl_step (sample_bundles\<lparr>bincode_serialize := \<lambda>_. Ok [42]\<rparr>) sample_wires sample_stores
     sample_makers sample_protocol sample_digest sample_nostr_lib"

lemma sample_failed_call:
  "lotl_delete_session (sample_bundles\<lparr>bincode_serialize := \<lambda>_. Ok [42]\<rparr>) sample_stores ''carol'' sample_faulty =
    (Err (boxed (BoxSqlite (SqliteFailure ''database is locked''))), sample_lotl sample_worn)"
  using sample_worn_ready
  by (simp add: lotl_delete_session_def sample_faulty_def sample_lotl_def ensure_storage_initialized_def
      on_storage_def sample_bundles_def sqlite_session_store_def through_def accessor_defs ready_def
      healthy_def sqlite_delete_session_def with_lock_def execute_def statement_def)

lemma sample_history: "sample_step\<^sup>*\<^sup>* sample_faulty (sample_lotl sample_worn)"
  using sample_failed_call by (intro r_into_rtranclp) (rule lotl_step.end_session)

lemma sample_faulty_start:
  "storage_of sample_faulty = Some (sample_worn\<lparr>st_connection := lo_connection sample_faulty\<rparr>)"
  "system_inv sample_stores 0 (local_identity (st_connection sample_worn)) (lo_connection sample_faulty)"
proof -
  show "storage_of sample_faulty = Some (sample_worn\<lparr>st_connection := lo_connection sample_faulty\<rparr>)"
    by (simp add: sample_faulty_def sample_lotl_def storage_of_def)
  have "fault_blind (system_inv sample_stores 0 (local_identity (st_connection sample_worn)))" by simp
  with sample_worn_system
  show "system_inv sample_stores 0 (local_identity (st_connection sample_worn)) (lo_connection sample_faulty)"
    unfolding fault_blind_def sample_faulty_def by simp
qed

theorem system_invariant_witness:
  "lotl_delete_session (sample_bundles\<lparr>bincode_serialize := \<lambda>_. Ok [42]\<rparr>) sample_stores ''carol'' sample_faulty =
      (Err (boxed (BoxSqlite (SqliteFailure ''database is locked''))), sample_lotl sample_worn) \<and>
    system_inv sample_stores 0 (local_identity (st_connection sample_worn)) (lo_connection (sample_lotl sample_worn))"
  using system_invariant [OF sample_history sample_confined sample_faulty_start] sample_failed_call
  by blast

theorem first_run_starts_system_witness:
  "\<exists>l T. lotl_new sample_sqlcipher sample_hex sample_stores sample_makers sample_random True
      (Some 1000) sample_config sample_fs = (Ok l, sample_fs) \<and> system_inv sample_stores 0 T (lo_connection l)"
proof -
  have "db_path sample_config \<noteq> []" "blank empty_conn"
    by (simp_all add: sample_config_def empty_conn_def healthy_def blank_def)
  from first_run_starts_system [OF this(1) sample_opened this(2) sample_provisionable sample_faithful,
      of True 1000]
  show ?thesis by blast
qed

theorem restart_resumes_system_witness:
  "\<exists>l. lotl_new (sample_sqlcipher\<lparr>open_connection := \<lambda>_. Ok (st_connection sample_worn)\<rparr>) sample_hex
      sample_stores sample_makers sample_random True None sample_config sample_fs = (Ok l, sample_fs) \<and>
    key_tables (lo_connection l) = key_tables (st_connection sample_worn)"
proof -
  let ?Q = "sample_sqlcipher\<lparr>open_connection := \<lambda>_. Ok (st_connection sample_worn)\<rparr>"
  have "db_connection_new ?Q sample_hex (rn_db_key sample_random) (db_path sample_config) sample_fs =
      (Ok (st_connection sample_worn), sample_fs)"
    using sample_worn_ready
    by (simp add: db_connection_new_def sample_sqlcipher_def sample_config_def pragma_def
        statement_healthy ready_def healthy_def)
  moreover have "db_path sample_config \<noteq> []" "healthy (st_connection sample_worn)"
    using sample_worn_ready by (simp_all add: sample_config_def ready_def)
  moreover have "identity_of sample_stores (opened_storage (st_connection sample_worn)) = Some [5, 1]"
    using identity_of_sample [OF sample_worn_views(2)] sample_worn_views(1)
    by (auto simp: identity_of_def local_row_def opened_storage_def with_schema_def stores_good_def
        identity_good_def simp del: sample_libs)
  ultimately show ?thesis
    using restart_resumes_system [of sample_config ?Q sample_hex sample_random sample_fs _ sample_fs
        sample_stores 0 _ _ sample_makers True None] sample_worn_system by blast
qed

theorem recovers_after_any_history_witness:
  "\<exists>res l2 bytes. perform_key_maintenance sample_stores sample_makers sample_random True
      (\<lambda>i. Some 700000000) (sample_lotl sample_worn) = (Ok res, l2) \<and>
    fst (generate_prekey_bundle (sample_bundles\<lparr>bincode_serialize := \<lambda>_. Ok [42]\<rparr>) sample_stores l2) = Ok bytes"
proof -
  let ?s = "sample_worn\<lparr>st_connection := lo_connection sample_faulty\<rparr>"
  have start: "open_storage ?s" "healthy (lo_connection (sample_lotl sample_worn))"
    using sample_worn_ready by (simp_all add: ready_open open_storage_def sample_lotl_def)
  have ident: "identity_of sample_stores ?s = Some [5, 1]"
    using identity_of_sample [OF sample_worn_views(2)]
    by (simp add: identity_of_def local_row_def sample_faulty_def del: sample_libs)
  have "publishable (sample_bundles\<lparr>bincode_serialize := \<lambda>_. Ok [42]\<rparr>) sample_stores"
    by (simp add: publishable_def sample_records_def split: prod.split)
  moreover have "serviceable sample_stores sample_makers sample_random [5, 1] (\<lambda>_. 700000000) sample_worn"
    by (simp add: serviceable_def sample_worn_views(3,5,6) clock_fine_def ids_left_def millis_u64_def
        GRACE_PERIOD_SECS_def word_le_nat_alt del: sample_libs(3-5)) simp
  ultimately show ?thesis
    using recovers_after_any_history [OF sample_history sample_confined sample_faulty_start(1) start(1)
        sample_faulty_start(2) ident start(2) _ storage_of_sample, of sample_random "\<lambda>_. 700000000" True]
    by metis
qed

end
