(* ===== verification/Lotl_Poisoning.thy ===== *)
theory Lotl_Poisoning
  imports Lotl_Recovery
begin

text \<open>
  What a poisoned mutex means. The counting methods call \<^verbatim>\<open>unwrap\<close> on a statement while they hold
  the lock; when SQLite fails there, the panic poisons the mutex of the shared connection. Every
  later \<^verbatim>\<open>lock().unwrap()\<close> panics, so the instance is lost.
\<close>

section \<open>Calls on a poisoned connection\<close>

lemma poisoned_lock [simp]: "poisoned c \<Longrightarrow> with_lock f c = (Panic ''PoisonError'', c)"
  by (simp add: with_lock_def)

lemma poisoned_connection:
  "poisoned (lo_connection l) \<Longrightarrow> on_connection f l = (Panic ''PoisonError'', l)"
  by (cases l) (simp add: on_connection_def)

lemma poisoned_store_ops:
  assumes "open_storage s" "poisoned (st_connection s)"
  shows "get_identity_key_pair (sqlite_identity_store J) s = (Panic ''PoisonError'', s)"
    and "delete_session (sqlite_session_store L) a s = (Panic ''PoisonError'', s)"
  using assms
  by (simp_all add: sqlite_identity_store_def sqlite_session_store_def through_def accessor_defs
      open_storage_def sqlite_get_identity_key_pair_def sqlite_delete_session_def)

text \<open>The methods the protocol library is given change nothing, so neither does the library.\<close>

lemma poisoned_methods:
  assumes "poisoned c"
  shows "session_calls (\<lambda>x. x = c) (conn_session_store L)"
    and "identity_calls (\<lambda>x. x = c) (conn_identity_store J)"
    and "pre_key_calls (\<lambda>x. x = c) (conn_pre_key_store PL)"
    and "signed_calls (\<lambda>x. x = c) (conn_signed_store SL rank)"
    and "kyber_calls (\<lambda>x. x = c) (conn_kyber_store KL rank)"
  using assms
  by (simp_all add: session_calls_def identity_calls_def pre_key_calls_def signed_calls_def
      kyber_calls_def conn_session_store_def conn_identity_store_def conn_pre_key_store_def
      conn_signed_store_def conn_kyber_store_def sqlite_load_session_def sqlite_store_session_def
      sqlite_get_identity_key_pair_def sqlite_get_local_registration_id_def sqlite_save_identity_def
      sqlite_is_trusted_identity_def sqlite_get_identity_def sqlite_get_pre_key_def
      sqlite_save_pre_key_def sqlite_remove_pre_key_def sqlite_get_signed_pre_key_def
      sqlite_save_signed_pre_key_def sqlite_get_kyber_pre_key_def sqlite_save_kyber_pre_key_def
      sqlite_mark_kyber_pre_key_used_def)

lemma kept_same_stores:
  "kept (\<lambda>c. c = st_connection s) (f (st_connection s)) \<Longrightarrow>
    kept (\<lambda>s'. s' = s) (with_stores present f s)"
  unfolding with_stores_def by (rule kept_and_then) (auto simp: kept_def split: prod.splits)

lemma kept_same_storage:
  assumes "storage_of l = Some s" "kept (\<lambda>s'. s' = s) (f s)"
  shows "kept (\<lambda>l'. storage_of l' = Some s) (on_storage f l)"
proof (cases "f s")
  case (Pair r s')
  with assms show ?thesis by (simp add: on_storage_present)
qed

section \<open>No way back\<close>

lemma poisoned_stays:
  assumes "lotl_step B W S M P D N l l'" "confined P" "storage_of l = Some s" "open_storage s"
    "poisoned (lo_connection l)"
  shows "storage_of l' = Some s \<and> lo_connection l' = lo_connection l"
proof -
  have c: "st_connection s = lo_connection l" "poisoned (st_connection s)"
    using assms(3,5) by (auto simp: storage_of_def)
  note ops = poisoned_store_ops [OF assms(4) c(2)] and calls = poisoned_methods [OF c(2)]
  note ends = poisoned_connection [OF assms(5)]
  let ?K = "\<lambda>l'. storage_of l' = Some s"
  note P = confinedD [OF assms(2) calls(1,2) refl] confinedD(3) [OF assms(2) calls(1,2) refl calls(3-5)]
  have k1: "kept ?K (generate_prekey_bundle B S l)" "kept ?K (generate_prekey_bundle_with_metadata B S l)"
    "kept ?K (perform_key_maintenance S M R oc clk l)" for R oc clk
    using assms(3)
    by (auto simp: generate_prekey_bundle_def generate_prekey_bundle_with_metadata_def Let_def
        perform_key_maintenance_def build_bundle_def ops intro!: kept_same_storage)
  have k2: "kept ?K (process_prekey_bundle B S P peer data l)" for peer data
    unfolding process_prekey_bundle_def using assms(3)
    by (intro kept_and_then) (auto simp: sqlite_establish_session_from_bundle_def
        intro!: kept_same_storage kept_and_then kept_map_err kept_same_stores P)
  have k3: "kept ?K (encrypt B W S P peer data l)" "kept ?K (decrypt B W S P peer data l)" for peer data
    unfolding encrypt_def decrypt_def sqlite_encrypt_message_def sqlite_decrypt_message_def using assms(3)
    by (auto intro!: kept_same_storage kept_and_then kept_map_err kept_same_stores P)
  have k4: "kept ?K (lotl_delete_session B S peer l)" for peer
    unfolding lotl_delete_session_def using assms(3)
    by (auto simp: ops intro!: kept_same_storage kept_and_then kept_map_err)
  note keep = k1 k2 k3 k4
  from assms(1) have "storage_of l' = Some s"
    by cases (use keep assms(3) in \<open>auto elim: keptD [rotated] simp: assms(5) has_session_def get_identity_key_def
      get_fingerprint_def lotl_add_contact_def lotl_lookup_contact_def lotl_list_contacts_def
      lotl_derive_nostr_keypair_def get_peer_nostr_pubkey_def lotl_store_nostr_identity_def ends\<close>)
  then show ?thesis using c(1) by (auto simp: storage_of_def)
qed

lemma poisoned_for_good:
  assumes "(lotl_step B W S M P D N)\<^sup>*\<^sup>* l l'" "confined P" "storage_of l = Some s" "open_storage s"
    "poisoned (lo_connection l)"
  shows "storage_of l' = Some s \<and> lo_connection l' = lo_connection l"
  using assms(1) by (induction rule: rtranclp_induct) (auto dest: poisoned_stays [OF _ assms(2) _ assms(4)] simp: assms(3,5))

text \<open>Every count of the key stores, when SQLite fails to prepare its statement.\<close>

lemma failed_count:
  assumes "open_storage s" "\<not> poisoned (st_connection s)" "faults (st_connection s) = Some m # fs"
    "how_many \<in> {pre_key_count (sqlite_pre_key_store L), key_count (sqlite_signed_store L1 rank),
      key_count (sqlite_kyber_store L2 rank)}"
  shows "how_many s = (Panic ''called `Result::unwrap()` on an `Err` value'',
    s\<lparr>st_connection := (st_connection s)\<lparr>faults := fs, poisoned := True\<rparr>\<rparr>)"
  using assms
  by (auto simp: sqlite_pre_key_store_def sqlite_signed_store_def sqlite_kyber_store_def through_def
      accessor_defs open_storage_def sqlite_pre_key_count_def sqlite_signed_pre_key_count_def
      sqlite_kyber_pre_key_count_def count_rows_def with_lock_def prepare_def statement_def)

text \<open>What each call of an instance with a poisoned connection returns.\<close>

lemma poisoned_locks:
  assumes "poisoned (lo_connection l)"
  shows "fst (has_session p l) = False"
    and "fst (get_identity_key l) = Panic ''PoisonError''"
    and "fst (get_fingerprint D l) = Panic ''PoisonError''"
    and "fst (lotl_add_contact D now key alias l) = Panic ''PoisonError''"
    and "fst (lotl_lookup_contact fp l) = Panic ''PoisonError''"
    and "fst (lotl_list_contacts rank l) = Panic ''PoisonError''"
    and "fst (lotl_derive_nostr_keypair N nc l) = Panic ''PoisonError''"
    and "fst (get_peer_nostr_pubkey fp l) = Panic ''PoisonError''"
    and "fst (lotl_store_nostr_identity fp pk nc l) = Panic ''PoisonError''"
  using assms
  by (simp_all add: has_session_def get_identity_key_def get_fingerprint_def lotl_add_contact_def
      lotl_lookup_contact_def lotl_list_contacts_def lotl_derive_nostr_keypair_def
      get_peer_nostr_pubkey_def lotl_store_nostr_identity_def poisoned_connection)

lemma poisoned_storage_calls:
  assumes "storage_of l = Some s" "open_storage s" "poisoned (st_connection s)"
  shows "fst (generate_prekey_bundle B S l) = Panic ''PoisonError''"
    and "fst (generate_prekey_bundle_with_metadata B S l) = Panic ''PoisonError''"
    and "fst (perform_key_maintenance S M R oc clk l) = Panic ''PoisonError''"
    and "fst (lotl_delete_session B S p l) \<noteq> Ok ()"
proof -
  note ops = poisoned_store_ops [OF assms(2,3)]
  show "fst (generate_prekey_bundle B S l) = Panic ''PoisonError''"
    "fst (generate_prekey_bundle_with_metadata B S l) = Panic ''PoisonError''"
    "fst (perform_key_maintenance S M R oc clk l) = Panic ''PoisonError''"
    by (simp_all add: generate_prekey_bundle_def generate_prekey_bundle_with_metadata_def
        perform_key_maintenance_def build_bundle_def Let_def assms(1) on_storage_present ops)
  show "fst (lotl_delete_session B S p l) \<noteq> Ok ()"
    by (cases "device_id_new B 1")
      (simp_all add: lotl_delete_session_def assms(1) on_storage_present ops)
qed

text \<open>
  C14: One statement that fails at the wrong moment ends the instance: when SQLite cannot prepare the
  statement of a count, the count panics and poisons the mutex. Whatever calls of the interface follow,
  the whole connection, with every table of keys, identities, sessions, contacts, conversations, messages
  and Nostr identities, stays as the panic left it, and not even the next scheduled fault is used up,
  so no statement is run; has_session answers false for every peer, a session cannot be deleted,
  and the calls for the own key, the fingerprint, both kinds of bundle, maintenance, contacts and Nostr
  identities all panic, although the database may work again.
\<close>

theorem failed_count_is_fatal:
  assumes "storage_of l = Some s" "open_storage s" "\<not> poisoned (st_connection s)"
    "faults (st_connection s) = Some m # fs"
    "how_many \<in> {pre_key_count (sqlite_pre_key_store (sl_pre_keys S)),
      key_count (sqlite_signed_store (sl_signed S) (sl_rank S)),
      key_count (sqlite_kyber_store (sl_kyber S) (sl_rank S))}"
    "how_many s = (r, s1)" "(lotl_step B W S M P D N)\<^sup>*\<^sup>* (with_storage l s1) l'" "confined P"
  shows "r = Panic ''called `Result::unwrap()` on an `Err` value'' \<and>
    lo_connection l' = (lo_connection l)\<lparr>faults := fs, poisoned := True\<rparr> \<and>
    fst (has_session p l') = False \<and> fst (lotl_delete_session B S p l') \<noteq> Ok () \<and>
    fst (get_identity_key l') = Panic ''PoisonError'' \<and>
    fst (get_fingerprint D l') = Panic ''PoisonError'' \<and>
    fst (generate_prekey_bundle B S l') = Panic ''PoisonError'' \<and>
    fst (generate_prekey_bundle_with_metadata B S l') = Panic ''PoisonError'' \<and>
    fst (perform_key_maintenance S M R oc clk l') = Panic ''PoisonError'' \<and>
    fst (lotl_add_contact D now key alias l') = Panic ''PoisonError'' \<and>
    fst (lotl_lookup_contact fp l') = Panic ''PoisonError'' \<and>
    fst (lotl_list_contacts rank l') = Panic ''PoisonError'' \<and>
    fst (lotl_derive_nostr_keypair N nc l') = Panic ''PoisonError'' \<and>
    fst (get_peer_nostr_pubkey fp l') = Panic ''PoisonError'' \<and>
    fst (lotl_store_nostr_identity fp pk nc l') = Panic ''PoisonError''"
proof -
  have s1: "s1 = s\<lparr>st_connection := (st_connection s)\<lparr>faults := fs, poisoned := True\<rparr>\<rparr>"
    and r: "r = Panic ''called `Result::unwrap()` on an `Err` value''"
    using failed_count [OF assms(2-5)] assms(6) by auto
  from s1 assms(2) have opened: "open_storage s1" "poisoned (st_connection s1)"
    by (simp_all add: open_storage_def)
  have "storage_of (with_storage l s1) = Some s1" "lo_connection (with_storage l s1) = st_connection s1"
    by (rule storage_of_with) (simp add: with_storage_def)
  with poisoned_for_good [OF assms(7,8), of s1] opened
  have l': "storage_of l' = Some s1" "lo_connection l' = st_connection s1" by simp_all
  with opened(2) have lost: "poisoned (lo_connection l')" by simp
  have "lo_connection l' = (lo_connection l)\<lparr>faults := fs, poisoned := True\<rparr>"
    using assms(1) l'(2) s1 by (auto simp: storage_of_def)
  then show ?thesis
    using r poisoned_locks [OF lost] poisoned_storage_calls [OF l'(1) opened] by (intro conjI)
qed

theorem failed_count_is_fatal_witness:
  "\<exists>s1. key_count (sqlite_signed_store sample_records unat)
      (sample_worn\<lparr>st_connection := lo_connection sample_faulty\<rparr>) =
      (Panic ''called `Result::unwrap()` on an `Err` value'', s1) \<and>
    lo_connection (with_storage sample_faulty s1) =
      (lo_connection sample_faulty)\<lparr>faults := [], poisoned := True\<rparr> \<and>
    fst (lotl_add_contact sample_digest (Some 0) [7] None (with_storage sample_faulty s1)) = Panic ''PoisonError''"
proof -
  let ?s = "sample_worn\<lparr>st_connection := lo_connection sample_faulty\<rparr>"
  have s: "open_storage ?s" "\<not> poisoned (st_connection ?s)" "faults (st_connection ?s) = [Some ''database is locked'']"
    using sample_worn_ready
    by (simp_all add: open_storage_def ready_def healthy_def sample_faulty_def)
  obtain r s1 where run: "key_count (sqlite_signed_store sample_records unat) ?s = (r, s1)" by fastforce
  from failed_count_is_fatal [OF sample_faulty_start(1) s, of "key_count (sqlite_signed_store sample_records unat)"
      sample_stores r s1 sample_bundles sample_wires sample_makers sample_protocol sample_digest
      sample_nostr_lib "with_storage sample_faulty s1", OF _ run _ sample_confined]
  have "r = Panic ''called `Result::unwrap()` on an `Err` value''"
    "lo_connection (with_storage sample_faulty s1) = (lo_connection sample_faulty)\<lparr>faults := [], poisoned := True\<rparr>"
    "fst (lotl_add_contact sample_digest (Some 0) [7] None (with_storage sample_faulty s1)) = Panic ''PoisonError''"
    by simp_all
  with run show ?thesis by blast
qed

end
