(* ===== verification/Message_Typing.thy ===== *)
theory Message_Typing
  imports Message_History_Laws
begin

text \<open>
  The columns of the messages table that hold codes of enums. SQLite does not check them; here it
  is shown that every row the code ever writes carries a code of its enum, so that the fallback arms
  of the conversions in \<^verbatim>\<open>message_history.rs\<close> are never taken for them.
\<close>

definition row_typed :: "message_row \<Rightarrow> bool" where
  "row_typed m \<longleftrightarrow> ms_direction m \<in> {0, 1} \<and> ms_message_type m \<in> range message_type_as_i64 \<and>
     ms_delivery_status m \<in> range delivery_status_as_i64 \<and>
     (ms_direction m = 1 \<longrightarrow> \<not> ms_was_prekey_message m \<and> \<not> ms_session_established m)"

definition rows_typed :: "conn \<Rightarrow> bool" where
  "rows_typed c \<longleftrightarrow> (\<forall>m \<in> set (message_rows c). row_typed m)"

text \<open>The conversions undo the casts, so a typed row is the encoding of what is read from it.\<close>

lemma enum_round_trips [simp]:
  "message_type_from (message_type_as_i64 t) = t" "delivery_status_from (delivery_status_as_i64 st) = st"
  by (cases t; simp add: message_type_from_def) (cases st; simp add: delivery_status_from_def)

lemma row_typed_decoded:
  assumes "row_typed m"
  shows "message_type_as_i64 (sm_message_type (message_of_row k fp m)) = ms_message_type m"
    and "delivery_status_as_i64 (sm_delivery_status (message_of_row k fp m)) = ms_delivery_status m"
    and "(if sm_direction (message_of_row k fp m) = Received then 0 else 1) = ms_direction m"
  using assms by (auto simp: row_typed_def message_of_row_def)

section \<open>Every operation writes typed rows\<close>

lemma rows_typed_blind [simp]: "fault_blind rows_typed"
  by (simp add: fault_blind_def rows_typed_def message_rows_def)

lemma rows_typed_put [simp]:
  "rows_typed (c\<lparr>contacts := x1\<rparr>) = rows_typed c"
  "rows_typed (c\<lparr>conversations := x2\<rparr>) = rows_typed c"
  "rows_typed (c\<lparr>conversations_seq := x3\<rparr>) = rows_typed c"
  "rows_typed (c\<lparr>messages_seq := x4\<rparr>) = rows_typed c"
  "rows_typed (c\<lparr>last_insert_rowid := x5\<rparr>) = rows_typed c"
  "rows_typed (c\<lparr>faults := x6\<rparr>) = rows_typed c"
  "rows_typed (c\<lparr>unixepoch := x7\<rparr>) = rows_typed c"
  by (simp_all add: rows_typed_def message_rows_def)

lemma rows_typed_messages:
  "rows_typed c \<Longrightarrow> messages c = None \<Longrightarrow> rows_typed (c\<lparr>messages := Some []\<rparr>)"
  "rows_typed c \<Longrightarrow> messages c = Some rows \<Longrightarrow> rows_typed (c\<lparr>messages := Some (filter P rows)\<rparr>)"
  "rows_typed c \<Longrightarrow> messages c = Some rows \<Longrightarrow> row_typed m \<Longrightarrow>
    rows_typed (c\<lparr>messages := Some (rows @ [m\<lparr>ms_id := i\<rparr>])\<rparr>)"
  "rows_typed c \<Longrightarrow> messages c = Some rows \<Longrightarrow>
    rows_typed (c\<lparr>messages := Some (row_update P (\<lambda>m. m\<lparr>ms_delivery_status := delivery_status_as_i64 st\<rparr>) rows)\<rparr>)"
  by (auto simp: rows_typed_def message_rows_def row_typed_def row_update_def)

lemma typed_statements [kept_intros]:
  "rows_typed c \<Longrightarrow> kept rows_typed (insert_conversation fp c)"
  "rows_typed c \<Longrightarrow> row_typed m \<Longrightarrow> kept rows_typed (insert_message m c)"
  unfolding insert_conversation_def insert_message_def
  by (intro kept_statement kept_on_table; simp add: rows_typed_messages)+

lemma typed_delete_row [kept_intros]:
  "rows_typed c \<Longrightarrow> kept rows_typed (delete_conversation_row i c)"
  unfolding delete_conversation_row_def
  by (intro kept_statement kept_on_table)
    (auto simp: rows_typed_def message_rows_def map_option_case split: option.splits)

lemma typed_look_up: "rows_typed c \<Longrightarrow> kept rows_typed (conversation_id_of fp c)"
  by (intro kept_intros) simp_all

lemma typed_conversation [kept_intros]:
  assumes "rows_typed c"
  shows "kept rows_typed (get_or_create_conversation fp c)"
    and "kept rows_typed (update_conversation i t inc c)"
    and "kept rows_typed (delete_conversation fp c)"
  using typed_look_up [OF assms, of fp] assms
  unfolding get_or_create_conversation_def update_conversation_def delete_conversation_def
  by (auto split: prod.split outcome.split sql_error.split intro!: kept_intros rows_typed_messages)

lemma zero_status [simp]: "0 \<in> range delivery_status_as_i64"
  by (rule range_eqI [of _ _ Pending]) simp

lemma row_typed_written [simp]:
  "row_typed \<lparr>ms_id = 0, ms_conversation_id = k, ms_direction = 0, ms_timestamp = t,
     ms_message_type = message_type_as_i64 ty, ms_content = p, ms_delivery_status = 0,
     ms_was_prekey_message = w, ms_session_established = e\<rparr>"
  "row_typed \<lparr>ms_id = 0, ms_conversation_id = k, ms_direction = 1, ms_timestamp = t,
     ms_message_type = message_type_as_i64 ty, ms_content = p,
     ms_delivery_status = delivery_status_as_i64 st, ms_was_prekey_message = False,
     ms_session_established = False\<rparr>"
  by (simp_all add: row_typed_def)

lemma typed_ops:
  assumes "rows_typed c"
  shows "kept rows_typed (init_contacts_table c)"
    and "kept rows_typed (init_message_history_tables c)"
    and "kept rows_typed (add_contact D now key al salt prefix c)"
    and "kept rows_typed (update_contact_alias now fp al c)"
    and "kept rows_typed (store_incoming_message fp t p w e c)"
    and "kept rows_typed (store_outgoing_message fp t p c)"
    and "kept rows_typed (update_delivery_status i st c)"
    and "kept rows_typed (mark_conversation_read fp c)"
    and "kept rows_typed (mark_conversation_read_up_to fp t c)"
    and "kept rows_typed (delete_message i c)"
    and "kept rows_typed (delete_conversation fp c)"
    and "kept rows_typed (archive_conversation fp b c)"
  using assms
  unfolding init_contacts_table_def init_message_history_tables_def add_contact_def
    update_contact_alias_def store_incoming_message_def store_outgoing_message_def
    update_delivery_status_def mark_conversation_read_def mark_conversation_read_up_to_def
    delete_message_def row_delete_def archive_conversation_def Let_def
  by (auto split: option.split intro!: kept_intros rows_typed_messages
      simp del: message_type_as_i64.simps delivery_status_as_i64.simps)

lemma history_step_typed: "history_step c c' \<Longrightarrow> rows_typed c \<Longrightarrow> rows_typed c'"
  by (induction rule: history_step.induct) (auto elim: keptD [rotated] intro: typed_ops)

section \<open>Property\<close>

text \<open>
  C30: Every message row in the database, after any sequence of operations with any failures, is the
  encoding of the message that is read from it: type, status and direction are codes of their enums,
  so the fallback arms of the conversions are never taken, and only received messages are marked as
  having established a session.
\<close>

theorem stored_rows_typed:
  assumes "history_step\<^sup>*\<^sup>* (empty_conn\<lparr>foreign_keys := b\<rparr>) c" "row \<in> set (message_rows c)"
    "message_of_row (ms_conversation_id row) fp row = m"
  shows "message_type_as_i64 (sm_message_type m) = ms_message_type row \<and>
    delivery_status_as_i64 (sm_delivery_status m) = ms_delivery_status row \<and>
    (if sm_direction m = Received then 0 else 1) = ms_direction row \<and>
    (sm_direction m = Sent \<longrightarrow> \<not> sm_was_prekey_message m \<and> \<not> sm_session_established m)"
proof -
  have "rows_typed (empty_conn\<lparr>foreign_keys := b\<rparr>)"
    by (simp add: rows_typed_def message_rows_def empty_conn_def)
  with assms(1) have "rows_typed c" by (induction rule: rtranclp_induct) (auto intro: history_step_typed)
  with assms(2) have "row_typed row" by (simp add: rows_typed_def)
  from row_typed_decoded [OF this, of "ms_conversation_id row" fp] show ?thesis
    using \<open>row_typed row\<close> unfolding assms(3) by (auto simp: row_typed_def message_of_row_def assms(3) [symmetric])
qed

theorem stored_rows_typed_witness:
  "\<exists>row. message_rows (snd (store_incoming_message ''bob'' 5 [1] True False
      (snd (init_message_history_tables (empty_conn\<lparr>foreign_keys := False\<rparr>))))) = [row] \<and>
    delivery_status_as_i64 (sm_delivery_status (message_of_row (ms_conversation_id row) ''bob'' row)) =
      ms_delivery_status row"
proof -
  let ?c = "snd (init_message_history_tables (empty_conn\<lparr>foreign_keys := False\<rparr>))"
  have run: "history_step\<^sup>*\<^sup>* (empty_conn\<lparr>foreign_keys := False\<rparr>)
      (snd (store_incoming_message ''bob'' 5 [1] True False ?c))"
    by (rule rtranclp.rtrancl_into_rtrancl, rule r_into_rtranclp, rule init_step, rule store_step)
  obtain row where row: "message_rows (snd (store_incoming_message ''bob'' 5 [1] True False ?c)) = [row]"
    by (simp add: init_message_history_tables_def store_incoming_message_def message_rows_def
        get_or_create_conversation_def insert_conversation_def insert_message_def
        update_conversation_def create_table_def create_index_def statement_def on_table_def
        query_row_def update_rows_def prepare_def empty_conn_def id_limit_def Let_def)
  then show ?thesis using stored_rows_typed [OF run _ refl, of row "''bob''"] by simp
qed

end
