(* ===== verification/Statement_Bounds.thy ===== *)
theory Statement_Bounds
  imports Lotl_Fault_Safety
begin

text \<open>
  How many database statements a maintenance run executes. Every loop of the code runs over a list
  that was read before, so a run ends; this theory says after how many statements at most, whatever
  they return. The schedule of faults has one entry for each statement reached, so what a run takes
  off a long enough schedule is the number of its statements.
\<close>

section \<open>Spending statements\<close>

text \<open>
  A result is reached from \<open>s\<close> with at most \<open>n\<close> statements, while the two counters \<open>held\<close> and
  \<open>other\<close> grow by at most \<open>j\<close> and \<open>k\<close>. \<open>left\<close> is the length of the schedule.
\<close>

definition spends :: "('s \<Rightarrow> nat) \<Rightarrow> ('s \<Rightarrow> nat) \<Rightarrow> ('s \<Rightarrow> nat) \<Rightarrow> nat \<Rightarrow> nat \<Rightarrow> nat \<Rightarrow> 's
    \<Rightarrow> ('e, 'a) outcome \<times> 's \<Rightarrow> bool" where
  "spends left held other n j k s r \<longleftrightarrow>
     left s \<le> n + left (snd r) \<and> held (snd r) \<le> held s + j \<and> other (snd r) \<le> other s + k"

lemma spends_swap: "spends left held other n j k s r \<longleftrightarrow> spends left other held n k j s r"
  by (auto simp: spends_def)

lemma spends_pure [simp]: "spends left held other n j k s (x, s)"
  by (simp add: spends_def)

lemma spends_le:
  "spends left held other n j k s r \<Longrightarrow> n \<le> n' \<Longrightarrow> j \<le> j' \<Longrightarrow> k \<le> k' \<Longrightarrow>
    spends left held other n' j' k' s r"
  by (simp add: spends_def)

lemma spends_and_then:
  assumes "spends left held other n j k s r"
    "\<And>a s'. r = (Ok a, s') \<Longrightarrow> spends left held other n' j' k' s' (f a s')"
  shows "spends left held other (n + n') (j + j') (k + k') s (and_then r f)"
proof (cases r)
  case (Pair x s')
  then show ?thesis
    using assms(1) assms(2) [of _ s'] by (cases x) (fastforce simp: spends_def)+
qed

lemma spends_same [simp]:
  "spends left held other n j k s (map_err f r) \<longleftrightarrow> spends left held other n j k s r"
  by (simp add: spends_def)

lemma spends_ok_of: "spends left held other n j k s r \<Longrightarrow> spends left held other n j k s (ok_of r)"
  by (cases r; cases "fst r") (auto simp: spends_def)

lemma spends_unwrap:
  "spends left held other n j k s r \<Longrightarrow> spends left held other n j k s (unwrap_o m r)"
  "spends left held other n j k s r \<Longrightarrow> spends left held other n j k s (unwrap_or_o d r)"
  by (cases r; cases "fst r"; auto simp: spends_def)+

lemma spends_seq:
  assumes "spends left held other n j k s r"
    "\<And>a s'. r = (Ok a, s') \<Longrightarrow> spends left held other n' j' k' s' (f a s')"
    "n + n' \<le> N" "j + j' \<le> J" "k + k' \<le> K"
  shows "spends left held other N J K s (and_then r f)"
  by (rule spends_le [OF spends_and_then [OF assms(1,2)] assms(3-5)])

text \<open>With what is then known of the counters.\<close>

lemma spends_seq_held:
  assumes "spends left held other n j k s r"
    "\<And>a s'. held s' \<le> held s + j \<Longrightarrow> other s' \<le> other s + k \<Longrightarrow>
      spends left held other n' j' k' s' (f a s')"
    "n + n' \<le> N" "j + j' \<le> J" "k + k' \<le> K"
  shows "spends left held other N J K s (and_then r f)"
  using assms(1) by (intro spends_seq [OF assms(1) _ assms(3-5)] assms(2)) (simp_all add: spends_def)

text \<open>Computing without touching the state, before or after.\<close>

lemma spends_then:
  "(\<And>a. spends left held other n j k s (f a s)) \<Longrightarrow>
    spends left held other n j k s (and_then (x, s) f)"
  by (cases x) simp_all

lemma spends_then_map:
  "(\<And>a. spends left held other n j k s (f a s)) \<Longrightarrow>
    spends left held other n j k s (and_then (map_err g (x, s)) f)"
  by (cases x) simp_all

lemma spends_before:
  "spends left held other n j k s r \<Longrightarrow> spends left held other n j k s (and_then r (\<lambda>a s. (h a, s)))"
  by (erule spends_seq [where n' = 0 and j' = 0 and k' = 0]) simp_all

section \<open>Counting keys\<close>

text \<open>
  What the rotation functions spend on any store whose operations are bounded: the interface names
  the bound of each operation, and that no more ids are listed than keys are held.
\<close>

locale counted_keys =
  fixes st :: "('s, 'r, 'z) rotating_store_scheme" and left held other :: "'s \<Rightarrow> nat"
  assumes max_spends: "spends left held other 2 0 0 s (get_max_key_id st s)"
    and get_spends: "spends left held other 2 0 0 s (get_key st i s)"
    and save_spends: "spends left held other 1 1 0 s (save_key st i r s)"
    and count_spends: "spends left held other 2 0 0 s (key_count st s)"
    and delete_spends: "spends left held other 1 0 0 s (delete_key st i s)"
    and older_spends: "spends left held other 2 0 0 s (get_keys_older_than st t s)"
    and older_listed: "get_keys_older_than st t s = (Ok ids, s') \<Longrightarrow> length ids \<le> held s"
begin

lemma signed_due: "spends left held other 4 0 0 s (signed_pre_key_needs_rotation st L oc now s)"
  unfolding signed_pre_key_needs_rotation_def
  by (rule spends_seq [OF max_spends, of _ 2 0 0])
    (auto split: option.split simp: Let_def get_spends
      intro!: spends_then spends_then_map spends_seq [where n = 2 and n' = 0 and j = 0 and j' = 0 and k = 0 and k' = 0])

lemma kyber_due: "spends left held other 4 0 0 s (kyber_pre_key_needs_rotation st L oc now s)"
  using signed_due unfolding kyber_pre_key_needs_rotation_def signed_pre_key_needs_rotation_def .

lemma signed_rotation: "spends left held other 3 1 0 s (rotate_signed_pre_key st L K oc now kp ikp s)"
  unfolding rotate_signed_pre_key_def Let_def
  by (rule spends_seq [OF max_spends, of _ 1 1 0])
    ((intro spends_then spends_then_map spends_before; simp add: save_spends [unfolded One_nat_def])+, simp_all)

lemma kyber_rotation: "spends left held other 3 1 0 s (rotate_kyber_pre_key st K oc now kp ikp s)"
  unfolding rotate_kyber_pre_key_def Let_def
  by (rule spends_seq [OF max_spends, of _ 1 1 0])
    ((intro spends_then spends_then_map spends_before; simp add: save_spends [unfolded One_nat_def])+, simp_all)

lemma cleanup_loop_spends:
  "spends left held other (3 * length ids) 0 0 s (cleanup_loop st ids s)"
proof (induction ids arbitrary: s)
  case (Cons i ids)
  have "spends left held other (1 + 3 * length ids) 0 0 s (and_then (delete_key st i s) (\<lambda>_. cleanup_loop st ids))" for s
    by (rule spends_seq [OF delete_spends Cons.IH]) simp_all
  then show ?case
    unfolding cleanup_loop.simps
    by (intro spends_seq [OF count_spends, of _ "1 + 3 * length ids" 0 0])
      (auto intro: spends_le [OF Cons.IH])
qed simp

lemma signed_cleanup:
  assumes "held s \<le> h"
  shows "spends left held other (4 + 3 * h) 0 0 s (cleanup_expired_signed_pre_keys st oc now s)"
proof -
  have "spends left held other (4 + 3 * h) 0 0 s (and_then (get_keys_older_than st cutoff s) (\<lambda>ids s.
      and_then (key_count st s) (\<lambda>n s. if n \<le> 1 then (Ok (), s) else cleanup_loop st ids s)))" for cutoff
  proof (rule spends_seq [OF older_spends, of _ _ "2 + 3 * h" 0 0], goal_cases)
    case (1 ids s')
    from older_listed [OF this] assms have "3 * length ids \<le> 3 * h" by simp
    then show ?case
      by (intro spends_seq [OF count_spends, of _ "3 * h" 0 0]) (auto intro: spends_le [OF cleanup_loop_spends])
  qed simp_all
  then show ?thesis unfolding cleanup_expired_signed_pre_keys_def by (intro spends_then)
qed

lemma kyber_cleanup:
  assumes "held s \<le> h"
  shows "spends left held other (4 + 3 * h) 0 0 s (cleanup_expired_kyber_pre_keys st oc now s)"
  using signed_cleanup [OF assms] unfolding kyber_cleanup_eq .

end

section \<open>The SQLite stores\<close>

definition held_rows :: "'r list option \<Rightarrow> nat" where
  "held_rows t = (case t of None \<Rightarrow> 0 | Some rows \<Rightarrow> length rows)"

text \<open>On a connection: the schedule, and the rows of the signed and of the Kyber table.\<close>

abbreviation conn_spends :: "nat \<Rightarrow> nat \<Rightarrow> nat \<Rightarrow> conn \<Rightarrow> ('e, 'a) outcome \<times> conn \<Rightarrow> bool" where
  "conn_spends \<equiv> spends (\<lambda>c. length (faults c)) (\<lambda>c. held_rows (signed_pre_keys c))
     (\<lambda>c. held_rows (kyber_pre_keys c))"

abbreviation storage_spends :: "nat \<Rightarrow> nat \<Rightarrow> nat \<Rightarrow> sqlite_storage
    \<Rightarrow> ('e, 'a) outcome \<times> sqlite_storage \<Rightarrow> bool" where
  "storage_spends \<equiv> spends (\<lambda>s. length (faults (st_connection s)))
     (\<lambda>s. held_rows (signed_pre_keys (st_connection s)))
     (\<lambda>s. held_rows (kyber_pre_keys (st_connection s)))"

lemma spends_statement:
  assumes "\<And>c. conn_spends 0 j k c (f c)"
  shows "conn_spends 1 j k c (statement f c)"
proof (cases "faults c")
  case Nil
  then show ?thesis using assms [of c] by (simp add: statement_def spends_def)
next
  case (Cons m fs)
  then show ?thesis
    using assms [of "c\<lparr>faults := fs\<rparr>"] by (cases m) (auto simp: statement_def spends_def)
qed

lemma spends_on_table:
  "(\<And>rows. tbl c = Some rows \<Longrightarrow> conn_spends n j k c (f rows c)) \<Longrightarrow> conn_spends n j k c (on_table name tbl f c)"
  by (simp add: on_table_def split: option.split)

lemma spends_reads:
  "conn_spends 1 0 0 c (prepare name tbl c)" "conn_spends 1 0 0 c (query_row name tbl P col c)"
  "conn_spends 1 0 0 c (query_all name tbl f c)" "conn_spends 1 0 0 c (query_max name tbl key c)"
  unfolding prepare_def query_row_def query_all_def query_max_def
  by (intro spends_statement spends_on_table; simp split: option.split)+

lemma spends_execute:
  assumes "\<And>rows c. tbl c = Some rows \<Longrightarrow> faults (put (f rows) c) = faults c \<and>
    held_rows (signed_pre_keys (put (f rows) c)) \<le> held_rows (signed_pre_keys c) + j \<and>
    held_rows (kyber_pre_keys (put (f rows) c)) \<le> held_rows (kyber_pre_keys c) + k"
  shows "conn_spends 1 j k c (execute name tbl put f c)"
  unfolding execute_def by (intro spends_statement spends_on_table) (use assms in \<open>auto simp: spends_def\<close>)

lemma spends_with_lock:
  "conn_spends n j k c (f c) \<Longrightarrow> conn_spends n j k c (with_lock f c)"
  by (auto simp: with_lock_def spends_def split: prod.splits outcome.splits)

lemma spends_decode_row:
  "conn_spends n j k c r \<Longrightarrow> conn_spends n j k c (decode_row prefix dec wrap absent r)"
proof -
  have "snd (and_then (x, s) (\<lambda>v c. (Ok (h v), c))) = s"
    for x :: "(signal_error, 'c) outcome" and s :: conn and h :: "'c \<Rightarrow> 'd" by (cases x) simp_all
  then have "snd (decode_row prefix dec wrap absent r) = snd r"
    by (cases r; cases "fst r") (auto simp: decode_row_def map_err_pure split: sql_error.split)
  then show "conn_spends n j k c r \<Longrightarrow> conn_spends n j k c (decode_row prefix dec wrap absent r)"
    by (simp add: spends_def)
qed

lemma spends_through:
  assumes "conn_spends n j k (st_connection s) (f (st_connection s))"
  shows "storage_spends n j k s (through acc f s)"
  using assms unfolding through_def by (intro spends_then) (auto simp: spends_def split: prod.split)

lemma spends_counts:
  "conn_spends 2 0 0 c (count_rows name tbl c)" "conn_spends 2 0 0 c (max_row_id name tbl key c)"
  unfolding count_rows_def max_row_id_def
  by (rule spends_with_lock, rule spends_seq [where n = 1 and n' = 1 and j = 0 and j' = 0 and k = 0 and k' = 0];
      simp add: spends_unwrap spends_ok_of spends_reads [unfolded One_nat_def])+

lemma spends_getter:
  "conn_spends 2 0 0 c (with_lock (\<lambda>c. and_then (prepare_s name tbl c) (\<lambda>_ c.
     decode_row prefix dec wrap absent (query_row name tbl P col c))) c)"
  unfolding prepare_s_def
  by (rule spends_with_lock, rule spends_seq [where n = 1 and n' = 1 and j = 0 and j' = 0 and k = 0 and k' = 0])
    (simp_all add: spends_decode_row spends_reads [unfolded One_nat_def])

lemma held_rows_put:
  "held_rows (Some (row_upsert key r rows)) \<le> Suc (held_rows (Some rows))"
  "held_rows (Some (row_delete key i rows)) \<le> held_rows (Some rows)"
  "length (filter P (visit rank key rows)) \<le> held_rows (Some rows)"
  by (simp_all add: held_rows_def row_upsert_def row_delete_def le_SucI)
    (metis length_filter_le mset_visit size_mset)

lemma spends_older:
  "conn_spends 2 0 0 c (with_lock (\<lambda>c. and_then (map_err BoxSqlite (prepare name tbl c)) (\<lambda>_ c.
     map_err BoxSqlite (query_all name tbl f c))) c)"
  by (rule spends_with_lock, rule spends_seq [where n = 1 and n' = 1 and j = 0 and j' = 0 and k = 0 and k' = 0])
    (simp_all add: spends_reads [unfolded One_nat_def])

lemma spends_signed:
  "conn_spends 2 0 0 c (sqlite_get_signed_pre_key L i c)"
  "conn_spends 1 1 0 c (sqlite_save_signed_pre_key L' i r c)"
  "conn_spends 1 0 0 c (sqlite_delete_signed_pre_key i c)"
  "conn_spends 2 0 0 c (sqlite_get_signed_pre_keys_older_than rank t c)"
  unfolding sqlite_get_signed_pre_key_def sqlite_save_signed_pre_key_def sqlite_delete_signed_pre_key_def
    sqlite_get_signed_pre_keys_older_than_def Let_def
  by (rule spends_getter, (intro spends_with_lock spends_then_map; simp del: One_nat_def;
        intro spends_execute; simp add: held_rows_put)+, rule spends_older)

lemma spends_kyber:
  "conn_spends 2 0 0 c (sqlite_get_kyber_pre_key L i c)"
  "conn_spends 1 0 1 c (sqlite_save_kyber_pre_key L' i r c)"
  "conn_spends 1 0 0 c (sqlite_delete_kyber_pre_key i c)"
  "conn_spends 2 0 0 c (sqlite_get_kyber_pre_keys_older_than rank t c)"
  unfolding sqlite_get_kyber_pre_key_def sqlite_save_kyber_pre_key_def sqlite_delete_kyber_pre_key_def
    sqlite_get_kyber_pre_keys_older_than_def Let_def
  by (rule spends_getter, (intro spends_with_lock spends_then_map; simp del: One_nat_def;
        intro spends_execute; simp add: held_rows_put)+, rule spends_older)

lemma spends_pre_keys:
  "conn_spends 2 0 0 c (sqlite_get_identity_key_pair J c)"
  "conn_spends 1 0 0 c (sqlite_save_pre_key L i r c)"
  unfolding sqlite_get_identity_key_pair_def sqlite_save_pre_key_def
  by (rule spends_getter, (intro spends_with_lock spends_then_map; simp del: One_nat_def;
        intro spends_execute; simp))

text \<open>The ids listed are those of some of the rows.\<close>

lemma read_rows:
  assumes "\<And>c fs. tbl (c\<lparr>faults := fs\<rparr>) = tbl c"
  shows "prepare name tbl c = (Ok u, c') \<Longrightarrow> tbl c' = tbl c"
    and "query_all name tbl f c = (Ok v, c') \<Longrightarrow> \<exists>rows. tbl c = Some rows \<and> v = f rows"
  using assms unfolding prepare_def query_all_def statement_def on_table_def
  by (auto split: list.splits option.splits)

lemma listed_rows:
  assumes "with_lock (\<lambda>c. and_then (map_err BoxSqlite (prepare name tbl c)) (\<lambda>_ c.
      map_err BoxSqlite (query_all name tbl (\<lambda>rows. map key (filter P (visit rank key rows))) c))) c = (Ok ids, c')"
    "\<And>c fs. tbl (c\<lparr>faults := fs\<rparr>) = tbl c"
  shows "length ids \<le> held_rows (tbl c)"
proof -
  let ?f = "\<lambda>rows. map key (filter P (visit rank key rows))"
  from assms(1) obtain c1 where "prepare name tbl c = (Ok (), c1)" "query_all name tbl ?f c1 = (Ok ids, c')"
    by (auto simp: with_lock_def and_then_Ok_conv map_err_Ok_conv split: if_splits prod.splits outcome.splits)
  moreover from this(1) have "tbl c1 = tbl c" by (rule read_rows(1) [of tbl, OF assms(2)])
  ultimately obtain rows where "tbl c = Some rows" "ids = ?f rows"
    using read_rows(2) [of tbl, OF assms(2), of name ?f c1 ids c'] by auto
  then show ?thesis using held_rows_put(3) by simp
qed

text \<open>Both tables, behind the accessors of the storage, are stores the bounds apply to.\<close>

lemma through_listed:
  assumes "through acc f s = (Ok ids, s')" "\<And>c'. f (st_connection s) = (Ok ids, c') \<Longrightarrow> length ids \<le> n"
  shows "length ids \<le> n"
  using assms by (auto simp: through_def and_then_Ok_conv split: prod.splits)

interpretation signed_spending: counted_keys "sqlite_signed_store L rank"
  "\<lambda>s. length (faults (st_connection s))" "\<lambda>s. held_rows (signed_pre_keys (st_connection s))"
  "\<lambda>s. held_rows (kyber_pre_keys (st_connection s))"
proof (unfold_locales, goal_cases)
  case (7 t s ids s')
  then show ?case
    by (auto simp: sqlite_signed_store_def sqlite_get_signed_pre_keys_older_than_def Let_def
        elim!: through_listed intro: listed_rows)
qed (simp_all add: sqlite_signed_store_def spends_through spends_signed [unfolded One_nat_def]
    sqlite_get_max_signed_pre_key_id_def sqlite_signed_pre_key_count_def spends_counts)

interpretation kyber_spending: counted_keys "sqlite_kyber_store L rank"
  "\<lambda>s. length (faults (st_connection s))" "\<lambda>s. held_rows (kyber_pre_keys (st_connection s))"
  "\<lambda>s. held_rows (signed_pre_keys (st_connection s))"
proof (unfold_locales, goal_cases)
  case (7 t s ids s')
  then show ?case
    by (auto simp: sqlite_kyber_store_def sqlite_get_kyber_pre_keys_older_than_def Let_def
        elim!: through_listed intro: listed_rows)
qed (simp_all add: sqlite_kyber_store_def spends_swap [of _ "\<lambda>s. held_rows (kyber_pre_keys (st_connection s))"]
    spends_through spends_kyber [unfolded One_nat_def]
    sqlite_get_max_kyber_pre_key_id_def sqlite_kyber_pre_key_count_def spends_counts)

section \<open>Maintenance\<close>

lemma generated_length:
  "generate_loop oc gen start is acc = Ok ks \<Longrightarrow> length ks = length acc + length is"
  by (induction "is" arbitrary: acc) (auto simp: obind_Ok_conv)

lemma save_loop_spends:
  "storage_spends (length ks) 0 0 s (save_pre_keys_loop (sqlite_pre_key_store L) new ks s)"
proof (induction ks arbitrary: s)
  case (Cons k ks)
  obtain i kp where "k = (i, kp)" by fastforce
  moreover have "storage_spends 1 0 0 s (save_pre_key (sqlite_pre_key_store L) i (new i kp) s)"
    by (simp add: sqlite_pre_key_store_def spends_through spends_pre_keys [unfolded One_nat_def])
  ultimately show ?case by (auto intro!: spends_seq [OF _ Cons.IH])
qed simp

lemma count_spends: "storage_spends 2 0 0 s (pre_key_count (sqlite_pre_key_store L) s)"
  by (simp add: sqlite_pre_key_store_def spends_through sqlite_pre_key_count_def spends_counts)

lemma replenish_spends:
  "storage_spends 102 0 0 s (replenish_pre_keys (sqlite_pre_key_store L) new oc gen s)"
proof -
  have save: "storage_spends 100 0 0 s (and_then (generate_pre_keys oc gen i REPLENISH_COUNT, s) (\<lambda>ks.
      save_pre_keys_loop (sqlite_pre_key_store L) new ks))" for i s
  proof (cases "generate_pre_keys oc gen i REPLENISH_COUNT")
    case (Ok ks)
    then have "length ks = 100"
      using generated_length [of oc gen i "[0..<100]" "[]"] by (simp add: generate_pre_keys_def REPLENISH_COUNT_def)
    with save_loop_spends [of ks s L new] Ok show ?thesis by simp
  qed simp_all
  have "storage_spends 2 0 0 s (get_max_pre_key_id (sqlite_pre_key_store L) s)"
    by (simp add: sqlite_pre_key_store_def spends_through sqlite_get_max_pre_key_id_def spends_counts)
  then show ?thesis
    unfolding replenish_pre_keys_def by (rule spends_seq [where n' = 100]) (auto intro!: spends_then save)
qed

lemma rotate_if_due_spends:
  assumes "storage_spends 4 0 0 s (needs s)" "\<And>s. storage_spends 3 j k s (renew s)"
  shows "storage_spends 7 j k s (rotate_if_due needs renew s)"
  unfolding rotate_if_due_def
  by (rule spends_seq [where n = 4 and n' = 3 and j = 0 and k = 0 and j' = j and k' = k])
    (auto simp: assms intro!: spends_before)

lemmas kyber_due_spends = kyber_spending.kyber_due [THEN spends_swap [THEN iffD1]]
lemmas kyber_rotation_spends = kyber_spending.kyber_rotation [THEN spends_swap [THEN iffD1]]
lemmas kyber_cleanup_spends = kyber_spending.kyber_cleanup [THEN spends_swap [THEN iffD1]]

text \<open>The steps of a run after the two rotations, from the last to the first.\<close>

lemma cleanups_spend:
  assumes "held_rows (signed_pre_keys (st_connection s)) \<le> h" "held_rows (kyber_pre_keys (st_connection s)) \<le> h'"
  shows "storage_spends (8 + 3 * (h + h')) 0 0 s
    (and_then (map_err boxed (cleanup_expired_signed_pre_keys (sqlite_signed_store L rank) oc now s)) (\<lambda>_ s.
     and_then (map_err boxed (cleanup_expired_kyber_pre_keys (sqlite_kyber_store L' rank) oc now' s)) (\<lambda>_ s.
     (Ok res, s))))"
  by (rule spends_seq_held [where n = "4 + 3 * h" and n' = "4 + 3 * h'" and j = 0 and k = 0 and j' = 0 and k' = 0])
    (use assms in \<open>auto simp: signed_spending.signed_cleanup intro!: spends_before kyber_cleanup_spends\<close>)

lemma stock_spends:
  assumes "held_rows (signed_pre_keys (st_connection s)) \<le> h" "held_rows (kyber_pre_keys (st_connection s)) \<le> h'"
    "\<And>s n m. held_rows (signed_pre_keys (st_connection s)) \<le> h \<Longrightarrow>
      held_rows (kyber_pre_keys (st_connection s)) \<le> h' \<Longrightarrow> storage_spends N 0 0 s (f n m s)"
  shows "storage_spends (106 + N) 0 0 s
    (and_then (map_err boxed (pre_key_count (sqlite_pre_key_store L) s)) (\<lambda>n s.
     and_then (if n < MIN_PRE_KEY_COUNT then map_err boxed (replenish_pre_keys (sqlite_pre_key_store L) new oc gen s)
               else (Ok (), s)) (\<lambda>_ s.
     and_then (map_err boxed (pre_key_count (sqlite_pre_key_store L) s)) (\<lambda>m s. f n m s))))"
  by (rule spends_seq_held [where n = 2 and n' = "104 + N" and j = 0 and k = 0 and j' = 0 and k' = 0],
      simp add: count_spends,
      rule spends_seq_held [where n = 102 and n' = "2 + N" and j = 0 and k = 0 and j' = 0 and k' = 0],
      simp add: replenish_spends,
      rule spends_seq_held [where n = 2 and n' = N and j = 0 and k = 0 and j' = 0 and k' = 0])
    (use assms(1,2) in \<open>auto simp: count_spends intro!: assms(3)\<close>)

text \<open>A whole run on the storage.\<close>

lemma rotations_spend:
  assumes "held_rows (signed_pre_keys (st_connection s)) \<le> h" "held_rows (kyber_pre_keys (st_connection s)) \<le> h'"
    "\<And>s a b. held_rows (signed_pre_keys (st_connection s)) \<le> h + 1 \<Longrightarrow>
      held_rows (kyber_pre_keys (st_connection s)) \<le> h' + 1 \<Longrightarrow> storage_spends N 0 0 s (f a b s)"
  shows "storage_spends (14 + N) 1 1 s
    (and_then (rotate_if_due (signed_pre_key_needs_rotation (sqlite_signed_store L rank) L oc now)
       (rotate_signed_pre_key (sqlite_signed_store L rank) L K oc now' kp ikp) s) (\<lambda>a s.
     and_then (rotate_if_due (kyber_pre_key_needs_rotation (sqlite_kyber_store L' rank) L' oc later)
       (rotate_kyber_pre_key (sqlite_kyber_store L' rank) K' oc later' kp' ikp) s) (\<lambda>b s. f a b s)))"
  by (rule spends_seq_held [where n = 7 and n' = "7 + N" and j = 1 and k = 0 and j' = 0 and k' = 1],
      rule rotate_if_due_spends [OF signed_spending.signed_due signed_spending.signed_rotation],
      rule spends_seq_held [where n = 7 and n' = N and j = 0 and k = 1 and j' = 0 and k' = 0],
      rule rotate_if_due_spends [OF kyber_due_spends kyber_rotation_spends])
    (use assms(1,2) in \<open>auto intro!: assms(3)\<close>)

text \<open>On an instance.\<close>

abbreviation lotl_spends :: "nat \<Rightarrow> nat \<Rightarrow> nat \<Rightarrow> Lotl \<Rightarrow> ('e, 'a) outcome \<times> Lotl \<Rightarrow> bool" where
  "lotl_spends \<equiv> spends (\<lambda>l. length (faults (lo_connection l)))
     (\<lambda>l. held_rows (signed_pre_keys (lo_connection l))) (\<lambda>l. held_rows (kyber_pre_keys (lo_connection l)))"

lemma spends_on_storage:
  assumes "storage_of l = Some s" "storage_spends n j k s (f s)"
  shows "lotl_spends n j k l (on_storage f l)"
proof -
  have "st_connection s = lo_connection l" using assms(1) by (auto simp: storage_of_def)
  with assms show ?thesis by (cases "f s") (simp add: on_storage_present spends_def)
qed

section \<open>Property\<close>

text \<open>
  C9: A maintenance run ends, whatever its statements return: it executes at most 136 statements and
  three for each signed and each Kyber key stored at the start, and stores at most one new key of
  each of the two kinds.
\<close>

theorem maintenance_ends:
  assumes "storage_of l = Some s" "perform_key_maintenance S M R oc clk l = (r, l')"
  shows "length (faults (lo_connection l)) \<le> length (faults (lo_connection l')) + 136 +
      3 * (held_rows (signed_pre_keys (lo_connection l)) + held_rows (kyber_pre_keys (lo_connection l))) \<and>
    held_rows (signed_pre_keys (lo_connection l')) \<le> held_rows (signed_pre_keys (lo_connection l)) + 1 \<and>
    held_rows (kyber_pre_keys (lo_connection l')) \<le> held_rows (kyber_pre_keys (lo_connection l)) + 1"
proof -
  have c: "st_connection s = lo_connection l" using assms(1) by (auto simp: storage_of_def)
  let ?h = "held_rows (signed_pre_keys (st_connection s))" and ?h' = "held_rows (kyber_pre_keys (st_connection s))"
  have ident: "storage_spends 2 0 0 s (get_identity_key_pair (sqlite_identity_store (sl_identities S)) s)"
    by (simp add: sqlite_identity_store_def spends_through spends_pre_keys)
  have "lotl_spends (2 + (14 + (106 + (8 + 3 * ((?h + 1) + (?h' + 1)))))) 1 1 l
      (perform_key_maintenance S M R oc clk l)"
    unfolding perform_key_maintenance_def Let_def ensure_storage_present [OF assms(1)] and_then.simps
    by (rule spends_on_storage [OF assms(1)],
        rule spends_seq_held [where n = 2 and j = 0 and k = 0 and j' = 1 and k' = 1], simp add: ident,
        rule rotations_spend, simp, simp, rule stock_spends, assumption, assumption, rule cleanups_spend)
      (simp_all, presburger)
  then show ?thesis using assms(2) c by (auto simp: spends_def)
qed

text \<open>An instance with one signed key and one identity, on a connection that observes 200 statements.\<close>

definition sample_observed :: sqlite_storage where
  "sample_observed = sample_storage\<lparr>st_connection := (st_connection sample_storage)\<lparr>
     local_identity := Some [\<lparr>li_id = 1, li_registration_id = 0, li_private_key = [5, 1],
       li_public_key = [1], li_created_at = 0, li_updated_at = 0\<rparr>],
     signed_pre_keys := Some [\<lparr>rk_id = 1, rk_key_data = [], rk_signature = [], rk_created_at = 0,
       rk_expires_at = 0, rk_is_current = False\<rparr>], faults := replicate 200 None\<rparr>\<rparr>"

theorem maintenance_ends_witness:
  "61 \<le> length (faults (lo_connection (snd (perform_key_maintenance sample_stores sample_makers
     sample_random True (\<lambda>_. Some 700000000) (sample_lotl sample_observed)))))"
proof -
  have c: "length (faults (lo_connection (sample_lotl sample_observed))) = 200"
    "held_rows (signed_pre_keys (lo_connection (sample_lotl sample_observed))) = 1"
    "held_rows (kyber_pre_keys (lo_connection (sample_lotl sample_observed))) = 0"
    by (simp_all add: sample_lotl_def sample_observed_def sample_storage_eq held_rows_def)
  show ?thesis
    using maintenance_ends [OF storage_of_sample prod.collapse [symmetric], of sample_observed sample_stores
        sample_makers sample_random True "\<lambda>_. Some 700000000"] unfolding c by simp
qed

end
