(* ===== verification/Lotl_Messages.thy ===== *)
theory Lotl_Messages
  imports Lotl_Recovery
begin

text \<open>
  What two instances exchange: a message from \<open>encrypt\<close> of one to \<open>decrypt\<close> of the other, and a
  published bundle, whose keys the publisher must still have when a peer answers it.
\<close>

section \<open>Messages on the wire\<close>

text \<open>
  The two parsers tell the two kinds of message apart, and read back what was serialized: a
  serialized ordinary message lacks the mandatory fields of a pre-key message.
\<close>

definition wire_faithful :: "('ct, 'z) wire_lib_scheme \<Rightarrow> bool" where
  "wire_faithful W \<longleftrightarrow> (\<forall>ct. pre_key_message_try_from W (ciphertext_serialize W ct) = Ok ct \<or>
     (\<exists>e. pre_key_message_try_from W (ciphertext_serialize W ct) = Err e) \<and>
     signal_message_try_from W (ciphertext_serialize W ct) = Ok ct)"

lemma parse_serialized: "wire_faithful W \<Longrightarrow> parse_ciphertext W (ciphertext_serialize W ct) = Ok ct"
  unfolding wire_faithful_def parse_ciphertext_def
  by (erule allE [of _ ct]) (auto split: outcome.splits)

lemma expect_all [simp]: "expect_stores ps = Ok () \<longleftrightarrow> list_all id ps"
  by (induction ps) simp_all

lemma with_stores_present:
  "list_all id ps \<Longrightarrow> with_stores ps f s = (case f (st_connection s) of (r, c) \<Rightarrow> (r, s\<lparr>st_connection := c\<rparr>))"
  by (simp add: with_stores_def expect_all [THEN iffD2])

lemma with_stores_Ok:
  "with_stores ps f s = (Ok a, s') \<Longrightarrow> \<exists>c. f (st_connection s) = (Ok a, c) \<and> s' = s\<lparr>st_connection := c\<rparr>"
  by (auto simp: with_stores_def and_then_Ok_conv split: prod.splits)

text \<open>The library's calls on the stores of a connection, as \<open>encrypt\<close> and \<open>decrypt\<close> make them.\<close>

abbreviation library_encrypt where
  "library_encrypt S P text peer \<equiv> message_encrypt P text (peer_address peer)
     (conn_session_store (sl_sessions S)) (conn_identity_store (sl_identities S))"

abbreviation library_decrypt where
  "library_decrypt S P ct peer \<equiv> message_decrypt P ct (peer_address peer)
     (conn_session_store (sl_sessions S)) (conn_identity_store (sl_identities S))
     (conn_pre_key_store (sl_pre_keys S)) (conn_signed_store (sl_signed S) (sl_rank S))
     (conn_kyber_store (sl_kyber S) (sl_rank S))"

lemma encrypt_Ok:
  assumes "storage_of l = Some s" "device_id_new B 1 = Ok 1" "encrypt B W S P peer text l = (Ok bytes, l')"
  shows "\<exists>ct. library_encrypt S P text peer (lo_connection l) = (Ok ct, lo_connection l') \<and>
    bytes = ciphertext_serialize W ct"
proof -
  have "st_connection s = lo_connection l" using assms(1) by (auto simp: storage_of_def)
  with assms show ?thesis
    by (auto simp: encrypt_def on_storage_present sqlite_encrypt_message_def and_then_Ok_conv map_err_Ok_conv
        peer_address_def dest!: with_stores_Ok split: prod.splits)
qed

lemma decrypt_runs:
  assumes "storage_of r = Some t" "open_storage t" "device_id_new B 1 = Ok 1" "parse_ciphertext W bytes = Ok ct"
  shows "decrypt B W S P peer bytes r = (case library_decrypt S P ct peer (lo_connection r) of
    (x, c) \<Rightarrow> (omap_err SignalProtocol x, with_storage r (t\<lparr>st_connection := c\<rparr>)))"
proof -
  have "st_connection t = lo_connection r" using assms(1) by (auto simp: storage_of_def)
  with assms show ?thesis
    by (cases "library_decrypt S P ct peer (lo_connection r)"; cases "fst (library_decrypt S P ct peer (lo_connection r))")
      (simp_all add: decrypt_def on_storage_present sqlite_decrypt_message_def with_stores_present
        open_storage_def peer_address_def)
qed

text \<open>
  C12: What one instance encrypts, another one hands to the protocol library as the same message: if
  \<open>encrypt\<close> returns bytes, they are the serialized message the library made on the sender's
  stores, and \<open>decrypt\<close> of those bytes at any receiver runs the library on exactly that message
  and the receiver's stores, and returns what it returns.
\<close>

theorem messages_cross_the_wire:
  assumes "wire_faithful W" "device_id_new B 1 = Ok 1" "storage_of l = Some s"
    "encrypt B W S P peer text l = (Ok bytes, l')" "storage_of r = Some t" "open_storage t"
  shows "\<exists>ct. library_encrypt S P text peer (lo_connection l) = (Ok ct, lo_connection l') \<and>
    bytes = ciphertext_serialize W ct \<and>
    decrypt B W S P sender bytes r = (case library_decrypt S P ct sender (lo_connection r) of
      (x, c) \<Rightarrow> (omap_err SignalProtocol x, with_storage r (t\<lparr>st_connection := c\<rparr>)))"
  using encrypt_Ok [OF assms(3,2,4)] decrypt_runs [OF assms(5,6,2) parse_serialized [OF assms(1)]] by blast

text \<open>Alice and Bob, who have a session with each other.\<close>

lemma sample_loads:
  assumes "p \<in> set ps"
  shows "load_session (conn_session_store sample_sessions) (peer_address p)
    (st_connection (sample_sessions_of (map peer_address ps))) =
      (Ok (Some [7]), st_connection (sample_sessions_of (map peer_address ps)))"
proof -
  let ?s = "sample_sessions_of (map peer_address ps)"
  note good = sample_sessions_of_good [of "map peer_address ps"]
  then have "ready ?s" by (simp add: sqlite_sessions_good_def)
  moreover have "load_session (sqlite_session_store sample_sessions) (peer_address p) ?s = (Ok (Some [7]), ?s)"
    using good assms by (simp add: sqlite_load_law)
  ultimately show ?thesis
    by (auto simp: sqlite_session_store_def conn_session_store_def through_ready split: prod.splits
        dest: arg_cong [of _ ?s st_connection])
qed

theorem messages_cross_the_wire_witness:
  "\<exists>bytes l'. encrypt sample_bundles sample_wires sample_stores sample_protocol ''bob'' [1, 2]
      (sample_lotl (sample_sessions_of (map peer_address [''bob'']))) = (Ok bytes, l') \<and>
    fst (decrypt sample_bundles sample_wires sample_stores sample_protocol ''alice'' bytes
      (sample_lotl (sample_sessions_of (map peer_address [''alice''])))) = Ok [1, 2]"
proof -
  let ?s = "sample_sessions_of (map peer_address [''bob''])" and ?t = "sample_sessions_of (map peer_address [''alice''])"
  note good = sample_sessions_of_good [of "map peer_address [''bob'']"] sample_sessions_of_good [of "map peer_address [''alice'']"]
  then have ready: "open_storage ?s" "open_storage ?t" by (simp_all add: sqlite_sessions_good_def ready_open)
  have wire: "wire_faithful sample_wires" "device_id_new sample_bundles 1 = Ok 1"
    by (simp_all add: wire_faithful_def sample_wires_def sample_bundles_def)
  have enc: "encrypt sample_bundles sample_wires sample_stores sample_protocol ''bob'' [1, 2] (sample_lotl ?s) =
      (Ok [7, 1, 2], with_storage (sample_lotl ?s) ?s)"
    using ready(1) sample_loads [of "''bob''" "[''bob'']"]
    by (simp add: encrypt_def on_storage_present [OF storage_of_sample] wire sqlite_encrypt_message_def open_storage_def
        with_stores_present sample_protocol_def sample_wires_def peer_address_def)
  have "library_decrypt sample_stores sample_protocol [7, 1, 2] ''alice'' (lo_connection (sample_lotl ?t)) =
      (Ok [1, 2], st_connection ?t)"
    using sample_loads [of "''alice''" "[''alice'']"] by (simp add: sample_protocol_def sample_lotl_def)
  with enc messages_cross_the_wire [OF wire storage_of_sample enc storage_of_sample ready(2), of "''alice''"]
  show ?thesis by (auto simp: sample_wires_def)
qed

section \<open>Published bundles\<close>

text \<open>
  A bundle is backed when the stores still return, for its three ids, keys with the public parts it
  carries: only then can the publisher answer a peer that used it.
\<close>

definition bundle_backed :: "('sess, 'ikp, 'ik, 'pk, 'spk, 'kyr) store_libs \<Rightarrow> sqlite_storage
    \<Rightarrow> SerializableBundle \<Rightarrow> bool" where
  "bundle_backed S s b \<longleftrightarrow>
     (\<exists>pre spk kyber.
        fst (get_pre_key (sqlite_pre_key_store (sl_pre_keys S)) (sb_pre_key_id b) s) = Ok pre \<and>
        record_public_key (sl_pre_keys S) pre = Ok (sb_pre_key_public b) \<and>
        fst (get_key (sqlite_signed_store (sl_signed S) (sl_rank S)) (sb_signed_pre_key_id b) s) = Ok spk \<and>
        record_public_key (sl_signed S) spk = Ok (sb_signed_pre_key_public b) \<and>
        record_signature (sl_signed S) spk = Ok (sb_signed_pre_key_signature b) \<and>
        fst (get_key (sqlite_kyber_store (sl_kyber S) (sl_rank S)) (sb_kyber_pre_key_id b) s) = Ok kyber \<and>
        record_public_key (sl_kyber S) kyber = Ok (sb_kyber_pre_key_public b) \<and>
        record_signature (sl_kyber S) kyber = Ok (sb_kyber_pre_key_signature b))"

lemma bundle_backed_by:
  assumes "stores_good S s" "pre_view S s (sb_pre_key_id b) = Some pre"
    "signed_view S s (sb_signed_pre_key_id b) = Some spk" "kyber_view S s (sb_kyber_pre_key_id b) = Some kyber"
    "record_public_key (sl_pre_keys S) pre = Ok (sb_pre_key_public b)"
    "record_public_key (sl_signed S) spk = Ok (sb_signed_pre_key_public b)"
    "record_signature (sl_signed S) spk = Ok (sb_signed_pre_key_signature b)"
    "record_public_key (sl_kyber S) kyber = Ok (sb_kyber_pre_key_public b)"
    "record_signature (sl_kyber S) kyber = Ok (sb_kyber_pre_key_signature b)"
  shows "bundle_backed S s b"
  using assms(5-9) sqlite_one_time.get_present [OF stores_goodD(1) [OF assms(1)] assms(2)]
    sqlite_signed.get_present [OF stores_goodD(2) [OF assms(1)] assms(3)]
    sqlite_kyber.get_present [OF stores_goodD(3) [OF assms(1)] assms(4)]
  by (simp add: bundle_backed_def)

text \<open>The keys a bundle publishes.\<close>

lemma bundle_keys:
  assumes "stores_good S s" "bundle_for S s b"
  shows "\<exists>pre spk kyber. pre_view S s (sb_pre_key_id b) = Some pre \<and>
    newest (signed_view S s) = Some (sb_signed_pre_key_id b, spk) \<and>
    signed_view S s (sb_signed_pre_key_id b) = Some spk \<and>
    kyber_view S s (sb_kyber_pre_key_id b) = Some kyber \<and>
    record_public_key (sl_pre_keys S) pre = Ok (sb_pre_key_public b) \<and>
    record_public_key (sl_signed S) spk = Ok (sb_signed_pre_key_public b) \<and>
    record_signature (sl_signed S) spk = Ok (sb_signed_pre_key_signature b) \<and>
    record_public_key (sl_kyber S) kyber = Ok (sb_kyber_pre_key_public b) \<and>
    record_signature (sl_kyber S) kyber = Ok (sb_kyber_pre_key_signature b)"
  using assms(2) unfolding bundle_for_def
  by (elim exE conjE)
    (auto dest!: newest_SomeD(1) [OF _ sqlite_one_time.finite_view [OF stores_goodD(1) [OF assms(1)]]]
      newest_SomeD(1) [OF _ sqlite_kyber.finite_view [OF stores_goodD(3) [OF assms(1)]]]
      intro: newest_SomeD(1) [OF _ sqlite_signed.finite_view [OF stores_goodD(2) [OF assms(1)]]])

text \<open>
  C11: What is published stays answerable: the stores hold the keys of the bundle that is generated
  now, and after a maintenance run they still do, unless the bundle's signed or Kyber key has passed
  the grace period by then.
\<close>

theorem published_bundle_backed:
  assumes "storage_of l = Some s" "maintainable S M R ms s" "bundle_for S s b" "bincode_serialize B b = Ok bytes"
    "\<And>r. signed_view S s (sb_signed_pre_key_id b) = Some r \<Longrightarrow> \<not> expired_secs (sl_signed S) (cutoff_at (ms 4)) r"
    "\<And>r. kyber_view S s (sb_kyber_pre_key_id b) = Some r \<Longrightarrow> \<not> expired_secs (sl_kyber S) (cutoff_at (ms 5)) r"
  shows "\<exists>l1 s1 res. fst (generate_prekey_bundle B S l) = Ok bytes \<and> bundle_backed S s b \<and>
    perform_key_maintenance S M R oc (\<lambda>i. Some (ms i)) l = (Ok res, l1) \<and>
    storage_of l1 = Some s1 \<and> bundle_backed S s1 b"
proof -
  note m = assms(2) [unfolded maintainable_def]
  then obtain ikp where ikp: "identity_of S s = Some ikp"
    and sigs: "is_ok (calculate_signature (ml_signed M) ikp (public_serialize (ml_signed M) (rn_signed R)))"
      "is_ok (calculate_signature (ml_kyber M) ikp (public_serialize (ml_kyber M) (rn_kyber R)))" by auto
  from m have good: "stores_good S s" and left: "ids_left 100 (pre_view S s)"
    "ids_left 1 (signed_view S s)" "ids_left 1 (kyber_view S s)" by simp_all
  note fin = sqlite_one_time.finite_view [OF stores_goodD(1) [OF good]]
    sqlite_signed.finite_view [OF stores_goodD(2) [OF good]]
    sqlite_kyber.finite_view [OF stores_goodD(3) [OF good]]
  obtain pre spk kyber where keys: "pre_view S s (sb_pre_key_id b) = Some pre"
    "signed_view S s (sb_signed_pre_key_id b) = Some spk" "kyber_view S s (sb_kyber_pre_key_id b) = Some kyber"
    and parts: "record_public_key (sl_pre_keys S) pre = Ok (sb_pre_key_public b)"
    "record_public_key (sl_signed S) spk = Ok (sb_signed_pre_key_public b)"
    "record_signature (sl_signed S) spk = Ok (sb_signed_pre_key_signature b)"
    "record_public_key (sl_kyber S) kyber = Ok (sb_kyber_pre_key_public b)"
    "record_signature (sl_kyber S) kyber = Ok (sb_kyber_pre_key_signature b)"
    using bundle_keys [OF good assms(3)] by (elim exE conjE)
  obtain res l' s' where run: "perform_key_maintenance S M R oc (\<lambda>i. Some (ms i)) l = (Ok res, l')"
    "storage_of l' = Some s'" "stores_good S s'"
    "pre_view S s' = stocked (ml_pre_key M) (rn_pre_keys R) (pre_view S s)"
    "\<And>i r. signed_view S s i = Some r \<Longrightarrow> \<not> expired_secs (sl_signed S) (cutoff_at (ms 4)) r \<Longrightarrow> signed_view S s' i = Some r"
    "\<And>i r. kyber_view S s i = Some r \<Longrightarrow> \<not> expired_secs (sl_kyber S) (cutoff_at (ms 5)) r \<Longrightarrow> kyber_view S s' i = Some r"
    using maintenance_run [OF assms(1,2) ikp, of oc] cleaned_rotation(1) [OF fin(2) left(2) sigs(1)]
      cleaned_rotation(1) [OF fin(3) left(3) sigs(2)] by (elim exE conjE) blast
  have "pre_view S s' (sb_pre_key_id b) = Some pre"
    using stocked_keeps(1) [OF fin(1) left(1), of "ml_pre_key M" "rn_pre_keys R", folded run(4)] keys(1)
    by (metis domI map_le_def)
  from bundle_backed_by [OF run(3) this run(5) [OF keys(2) assms(5) [OF keys(2)]] run(6) [OF keys(3) assms(6) [OF keys(3)]] parts]
  have "bundle_backed S s' b" .
  moreover have "fst (generate_prekey_bundle B S l) = Ok bytes"
    by (simp add: generate_prekey_bundle_def assms(1,4) on_storage_present build_bundle_good [OF good assms(3)])
  ultimately show ?thesis
    using run(1,2) bundle_backed_by [OF good keys parts] by blast
qed

text \<open>Fresh keys, and a run while they are fresh.\<close>

abbreviation sample_fresh :: sqlite_storage where
  "sample_fresh \<equiv> sample_aged 700000000"

theorem published_bundle_backed_witness:
  "\<exists>l1 s1 res. fst (generate_prekey_bundle sample_bundles sample_stores (sample_lotl sample_fresh)) = Ok [42] \<and>
    perform_key_maintenance sample_stores sample_makers sample_random True (\<lambda>i. Some 700000000)
      (sample_lotl sample_fresh) = (Ok res, l1) \<and>
    storage_of l1 = Some s1 \<and> bundle_backed sample_stores s1 sample_bundle"
proof -
  have "bincode_serialize sample_bundles sample_bundle = Ok [42]" by (simp add: sample_bundles_def)
  moreover have "\<not> expired_secs (sl_signed sample_stores) (cutoff_at 700000000) r"
    if "signed_view sample_stores sample_fresh (sb_signed_pre_key_id sample_bundle) = Some r" for r
    using that unfolding sample_aged_views(5)
    by (auto simp: sample_bundle_def expired_secs_def millis_u64_def GRACE_PERIOD_SECS_def split: if_splits)
  moreover have "\<not> expired_secs (sl_kyber sample_stores) (cutoff_at 700000000) r"
    if "kyber_view sample_stores sample_fresh (sb_kyber_pre_key_id sample_bundle) = Some r" for r
    using that unfolding sample_aged_views(6)
    by (auto simp: sample_bundle_def expired_secs_def millis_u64_def GRACE_PERIOD_SECS_def split: if_splits)
  ultimately show ?thesis
    using published_bundle_backed [OF storage_of_sample sample_aged_maintainable [OF order_refl] sample_aged_bundle] by blast
qed

text \<open>
  C38: A published bundle gets no grace period: when the signed key it names is older than seven days,
  so that a maintenance run rotates it, the same run deletes it, and from then on the store has no
  key with the id in the bundle; peers that still hold the bundle cannot be answered. The clock may
  advance during the run by up to a week.
\<close>

theorem old_bundle_dies:
  assumes "storage_of l = Some s" "maintainable S M R ms s" "bundle_for S s b"
    "rotation_due (sl_signed S) (signed_view S s) (ms 0)" "ms 0 \<le> ms 1" "ms 1 \<le> ms 4" "ms 4 \<le> ms 0 + 604800000"
  shows "\<exists>l1 s1 res e. perform_key_maintenance S M R oc (\<lambda>i. Some (ms i)) l = (Ok res, l1) \<and>
    signed_pre_key_rotated res \<and> storage_of l1 = Some s1 \<and> \<not> bundle_backed S s1 b \<and>
    get_key (sqlite_signed_store (sl_signed S) (sl_rank S)) (sb_signed_pre_key_id b) s1 = (Err e, s1)"
proof -
  note m = assms(2) [unfolded maintainable_def]
  then obtain ikp sig where ikp: "identity_of S s = Some ikp"
    and sig: "calculate_signature (ml_signed M) ikp (public_serialize (ml_signed M) (rn_signed R)) = Ok sig"
    by (auto simp: is_ok_iff)
  from m have good: "stores_good S s" and left: "ids_left 1 (signed_view S s)"
    and fine: "clock_fine (sl_signed S) (signed_view S s) (ms 0)" and lawful: "key_maker_lawful (ml_signed M) (sl_signed S)"
    and late: "604800000 \<le> ms 4" "ms 4 < 2 ^ 64" by (simp_all add: GRACE_PERIOD_SECS_def)
  note fin = sqlite_signed.finite_view [OF stores_goodD(2) [OF good]]
  obtain old where old: "newest (signed_view S s) = Some (sb_signed_pre_key_id b, old)"
    using bundle_keys [OF good assms(3)] by blast
  let ?v = "signed_view S s" and ?n = "next_key_id (signed_view S s)" and ?cut = "cutoff_at (ms 4)"
  let ?new = "record_new (ml_signed M) ?n (millis_u64 (ms 1)) (rn_signed R) sig"
  have ms: "unat (millis_u64 (ms 0)) = ms 0" "unat (millis_u64 (ms 1)) = ms 1" "unat ?cut = ms 4 - 604800000"
    using assms(5,6) late by (simp_all add: millis_u64_fits unat_sub word_le_nat_alt GRACE_PERIOD_SECS_def)
  obtain ts where ts: "record_timestamp (sl_signed S) old = Ok ts" "604800 < (ms 0 - unat ts) div 1000"
    using fine assms(4) old ms(1) by (auto simp: clock_fine_def rotation_due_def)
  have gone: "expired_secs (sl_signed S) ?cut old" "\<not> expired_secs (sl_signed S) ?cut ?new"
    using ts assms(5-7) ms(2,3) div_le_mono [of "ms 4 - 604800000" "ms 1" 1000]
    by (simp_all add: expired_secs_def lawful_record(2) [OF lawful] word_less_nat_alt unat_div)
  obtain res l' s' where run: "perform_key_maintenance S M R oc (\<lambda>i. Some (ms i)) l = (Ok res, l')"
    "signed_pre_key_rotated res" "storage_of l' = Some s'" "stores_good S s'"
    "cleaned (expired_secs (sl_signed S) ?cut) (?v(?n \<mapsto> ?new)) (signed_view S s')"
    using maintenance_run [OF assms(1,2) ikp, of oc] assms(4) sig
    by (elim exE conjE) (auto simp: rotated_view_def)
  note d = newest_SomeD [OF old fin]
  have "?n \<noteq> sb_signed_pre_key_id b" using next_key_id_fresh [OF fin left] d(1) by auto
  with gone d(1) have "signed_view S s' (sb_signed_pre_key_id b) = None"
    by (intro cleaned_drops [OF run(5), of ?n ?new _ old]) simp_all
  from sqlite_signed.get_absent [OF stores_goodD(2) [OF run(4)] this]
  obtain e where "get_key (sqlite_signed_store (sl_signed S) (sl_rank S)) (sb_signed_pre_key_id b) s' = (Err e, s')"
    by blast
  with run(1-3) show ?thesis by (auto simp: bundle_backed_def)
qed

theorem old_bundle_dies_witness:
  "\<exists>l1 s1 res e. perform_key_maintenance sample_stores sample_makers sample_random True
      (\<lambda>i. Some 700000000) (sample_lotl sample_worn) = (Ok res, l1) \<and>
    signed_pre_key_rotated res \<and> \<not> bundle_backed sample_stores s1 sample_bundle \<and>
    get_key (sqlite_signed_store sample_records unat) 1 s1 = (Err e, s1)"
proof -
  have "rotation_due (sl_signed sample_stores) (signed_view sample_stores sample_worn) 700000000"
    unfolding sample_worn_views(5) by (simp add: rotation_due_def millis_u64_def)
  moreover have "sb_signed_pre_key_id sample_bundle = 1" by (simp add: sample_bundle_def)
  ultimately show ?thesis
    using old_bundle_dies [OF storage_of_sample sample_aged_maintainable [of 0, OF word_zero_le] sample_worn_bundle, of True]
    by (simp del: sample_libs(5)) metis
qed

end
