(* ===== verification/Spec2Isabelle.thy ===== *)
theory Spec2Isabelle
  imports Key_Rotation_Laws Message_History_Laws Nostr_Integration Backend_Equivalence
    Storage_Life_Cycle Lotl_First_Run Lotl_Sessions Lotl_Fault_Safety Lotl_Poisoning Message_Typing
    Statement_Bounds Lotl_Messages
begin

text \<open>
  A verification development for lotl, a Rust library for Signal Protocol sessions on an encrypted
  SQLite database (\<^verbatim>\<open>src/src/\<close>).

  \<^bold>\<open>The program.\<close> A \<^verbatim>\<open>Lotl\<close> object (\<^verbatim>\<open>lib.rs\<close>) owns one database connection
  (\<^verbatim>\<open>db_connection.rs\<close>), whose key is kept in a file beside the database (\<^verbatim>\<open>db_encryption.rs\<close>), and
  a storage (\<^verbatim>\<open>signal_storage.rs\<close>) of five stores over that connection: sessions, identities,
  one-time, signed and Kyber pre-keys. The stores implement the traits of \<^verbatim>\<open>storage_trait.rs\<close>, as do
  those of the in-memory backend (\<^verbatim>\<open>memory_storage.rs\<close>). Key generation and rotation (\<^verbatim>\<open>keys.rs\<close>,
  \<^verbatim>\<open>key_rotation.rs\<close>) work on any implementation of the traits. Contacts
  (\<^verbatim>\<open>contact_manager.rs\<close>), the message history (\<^verbatim>\<open>message_history.rs\<close>) and the Nostr mapping
  (\<^verbatim>\<open>integrations/nostr/\<close>) are functions on the connection with tables of their own.

  \<^bold>\<open>Conventions.\<close> A fallible computation on a state \<open>'s\<close> is a function
  \<open>'s \<Rightarrow> ('e, 'a) outcome \<times> 's\<close>, where an outcome is \<open>Ok\<close>, \<open>Err\<close> or \<open>Panic\<close>; \<open>and_then\<close> is the
  \<^verbatim>\<open>?\<close> operator and \<open>map_err\<close> the error conversion, so effects made before an error stay. Machine
  integers are words where their width matters; \<^verbatim>\<open>i64\<close> columns are \<open>int\<close>, with the conversions from
  unsigned values written out. An argument \<open>oc\<close> says whether overflow checks are on (debug build) or
  not (release build). The clock is an argument, the milliseconds since 1970 or \<open>None\<close> when it reads
  an earlier time; so are random values. Calls of other packages (libsignal, SQLCipher, bincode,
  SHA-256, HKDF, secp256k1) are records of functions passed to the definitions, and what is assumed
  of them (a record read back from its serialisation is the same record, a bundle accepted by the
  protocol gives a session under the address passed, the parsers of wire messages read back what was
  serialized) is a named hypothesis, shown satisfiable by the
  concrete libraries of \<^verbatim>\<open>Sample_Library\<close> and \<^verbatim>\<open>Sample_Instance\<close>.

  \<^bold>\<open>Theories.\<close>

    \<^item> \<^verbatim>\<open>Lotl_Prelude\<close>: outcomes and sequencing, hash maps and rows as lists, decimal numbers.
      \<^verbatim>\<open>Lotl_Types\<close>: \<^verbatim>\<open>types.rs\<close>, \<^verbatim>\<open>error.rs\<close> and the clock. \<^verbatim>\<open>Lotl_Database\<close>: the connection as a
      record with one list of rows per table, each statement the code issues, a list of faults that
      makes any statement fail, and the poisoned mutex.
    \<^item> \<^verbatim>\<open>Storage_Trait\<close>: each trait as a record of operations, and its contract as a locale
      (\<open>sessions_contract\<close>, \<open>identities_contract\<close>, \<open>numbered_keys\<close> with its extensions
      \<open>rotating_keys\<close>, \<open>kyber_keys\<close> and \<open>one_time_keys\<close>). \<^verbatim>\<open>Memory_Storage\<close>, \<^verbatim>\<open>Signal_Storage\<close> and
      \<^verbatim>\<open>Signal_Storage_Keys\<close> hold the two backends; \<^verbatim>\<open>Signal_Storage_Laws\<close> and the end of
      \<^verbatim>\<open>Memory_Storage\<close> interpret every locale on them. \<^verbatim>\<open>Storage_Ops\<close> adds the protocol operations,
      \<^verbatim>\<open>Local_Identity_Laws\<close> the local identity and the frame rules between tables,
      \<^verbatim>\<open>Storage_Life_Cycle\<close> the phases of the storage object as a step relation, and
      \<^verbatim>\<open>Backend_Equivalence\<close> which sequences of calls cannot tell the backends apart (those whose
      queries for expired keys are at whole seconds), and how far expiry can differ otherwise.
    \<^item> \<^verbatim>\<open>Key_Rotation\<close>: \<^verbatim>\<open>keys.rs\<close> and \<^verbatim>\<open>key_rotation.rs\<close>; \<^verbatim>\<open>Key_Rotation_Laws\<close> proves what they do
      inside the contracts, for any backend, and states it for SQLite.
    \<^item> \<^verbatim>\<open>Contact_Manager\<close>, \<^verbatim>\<open>Message_History\<close> with \<^verbatim>\<open>Message_History_Laws\<close> and
      \<^verbatim>\<open>Message_Typing\<close> (every row holds codes of its enums), and
      \<^verbatim>\<open>Nostr_Integration\<close>: the functions on the connection, the invariants of their tables under any
      faults, and what each operation does.
    \<^item> \<^verbatim>\<open>Db_Encryption\<close>: the key file in a file system with permissions and failing calls;
      \<^verbatim>\<open>Db_Connection\<close>: opening a database and its schema version.
    \<^item> \<^verbatim>\<open>Lotl_Api\<close>: every method of \<^verbatim>\<open>lib.rs\<close>. \<^verbatim>\<open>Lotl_Api_Laws\<close>, \<^verbatim>\<open>Lotl_First_Run\<close>,
      \<^verbatim>\<open>Lotl_Maintenance\<close> and \<^verbatim>\<open>Lotl_Sessions\<close> show what they do end to end: the first run and
      restarts, bundles, maintenance, sessions, fingerprints and the Nostr key;
      \<^verbatim>\<open>Lotl_Fault_Safety\<close> what a maintenance run may do at most when statements fail, and
      \<^verbatim>\<open>Statement_Bounds\<close> after how many statements it ends.
    \<^item> \<^verbatim>\<open>Lotl_Calls\<close> lifts that to every call of the interface, \<^verbatim>\<open>Lotl_System\<close> composes the calls,
      the operations on the shared connection and the environment into a step relation \<open>lotl_step\<close>
      with its invariant \<open>system_inv\<close>. \<^verbatim>\<open>Lotl_Recovery\<close> shows that a first run establishes the
      invariant, that a restart resumes it, and that after any history an instance whose database
      works again can be maintained and publish a bundle; \<^verbatim>\<open>Lotl_Poisoning\<close> the one failure from which
      it does not recover, after which no call changes the connection at all.
    \<^item> \<^verbatim>\<open>Lotl_Messages\<close>: what two instances exchange. A message that one encrypts reaches the protocol
      library of the other as it was; the keys of a published bundle are still there after a
      maintenance run, except the signed key that the run rotates because of its age.

  \<^bold>\<open>How the proofs go.\<close> On a healthy connection (no fault, mutex not poisoned) each store is, through
  its view, a finite map; an operation of a store is shown once to do to its view what the contract
  says and to leave the other tables alone. Key rotation is proved in the contracts. The public
  interface is proved from the contracts and the frame rules, without unfolding a statement.
  Invariants (message history, Nostr mapping, file permissions, the tables around maintenance) are
  shown without assuming health, so that they hold wherever a call stops: \<open>kept I\<close> says that a
  result, whatever it is, leaves a state with \<open>I\<close>, and the collection \<open>kept_intros\<close> proves it statement
  by statement. The locales \<open>guarded_tables\<close> and \<open>open_tables\<close> name what an invariant of the tables
  has to allow for maintenance and for every call to keep it; \<open>system_inv\<close> and the weaker invariant of
  a maintenance run are instances. The protocol library is called with the stores as arguments:
  \<open>confined\<close> says that it changes the database only through them, for whatever invariant their
  methods keep.

  \<^bold>\<open>Bounds.\<close> All loops of the code run over a list or a range and are structural recursions; no fuel
  is used. How long they run is counted in database statements: \<open>spends\<close> bounds what a result took
  off the schedule of faults, which has an entry per statement reached, and how far the key tables
  grew; the locale \<open>counted_keys\<close> composes the bounds of the store operations into that of rotation
  and clean-up, and is interpreted on the signed and the Kyber store. Hypotheses \<open>ids_left n\<close> say that
  \<open>n\<close> key ids are left below \<^verbatim>\<open>u32::MAX\<close>; what happens without room is shown separately. Times are
  milliseconds below \<open>2 ^ 64\<close>.

  \<^bold>\<open>Not modelled.\<close> The cryptography and the protocol of libsignal, the SQL engine beyond the statements
  the code issues, transactions (the code uses none), concurrent use of the connection (the mutex
  serialises it; every method is a sequence of locked regions), the texts of error messages beyond
  what distinguishes them, the getters \<^verbatim>\<open>config\<close>, \<^verbatim>\<open>connection\<close> and \<^verbatim>\<open>storage_mut\<close> (fields of the
  record), tests and module declarations. The step relation has the interface, the message history
  and the contacts; an application that writes to the key tables itself, through \<^verbatim>\<open>storage_mut\<close> or
  the connection, is outside it.
\<close>

end
